(* ===== verification/Prelude.thy ===== *)
theory Prelude
  imports Main "HOL-Library.Word"
begin

text \<open>
  Shared vocabulary of the development: machine integers at their width, opaque addresses,
  the operations of a fallible, stateful contract function, and the fact collections the
  component proofs run on.

  A contract function of the sources returns \<open>Result<T, ContractError>\<close>, may panic, and
  reads and writes the storage behind \<open>Env\<close>. Here it is an \<open>op\<close>: a function of the
  invocation's context (clock, signatures, host services) and the state, returning a failure
  or a value together with the state it has written so far. The state is kept on failure as
  well, so that what a function writes before it fails can be stated; the rollback by the
  host is the separate definition \<open>invoke\<close> of theory Soroban.
\<close>

section \<open>Machine integers\<close>

type_synonym u32 = "32 word"
type_synonym u64 = "64 word"

text \<open>Rust's \<open>checked_add\<close>, \<open>saturating_add\<close> and \<open>saturating_sub\<close> on unsigned integers.\<close>

definition checked_add :: "'a::len word \<Rightarrow> 'a word \<Rightarrow> 'a word option" where
  "checked_add a b = (if unat a + unat b < 2 ^ LENGTH('a) then Some (a + b) else None)"

definition saturating_add :: "'a::len word \<Rightarrow> 'a word \<Rightarrow> 'a word" where
  "saturating_add a b = (if unat a + unat b < 2 ^ LENGTH('a) then a + b else - 1)"

definition saturating_sub :: "'a::len word \<Rightarrow> 'a word \<Rightarrow> 'a word" where
  "saturating_sub a b = (if b \<le> a then a - b else 0)"

lemma unat_max_word: "unat (- 1 :: 'a::len word) = 2 ^ LENGTH('a) - 1"
  by (simp add: unsigned_minus_1_eq_mask mask_eq_exp_minus_1)

lemma checked_add_SomeD:
  "checked_add a b = Some c \<Longrightarrow> c = a + b \<and> unat c = unat a + unat b"
  by (auto simp: checked_add_def unat_word_ariths split: if_splits)

lemma checked_add_None_iff:
  "checked_add (a :: 'a::len word) b = None \<longleftrightarrow> 2 ^ LENGTH('a) \<le> unat a + unat b"
  by (auto simp: checked_add_def)

lemma unat_saturating_add:
  "unat (saturating_add (a :: 'a::len word) b) = min (unat a + unat b) (2 ^ LENGTH('a) - 1)"
  by (auto simp: saturating_add_def unat_word_ariths unat_max_word)

lemma unat_saturating_sub: "unat (saturating_sub a b) = unat a - unat b"
  by (auto simp: saturating_sub_def unat_sub word_le_nat_alt)

lemma unat_of_nat_small32: "n < 4294967296 \<Longrightarrow> unat (word_of_nat n :: u32) = n"
  by (simp add: unat_of_nat take_bit_nat_eq_self)

lemma unat_of_nat_small64: "n < 18446744073709551616 \<Longrightarrow> unat (word_of_nat n :: u64) = n"
  by (simp add: unat_of_nat take_bit_nat_eq_self)

text \<open>
  A counting loop over a \<open>Vec\<close> with a \<open>u32\<close> counter. The release profile keeps overflow
  checks on, so an increment past \<open>u32::MAX\<close> panics (\<open>None\<close>).
\<close>

fun count_loop :: "('a \<Rightarrow> bool) \<Rightarrow> 'a list \<Rightarrow> u32 \<Rightarrow> u32 option" where
  "count_loop p [] n = Some n"
| "count_loop p (x # xs) n =
     (if p x then (case checked_add n 1 of None \<Rightarrow> None | Some m \<Rightarrow> count_loop p xs m)
      else count_loop p xs n)"

lemma count_loop_exact:
  "unat n + length (filter p xs) < 4294967296 \<Longrightarrow>
   count_loop p xs n = Some (n + word_of_nat (length (filter p xs)))"
proof (induction xs arbitrary: n)
  case Nil
  then show ?case by simp
next
  case (Cons x xs)
  show ?case
  proof (cases "p x")
    case True
    then have add: "checked_add n 1 = Some (n + 1)"
      using Cons.prems by (simp add: checked_add_def)
    then have "unat (n + 1) = unat n + 1"
      using checked_add_SomeD by fastforce
    then show ?thesis
      using Cons.IH [of "n + 1"] Cons.prems True add by (simp add: add.assoc)
  next
    case False
    then show ?thesis using Cons by simp
  qed
qed

section \<open>Addresses\<close>

text \<open>
  Soroban addresses (accounts and contracts alike) are opaque to the contracts, which only
  compare them and use them as keys of ordered maps.
\<close>

datatype address = Address (address_id: nat)

instantiation address :: linorder
begin

definition less_eq_address :: "address \<Rightarrow> address \<Rightarrow> bool" where
  "less_eq_address a b \<longleftrightarrow> address_id a \<le> address_id b"

definition less_address :: "address \<Rightarrow> address \<Rightarrow> bool" where
  "less_address a b \<longleftrightarrow> address_id a < address_id b"

instance
  by standard (auto simp: less_eq_address_def less_address_def address.expand)

end

section \<open>Fallible, stateful operations\<close>

text \<open>
  \<open>Err e\<close> is a typed contract error, returned through \<open>?\<close> or raised by
  \<open>panic_with_error!\<close>. \<open>Trap\<close> is any other abort: a failed \<open>require_auth\<close>, an arithmetic
  overflow, an \<open>unwrap\<close> of \<open>None\<close>, or a host call that fails.
\<close>

datatype 'e failure = Err 'e | Trap

type_synonym ('c, 's, 'e, 'a) op = "'c \<Rightarrow> 's \<Rightarrow> ('e failure + 'a) \<times> 's"

named_theorems ok_simps "when an operation returns a value, and the state it leaves"
named_theorems err_simps "when an operation fails, and the state it leaves"

definition ret :: "'a \<Rightarrow> ('c, 's, 'e, 'a) op" where
  "ret x = (\<lambda>c s. (Inr x, s))"

definition throw :: "'e \<Rightarrow> ('c, 's, 'e, 'a) op" where
  "throw e = (\<lambda>c s. (Inl (Err e), s))"

definition panic :: "('c, 's, 'e, 'a) op" where
  "panic = (\<lambda>c s. (Inl Trap, s))"

definition bind :: "('c, 's, 'e, 'a) op \<Rightarrow> ('a \<Rightarrow> ('c, 's, 'e, 'b) op) \<Rightarrow> ('c, 's, 'e, 'b) op" where
  "bind m f = (\<lambda>c s. case m c s of (Inl x, s') \<Rightarrow> (Inl x, s') | (Inr a, s') \<Rightarrow> f a c s')"

text \<open>A sequence of statements, and a \<open>for\<close> loop over a \<open>Vec\<close>.\<close>

fun block :: "('c, 's, 'e, unit) op list \<Rightarrow> ('c, 's, 'e, unit) op" where
  "block [] = ret ()"
| "block (m # ms) = bind m (\<lambda>_. block ms)"

fun for_each :: "'a list \<Rightarrow> ('a \<Rightarrow> ('c, 's, 'e, unit) op) \<Rightarrow> ('c, 's, 'e, unit) op" where
  "for_each [] f = ret ()"
| "for_each (x # xs) f = bind (f x) (\<lambda>_. for_each xs f)"

text \<open>Reading the context, reading the state, writing the state.\<close>

definition ask :: "('c \<Rightarrow> 'a) \<Rightarrow> ('c, 's, 'e, 'a) op" where
  "ask g = (\<lambda>c s. (Inr (g c), s))"

definition gets :: "('s \<Rightarrow> 'a) \<Rightarrow> ('c, 's, 'e, 'a) op" where
  "gets g = (\<lambda>c s. (Inr (g s), s))"

definition modify :: "('s \<Rightarrow> 's) \<Rightarrow> ('c, 's, 'e, unit) op" where
  "modify f = (\<lambda>c s. (Inr (), f s))"

text \<open>
  \<open>reject_if b e\<close> is \<open>if b { return Err(e); }\<close>; \<open>ok_or\<close> is \<open>Option::ok_or(e)?\<close>;
  \<open>unwrap\<close> is \<open>Option::unwrap\<close>.
\<close>

definition reject_if :: "bool \<Rightarrow> 'e \<Rightarrow> ('c, 's, 'e, unit) op" where
  "reject_if b e = (\<lambda>c s. if b then (Inl (Err e), s) else (Inr (), s))"

definition ok_or :: "'a option \<Rightarrow> 'e \<Rightarrow> ('c, 's, 'e, 'a) op" where
  "ok_or x e = (\<lambda>c s. case x of None \<Rightarrow> (Inl (Err e), s) | Some a \<Rightarrow> (Inr a, s))"

definition unwrap :: "'a option \<Rightarrow> ('c, 's, 'e, 'a) op" where
  "unwrap x = (\<lambda>c s. case x of None \<Rightarrow> (Inl Trap, s) | Some a \<Rightarrow> (Inr a, s))"

subsection \<open>Inversion of success and of failure\<close>

lemma ret_ok [ok_simps]: "ret x c s = (Inr a, s') \<longleftrightarrow> a = x \<and> s' = s"
  by (auto simp: ret_def)

lemma throw_ok [ok_simps]: "\<not> throw e c s = (Inr a, s')"
  by (auto simp: throw_def)

lemma panic_ok [ok_simps]: "\<not> panic c s = (Inr a, s')"
  by (auto simp: panic_def)

lemma bind_ok [ok_simps]:
  "bind m f c s = (Inr b, s') \<longleftrightarrow> (\<exists>a t. m c s = (Inr a, t) \<and> f a c t = (Inr b, s'))"
  by (auto simp: bind_def split: prod.splits sum.splits)

lemma block_Nil_ok [ok_simps]: "block [] c s = (Inr u, s') \<longleftrightarrow> s' = s"
  by (auto simp: ret_def)

lemma block_Cons_ok [ok_simps]:
  "block (m # ms) c s = (Inr u, s') \<longleftrightarrow> (\<exists>t. m c s = (Inr (), t) \<and> block ms c t = (Inr (), s'))"
  by (auto simp: bind_ok)

lemma for_each_Nil_ok [ok_simps]: "for_each [] f c s = (Inr u, s') \<longleftrightarrow> s' = s"
  by (auto simp: ret_def)

lemma for_each_Cons_ok [ok_simps]:
  "for_each (x # xs) f c s = (Inr u, s') \<longleftrightarrow>
   (\<exists>t. f x c s = (Inr (), t) \<and> for_each xs f c t = (Inr (), s'))"
  by (auto simp: bind_ok)

lemma ask_ok [ok_simps]: "ask g c s = (Inr a, s') \<longleftrightarrow> a = g c \<and> s' = s"
  by (auto simp: ask_def)

lemma gets_ok [ok_simps]: "gets g c s = (Inr a, s') \<longleftrightarrow> a = g s \<and> s' = s"
  by (auto simp: gets_def)

lemma modify_ok [ok_simps]: "modify f c s = (Inr u, s') \<longleftrightarrow> s' = f s"
  by (auto simp: modify_def)

lemma reject_if_ok [ok_simps]: "reject_if b e c s = (Inr u, s') \<longleftrightarrow> \<not> b \<and> s' = s"
  by (auto simp: reject_if_def)

lemma ok_or_ok [ok_simps]: "ok_or x e c s = (Inr a, s') \<longleftrightarrow> x = Some a \<and> s' = s"
  by (auto simp: ok_or_def split: option.splits)

lemma unwrap_ok [ok_simps]: "unwrap x c s = (Inr a, s') \<longleftrightarrow> x = Some a \<and> s' = s"
  by (auto simp: unwrap_def split: option.splits)

lemma ret_err [err_simps]: "\<not> ret x c s = (Inl y, s')"
  by (auto simp: ret_def)

lemma throw_err [err_simps]: "throw e c s = (Inl y, s') \<longleftrightarrow> y = Err e \<and> s' = s"
  by (auto simp: throw_def)

lemma panic_err [err_simps]: "panic c s = (Inl y, s') \<longleftrightarrow> y = Trap \<and> s' = s"
  by (auto simp: panic_def)

lemma bind_err [err_simps]:
  "bind m f c s = (Inl y, s') \<longleftrightarrow>
   m c s = (Inl y, s') \<or> (\<exists>a t. m c s = (Inr a, t) \<and> f a c t = (Inl y, s'))"
  by (auto simp: bind_def split: prod.splits sum.splits)

lemma block_Nil_err [err_simps]: "\<not> block [] c s = (Inl y, s')"
  by (auto simp: ret_def)

lemma block_Cons_err [err_simps]:
  "block (m # ms) c s = (Inl y, s') \<longleftrightarrow>
   m c s = (Inl y, s') \<or> (\<exists>t. m c s = (Inr (), t) \<and> block ms c t = (Inl y, s'))"
  by (auto simp: bind_err)

lemma for_each_Nil_err [err_simps]: "\<not> for_each [] f c s = (Inl y, s')"
  by (auto simp: ret_def)

lemma for_each_Cons_err [err_simps]:
  "for_each (x # xs) f c s = (Inl y, s') \<longleftrightarrow>
   f x c s = (Inl y, s') \<or> (\<exists>t. f x c s = (Inr (), t) \<and> for_each xs f c t = (Inl y, s'))"
  by (auto simp: bind_err)

lemma ask_err [err_simps]: "\<not> ask g c s = (Inl y, s')"
  by (auto simp: ask_def)

lemma gets_err [err_simps]: "\<not> gets g c s = (Inl y, s')"
  by (auto simp: gets_def)

lemma modify_err [err_simps]: "\<not> modify f c s = (Inl y, s')"
  by (auto simp: modify_def)

lemma reject_if_err [err_simps]: "reject_if b e c s = (Inl y, s') \<longleftrightarrow> b \<and> y = Err e \<and> s' = s"
  by (auto simp: reject_if_def)

lemma ok_or_err [err_simps]: "ok_or x e c s = (Inl y, s') \<longleftrightarrow> x = None \<and> y = Err e \<and> s' = s"
  by (auto simp: ok_or_def split: option.splits)

lemma unwrap_err [err_simps]: "unwrap x c s = (Inl y, s') \<longleftrightarrow> x = None \<and> y = Trap \<and> s' = s"
  by (auto simp: unwrap_def split: option.splits)

text \<open>
  Evaluation: the same operations as equations, for running a concrete call and for showing
  that a call with known guards returns.
\<close>

named_theorems run_simps "evaluation of operations on a given context and state"

lemma ret_run [run_simps]: "ret x c s = (Inr x, s)"
  by (simp add: ret_def)

lemma throw_run [run_simps]: "throw e c s = (Inl (Err e), s)"
  by (simp add: throw_def)

lemma panic_run [run_simps]: "panic c s = (Inl Trap, s)"
  by (simp add: panic_def)

lemma bind_run [run_simps]:
  "bind m f c s = (case m c s of (r, t) \<Rightarrow> case r of Inl y \<Rightarrow> (Inl y, t) | Inr a \<Rightarrow> f a c t)"
  by (auto simp: bind_def split: prod.splits sum.splits)

lemma block_run [run_simps]:
  "block [] c s = (Inr (), s)"
  "block (m # ms) c s =
   (case m c s of (r, t) \<Rightarrow> case r of Inl y \<Rightarrow> (Inl y, t) | Inr u \<Rightarrow> block ms c t)"
  by (simp_all add: bind_run ret_run)

lemma for_each_run [run_simps]:
  "for_each [] f c s = (Inr (), s)"
  "for_each (x # xs) f c s =
   (case f x c s of (r, t) \<Rightarrow> case r of Inl y \<Rightarrow> (Inl y, t) | Inr u \<Rightarrow> for_each xs f c t)"
  by (simp_all add: bind_run ret_run)

declare block.simps [simp del] for_each.simps [simp del]

lemma ask_run [run_simps]: "ask g c s = (Inr (g c), s)"
  by (simp add: ask_def)

lemma gets_run [run_simps]: "gets g c s = (Inr (g s), s)"
  by (simp add: gets_def)

lemma modify_run [run_simps]: "modify f c s = (Inr (), f s)"
  by (simp add: modify_def)

lemma reject_if_run [run_simps]:
  "reject_if b e c s = (if b then (Inl (Err e), s) else (Inr (), s))"
  by (simp add: reject_if_def)

lemma ok_or_run [run_simps]:
  "ok_or (Some a) e c s = (Inr a, s)"
  "ok_or None e c s = (Inl (Err e), s)"
  by (simp_all add: ok_or_def)

lemma unwrap_run [run_simps]:
  "unwrap (Some a) c s = (Inr a, s)"
  "unwrap None c s = (Inl Trap, s)"
  by (simp_all add: unwrap_def)

text \<open>A property that every iteration keeps is kept by the loop.\<close>

lemma for_each_inv:
  assumes "for_each xs f c s = (Inr u, s')" and "P s"
    and "\<And>x t t'. x \<in> set xs \<Longrightarrow> P t \<Longrightarrow> f x c t = (Inr (), t') \<Longrightarrow> P t'"
  shows "P s'"
  using assms
proof (induction xs arbitrary: s)
  case Nil
  then show ?case by (simp add: for_each_Nil_ok)
next
  case (Cons x xs)
  then show ?case by (auto simp: for_each_Cons_ok)
qed

section \<open>Lists\<close>

text \<open>
  The loops that rebuild a \<open>Vec\<close> without one element are \<open>filter\<close>s; on a list without
  repetitions they remove exactly that element.
\<close>

lemma filter_neq_notin [simp]: "x \<notin> set xs \<Longrightarrow> filter (\<lambda>y. y \<noteq> x) xs = xs"
  by (induction xs) auto

lemma length_filter_neq:
  "distinct xs \<Longrightarrow> x \<in> set xs \<Longrightarrow> length (filter (\<lambda>y. y \<noteq> x) xs) = length xs - 1"
proof (induction xs)
  case (Cons a xs)
  then show ?case by (cases xs) auto
qed simp

lemma filter_neq_snoc: "x \<notin> set xs \<Longrightarrow> filter (\<lambda>y. y \<noteq> x) (xs @ [x]) = xs"
  by simp

text \<open>The indices visited by a paginated query are those of a slice.\<close>

lemma slice_words:
  assumes "length xs < 4294967296"
  shows "map (\<lambda>i. xs ! i) [min (unat (off :: u32)) (length xs)
      ..< min (unat (saturating_add off lim)) (length xs)] = take (unat lim) (drop (unat off) xs)"
    (is "?l = ?r")
proof (rule nth_equalityI)
  have "min (unat (saturating_add off lim)) (length xs) = min (unat off + unat lim) (length xs)"
    using assms by (auto simp: unat_saturating_add)
  then show "length ?l = length ?r" "\<And>i. i < length ?l \<Longrightarrow> ?l ! i = ?r ! i"
    by (auto simp: min_def split: if_splits)
qed

lemma slice_start:
  assumes "len < 4294967296"
  shows "[min (unat (off :: u32)) len ..< min (unat (saturating_add off lim)) len] =
    [unat off ..< min (unat (saturating_add off lim)) len]"
  using assms by (cases "unat off \<le> len") (auto simp: unat_saturating_add min_def)

end
