(* ===== verification/Soroban.thy ===== *)
theory Soroban
  imports Prelude
begin

text \<open>
  The boundary between the contracts and the Soroban host (crate \<open>soroban_sdk\<close>, which is not
  part of the repository). The contracts keep their state in the host's ledger, so the state
  of a contract is the part of the ledger it owns: maps from keys to entries (persistent
  storage), single optional values (instance storage, in the records of the components), the
  lifetime of the instance, and the events published. What the host decides is a parameter:
  the context \<open>ctx\<close> of an invocation carries the clock, the set of addresses whose signature
  authorizes the invocation, the lifetime that a fresh entry gets and the lifetime that
  \<open>extend_ttl\<close> computes. Where a property needs it, what the SDK documents of \<open>extend_ttl\<close>
  is the locale \<open>ttl_host\<close>, used as a named hypothesis on the context.
\<close>

section \<open>The invocation context\<close>

text \<open>
  \<open>timestamp\<close> is \<open>env.ledger().timestamp()\<close>, \<open>sequence\<close> is \<open>env.ledger().sequence()\<close>;
  \<open>authorized a\<close> says that \<open>a.require_auth()\<close> succeeds; \<open>extend_until live threshold to\<close> is
  the live-until ledger after \<open>extend_ttl(threshold, to)\<close> on an entry that lived until
  \<open>live\<close>; \<open>fresh_until\<close> is the live-until ledger of an entry that is created.
\<close>

record ctx =
  timestamp :: u64
  sequence :: u32
  authorized :: "address \<Rightarrow> bool"
  extend_until :: "nat \<Rightarrow> u32 \<Rightarrow> u32 \<Rightarrow> nat"
  fresh_until :: nat

definition now :: "('x ctx_scheme, 's, 'e, u64) op" where
  "now = ask timestamp"

definition require_auth :: "address \<Rightarrow> ('x ctx_scheme, 's, 'e, unit) op" where
  "require_auth a = (\<lambda>c s. if authorized c a then (Inr (), s) else (Inl Trap, s))"

lemma now_ok [ok_simps]: "now c s = (Inr t, s') \<longleftrightarrow> t = timestamp c \<and> s' = s"
  by (simp add: now_def ask_ok)

lemma now_err [err_simps]: "\<not> now c s = (Inl y, s')"
  by (simp add: now_def ask_err)

lemma now_run [run_simps]: "now c s = (Inr (timestamp c), s)"
  by (simp add: now_def ask_run)

lemma require_auth_ok [ok_simps]:
  "require_auth a c s = (Inr u, s') \<longleftrightarrow> authorized c a \<and> s' = s"
  by (auto simp: require_auth_def)

lemma require_auth_err [err_simps]:
  "require_auth a c s = (Inl y, s') \<longleftrightarrow> \<not> authorized c a \<and> y = Trap \<and> s' = s"
  by (auto simp: require_auth_def)

lemma require_auth_run [run_simps]:
  "authorized c a \<Longrightarrow> require_auth a c s = (Inr (), s)"
  "\<not> authorized c a \<Longrightarrow> require_auth a c s = (Inl Trap, s)"
  by (simp_all add: require_auth_def)

text \<open>
  Invocations are atomic: when a contract function fails, the host discards everything it
  wrote.
\<close>

definition invoke :: "('c, 's, 'e, 'a) op \<Rightarrow> ('c, 's, 'e, 'a) op" where
  "invoke m = (\<lambda>c s. case m c s of (Inl x, _) \<Rightarrow> (Inl x, s) | (Inr a, s') \<Rightarrow> (Inr a, s'))"

lemma invoke_ok [ok_simps]: "invoke m c s = (Inr a, s') \<longleftrightarrow> m c s = (Inr a, s')"
  by (auto simp: invoke_def split: prod.splits sum.splits)

lemma invoke_err [err_simps]: "invoke m c s = (Inl y, s') \<longleftrightarrow> fst (m c s) = Inl y \<and> s' = s"
  by (auto simp: invoke_def split: prod.splits sum.splits)

section \<open>Events and the instance lifetime\<close>

datatype event_value =
    VAddr address
  | VU64 u64
  | VU32 u32
  | VBool bool
  | VOptU64 "u64 option"

record event =
  topic0 :: string
  topic1 :: string
  event_data :: "event_value list"

record ledger =
  events :: "event list"
  instance_until :: nat

text \<open>\<open>env.events().publish((topic0, topic1), data)\<close>.\<close>

definition publish ::
  "string \<Rightarrow> string \<Rightarrow> event_value list \<Rightarrow> ('c, 'x ledger_scheme, 'e, unit) op" where
  "publish t0 t1 d =
     modify (\<lambda>s. s\<lparr>events := events s @ [\<lparr>topic0 = t0, topic1 = t1, event_data = d\<rparr>]\<rparr>)"

text \<open>\<open>env.storage().instance().extend_ttl(threshold, extend_to)\<close>.\<close>

definition instance_extend_ttl ::
  "u32 \<Rightarrow> u32 \<Rightarrow> ('x ctx_scheme, 'y ledger_scheme, 'e, unit) op" where
  "instance_extend_ttl threshold extend_to =
     (\<lambda>c s. (Inr (), s\<lparr>instance_until := extend_until c (instance_until s) threshold extend_to\<rparr>))"

lemma publish_ok [ok_simps]:
  "publish t0 t1 d c s = (Inr u, s') \<longleftrightarrow>
   s' = s\<lparr>events := events s @ [\<lparr>topic0 = t0, topic1 = t1, event_data = d\<rparr>]\<rparr>"
  by (auto simp: publish_def modify_ok)

lemma publish_err [err_simps]: "\<not> publish t0 t1 d c s = (Inl y, s')"
  by (simp add: publish_def modify_err)

lemma publish_run [run_simps]:
  "publish t0 t1 d c s =
   (Inr (), s\<lparr>events := events s @ [\<lparr>topic0 = t0, topic1 = t1, event_data = d\<rparr>]\<rparr>)"
  by (simp add: publish_def modify_run)

lemma instance_extend_ttl_ok [ok_simps]:
  "instance_extend_ttl n m c s = (Inr u, s') \<longleftrightarrow>
   s' = s\<lparr>instance_until := extend_until c (instance_until s) n m\<rparr>"
  by (auto simp: instance_extend_ttl_def)

lemma instance_extend_ttl_err [err_simps]: "\<not> instance_extend_ttl n m c s = (Inl y, s')"
  by (simp add: instance_extend_ttl_def)

lemma instance_extend_ttl_run [run_simps]:
  "instance_extend_ttl n m c s =
   (Inr (), s\<lparr>instance_until := extend_until c (instance_until s) n m\<rparr>)"
  by (simp add: instance_extend_ttl_def)

section \<open>Persistent storage\<close>

text \<open>
  A persistent entry is a value and the last ledger it lives until. The keys of one variant of
  the contracts' \<open>DataKey\<close> enums all hold values of one type, so the persistent storage of a
  contract is one map per variant.
\<close>

record 'v entry =
  entry_val :: 'v
  entry_live :: nat

definition p_get :: "('k \<rightharpoonup> 'v entry) \<Rightarrow> 'k \<rightharpoonup> 'v" where
  "p_get m k = map_option entry_val (m k)"

definition p_has :: "('k \<rightharpoonup> 'v entry) \<Rightarrow> 'k \<Rightarrow> bool" where
  "p_has m k \<longleftrightarrow> m k \<noteq> None"

definition p_live :: "('k \<rightharpoonup> 'v entry) \<Rightarrow> 'k \<rightharpoonup> nat" where
  "p_live m k = map_option entry_live (m k)"

text \<open>Writing keeps the lifetime of an entry that exists.\<close>

definition p_set :: "'x ctx_scheme \<Rightarrow> 'k \<Rightarrow> 'v \<Rightarrow> ('k \<rightharpoonup> 'v entry) \<Rightarrow> ('k \<rightharpoonup> 'v entry)" where
  "p_set c k v m =
     m(k \<mapsto> \<lparr>entry_val = v,
             entry_live = (case m k of None \<Rightarrow> fresh_until c | Some e \<Rightarrow> entry_live e)\<rparr>)"

definition p_remove :: "'k \<Rightarrow> ('k \<rightharpoonup> 'v entry) \<Rightarrow> ('k \<rightharpoonup> 'v entry)" where
  "p_remove k m = m(k := None)"

definition p_extend ::
  "'x ctx_scheme \<Rightarrow> 'k \<Rightarrow> u32 \<Rightarrow> u32 \<Rightarrow> ('k \<rightharpoonup> 'v entry) \<Rightarrow> ('k \<rightharpoonup> 'v entry)" where
  "p_extend c k threshold extend_to m =
     (case m k of None \<Rightarrow> m
      | Some e \<Rightarrow> m(k \<mapsto> e\<lparr>entry_live := extend_until c (entry_live e) threshold extend_to\<rparr>))"

lemma p_has_get: "p_has m k \<longleftrightarrow> p_get m k \<noteq> None"
  by (simp add: p_has_def p_get_def)

lemma p_get_empty [simp]: "p_get Map.empty = Map.empty"
  by (simp add: p_get_def fun_eq_iff)

lemma p_live_empty [simp]: "p_live Map.empty = Map.empty"
  by (simp add: p_live_def fun_eq_iff)

lemma p_get_set [simp]: "p_get (p_set c k v m) = (p_get m)(k \<mapsto> v)"
  by (simp add: p_get_def p_set_def fun_eq_iff)

lemma p_get_remove [simp]: "p_get (p_remove k m) = (p_get m)(k := None)"
  by (simp add: p_get_def p_remove_def fun_eq_iff)

lemma p_get_extend [simp]: "p_get (p_extend c k n t m) = p_get m"
  by (auto simp: p_get_def p_extend_def fun_eq_iff split: option.splits)

lemma p_live_set [simp]:
  "p_live (p_set c k v m) =
   (p_live m)(k \<mapsto> (case p_live m k of None \<Rightarrow> fresh_until c | Some l \<Rightarrow> l))"
  by (auto simp: p_live_def p_set_def fun_eq_iff split: option.splits)

lemma p_live_remove [simp]: "p_live (p_remove k m) = (p_live m)(k := None)"
  by (simp add: p_live_def p_remove_def fun_eq_iff)

lemma p_live_extend [simp]:
  "p_live (p_extend c k n t m) =
   (p_live m)(k := map_option (\<lambda>l. extend_until c l n t) (p_live m k))"
  by (auto simp: p_live_def p_extend_def fun_eq_iff split: option.splits)

lemma p_live_None_iff: "p_live m k = None \<longleftrightarrow> p_get m k = None"
  by (simp add: p_live_def p_get_def)

text \<open>
  The storage calls of the contracts on one such map of their state, given by its selector and
  its update function. \<open>extend_ttl\<close> on a key that is not stored is an error of the host: the
  invocation aborts.
\<close>

definition st_set ::
  "((('k \<rightharpoonup> 'v entry) \<Rightarrow> ('k \<rightharpoonup> 'v entry)) \<Rightarrow> 's \<Rightarrow> 's) \<Rightarrow> 'k \<Rightarrow> 'v
   \<Rightarrow> ('x ctx_scheme, 's, 'e, unit) op" where
  "st_set upd k v = (\<lambda>c s. (Inr (), upd (p_set c k v) s))"

definition st_remove ::
  "((('k \<rightharpoonup> 'v entry) \<Rightarrow> ('k \<rightharpoonup> 'v entry)) \<Rightarrow> 's \<Rightarrow> 's) \<Rightarrow> 'k
   \<Rightarrow> ('c, 's, 'e, unit) op" where
  "st_remove upd k = modify (upd (p_remove k))"

definition st_extend_ttl ::
  "('s \<Rightarrow> 'k \<rightharpoonup> 'v entry) \<Rightarrow> ((('k \<rightharpoonup> 'v entry) \<Rightarrow> ('k \<rightharpoonup> 'v entry)) \<Rightarrow> 's \<Rightarrow> 's) \<Rightarrow> 'k
   \<Rightarrow> u32 \<Rightarrow> u32 \<Rightarrow> ('x ctx_scheme, 's, 'e, unit) op" where
  "st_extend_ttl sel upd k threshold extend_to =
     (\<lambda>c s. if p_has (sel s) k then (Inr (), upd (p_extend c k threshold extend_to) s)
            else (Inl Trap, s))"

lemma st_set_ok [ok_simps]: "st_set upd k v c s = (Inr u, s') \<longleftrightarrow> s' = upd (p_set c k v) s"
  by (auto simp: st_set_def)

lemma st_set_err [err_simps]: "\<not> st_set upd k v c s = (Inl y, s')"
  by (simp add: st_set_def)

lemma st_set_run [run_simps]: "st_set upd k v c s = (Inr (), upd (p_set c k v) s)"
  by (simp add: st_set_def)

lemma st_remove_ok [ok_simps]: "st_remove upd k c s = (Inr u, s') \<longleftrightarrow> s' = upd (p_remove k) s"
  by (simp add: st_remove_def modify_ok)

lemma st_remove_err [err_simps]: "\<not> st_remove upd k c s = (Inl y, s')"
  by (simp add: st_remove_def modify_err)

lemma st_remove_run [run_simps]: "st_remove upd k c s = (Inr (), upd (p_remove k) s)"
  by (simp add: st_remove_def modify_run)

lemma st_extend_ttl_ok [ok_simps]:
  "st_extend_ttl sel upd k n t c s = (Inr u, s') \<longleftrightarrow>
   (\<exists>v. p_get (sel s) k = Some v) \<and> s' = upd (p_extend c k n t) s"
  by (auto simp: st_extend_ttl_def p_has_get)

lemma st_extend_ttl_err [err_simps]:
  "st_extend_ttl sel upd k n t c s = (Inl y, s') \<longleftrightarrow>
   p_get (sel s) k = None \<and> y = Trap \<and> s' = s"
  by (auto simp: st_extend_ttl_def p_has_get)

lemma st_extend_ttl_run [run_simps]:
  "p_get (sel s) k = Some v \<Longrightarrow>
   st_extend_ttl sel upd k n t c s = (Inr (), upd (p_extend c k n t) s)"
  "p_get (sel s) k = None \<Longrightarrow> st_extend_ttl sel upd k n t c s = (Inl Trap, s)"
  by (simp_all add: st_extend_ttl_def p_has_get)

section \<open>The interface of a storage map\<close>

text \<open>
  A component relies on one thing of each of its persistent maps: an update through the map's
  update function is what the selector then reads. The record fields of the components
  provide it.
\<close>

locale storage_map =
  fixes sel :: "'s \<Rightarrow> 'k \<rightharpoonup> 'v entry"
    and upd :: "(('k \<rightharpoonup> 'v entry) \<Rightarrow> ('k \<rightharpoonup> 'v entry)) \<Rightarrow> 's \<Rightarrow> 's"
  assumes sel_upd: "sel (upd f s) = f (sel s)"
begin

lemma get_after_set:
  "st_set upd k v c s = (Inr u, s') \<Longrightarrow> p_get (sel s') = (p_get (sel s))(k \<mapsto> v)"
  by (simp add: st_set_ok sel_upd)

lemma get_after_remove:
  "st_remove upd k c s = (Inr u, s') \<Longrightarrow> p_get (sel s') = (p_get (sel s))(k := None)"
  by (simp add: st_remove_ok sel_upd)

lemma get_after_extend:
  "st_extend_ttl sel upd k n t c s = (Inr u, s') \<Longrightarrow> p_get (sel s') = p_get (sel s)"
  by (auto simp: st_extend_ttl_ok sel_upd)

lemma extend_after_set:
  "st_set upd k v c s = (Inr u, s') \<Longrightarrow>
   \<exists>s''. st_extend_ttl sel upd k n t c s' = (Inr (), s'')"
  by (auto simp: st_set_ok st_extend_ttl_ok sel_upd)

text \<open>The write that every setter of the contracts performs: store, then extend.\<close>

lemma store_ok:
  "block [st_set upd k v, st_extend_ttl sel upd k n t] c s = (Inr u, s') \<longleftrightarrow>
   s' = upd (p_extend c k n t) (upd (p_set c k v) s)"
  by (auto simp: block_Cons_ok block_Nil_ok st_set_ok st_extend_ttl_ok sel_upd ret_ok)

lemma store_never_fails:
  "\<not> block [st_set upd k v, st_extend_ttl sel upd k n t] c s = (Inl y, s')"
  by (auto simp: block_Cons_err block_Nil_err st_set_err st_set_ok st_extend_ttl_err sel_upd
      ret_err)

end

section \<open>The interface of the time-to-live service\<close>

text \<open>
  What the SDK documents of \<open>extend_ttl(threshold, extend_to)\<close> at ledger \<open>seq\<close>: an entry
  whose remaining lifetime is below the threshold then lives for \<open>extend_to\<close> more ledgers
  (at most \<open>cap\<close>, the network's maximum), any other entry keeps its lifetime; a fresh entry
  is alive.
\<close>

locale ttl_host =
  fixes seq :: nat
    and ext :: "nat \<Rightarrow> u32 \<Rightarrow> u32 \<Rightarrow> nat"
    and fresh :: nat
    and cap :: nat
  assumes below: "live < seq + unat n \<Longrightarrow> unat t \<le> cap \<Longrightarrow> ext live n t = seq + unat t"
    and above: "seq + unat n \<le> live \<Longrightarrow> ext live n t = live"
    and fresh_alive: "seq \<le> fresh"
begin

lemma renew: "unat n \<le> cap \<Longrightarrow> ext live n n = max live (seq + unat n)"
  by (cases "live < seq + unat n") (simp_all add: below above max_def)

lemma renew_covers: "unat n \<le> cap \<Longrightarrow> seq + unat n \<le> ext live n n"
  by (simp add: renew)

lemma renew_never_shortens: "unat n \<le> cap \<Longrightarrow> live \<le> ext live n n"
  by (simp add: renew)

end

text \<open>A concrete service with these laws, used where a property is applied to an input.\<close>

definition sdk_extend :: "nat \<Rightarrow> nat \<Rightarrow> nat \<Rightarrow> u32 \<Rightarrow> u32 \<Rightarrow> nat" where
  "sdk_extend seq cap live threshold extend_to =
     (if live < seq + unat threshold then seq + min (unat extend_to) cap else live)"

interpretation sdk: ttl_host seq "sdk_extend seq cap" seq cap
  by unfold_locales (auto simp: sdk_extend_def)

end
