(* ===== verification/Interfaces.thy ===== *)
theory Interfaces
  imports Soroban
begin

text \<open>
  The contracts between the parts of the registries, as locales: the gate that admits only
  admins, the gate that closes while the contract is paused, and the index of identifiers per
  address. Each is proved about once here and interpreted on the code's own operations in the
  theory of the component that provides them.
\<close>

section \<open>The admin gate\<close>

text \<open>
  \<open>admins s\<close> is the stored admin set (\<open>None\<close> before initialization); \<open>check\<close> is the guard
  \<open>assert_admin\<close> that the privileged entry points call.
\<close>

locale admin_gate =
  fixes admins :: "'s \<Rightarrow> address list option"
    and check :: "address \<Rightarrow> ('x ctx_scheme, 's, 'e, unit) op"
    and not_initialized :: 'e
    and unauthorized :: 'e
  assumes check_uninitialized:
      "admins s = None \<Longrightarrow> check a c s = (Inl (Err not_initialized), s)"
    and check_member:
      "admins s = Some as \<Longrightarrow> a \<in> set as \<Longrightarrow> check a c s = (Inr (), s)"
    and check_stranger:
      "admins s = Some as \<Longrightarrow> a \<notin> set as \<Longrightarrow> check a c s = (Inl (Err unauthorized), s)"
begin

definition is_admin_of :: "address \<Rightarrow> 's \<Rightarrow> bool" where
  "is_admin_of a s \<longleftrightarrow> (\<exists>as. admins s = Some as \<and> a \<in> set as)"

lemma check_ok: "check a c s = (Inr u, s') \<longleftrightarrow> is_admin_of a s \<and> s' = s"
proof (cases "admins s")
  case None
  then show ?thesis by (simp add: check_uninitialized is_admin_of_def)
next
  case (Some as)
  then show ?thesis
    by (cases "a \<in> set as") (auto simp: check_member check_stranger is_admin_of_def)
qed

lemma check_err:
  "check a c s = (Inl y, s') \<longleftrightarrow>
   \<not> is_admin_of a s \<and> s' = s \<and>
   y = Err (if admins s = None then not_initialized else unauthorized)"
proof (cases "admins s")
  case None
  then show ?thesis by (auto simp: check_uninitialized is_admin_of_def)
next
  case (Some as)
  then show ?thesis
    by (cases "a \<in> set as") (auto simp: check_member check_stranger is_admin_of_def)
qed

text \<open>An entry point that starts with \<open>require_auth\<close> and the gate.\<close>

lemma admitted:
  "block (require_auth a # check a # ms) c s = (Inr u, s') \<Longrightarrow> authorized c a \<and> is_admin_of a s"
  by (auto simp: block_Cons_ok require_auth_ok check_ok)

lemma turned_away:
  assumes "\<not> is_admin_of a s"
  shows "\<exists>y. block (require_auth a # check a # ms) c s = (Inl y, s)"
  using assms by (auto simp: block_Cons_err require_auth_err require_auth_ok check_err)

end

section \<open>The pause gate\<close>

locale pause_gate =
  fixes paused :: "'s \<Rightarrow> bool"
    and check :: "('c, 's, 'e, unit) op"
    and contract_paused :: 'e
  assumes check_open: "\<not> paused s \<Longrightarrow> check c s = (Inr (), s)"
    and check_closed: "paused s \<Longrightarrow> check c s = (Inl (Err contract_paused), s)"
begin

lemma check_ok: "check c s = (Inr u, s') \<longleftrightarrow> \<not> paused s \<and> s' = s"
  by (cases "paused s") (auto simp: check_open check_closed)

lemma check_err: "check c s = (Inl y, s') \<longleftrightarrow> paused s \<and> y = Err contract_paused \<and> s' = s"
  by (cases "paused s") (auto simp: check_open check_closed)

lemma closed_block: "paused s \<Longrightarrow> block (check # ms) c s = (Inl (Err contract_paused), s)"
  by (simp add: block_Cons_err check_err)

end

section \<open>Indexes of identifiers per address\<close>

text \<open>
  The value of an index map: a missing entry reads as the empty list.
\<close>

definition ids_at :: "(address \<rightharpoonup> u64 list entry) \<Rightarrow> address \<Rightarrow> u64 list" where
  "ids_at m a = (case p_get m a of None \<Rightarrow> [] | Some ids \<Rightarrow> ids)"

lemma ids_at_cong: "p_get m = p_get m' \<Longrightarrow> ids_at m = ids_at m'"
  by (simp add: ids_at_def fun_eq_iff)

lemma ids_at_empty [simp]: "ids_at Map.empty a = []"
  by (simp add: ids_at_def)

lemma ids_at_set [simp]: "ids_at (p_set c a ids m) b = (if b = a then ids else ids_at m b)"
  by (simp add: ids_at_def)

lemma ids_at_remove [simp]: "ids_at (p_remove a m) b = (if b = a then [] else ids_at m b)"
  by (simp add: ids_at_def)

lemma ids_at_extend [simp]: "ids_at (p_extend c a n t m) = ids_at m"
  by (rule ids_at_cong) simp

text \<open>
  \<open>push\<close> refuses an identifier that is already listed (\<open>dup\<close>) and otherwise appends it;
  \<open>rem\<close> drops every occurrence of an identifier. Both touch nothing but the index map.
\<close>

locale id_index = storage_map sel upd
  for sel :: "'s \<Rightarrow> address \<rightharpoonup> u64 list entry"
    and upd :: "((address \<rightharpoonup> u64 list entry) \<Rightarrow> (address \<rightharpoonup> u64 list entry)) \<Rightarrow> 's \<Rightarrow> 's" +
  fixes push :: "address \<Rightarrow> u64 \<Rightarrow> ('x ctx_scheme, 's, 'e, unit) op"
    and rem :: "address \<Rightarrow> u64 \<Rightarrow> ('x ctx_scheme, 's, 'e, unit) op"
    and push_map :: "'x ctx_scheme \<Rightarrow> address \<Rightarrow> u64 \<Rightarrow> (address \<rightharpoonup> u64 list entry)
                     \<Rightarrow> (address \<rightharpoonup> u64 list entry)"
    and rem_map :: "'x ctx_scheme \<Rightarrow> address \<Rightarrow> u64 \<Rightarrow> (address \<rightharpoonup> u64 list entry)
                     \<Rightarrow> (address \<rightharpoonup> u64 list entry)"
    and dup :: 'e
  assumes push_dup: "i \<in> set (ids_at (sel s) a) \<Longrightarrow> push a i c s = (Inl (Err dup), s)"
    and push_new: "i \<notin> set (ids_at (sel s) a) \<Longrightarrow>
                   push a i c s = (Inr (), upd (push_map c a i) s)"
    and rem_always: "rem a i c s = (Inr (), upd (rem_map c a i) s)"
    and ids_push_map:
      "ids_at (push_map c a i m) b = (if b = a then ids_at m a @ [i] else ids_at m b)"
    and ids_rem_map:
      "ids_at (rem_map c a i m) b =
       (if b = a then filter (\<lambda>j. j \<noteq> i) (ids_at m a) else ids_at m b)"
begin

lemma push_ok:
  "push a i c s = (Inr u, s') \<longleftrightarrow> i \<notin> set (ids_at (sel s) a) \<and> s' = upd (push_map c a i) s"
  by (cases "i \<in> set (ids_at (sel s) a)") (auto simp: push_dup push_new)

lemma push_err:
  "push a i c s = (Inl y, s') \<longleftrightarrow> i \<in> set (ids_at (sel s) a) \<and> y = Err dup \<and> s' = s"
  by (cases "i \<in> set (ids_at (sel s) a)") (auto simp: push_dup push_new)

lemma rem_ok: "rem a i c s = (Inr u, s') \<longleftrightarrow> s' = upd (rem_map c a i) s"
  by (auto simp: rem_always)

lemma rem_err: "\<not> rem a i c s = (Inl y, s')"
  by (simp add: rem_always)

lemma push_distinct:
  assumes "\<forall>b. distinct (ids_at (sel s) b)" and "push a i c s = (Inr u, s')"
  shows "\<forall>b. distinct (ids_at (sel s') b)"
  using assms by (auto simp: push_ok sel_upd ids_push_map)

lemma rem_distinct:
  assumes "\<forall>b. distinct (ids_at (sel s) b)" and "rem a i c s = (Inr u, s')"
  shows "\<forall>b. distinct (ids_at (sel s') b)"
  using assms by (auto simp: rem_ok sel_upd ids_rem_map)

text \<open>Round trip: removing what was just pushed restores every list.\<close>

lemma rem_undoes_push:
  assumes "push a i c s = (Inr u, s1)" and "rem a i c s1 = (Inr u', s2)"
  shows "ids_at (sel s2) = ids_at (sel s)"
  using assms by (auto simp: push_ok rem_ok sel_upd ids_push_map ids_rem_map fun_eq_iff)

lemma rem_forgets:
  "rem a i c s = (Inr u, s') \<Longrightarrow> i \<notin> set (ids_at (sel s') a)"
  by (auto simp: rem_ok sel_upd ids_rem_map)

end

end
