(* ===== verification/AlertStorage.thy ===== *)
theory AlertStorage
  imports Interfaces
begin

text \<open>
  The data of the contract \<open>AlertRegistry\<close> (contracts/alert-registry/src/lib.rs): constants,
  errors, structs, the storage it keeps, and its private helpers (guards, validation, the
  counter, the two indexes, and the readers that resolve lists of identifiers). The entry
  points are in theory AlertRegistry.
\<close>

section \<open>Constants, errors, structs\<close>

definition AR_DEFAULT_TTL :: u32 where "AR_DEFAULT_TTL = 120960"

definition AR_MAX_TTL :: u32 where "AR_MAX_TTL = 535680"

definition AR_MAX_BATCH_SIZE :: u32 where "AR_MAX_BATCH_SIZE = 50"

definition AR_MAX_TAGS :: u32 where "AR_MAX_TAGS = 10"

definition AR_MAX_TAG_BYTES :: u32 where "AR_MAX_TAG_BYTES = 32"

datatype ar_error =
    Unauthorized
  | AlertNotFound
  | AlreadyInitialized
  | NotInitialized
  | NotAWatcher
  | InvalidWebhookHash
  | LabelTooLong
  | TooManyRules
  | InvalidRuleDescriptor
  | OwnerAlertLimitExceeded
  | DuplicateAlertId
  | NoPendingWebhook
  | StorageError
  | ContractPaused
  | BatchTooLarge
  | LimitTooLow
  | EmptyRules
  | DuplicateRule
  | CounterOverflow
  | LastAdmin
  | AlreadyAdmin
  | NotAdmin
  | TooManyTags
  | TagTooLong

record alert_config =
  label :: string
  webhook_hash :: string
  rules :: "string list"
  owner :: address
  target_contract :: address
  created_at :: u64
  updated_at :: u64
  active :: bool
  pending_webhook_hash :: "string option"
  tags :: "string list option"

record alert_input =
  input_target_contract :: address
  input_label :: string
  input_webhook_hash :: string
  input_rules :: "string list"

section \<open>Storage\<close>

text \<open>
  The value under the instance key \<open>ADMIN\<close> is read as a raw \<open>Val\<close>: a vector of addresses,
  a single address (the legacy format), or something that converts to neither.
\<close>

datatype admin_val = AdminVec "address list" | AdminAddr address | AdminOther

text \<open>
  Instance storage: the symbols \<open>ADMIN\<close>, \<open>LIMIT\<close>, \<open>PAUSED\<close>, \<open>WATCHREG\<close>, \<open>NEXT_ID\<close>.
  Persistent storage: one map per variant of \<open>DataKey\<close>: \<open>Alert(id)\<close>, \<open>AlertActive(id)\<close>,
  \<open>OwnerIndex(address)\<close>, \<open>ContractIndex(address)\<close> and \<open>NextId\<close> (which the code extends
  when it is present, and never writes).
\<close>

record alert_state = ledger +
  ADMIN :: "admin_val option"
  LIMIT :: "u32 option"
  PAUSED :: "bool option"
  WATCHREG :: "address option"
  NEXT_ID :: "u64 option"
  Alerts :: "u64 \<rightharpoonup> alert_config entry"
  AlertActives :: "u64 \<rightharpoonup> bool entry"
  OwnerIndexes :: "address \<rightharpoonup> u64 list entry"
  ContractIndexes :: "address \<rightharpoonup> u64 list entry"
  NextIds :: "unit \<rightharpoonup> u64 entry"

text \<open>
  The watcher registry that gates the queries is another contract, reached at run time by its
  address: \<open>watcher_call registry querier\<close> is what \<open>is_watcher_authorized(querier)\<close> answers
  at that address, \<open>None\<close> when the call fails.
\<close>

record alert_ctx = ctx +
  watcher_call :: "address \<Rightarrow> address \<Rightarrow> bool option"

type_synonym 'a ar_op = "(alert_ctx, alert_state, ar_error, 'a) op"

section \<open>Guards\<close>

definition ar_is_paused :: "alert_state \<Rightarrow> bool" where
  "ar_is_paused s = (case PAUSED s of None \<Rightarrow> False | Some b \<Rightarrow> b)"

definition ar_assert_not_paused :: "unit ar_op" where
  "ar_assert_not_paused = bind (gets ar_is_paused) (\<lambda>p. reject_if p ContractPaused)"

definition ar_assert_watcher_if_configured :: "address \<Rightarrow> unit ar_op" where
  "ar_assert_watcher_if_configured querier =
     bind (gets WATCHREG) (\<lambda>maybe_registry.
     case maybe_registry of
       None \<Rightarrow> ret ()
     | Some registry_addr \<Rightarrow>
         bind (ask (\<lambda>c. watcher_call c registry_addr querier)) (\<lambda>answer.
         bind (unwrap answer) (\<lambda>ok. reject_if (\<not> ok) NotAWatcher)))"

definition ar_assert_owner :: "alert_config \<Rightarrow> address \<Rightarrow> unit ar_op" where
  "ar_assert_owner config caller =
     (if owner config = caller then ret () else throw Unauthorized)"

definition ar_load_admins :: "alert_state \<Rightarrow> address list option" where
  "ar_load_admins s =
     (case ADMIN s of
        None \<Rightarrow> None
      | Some (AdminVec v) \<Rightarrow> Some v
      | Some (AdminAddr a) \<Rightarrow> Some [a]
      | Some AdminOther \<Rightarrow> None)"

definition ar_set_admins :: "address list \<Rightarrow> unit ar_op" where
  "ar_set_admins admins = modify (\<lambda>s. s\<lparr>ADMIN := Some (AdminVec admins)\<rparr>)"

definition ar_assert_admin :: "address \<Rightarrow> unit ar_op" where
  "ar_assert_admin caller =
     bind (gets ar_load_admins) (\<lambda>loaded.
     bind (ok_or loaded NotInitialized) (\<lambda>admins.
     if caller \<in> set admins then ret () else throw Unauthorized))"

section \<open>Validation of the inputs\<close>

definition ar_validate_tags :: "string list option \<Rightarrow> unit ar_op" where
  "ar_validate_tags tgs =
     (case tgs of
        None \<Rightarrow> ret ()
      | Some t \<Rightarrow>
          block
            [reject_if (length t > unat AR_MAX_TAGS) TooManyTags,
             for_each t (\<lambda>tag. reject_if (length tag > unat AR_MAX_TAG_BYTES) TagTooLong)])"

definition ar_validate_label :: "string \<Rightarrow> unit ar_op" where
  "ar_validate_label lbl = reject_if (length lbl > 128) LabelTooLong"

definition ar_validate_rule :: "string \<Rightarrow> unit ar_op" where
  "ar_validate_rule rule =
     reject_if (rule \<noteq> ''rule:transfer'' \<and> rule \<noteq> ''rule:mint'' \<and>
                rule \<noteq> ''rule:invoke'' \<and> rule \<noteq> ''rule:all'') InvalidRuleDescriptor"

text \<open>The single pass of \<open>validate_rules\<close>: \<open>seen\<close> holds the rules accepted so far.\<close>

fun ar_validate_rules_loop :: "string list \<Rightarrow> string list \<Rightarrow> unit ar_op" where
  "ar_validate_rules_loop seen [] = ret ()"
| "ar_validate_rules_loop seen (rule # rest) =
     bind (ar_validate_rule rule) (\<lambda>_.
     bind (reject_if (rule \<in> set seen) DuplicateRule) (\<lambda>_.
     ar_validate_rules_loop (seen @ [rule]) rest))"

definition ar_validate_rules :: "string list \<Rightarrow> unit ar_op" where
  "ar_validate_rules rls =
     block
       [reject_if (rls = []) EmptyRules,
        reject_if (length rls > 50) TooManyRules,
        ar_validate_rules_loop [] rls]"

section \<open>The identifier counter\<close>

definition ar_get_alert_count :: "alert_state \<Rightarrow> u64" where
  "ar_get_alert_count s = (case NEXT_ID s of None \<Rightarrow> 0 | Some n \<Rightarrow> n)"

definition ar_next_id :: "u64 ar_op" where
  "ar_next_id =
     bind (gets ar_get_alert_count) (\<lambda>aid.
     bind (ok_or (checked_add aid 1) CounterOverflow) (\<lambda>next.
     bind (block
       [modify (\<lambda>s. s\<lparr>NEXT_ID := Some next\<rparr>),
        instance_extend_ttl AR_DEFAULT_TTL AR_DEFAULT_TTL]) (\<lambda>_.
     ret aid)))"

section \<open>Writing alerts\<close>

text \<open>
  The pairs of storage calls that the entry points repeat: an alert or its active flag is
  written and its lifetime extended.
\<close>

definition ar_put_alert :: "u64 \<Rightarrow> alert_config \<Rightarrow> unit ar_op" where
  "ar_put_alert aid config =
     block
       [st_set Alerts_update aid config,
        st_extend_ttl Alerts Alerts_update aid AR_DEFAULT_TTL AR_DEFAULT_TTL]"

definition ar_put_active :: "u64 \<Rightarrow> bool \<Rightarrow> unit ar_op" where
  "ar_put_active aid b =
     block
       [st_set AlertActives_update aid b,
        st_extend_ttl AlertActives AlertActives_update aid AR_DEFAULT_TTL AR_DEFAULT_TTL]"

definition ar_load_alert :: "u64 \<Rightarrow> alert_config ar_op" where
  "ar_load_alert aid =
     bind (gets (\<lambda>s. p_get (Alerts s) aid)) (\<lambda>found. ok_or found AlertNotFound)"

section \<open>The indexes\<close>

definition ar_owner_index :: "alert_state \<Rightarrow> address \<Rightarrow> u64 list" where
  "ar_owner_index s a = (case p_get (OwnerIndexes s) a of None \<Rightarrow> [] | Some ids \<Rightarrow> ids)"

definition ar_contract_index :: "alert_state \<Rightarrow> address \<Rightarrow> u64 list" where
  "ar_contract_index s a = (case p_get (ContractIndexes s) a of None \<Rightarrow> [] | Some ids \<Rightarrow> ids)"

definition ar_push_owner_index :: "address \<Rightarrow> u64 \<Rightarrow> unit ar_op" where
  "ar_push_owner_index a aid =
     bind (gets (\<lambda>s. ar_owner_index s a)) (\<lambda>ids.
     if aid \<in> set ids then throw DuplicateAlertId
     else block
       [st_set OwnerIndexes_update a (ids @ [aid]),
        st_extend_ttl OwnerIndexes OwnerIndexes_update a AR_DEFAULT_TTL AR_DEFAULT_TTL])"

definition ar_push_contract_index :: "address \<Rightarrow> u64 \<Rightarrow> unit ar_op" where
  "ar_push_contract_index a aid =
     bind (gets (\<lambda>s. ar_contract_index s a)) (\<lambda>ids.
     if aid \<in> set ids then throw DuplicateAlertId
     else block
       [st_set ContractIndexes_update a (ids @ [aid]),
        st_extend_ttl ContractIndexes ContractIndexes_update a AR_DEFAULT_TTL AR_DEFAULT_TTL])"

definition ar_remove_from_owner_index :: "address \<Rightarrow> u64 \<Rightarrow> unit ar_op" where
  "ar_remove_from_owner_index a aid =
     bind (gets (\<lambda>s. ar_owner_index s a)) (\<lambda>ids.
     let updated = filter (\<lambda>v. v \<noteq> aid) ids
     in if updated = [] then st_remove OwnerIndexes_update a
        else block
          [st_set OwnerIndexes_update a updated,
           st_extend_ttl OwnerIndexes OwnerIndexes_update a AR_DEFAULT_TTL AR_DEFAULT_TTL])"

definition ar_remove_from_contract_index :: "address \<Rightarrow> u64 \<Rightarrow> unit ar_op" where
  "ar_remove_from_contract_index a aid =
     bind (gets (\<lambda>s. ar_contract_index s a)) (\<lambda>ids.
     let updated = filter (\<lambda>v. v \<noteq> aid) ids
     in if updated = [] then st_remove ContractIndexes_update a
        else block
          [st_set ContractIndexes_update a updated,
           st_extend_ttl ContractIndexes ContractIndexes_update a AR_DEFAULT_TTL AR_DEFAULT_TTL])"

section \<open>Resolving lists of identifiers\<close>

definition ar_live_ids :: "alert_state \<Rightarrow> u64 list \<Rightarrow> u64 list" where
  "ar_live_ids s ids = filter (\<lambda>aid. p_has (Alerts s) aid) ids"

fun ar_configs_for_ids :: "alert_state \<Rightarrow> u64 list \<Rightarrow> alert_config list" where
  "ar_configs_for_ids s [] = []"
| "ar_configs_for_ids s (aid # ids) =
     (case p_get (Alerts s) aid of
        None \<Rightarrow> ar_configs_for_ids s ids
      | Some cfg \<Rightarrow> cfg # ar_configs_for_ids s ids)"

fun ar_active_configs_for_ids :: "alert_state \<Rightarrow> u64 list \<Rightarrow> alert_config list" where
  "ar_active_configs_for_ids s [] = []"
| "ar_active_configs_for_ids s (aid # ids) =
     (case p_get (Alerts s) aid of
        None \<Rightarrow> ar_active_configs_for_ids s ids
      | Some cfg \<Rightarrow> if active cfg then cfg # ar_active_configs_for_ids s ids
                   else ar_active_configs_for_ids s ids)"

definition ar_configs_paginated ::
  "alert_state \<Rightarrow> u64 list \<Rightarrow> u32 \<Rightarrow> u32 \<Rightarrow> alert_config list" where
  "ar_configs_paginated s ids offset limit =
     (let effective_limit = min limit AR_MAX_BATCH_SIZE;
          len = length ids;
          start = min (unat offset) len;
          end' = min (unat (saturating_add offset effective_limit)) len
      in ar_configs_for_ids s (map (\<lambda>i. ids ! i) [start..<end']))"

section \<open>The per-owner limit\<close>

definition ar_get_per_owner_alert_limit :: "alert_state \<Rightarrow> u32" where
  "ar_get_per_owner_alert_limit s = (case LIMIT s of None \<Rightarrow> 0 | Some n \<Rightarrow> n)"

definition ar_assert_per_owner_limit_for :: "address \<Rightarrow> u32 \<Rightarrow> unit ar_op" where
  "ar_assert_per_owner_limit_for own additional =
     bind (gets ar_get_per_owner_alert_limit) (\<lambda>limit.
     if limit > 0 then
       bind (gets (\<lambda>s. ar_owner_index s own)) (\<lambda>ids.
       bind (gets (\<lambda>s. ar_live_ids s ids)) (\<lambda>live_ids.
       block
         [if length live_ids \<noteq> length ids then
            (if live_ids = [] then st_remove OwnerIndexes_update own
             else block
               [st_set OwnerIndexes_update own live_ids,
                st_extend_ttl OwnerIndexes OwnerIndexes_update own AR_DEFAULT_TTL AR_DEFAULT_TTL])
          else ret (),
          reject_if (saturating_add (word_of_nat (length live_ids)) additional > limit)
            OwnerAlertLimitExceeded]))
     else ret ())"

definition ar_assert_per_owner_limit :: "address \<Rightarrow> unit ar_op" where
  "ar_assert_per_owner_limit own = ar_assert_per_owner_limit_for own 1"

section \<open>Removing alerts\<close>

definition ar_remove_alert_record :: "alert_config \<Rightarrow> u64 \<Rightarrow> address \<Rightarrow> unit ar_op" where
  "ar_remove_alert_record config config_id caller =
     block
       [st_remove Alerts_update config_id,
        st_remove AlertActives_update config_id,
        ar_remove_from_owner_index (owner config) config_id,
        ar_remove_from_contract_index (target_contract config) config_id,
        publish ''alert'' ''remove'' [VU64 config_id, VAddr caller]]"

definition ar_remove_alert_record_by_admin ::
  "alert_config \<Rightarrow> u64 \<Rightarrow> address \<Rightarrow> address \<Rightarrow> unit ar_op" where
  "ar_remove_alert_record_by_admin config config_id admin own =
     block
       [st_remove Alerts_update config_id,
        st_remove AlertActives_update config_id,
        ar_remove_from_owner_index (owner config) config_id,
        ar_remove_from_contract_index (target_contract config) config_id,
        publish ''alert'' ''remove'' [VU64 config_id, VAddr admin, VAddr own]]"

end
