(* ===== verification/AlertRegistry.thy ===== *)
theory AlertRegistry
  imports AlertStorage
begin

text \<open>
  The entry points of the contract \<open>AlertRegistry\<close> (contracts/alert-registry/src/lib.rs), in
  the order of the source: configuration, alert mutations, lifetime renewal, queries.
\<close>

section \<open>Admin and configuration\<close>

definition ar_initialize :: "address \<Rightarrow> unit ar_op" where
  "ar_initialize admin =
     block
       [bind (gets (\<lambda>s. ADMIN s \<noteq> None)) (\<lambda>has. reject_if has AlreadyInitialized),
        ar_set_admins [admin],
        publish ''admin'' ''init'' [VAddr admin]]"

definition ar_transfer_admin :: "address \<Rightarrow> address \<Rightarrow> unit ar_op" where
  "ar_transfer_admin admin new_admin =
     block
       [require_auth admin,
        ar_assert_admin admin,
        ar_set_admins [new_admin],
        publish ''admin'' ''transfer'' [VAddr admin, VAddr new_admin]]"

definition ar_add_admin :: "address \<Rightarrow> address \<Rightarrow> unit ar_op" where
  "ar_add_admin caller new_admin =
     block
       [require_auth caller,
        ar_assert_admin caller,
        bind (gets ar_load_admins) (\<lambda>loaded.
        bind (ok_or loaded NotInitialized) (\<lambda>admins.
          block
            [reject_if (new_admin \<in> set admins) AlreadyAdmin,
             ar_set_admins (admins @ [new_admin]),
             publish ''admin'' ''add'' [VAddr caller, VAddr new_admin]]))]"

definition ar_remove_admin :: "address \<Rightarrow> address \<Rightarrow> unit ar_op" where
  "ar_remove_admin caller target_admin =
     block
       [require_auth caller,
        ar_assert_admin caller,
        bind (gets ar_load_admins) (\<lambda>loaded.
        bind (ok_or loaded NotInitialized) (\<lambda>admins.
          block
            [reject_if (target_admin \<notin> set admins) NotAdmin,
             reject_if (length admins \<le> 1) LastAdmin,
             ar_set_admins (filter (\<lambda>a. a \<noteq> target_admin) admins),
             publish ''admin'' ''remove'' [VAddr caller, VAddr target_admin]]))]"

text \<open>\<open>panic_with_error!(env, e)\<close> fails the invocation with the contract error \<open>e\<close>.\<close>

definition ar_get_admin :: "address ar_op" where
  "ar_get_admin =
     bind (gets ar_load_admins) (\<lambda>loaded.
     case Option.bind loaded (\<lambda>a. case a of [] \<Rightarrow> None | x # _ \<Rightarrow> Some x) of
       Some x \<Rightarrow> ret x
     | None \<Rightarrow> throw NotInitialized)"

definition ar_get_admins :: "alert_state \<Rightarrow> address list option" where
  "ar_get_admins s = ar_load_admins s"

definition ar_set_per_owner_alert_limit :: "address \<Rightarrow> u32 \<Rightarrow> unit ar_op" where
  "ar_set_per_owner_alert_limit admin limit =
     block
       [require_auth admin,
        ar_assert_admin admin,
        reject_if (limit \<noteq> 0 \<and> limit < 1) LimitTooLow,
        modify (\<lambda>s. s\<lparr>LIMIT := Some limit\<rparr>),
        publish ''admin'' ''limit'' [VAddr admin, VU32 limit]]"

definition ar_set_paused :: "address \<Rightarrow> bool \<Rightarrow> unit ar_op" where
  "ar_set_paused admin paused =
     block
       [require_auth admin,
        ar_assert_admin admin,
        modify (\<lambda>s. s\<lparr>PAUSED := Some paused\<rparr>),
        publish ''admin'' (if paused then ''pause'' else ''unpause'') [VAddr admin]]"

definition ar_set_watcher_registry :: "address \<Rightarrow> address \<Rightarrow> unit ar_op" where
  "ar_set_watcher_registry admin watcher_registry =
     block
       [require_auth admin,
        ar_assert_admin admin,
        modify (\<lambda>s. s\<lparr>WATCHREG := Some watcher_registry\<rparr>)]"

definition ar_get_watcher_registry :: "alert_state \<Rightarrow> address option" where
  "ar_get_watcher_registry s = WATCHREG s"

section \<open>Registration\<close>

definition ar_register_alert ::
  "address \<Rightarrow> address \<Rightarrow> string \<Rightarrow> string \<Rightarrow> string list \<Rightarrow> string list option \<Rightarrow> u64 ar_op" where
  "ar_register_alert own target lbl hash rls tgs =
     bind (block
       [ar_assert_not_paused,
        reject_if (length hash \<noteq> 64) InvalidWebhookHash,
        require_auth own,
        ar_validate_label lbl,
        ar_validate_rules rls,
        ar_validate_tags tgs,
        ar_assert_per_owner_limit own]) (\<lambda>_.
     bind ar_next_id (\<lambda>aid.
     bind now (\<lambda>t.
     bind (block
       [ar_put_alert aid
          \<lparr>label = lbl, webhook_hash = hash, rules = rls, owner = own,
           target_contract = target, created_at = t, updated_at = t, active = True,
           pending_webhook_hash = None, tags = tgs\<rparr>,
        ar_put_active aid True,
        ar_push_owner_index own aid,
        ar_push_contract_index target aid,
        publish ''alert'' ''register'' [VU64 aid, VAddr own, VAddr target]]) (\<lambda>_.
     ret aid))))"

text \<open>The write loop of \<open>batch_register_alerts\<close>; \<open>ids\<close> collects the assigned identifiers.\<close>

fun ar_batch_loop :: "address \<Rightarrow> u64 \<Rightarrow> alert_input list \<Rightarrow> u64 list \<Rightarrow> (u64 list) ar_op" where
  "ar_batch_loop caller t [] ids = ret ids"
| "ar_batch_loop caller t (input # inputs) ids =
     bind ar_next_id (\<lambda>aid.
     bind (block
       [ar_put_alert aid
          \<lparr>label = input_label input, webhook_hash = input_webhook_hash input,
           rules = input_rules input, owner = caller,
           target_contract = input_target_contract input, created_at = t, updated_at = t,
           active = True, pending_webhook_hash = None, tags = None\<rparr>,
        ar_put_active aid True,
        ar_push_owner_index caller aid,
        ar_push_contract_index (input_target_contract input) aid,
        publish ''alert'' ''register''
          [VU64 aid, VAddr caller, VAddr (input_target_contract input)]]) (\<lambda>_.
     ar_batch_loop caller t inputs (ids @ [aid])))"

definition ar_batch_register_alerts :: "address \<Rightarrow> alert_input list \<Rightarrow> (u64 list) ar_op" where
  "ar_batch_register_alerts caller inputs =
     bind (block
       [ar_assert_not_paused,
        reject_if (length inputs > unat AR_MAX_BATCH_SIZE) BatchTooLarge,
        require_auth caller,
        for_each inputs (\<lambda>input. block
          [reject_if (length (input_webhook_hash input) \<noteq> 64) InvalidWebhookHash,
           ar_validate_label (input_label input),
           ar_validate_rules (input_rules input)]),
        ar_assert_per_owner_limit_for caller (word_of_nat (length inputs))]) (\<lambda>_.
     bind now (\<lambda>t.
     ar_batch_loop caller t inputs []))"

section \<open>Mutation of one alert\<close>

definition ar_set_alert_active_by_admin :: "address \<Rightarrow> u64 \<Rightarrow> bool \<Rightarrow> unit ar_op" where
  "ar_set_alert_active_by_admin admin config_id is_active =
     bind (block [require_auth admin, ar_assert_admin admin]) (\<lambda>_.
     bind (ar_load_alert config_id) (\<lambda>config.
     bind now (\<lambda>t.
     block
       [ar_put_alert config_id (config\<lparr>active := is_active, updated_at := t\<rparr>),
        ar_put_active config_id is_active,
        publish ''alert'' ''update'' [VU64 config_id, VAddr admin, VBool is_active]])))"

definition ar_pause_alert :: "address \<Rightarrow> u64 \<Rightarrow> unit ar_op" where
  "ar_pause_alert admin config_id = ar_set_alert_active_by_admin admin config_id False"

definition ar_unpause_alert :: "address \<Rightarrow> u64 \<Rightarrow> unit ar_op" where
  "ar_unpause_alert admin config_id = ar_set_alert_active_by_admin admin config_id True"

definition ar_update_alert :: "address \<Rightarrow> u64 \<Rightarrow> string list \<Rightarrow> bool \<Rightarrow> unit ar_op" where
  "ar_update_alert caller config_id rls is_active =
     bind (block [ar_assert_not_paused, require_auth caller]) (\<lambda>_.
     bind (ar_load_alert config_id) (\<lambda>config.
     bind (block [ar_assert_owner config caller, ar_validate_rules rls]) (\<lambda>_.
     bind now (\<lambda>t.
     block
       [ar_put_alert config_id (config\<lparr>rules := rls, active := is_active, updated_at := t\<rparr>),
        ar_put_active config_id is_active,
        st_extend_ttl OwnerIndexes OwnerIndexes_update (owner config)
          AR_DEFAULT_TTL AR_DEFAULT_TTL,
        st_extend_ttl ContractIndexes ContractIndexes_update (target_contract config)
          AR_DEFAULT_TTL AR_DEFAULT_TTL,
        publish ''alert'' ''update'' [VU64 config_id, VAddr caller, VBool is_active]]))))"

definition ar_update_webhook :: "address \<Rightarrow> u64 \<Rightarrow> string \<Rightarrow> unit ar_op" where
  "ar_update_webhook caller config_id hash =
     bind (block [ar_assert_not_paused, require_auth caller]) (\<lambda>_.
     bind (ar_load_alert config_id) (\<lambda>config.
     bind (block
       [ar_assert_owner config caller,
        reject_if (length hash \<noteq> 64) InvalidWebhookHash]) (\<lambda>_.
     bind now (\<lambda>t.
     block
       [ar_put_alert config_id (config\<lparr>webhook_hash := hash, updated_at := t\<rparr>),
        st_extend_ttl OwnerIndexes OwnerIndexes_update (owner config)
          AR_DEFAULT_TTL AR_DEFAULT_TTL,
        st_extend_ttl ContractIndexes ContractIndexes_update (target_contract config)
          AR_DEFAULT_TTL AR_DEFAULT_TTL,
        publish ''alert'' ''webhook'' [VU64 config_id, VAddr caller]]))))"

definition ar_propose_webhook :: "address \<Rightarrow> u64 \<Rightarrow> string \<Rightarrow> unit ar_op" where
  "ar_propose_webhook caller config_id new_hash =
     bind (require_auth caller) (\<lambda>_.
     bind (ar_load_alert config_id) (\<lambda>config.
     bind (ar_assert_owner config caller) (\<lambda>_.
     bind now (\<lambda>t.
     block
       [ar_put_alert config_id
          (config\<lparr>pending_webhook_hash := Some new_hash, updated_at := t\<rparr>),
        publish ''alert'' ''wh_prop'' [VU64 config_id, VAddr caller]]))))"

definition ar_confirm_webhook :: "address \<Rightarrow> u64 \<Rightarrow> unit ar_op" where
  "ar_confirm_webhook caller config_id =
     bind (require_auth caller) (\<lambda>_.
     bind (ar_load_alert config_id) (\<lambda>config.
     bind (ar_assert_owner config caller) (\<lambda>_.
     bind (ok_or (pending_webhook_hash config) NoPendingWebhook) (\<lambda>pending.
     bind now (\<lambda>t.
     block
       [ar_put_alert config_id
          (config\<lparr>pending_webhook_hash := None, webhook_hash := pending, updated_at := t\<rparr>),
        publish ''alert'' ''webhook'' [VU64 config_id, VAddr caller]])))))"

definition ar_update_label :: "address \<Rightarrow> u64 \<Rightarrow> string \<Rightarrow> unit ar_op" where
  "ar_update_label caller config_id lbl =
     bind (block
       [ar_assert_not_paused, require_auth caller, ar_validate_label lbl]) (\<lambda>_.
     bind (ar_load_alert config_id) (\<lambda>config.
     bind (ar_assert_owner config caller) (\<lambda>_.
     bind now (\<lambda>t.
     block
       [ar_put_alert config_id (config\<lparr>label := lbl, updated_at := t\<rparr>),
        st_extend_ttl OwnerIndexes OwnerIndexes_update (owner config)
          AR_DEFAULT_TTL AR_DEFAULT_TTL,
        st_extend_ttl ContractIndexes ContractIndexes_update (target_contract config)
          AR_DEFAULT_TTL AR_DEFAULT_TTL,
        publish ''alert'' ''update'' [VU64 config_id, VAddr caller, VBool (active config)]]))))"

definition ar_remove_alert :: "address \<Rightarrow> u64 \<Rightarrow> unit ar_op" where
  "ar_remove_alert caller config_id =
     bind (block [ar_assert_not_paused, require_auth caller]) (\<lambda>_.
     bind (ar_load_alert config_id) (\<lambda>config.
     block
       [ar_assert_owner config caller,
        ar_remove_alert_record config config_id caller]))"

definition ar_remove_alert_by_admin :: "address \<Rightarrow> u64 \<Rightarrow> unit ar_op" where
  "ar_remove_alert_by_admin admin config_id =
     bind (block [ar_assert_not_paused, require_auth admin, ar_assert_admin admin]) (\<lambda>_.
     bind (ar_load_alert config_id) (\<lambda>config.
     ar_remove_alert_record_by_admin config config_id admin (owner config)))"

section \<open>Lifetime renewal\<close>

definition ar_bump_alert :: "u64 \<Rightarrow> u32 \<Rightarrow> unit ar_op" where
  "ar_bump_alert config_id ttl =
     bind ar_assert_not_paused (\<lambda>_.
     let effective_ttl = min ttl AR_MAX_TTL in
     bind (ar_load_alert config_id) (\<lambda>config.
     block
       [st_extend_ttl Alerts Alerts_update config_id effective_ttl effective_ttl,
        st_extend_ttl AlertActives AlertActives_update config_id effective_ttl effective_ttl,
        st_extend_ttl OwnerIndexes OwnerIndexes_update (owner config)
          effective_ttl effective_ttl,
        st_extend_ttl ContractIndexes ContractIndexes_update (target_contract config)
          effective_ttl effective_ttl,
        bind (gets (\<lambda>s. p_has (NextIds s) ())) (\<lambda>has.
          if has then st_extend_ttl NextIds NextIds_update () effective_ttl effective_ttl
          else ret ()),
        instance_extend_ttl effective_ttl effective_ttl,
        publish ''alert'' ''bump'' [VU64 config_id, VU32 effective_ttl]]))"

text \<open>The loop of \<open>bulk_renew_ttl\<close> with its counter.\<close>

fun ar_bulk_renew_loop :: "u64 list \<Rightarrow> u32 \<Rightarrow> u32 ar_op" where
  "ar_bulk_renew_loop [] renewed = ret renewed"
| "ar_bulk_renew_loop (aid # ids) renewed =
     bind (gets (\<lambda>s. p_get (Alerts s) aid)) (\<lambda>found.
     case found of
       None \<Rightarrow> ar_bulk_renew_loop ids renewed
     | Some config \<Rightarrow>
         bind (block
           [st_extend_ttl Alerts Alerts_update aid AR_DEFAULT_TTL AR_DEFAULT_TTL,
            st_extend_ttl AlertActives AlertActives_update aid AR_DEFAULT_TTL AR_DEFAULT_TTL,
            st_extend_ttl OwnerIndexes OwnerIndexes_update (owner config)
              AR_DEFAULT_TTL AR_DEFAULT_TTL,
            st_extend_ttl ContractIndexes ContractIndexes_update (target_contract config)
              AR_DEFAULT_TTL AR_DEFAULT_TTL,
            publish ''alert'' ''bump'' [VU64 aid, VU32 AR_DEFAULT_TTL]]) (\<lambda>_.
         bind (unwrap (checked_add renewed 1)) (\<lambda>n.
         ar_bulk_renew_loop ids n)))"

definition ar_bulk_renew_ttl :: "u64 list \<Rightarrow> u32 ar_op" where
  "ar_bulk_renew_ttl config_ids =
     bind (reject_if (length config_ids > unat AR_MAX_BATCH_SIZE) TooManyRules) (\<lambda>_.
     ar_bulk_renew_loop config_ids 0)"

section \<open>Queries\<close>

definition ar_get_alerts_for_contract :: "address \<Rightarrow> address \<Rightarrow> (alert_config list) ar_op" where
  "ar_get_alerts_for_contract querier target =
     bind (ar_assert_watcher_if_configured querier) (\<lambda>_.
     gets (\<lambda>s. ar_configs_for_ids s (ar_contract_index s target)))"

definition ar_get_alert_ids_for_contract :: "alert_state \<Rightarrow> address \<Rightarrow> u64 list" where
  "ar_get_alert_ids_for_contract s target = ar_live_ids s (ar_contract_index s target)"

definition ar_get_alert_ids_by_owner :: "alert_state \<Rightarrow> address \<Rightarrow> u64 list" where
  "ar_get_alert_ids_by_owner s own = ar_live_ids s (ar_owner_index s own)"

definition ar_get_active_alerts_for_contract :: "alert_state \<Rightarrow> address \<Rightarrow> alert_config list" where
  "ar_get_active_alerts_for_contract s target =
     ar_active_configs_for_ids s (ar_contract_index s target)"

definition ar_get_active_alerts_paginated ::
  "alert_state \<Rightarrow> address \<Rightarrow> u32 \<Rightarrow> u32 \<Rightarrow> alert_config list" where
  "ar_get_active_alerts_paginated s target offset limit =
     (let actives = ar_active_configs_for_ids s (ar_contract_index s target);
          effective_limit = min limit AR_MAX_BATCH_SIZE;
          start = min (unat offset) (length actives);
          end' = min (unat (saturating_add offset effective_limit)) (length actives)
      in map (\<lambda>i. actives ! i) [start..<end'])"

definition ar_get_alerts_by_owner :: "address \<Rightarrow> address \<Rightarrow> (alert_config list) ar_op" where
  "ar_get_alerts_by_owner querier own =
     bind (ar_assert_watcher_if_configured querier) (\<lambda>_.
     gets (\<lambda>s. ar_configs_for_ids s (ar_owner_index s own)))"

definition ar_get_contract_alerts_paginated ::
  "address \<Rightarrow> address \<Rightarrow> u32 \<Rightarrow> u32 \<Rightarrow> (alert_config list) ar_op" where
  "ar_get_contract_alerts_paginated querier target offset limit =
     bind (ar_assert_watcher_if_configured querier) (\<lambda>_.
     gets (\<lambda>s. ar_configs_paginated s (ar_contract_index s target) offset limit))"

definition ar_get_alerts_by_owner_paginated ::
  "address \<Rightarrow> address \<Rightarrow> u32 \<Rightarrow> u32 \<Rightarrow> (alert_config list) ar_op" where
  "ar_get_alerts_by_owner_paginated querier own offset limit =
     bind (ar_assert_watcher_if_configured querier) (\<lambda>_.
     gets (\<lambda>s. ar_configs_paginated s (ar_owner_index s own) offset limit))"

text \<open>Reading an alert extends its lifetime.\<close>

definition ar_get_alert :: "u64 \<Rightarrow> (alert_config option) ar_op" where
  "ar_get_alert config_id =
     bind (gets (\<lambda>s. p_get (Alerts s) config_id)) (\<lambda>cfg.
     bind (if cfg \<noteq> None
           then st_extend_ttl Alerts Alerts_update config_id AR_DEFAULT_TTL AR_DEFAULT_TTL
           else ret ()) (\<lambda>_.
     ret cfg))"

definition ar_get_alert_active :: "alert_state \<Rightarrow> u64 \<Rightarrow> bool option" where
  "ar_get_alert_active s config_id = p_get (AlertActives s) config_id"

section \<open>Bulk deactivation, moving an alert\<close>

fun ar_deactivate_loop :: "u64 list \<Rightarrow> u32 \<Rightarrow> u32 ar_op" where
  "ar_deactivate_loop [] count = ret count"
| "ar_deactivate_loop (aid # ids) count =
     bind (gets (\<lambda>s. p_get (Alerts s) aid)) (\<lambda>found.
     case found of
       None \<Rightarrow> ar_deactivate_loop ids count
     | Some cfg \<Rightarrow>
         if active cfg then
           bind now (\<lambda>t.
           bind (block
             [ar_put_alert aid (cfg\<lparr>active := False, updated_at := t\<rparr>),
              ar_put_active aid False]) (\<lambda>_.
           bind (unwrap (checked_add count 1)) (\<lambda>n.
           ar_deactivate_loop ids n)))
         else ar_deactivate_loop ids count)"

definition ar_deactivate_all_alerts :: "address \<Rightarrow> u32 ar_op" where
  "ar_deactivate_all_alerts caller =
     bind (block [ar_assert_not_paused, require_auth caller]) (\<lambda>_.
     bind (gets (\<lambda>s. ar_owner_index s caller)) (\<lambda>ids.
     ar_deactivate_loop ids 0))"

definition ar_update_target_contract :: "address \<Rightarrow> u64 \<Rightarrow> address \<Rightarrow> unit ar_op" where
  "ar_update_target_contract caller config_id new_target =
     bind (block [ar_assert_not_paused, require_auth caller]) (\<lambda>_.
     bind (ar_load_alert config_id) (\<lambda>config.
     bind (ar_assert_owner config caller) (\<lambda>_.
     bind now (\<lambda>t.
     block
       [ar_put_alert config_id (config\<lparr>target_contract := new_target, updated_at := t\<rparr>),
        ar_remove_from_contract_index (target_contract config) config_id,
        ar_push_contract_index new_target config_id]))))"

text \<open>The scan over all identifiers below the counter.\<close>

definition ar_get_alerts_modified_since :: "alert_state \<Rightarrow> u64 \<Rightarrow> alert_config list" where
  "ar_get_alerts_modified_since s since =
     filter (\<lambda>cfg. updated_at cfg \<ge> since)
       (ar_configs_for_ids s (map word_of_nat [0..<unat (ar_get_alert_count s)]))"

definition ar_update_tags :: "address \<Rightarrow> u64 \<Rightarrow> string list option \<Rightarrow> unit ar_op" where
  "ar_update_tags caller config_id tgs =
     bind (block [ar_assert_not_paused, require_auth caller]) (\<lambda>_.
     bind (ar_load_alert config_id) (\<lambda>config.
     bind (block [ar_assert_owner config caller, ar_validate_tags tgs]) (\<lambda>_.
     bind now (\<lambda>t.
     block
       [ar_put_alert config_id (config\<lparr>tags := tgs, updated_at := t\<rparr>),
        publish ''alert'' ''tags'' [VU64 config_id, VAddr caller]]))))"

definition ar_transfer_alert_ownership :: "address \<Rightarrow> u64 \<Rightarrow> address \<Rightarrow> unit ar_op" where
  "ar_transfer_alert_ownership own config_id new_owner =
     bind (block [ar_assert_not_paused, require_auth own]) (\<lambda>_.
     bind (ar_load_alert config_id) (\<lambda>config.
     bind (ar_assert_owner config own) (\<lambda>_.
     if new_owner = own then ret ()
     else
       bind (block
         [ar_assert_per_owner_limit new_owner,
          ar_remove_from_owner_index own config_id,
          ar_push_owner_index new_owner config_id]) (\<lambda>_.
       bind now (\<lambda>t.
       block
         [ar_put_alert config_id (config\<lparr>owner := new_owner, updated_at := t\<rparr>),
          publish ''alert'' ''transfer'' [VU64 config_id, VAddr own, VAddr new_owner]])))))"

text \<open>
  The scan of \<open>get_alerts_updated_since\<close>: it stops once \<open>limit\<close> results are collected and
  skips the first \<open>offset\<close> matches.
\<close>

fun ar_updated_since_loop ::
  "alert_state \<Rightarrow> u64 \<Rightarrow> u32 \<Rightarrow> u32 \<Rightarrow> u64 list \<Rightarrow> u32 \<Rightarrow> alert_config list
   \<Rightarrow> alert_config list" where
  "ar_updated_since_loop s since offset limit [] skipped out = out"
| "ar_updated_since_loop s since offset limit (aid # ids) skipped out =
     (if length out \<ge> unat limit then out
      else case p_get (Alerts s) aid of
        None \<Rightarrow> ar_updated_since_loop s since offset limit ids skipped out
      | Some cfg \<Rightarrow>
          if updated_at cfg \<ge> since then
            (if skipped < offset
             then ar_updated_since_loop s since offset limit ids (skipped + 1) out
             else ar_updated_since_loop s since offset limit ids skipped (out @ [cfg]))
          else ar_updated_since_loop s since offset limit ids skipped out)"

definition ar_get_alerts_updated_since ::
  "alert_state \<Rightarrow> address \<Rightarrow> u64 \<Rightarrow> u32 \<Rightarrow> u32 \<Rightarrow> alert_config list" where
  "ar_get_alerts_updated_since s target since offset limit =
     ar_updated_since_loop s since offset limit (ar_contract_index s target) 0 []"

definition ar_get_active_alert_count :: "address \<Rightarrow> u32 ar_op" where
  "ar_get_active_alert_count own =
     bind (gets (\<lambda>s. count_loop (\<lambda>aid. p_has (Alerts s) aid) (ar_owner_index s own) 0)) (\<lambda>count.
     unwrap count)"

end
