(* ===== verification/AlertLemmas.thy ===== *)
theory AlertLemmas
  imports AlertRegistry
begin

text \<open>
  What the helpers of \<open>AlertRegistry\<close> do: the interfaces interpreted on them, and for each
  helper when it returns and the state it leaves, in the collection \<open>ok_simps\<close> that the
  proofs about the entry points run on.
\<close>

section \<open>The interfaces provided by the contract\<close>

interpretation alerts: storage_map Alerts Alerts_update
  by unfold_locales simp

interpretation actives: storage_map AlertActives AlertActives_update
  by unfold_locales simp

interpretation ar_pause: pause_gate ar_is_paused ar_assert_not_paused ContractPaused
  by unfold_locales
    (simp_all add: ar_assert_not_paused_def bind_run gets_run reject_if_run)

interpretation ar_admin: admin_gate ar_load_admins ar_assert_admin NotInitialized Unauthorized
  by unfold_locales
    (simp_all add: ar_assert_admin_def bind_run gets_run ok_or_run ret_run throw_run)

definition index_push ::
  "'x ctx_scheme \<Rightarrow> address \<Rightarrow> u64 \<Rightarrow> (address \<rightharpoonup> u64 list entry) \<Rightarrow> (address \<rightharpoonup> u64 list entry)"
  where
  "index_push c a i m =
     p_extend c a AR_DEFAULT_TTL AR_DEFAULT_TTL (p_set c a (ids_at m a @ [i]) m)"

definition index_remove ::
  "'x ctx_scheme \<Rightarrow> address \<Rightarrow> u64 \<Rightarrow> (address \<rightharpoonup> u64 list entry) \<Rightarrow> (address \<rightharpoonup> u64 list entry)"
  where
  "index_remove c a i m =
     (let updated = filter (\<lambda>j. j \<noteq> i) (ids_at m a)
      in if updated = [] then p_remove a m
         else p_extend c a AR_DEFAULT_TTL AR_DEFAULT_TTL (p_set c a updated m))"

lemma ids_at_index_push [simp]:
  "ids_at (index_push c a i m) b = (if b = a then ids_at m a @ [i] else ids_at m b)"
  by (simp add: index_push_def)

lemma ids_at_index_remove [simp]:
  "ids_at (index_remove c a i m) b =
   (if b = a then filter (\<lambda>j. j \<noteq> i) (ids_at m a) else ids_at m b)"
  by (simp add: index_remove_def Let_def)

lemma ar_owner_index_ids: "ar_owner_index s a = ids_at (OwnerIndexes s) a"
  by (simp add: ar_owner_index_def ids_at_def)

lemma ar_contract_index_ids: "ar_contract_index s a = ids_at (ContractIndexes s) a"
  by (simp add: ar_contract_index_def ids_at_def)

interpretation owner_ix:
  id_index OwnerIndexes OwnerIndexes_update ar_push_owner_index ar_remove_from_owner_index
    index_push index_remove DuplicateAlertId
proof
  show "OwnerIndexes (OwnerIndexes_update f s) = f (OwnerIndexes s)" for f and s :: alert_state
    by simp
  show "i \<in> set (ids_at (OwnerIndexes s) a) \<Longrightarrow>
      ar_push_owner_index a i c s = (Inl (Err DuplicateAlertId), s)" for a i c s
    by (simp add: ar_push_owner_index_def bind_run gets_run ar_owner_index_ids throw_run)
  show "i \<notin> set (ids_at (OwnerIndexes s) a) \<Longrightarrow>
      ar_push_owner_index a i c s = (Inr (), OwnerIndexes_update (index_push c a i) s)" for a i c s
    by (cases s) (simp add: ar_push_owner_index_def run_simps ar_owner_index_ids index_push_def)
  show "ar_remove_from_owner_index a i c s =
      (Inr (), OwnerIndexes_update (index_remove c a i) s)" for a i c s
    by (cases s)
      (simp add: ar_remove_from_owner_index_def run_simps ar_owner_index_ids index_remove_def Let_def)
qed simp_all

interpretation contract_ix:
  id_index ContractIndexes ContractIndexes_update ar_push_contract_index
    ar_remove_from_contract_index index_push index_remove DuplicateAlertId
proof
  show "ContractIndexes (ContractIndexes_update f s) = f (ContractIndexes s)"
    for f and s :: alert_state
    by simp
  show "i \<in> set (ids_at (ContractIndexes s) a) \<Longrightarrow>
      ar_push_contract_index a i c s = (Inl (Err DuplicateAlertId), s)" for a i c s
    by (simp add: ar_push_contract_index_def bind_run gets_run ar_contract_index_ids throw_run)
  show "i \<notin> set (ids_at (ContractIndexes s) a) \<Longrightarrow>
      ar_push_contract_index a i c s = (Inr (), ContractIndexes_update (index_push c a i) s)"
    for a i c s
    by (cases s)
      (simp add: ar_push_contract_index_def run_simps ar_contract_index_ids index_push_def)
  show "ar_remove_from_contract_index a i c s =
      (Inr (), ContractIndexes_update (index_remove c a i) s)" for a i c s
    by (cases s)
      (simp add: ar_remove_from_contract_index_def run_simps ar_contract_index_ids
        index_remove_def Let_def)
qed simp_all

lemmas ar_gates_ok [ok_simps] =
  ar_pause.check_ok ar_admin.check_ok
  owner_ix.push_ok owner_ix.rem_ok contract_ix.push_ok contract_ix.rem_ok

lemmas ar_gates_err [err_simps] =
  ar_pause.check_err ar_admin.check_err
  owner_ix.push_err owner_ix.rem_err contract_ix.push_err contract_ix.rem_err

section \<open>Guards and validation\<close>

lemma ar_assert_owner_ok [ok_simps]:
  "ar_assert_owner cfg a c s = (Inr u, s') \<longleftrightarrow> owner cfg = a \<and> s' = s"
  by (auto simp: ar_assert_owner_def ret_ok throw_ok)

lemma ar_assert_owner_err [err_simps]:
  "ar_assert_owner cfg a c s = (Inl y, s') \<longleftrightarrow> owner cfg \<noteq> a \<and> y = Err Unauthorized \<and> s' = s"
  by (auto simp: ar_assert_owner_def ret_err throw_err)

text \<open>The lists of rules, tags and the labels that validation accepts.\<close>

definition known_rules :: "string set" where
  "known_rules = {''rule:transfer'', ''rule:mint'', ''rule:invoke'', ''rule:all''}"

definition valid_rules :: "string list \<Rightarrow> bool" where
  "valid_rules rls \<longleftrightarrow>
     rls \<noteq> [] \<and> length rls \<le> 50 \<and> distinct rls \<and> set rls \<subseteq> known_rules"

definition valid_tags :: "string list option \<Rightarrow> bool" where
  "valid_tags tgs \<longleftrightarrow>
     (case tgs of None \<Rightarrow> True
      | Some t \<Rightarrow> length t \<le> 10 \<and> (\<forall>x \<in> set t. length x \<le> 32))"

lemma ar_validate_rule_ok [ok_simps]:
  "ar_validate_rule r c s = (Inr u, s') \<longleftrightarrow> r \<in> known_rules \<and> s' = s"
  by (auto simp: ar_validate_rule_def reject_if_ok known_rules_def)

lemma ar_validate_rules_loop_ok:
  "ar_validate_rules_loop seen rls c s = (Inr u, s') \<longleftrightarrow>
   set rls \<subseteq> known_rules \<and> distinct rls \<and> set rls \<inter> set seen = {} \<and> s' = s"
  by (induction rls arbitrary: seen) (auto simp: ret_ok bind_ok ar_validate_rule_ok reject_if_ok)

lemma ar_validate_rules_ok [ok_simps]:
  "ar_validate_rules rls c s = (Inr u, s') \<longleftrightarrow> valid_rules rls \<and> s' = s"
  by (auto simp: ar_validate_rules_def block_Cons_ok block_Nil_ok reject_if_ok
      ar_validate_rules_loop_ok valid_rules_def)

lemma ar_validate_rules_loop_keeps:
  "snd (ar_validate_rules_loop seen rls c s) = s"
  by (induction rls arbitrary: seen)
    (auto simp: run_simps ar_validate_rule_def)

lemma ar_validate_rules_err_state:
  "ar_validate_rules rls c s = (Inl y, s') \<Longrightarrow> s' = s"
  using ar_validate_rules_loop_keeps [of "[]" rls c s]
  by (auto simp: ar_validate_rules_def block_Cons_err block_Nil_err reject_if_err reject_if_ok)

lemma ar_validate_label_ok [ok_simps]:
  "ar_validate_label l c s = (Inr u, s') \<longleftrightarrow> length l \<le> 128 \<and> s' = s"
  by (auto simp: ar_validate_label_def reject_if_ok)

lemma ar_validate_label_err [err_simps]:
  "ar_validate_label l c s = (Inl y, s') \<longleftrightarrow> 128 < length l \<and> y = Err LabelTooLong \<and> s' = s"
  by (auto simp: ar_validate_label_def reject_if_err)

lemma for_each_reject_ok:
  "for_each xs (\<lambda>x. reject_if (P x) e) c s = (Inr u, s') \<longleftrightarrow> (\<forall>x \<in> set xs. \<not> P x) \<and> s' = s"
  by (induction xs) (auto simp: for_each_Nil_ok for_each_Cons_ok reject_if_ok)

lemma for_each_reject_err:
  "for_each xs (\<lambda>x. reject_if (P x) e) c s = (Inl y, s') \<longleftrightarrow>
   (\<exists>x \<in> set xs. P x) \<and> y = Err e \<and> s' = s"
  by (induction xs) (auto simp: for_each_Nil_err for_each_Cons_err reject_if_err reject_if_ok)

lemma ar_validate_tags_ok [ok_simps]:
  "ar_validate_tags tgs c s = (Inr u, s') \<longleftrightarrow> valid_tags tgs \<and> s' = s"
  by (auto simp: ar_validate_tags_def valid_tags_def ret_ok block_Cons_ok block_Nil_ok reject_if_ok
      for_each_reject_ok AR_MAX_TAGS_def AR_MAX_TAG_BYTES_def split: option.splits)

lemma ar_validate_tags_err_state:
  "ar_validate_tags tgs c s = (Inl y, s') \<Longrightarrow> s' = s"
  by (auto simp: ar_validate_tags_def ret_err block_Cons_err block_Nil_err reject_if_err
      reject_if_ok for_each_reject_err split: option.splits)

section \<open>The counter and the writes\<close>

lemma ar_next_id_ok [ok_simps]:
  "ar_next_id c s = (Inr i, s') \<longleftrightarrow>
   i = ar_get_alert_count s \<and> unat i + 1 < 18446744073709551616 \<and>
   s' = s\<lparr>NEXT_ID := Some (i + 1),
         instance_until := extend_until c (instance_until s) AR_DEFAULT_TTL AR_DEFAULT_TTL\<rparr>"
  by (auto simp: ar_next_id_def bind_ok gets_ok ok_or_ok block_Cons_ok block_Nil_ok modify_ok
      instance_extend_ttl_ok ret_ok checked_add_def)

lemma ar_next_id_err [err_simps]:
  "ar_next_id c s = (Inl y, s') \<longleftrightarrow>
   unat (ar_get_alert_count s) + 1 \<ge> 18446744073709551616 \<and> y = Err CounterOverflow \<and> s' = s"
  by (auto simp: ar_next_id_def bind_err gets_ok gets_err ok_or_err block_Cons_err block_Nil_err
      modify_err instance_extend_ttl_err ret_err checked_add_def)

lemma ar_load_alert_ok [ok_simps]:
  "ar_load_alert i c s = (Inr cfg, s') \<longleftrightarrow> p_get (Alerts s) i = Some cfg \<and> s' = s"
  by (auto simp: ar_load_alert_def bind_ok gets_ok ok_or_ok)

lemma ar_load_alert_err [err_simps]:
  "ar_load_alert i c s = (Inl y, s') \<longleftrightarrow>
   p_get (Alerts s) i = None \<and> y = Err AlertNotFound \<and> s' = s"
  by (auto simp: ar_load_alert_def bind_err gets_ok gets_err ok_or_err)

definition store_entry ::
  "'x ctx_scheme \<Rightarrow> 'k \<Rightarrow> 'v \<Rightarrow> ('k \<rightharpoonup> 'v entry) \<Rightarrow> ('k \<rightharpoonup> 'v entry)" where
  "store_entry c k v m = p_extend c k AR_DEFAULT_TTL AR_DEFAULT_TTL (p_set c k v m)"

lemma p_get_store_entry [simp]: "p_get (store_entry c k v m) = (p_get m)(k \<mapsto> v)"
  by (simp add: store_entry_def)

lemma ar_put_alert_ok [ok_simps]:
  "ar_put_alert i cfg c s = (Inr u, s') \<longleftrightarrow> s' = Alerts_update (store_entry c i cfg) s"
  unfolding ar_put_alert_def alerts.store_ok by (cases s) (auto simp: store_entry_def)

lemma ar_put_alert_err [err_simps]: "\<not> ar_put_alert i cfg c s = (Inl y, s')"
  unfolding ar_put_alert_def by (rule alerts.store_never_fails)

lemma ar_put_active_ok [ok_simps]:
  "ar_put_active i b c s = (Inr u, s') \<longleftrightarrow> s' = AlertActives_update (store_entry c i b) s"
  unfolding ar_put_active_def actives.store_ok by (cases s) (auto simp: store_entry_def)

lemma ar_put_active_err [err_simps]: "\<not> ar_put_active i b c s = (Inl y, s')"
  unfolding ar_put_active_def by (rule actives.store_never_fails)

lemma ar_set_admins_ok [ok_simps]:
  "ar_set_admins v c s = (Inr u, s') \<longleftrightarrow> s' = s\<lparr>ADMIN := Some (AdminVec v)\<rparr>"
  by (auto simp: ar_set_admins_def modify_ok)

lemma ar_set_admins_err [err_simps]: "\<not> ar_set_admins v c s = (Inl y, s')"
  by (simp add: ar_set_admins_def modify_err)

end
