(* ===== verification/AlertView.thy ===== *)
theory AlertView
  imports AlertLemmas
begin

text \<open>
  The contents of the alert registry without lifetimes: an abstract state on which each entry
  point is one simple update. The lemmas named \<open>..._effect\<close> say, for every entry point that
  returns, which guards it passed and which abstract update it performed; the properties of
  the registry are consequences of them.
\<close>

section \<open>The abstract state\<close>

record ar_view =
  v_admins :: "address list option"
  v_limit :: u32
  v_paused :: bool
  v_watchreg :: "address option"
  v_count :: u64
  v_alerts :: "u64 \<rightharpoonup> alert_config"
  v_flags :: "u64 \<rightharpoonup> bool"
  v_owned :: "address \<Rightarrow> u64 list"
  v_watching :: "address \<Rightarrow> u64 list"
  v_events :: "event list"

definition view_of :: "alert_state \<Rightarrow> ar_view" where
  "view_of s =
     \<lparr>v_admins = ar_load_admins s,
      v_limit = ar_get_per_owner_alert_limit s,
      v_paused = ar_is_paused s,
      v_watchreg = WATCHREG s,
      v_count = ar_get_alert_count s,
      v_alerts = p_get (Alerts s),
      v_flags = p_get (AlertActives s),
      v_owned = ids_at (OwnerIndexes s),
      v_watching = ids_at (ContractIndexes s),
      v_events = events s\<rparr>"

lemma view_of_sel [simp]:
  "v_admins (view_of s) = ar_load_admins s"
  "v_limit (view_of s) = ar_get_per_owner_alert_limit s"
  "v_paused (view_of s) = ar_is_paused s"
  "v_watchreg (view_of s) = WATCHREG s"
  "v_count (view_of s) = ar_get_alert_count s"
  "v_alerts (view_of s) = p_get (Alerts s)"
  "v_flags (view_of s) = p_get (AlertActives s)"
  "v_owned (view_of s) = ids_at (OwnerIndexes s)"
  "v_watching (view_of s) = ids_at (ContractIndexes s)"
  "v_events (view_of s) = events s"
  by (simp_all add: view_of_def)

text \<open>The abstract updates.\<close>

definition emit :: "string \<Rightarrow> event_value list \<Rightarrow> ar_view \<Rightarrow> ar_view" where
  "emit t1 d v = v\<lparr>v_events := v_events v @ [\<lparr>topic0 = ''alert'', topic1 = t1, event_data = d\<rparr>]\<rparr>"

definition emit_admin :: "string \<Rightarrow> event_value list \<Rightarrow> ar_view \<Rightarrow> ar_view" where
  "emit_admin t1 d v =
     v\<lparr>v_events := v_events v @ [\<lparr>topic0 = ''admin'', topic1 = t1, event_data = d\<rparr>]\<rparr>"

definition put :: "u64 \<Rightarrow> alert_config \<Rightarrow> ar_view \<Rightarrow> ar_view" where
  "put i cfg v = v\<lparr>v_alerts := (v_alerts v)(i \<mapsto> cfg)\<rparr>"

definition put_flag :: "u64 \<Rightarrow> bool \<Rightarrow> ar_view \<Rightarrow> ar_view" where
  "put_flag i b v = v\<lparr>v_flags := (v_flags v)(i \<mapsto> b)\<rparr>"

definition list_under :: "address \<Rightarrow> u64 \<Rightarrow> (address \<Rightarrow> u64 list) \<Rightarrow> (address \<Rightarrow> u64 list)" where
  "list_under a i ix = ix(a := ix a @ [i])"

definition unlist_under :: "address \<Rightarrow> u64 \<Rightarrow> (address \<Rightarrow> u64 list) \<Rightarrow> (address \<Rightarrow> u64 list)" where
  "unlist_under a i ix = ix(a := filter (\<lambda>j. j \<noteq> i) (ix a))"

text \<open>A new alert \<open>cfg\<close> under the next identifier.\<close>

definition create :: "alert_config \<Rightarrow> ar_view \<Rightarrow> ar_view" where
  "create cfg v =
     (let i = v_count v
      in emit ''register'' [VU64 i, VAddr (owner cfg), VAddr (target_contract cfg)]
          (v\<lparr>v_count := i + 1,
             v_alerts := (v_alerts v)(i \<mapsto> cfg),
             v_flags := (v_flags v)(i \<mapsto> active cfg),
             v_owned := list_under (owner cfg) i (v_owned v),
             v_watching := list_under (target_contract cfg) i (v_watching v)\<rparr>))"

text \<open>The alert \<open>i\<close>, stored as \<open>cfg\<close>, disappears.\<close>

definition erase :: "u64 \<Rightarrow> alert_config \<Rightarrow> ar_view \<Rightarrow> ar_view" where
  "erase i cfg v =
     v\<lparr>v_alerts := (v_alerts v)(i := None),
       v_flags := (v_flags v)(i := None),
       v_owned := unlist_under (owner cfg) i (v_owned v),
       v_watching := unlist_under (target_contract cfg) i (v_watching v)\<rparr>"

text \<open>
  The lazy pruning of an owner's list: where a limit is set, identifiers without a stored
  alert are dropped.
\<close>

definition prune :: "address \<Rightarrow> ar_view \<Rightarrow> ar_view" where
  "prune a v =
     (if 0 < v_limit v
      then v\<lparr>v_owned := (v_owned v)(a := filter (\<lambda>i. v_alerts v i \<noteq> None) (v_owned v a))\<rparr>
      else v)"

definition within_limit :: "address \<Rightarrow> u32 \<Rightarrow> ar_view \<Rightarrow> bool" where
  "within_limit a n v \<longleftrightarrow>
     v_limit v = 0 \<or>
     saturating_add (word_of_nat (length (filter (\<lambda>i. v_alerts v i \<noteq> None) (v_owned v a)))) n
       \<le> v_limit v"

lemmas view_defs = emit_def emit_admin_def put_def put_flag_def list_under_def unlist_under_def
  create_def erase_def prune_def Let_def

section \<open>The helpers on the abstract state\<close>

lemma ar_load_admins_frame [simp]:
  "ar_load_admins (s\<lparr>ADMIN := Some (AdminVec v)\<rparr>) = Some v"
  "ar_load_admins (s\<lparr>LIMIT := l\<rparr>) = ar_load_admins s"
  "ar_load_admins (s\<lparr>PAUSED := p\<rparr>) = ar_load_admins s"
  "ar_load_admins (s\<lparr>WATCHREG := w\<rparr>) = ar_load_admins s"
  "ar_load_admins (s\<lparr>NEXT_ID := n\<rparr>) = ar_load_admins s"
  "ar_load_admins (s\<lparr>events := es\<rparr>) = ar_load_admins s"
  "ar_load_admins (s\<lparr>instance_until := l'\<rparr>) = ar_load_admins s"
  "ar_load_admins (Alerts_update f s) = ar_load_admins s"
  "ar_load_admins (AlertActives_update g s) = ar_load_admins s"
  "ar_load_admins (OwnerIndexes_update h s) = ar_load_admins s"
  "ar_load_admins (ContractIndexes_update k s) = ar_load_admins s"
  "ar_load_admins (NextIds_update m s) = ar_load_admins s"
  by (simp_all add: ar_load_admins_def)

lemma ar_limit_frame [simp]:
  "ar_get_per_owner_alert_limit (s\<lparr>LIMIT := Some n\<rparr>) = n"
  "ar_get_per_owner_alert_limit (s\<lparr>ADMIN := a\<rparr>) = ar_get_per_owner_alert_limit s"
  "ar_get_per_owner_alert_limit (s\<lparr>PAUSED := p\<rparr>) = ar_get_per_owner_alert_limit s"
  "ar_get_per_owner_alert_limit (s\<lparr>WATCHREG := w\<rparr>) = ar_get_per_owner_alert_limit s"
  "ar_get_per_owner_alert_limit (s\<lparr>NEXT_ID := n'\<rparr>) = ar_get_per_owner_alert_limit s"
  "ar_get_per_owner_alert_limit (s\<lparr>events := es\<rparr>) = ar_get_per_owner_alert_limit s"
  "ar_get_per_owner_alert_limit (s\<lparr>instance_until := l'\<rparr>) = ar_get_per_owner_alert_limit s"
  "ar_get_per_owner_alert_limit (Alerts_update f s) = ar_get_per_owner_alert_limit s"
  "ar_get_per_owner_alert_limit (AlertActives_update g s) = ar_get_per_owner_alert_limit s"
  "ar_get_per_owner_alert_limit (OwnerIndexes_update h s) = ar_get_per_owner_alert_limit s"
  "ar_get_per_owner_alert_limit (ContractIndexes_update k s) = ar_get_per_owner_alert_limit s"
  "ar_get_per_owner_alert_limit (NextIds_update m s) = ar_get_per_owner_alert_limit s"
  by (simp_all add: ar_get_per_owner_alert_limit_def)

lemma ar_paused_frame [simp]:
  "ar_is_paused (s\<lparr>PAUSED := Some b\<rparr>) = b"
  "ar_is_paused (s\<lparr>ADMIN := a\<rparr>) = ar_is_paused s"
  "ar_is_paused (s\<lparr>LIMIT := l\<rparr>) = ar_is_paused s"
  "ar_is_paused (s\<lparr>WATCHREG := w\<rparr>) = ar_is_paused s"
  "ar_is_paused (s\<lparr>NEXT_ID := n\<rparr>) = ar_is_paused s"
  "ar_is_paused (s\<lparr>events := es\<rparr>) = ar_is_paused s"
  "ar_is_paused (s\<lparr>instance_until := l'\<rparr>) = ar_is_paused s"
  "ar_is_paused (Alerts_update f s) = ar_is_paused s"
  "ar_is_paused (AlertActives_update g s) = ar_is_paused s"
  "ar_is_paused (OwnerIndexes_update h s) = ar_is_paused s"
  "ar_is_paused (ContractIndexes_update k s) = ar_is_paused s"
  "ar_is_paused (NextIds_update m s) = ar_is_paused s"
  by (simp_all add: ar_is_paused_def)

lemma ar_count_frame [simp]:
  "ar_get_alert_count (s\<lparr>NEXT_ID := Some n\<rparr>) = n"
  "ar_get_alert_count (s\<lparr>ADMIN := a\<rparr>) = ar_get_alert_count s"
  "ar_get_alert_count (s\<lparr>LIMIT := l\<rparr>) = ar_get_alert_count s"
  "ar_get_alert_count (s\<lparr>PAUSED := p\<rparr>) = ar_get_alert_count s"
  "ar_get_alert_count (s\<lparr>WATCHREG := w\<rparr>) = ar_get_alert_count s"
  "ar_get_alert_count (s\<lparr>events := es\<rparr>) = ar_get_alert_count s"
  "ar_get_alert_count (s\<lparr>instance_until := l'\<rparr>) = ar_get_alert_count s"
  "ar_get_alert_count (Alerts_update f s) = ar_get_alert_count s"
  "ar_get_alert_count (AlertActives_update g s) = ar_get_alert_count s"
  "ar_get_alert_count (OwnerIndexes_update h s) = ar_get_alert_count s"
  "ar_get_alert_count (ContractIndexes_update k s) = ar_get_alert_count s"
  "ar_get_alert_count (NextIds_update m s) = ar_get_alert_count s"
  by (simp_all add: ar_get_alert_count_def)

lemma ids_at_store_entry [simp]:
  "ids_at (store_entry c a ids m) b = (if b = a then ids else ids_at m b)"
  by (simp add: store_entry_def)

lemma ids_at_updates:
  "ids_at (index_push c a i m) = list_under a i (ids_at m)"
  "ids_at (index_remove c a i m) = unlist_under a i (ids_at m)"
  "ids_at (store_entry c a ids m) = (ids_at m)(a := ids)"
  "ids_at (p_remove a m) = (ids_at m)(a := [])"
  by (simp_all add: fun_eq_iff list_under_def unlist_under_def)

text \<open>How the state writes of the helpers look on the abstract state.\<close>

lemma view_of_writes [simp]:
  "view_of (Alerts_update (store_entry c i cfg) s) = put i cfg (view_of s)"
  "view_of (AlertActives_update (store_entry c i b) s) = put_flag i b (view_of s)"
  "view_of (Alerts_update (p_extend c i n t) s) = view_of s"
  "view_of (AlertActives_update (p_extend c i n t) s) = view_of s"
  "view_of (OwnerIndexes_update (p_extend c a n t) s) = view_of s"
  "view_of (ContractIndexes_update (p_extend c a n t) s) = view_of s"
  "view_of (NextIds_update f s) = view_of s"
  "view_of (s\<lparr>instance_until := l\<rparr>) = view_of s"
  "view_of (OwnerIndexes_update (index_push c a i) s) =
     (view_of s)\<lparr>v_owned := list_under a i (ids_at (OwnerIndexes s))\<rparr>"
  "view_of (ContractIndexes_update (index_push c a i) s) =
     (view_of s)\<lparr>v_watching := list_under a i (ids_at (ContractIndexes s))\<rparr>"
  "view_of (OwnerIndexes_update (index_remove c a i) s) =
     (view_of s)\<lparr>v_owned := unlist_under a i (ids_at (OwnerIndexes s))\<rparr>"
  "view_of (ContractIndexes_update (index_remove c a i) s) =
     (view_of s)\<lparr>v_watching := unlist_under a i (ids_at (ContractIndexes s))\<rparr>"
  "view_of (Alerts_update (p_remove i) s) =
     (view_of s)\<lparr>v_alerts := (p_get (Alerts s))(i := None)\<rparr>"
  "view_of (AlertActives_update (p_remove i) s) =
     (view_of s)\<lparr>v_flags := (p_get (AlertActives s))(i := None)\<rparr>"
  "view_of (s\<lparr>events := es\<rparr>) = (view_of s)\<lparr>v_events := es\<rparr>"
  "view_of (s\<lparr>ADMIN := Some (AdminVec v)\<rparr>) = (view_of s)\<lparr>v_admins := Some v\<rparr>"
  "view_of (s\<lparr>LIMIT := Some l'\<rparr>) = (view_of s)\<lparr>v_limit := l'\<rparr>"
  "view_of (s\<lparr>PAUSED := Some p\<rparr>) = (view_of s)\<lparr>v_paused := p\<rparr>"
  "view_of (s\<lparr>WATCHREG := w\<rparr>) = (view_of s)\<lparr>v_watchreg := w\<rparr>"
  "view_of (s\<lparr>NEXT_ID := Some k\<rparr>) = (view_of s)\<lparr>v_count := k\<rparr>"
  by (simp_all add: view_of_def put_def put_flag_def ids_at_updates)

section \<open>The per-owner limit\<close>

definition prune_state :: "'x ctx_scheme \<Rightarrow> address \<Rightarrow> alert_state \<Rightarrow> alert_state" where
  "prune_state c a s =
     (let ids = ids_at (OwnerIndexes s) a; live = ar_live_ids s ids
      in if 0 < ar_get_per_owner_alert_limit s \<and> length live \<noteq> length ids
         then OwnerIndexes_update (if live = [] then p_remove a else store_entry c a live) s
         else s)"

lemma live_ids_view: "ar_live_ids s ids = filter (\<lambda>i. p_get (Alerts s) i \<noteq> None) ids"
  by (simp add: ar_live_ids_def p_has_get)

lemma view_of_prune_state [simp]: "view_of (prune_state c a s) = prune a (view_of s)"
proof (cases "length (ar_live_ids s (ids_at (OwnerIndexes s) a)) = length (ids_at (OwnerIndexes s) a)")
  case True
  then have "filter (\<lambda>i. p_get (Alerts s) i \<noteq> None) (ids_at (OwnerIndexes s) a)
      = ids_at (OwnerIndexes s) a"
    unfolding live_ids_view
    by (metis filter_id_conv length_filter_less less_irrefl)
  with True show ?thesis
    by (simp add: prune_state_def prune_def view_of_def fun_upd_idem)
next
  case False
  then show ?thesis
    by (auto simp: prune_state_def prune_def Let_def view_of_def ids_at_updates live_ids_view)
qed

lemma ar_assert_per_owner_limit_for_ok [ok_simps]:
  "ar_assert_per_owner_limit_for a n c s = (Inr u, s') \<longleftrightarrow>
   within_limit a n (view_of s) \<and> s' = prune_state c a s"
proof (cases "0 < ar_get_per_owner_alert_limit s")
  case True
  let ?ids = "ids_at (OwnerIndexes s) a"
  let ?live = "ar_live_ids s ?ids"
  let ?store = "block
      [st_set OwnerIndexes_update a ?live,
       st_extend_ttl OwnerIndexes OwnerIndexes_update a AR_DEFAULT_TTL AR_DEFAULT_TTL] :: unit ar_op"
  define X :: "unit ar_op" where
    "X = (if length ?live \<noteq> length ?ids
          then if ?live = [] then st_remove OwnerIndexes_update a else ?store else ret ())"
  have "?store c s = (Inr (), OwnerIndexes_update (store_entry c a ?live) s)"
    unfolding owner_ix.store_ok by (cases s) (simp add: store_entry_def)
  with True have X: "X c s = (Inr (), prune_state c a s)"
    by (simp add: X_def prune_state_def Let_def st_remove_run ret_run)
  have "ar_assert_per_owner_limit_for a n c s =
      block [X, reject_if (saturating_add (word_of_nat (length ?live)) n
                             > ar_get_per_owner_alert_limit s) OwnerAlertLimitExceeded] c s"
    using True by (simp add: ar_assert_per_owner_limit_for_def bind_run gets_run
        ar_owner_index_ids X_def)
  with True show ?thesis
    by (auto simp: block_Cons_ok block_Nil_ok X reject_if_ok within_limit_def live_ids_view not_less)
next
  case False
  then show ?thesis
    by (auto simp: ar_assert_per_owner_limit_for_def bind_ok gets_ok ret_ok prune_state_def
        Let_def within_limit_def word_neq_0_conv [symmetric])
qed

lemma ar_assert_per_owner_limit_ok [ok_simps]:
  "ar_assert_per_owner_limit a c s = (Inr u, s') \<longleftrightarrow>
   within_limit a 1 (view_of s) \<and> s' = prune_state c a s"
  by (simp add: ar_assert_per_owner_limit_def ar_assert_per_owner_limit_for_ok)

end
