(* ===== verification/AlertEffects.thy ===== *)
theory AlertEffects
  imports AlertView
begin

text \<open>
  For every entry point of \<open>AlertRegistry\<close> that changes state: what holds when it returns, and
  the abstract update it has performed.
\<close>

lemma prune_sel [simp]:
  "v_admins (prune a v) = v_admins v" "v_limit (prune a v) = v_limit v"
  "v_paused (prune a v) = v_paused v" "v_watchreg (prune a v) = v_watchreg v"
  "v_count (prune a v) = v_count v" "v_alerts (prune a v) = v_alerts v"
  "v_flags (prune a v) = v_flags v" "v_watching (prune a v) = v_watching v"
  "v_events (prune a v) = v_events v"
  by (simp_all add: prune_def)

lemma view_sel_of_state:
  "view_of t = v \<Longrightarrow> ar_get_alert_count t = v_count v"
  "view_of t = v \<Longrightarrow> ids_at (OwnerIndexes t) = v_owned v"
  "view_of t = v \<Longrightarrow> ids_at (ContractIndexes t) = v_watching v"
  "view_of t = v \<Longrightarrow> p_get (Alerts t) = v_alerts v"
  "view_of t = v \<Longrightarrow> events t = v_events v"
  by auto

lemma prune_state_sel [simp]:
  "ar_get_alert_count (prune_state c a s) = ar_get_alert_count s"
  "ids_at (OwnerIndexes (prune_state c a s)) = v_owned (prune a (view_of s))"
  "ids_at (ContractIndexes (prune_state c a s)) = ids_at (ContractIndexes s)"
  "p_get (Alerts (prune_state c a s)) = p_get (Alerts s)"
  "p_get (AlertActives (prune_state c a s)) = p_get (AlertActives s)"
  "events (prune_state c a s) = events s"
  using view_sel_of_state [OF view_of_prune_state [of c a s]]
  by (auto simp: prune_state_def Let_def)

lemma view_of_owners:
  "view_of (OwnerIndexes_update f s) = (view_of s)\<lparr>v_owned := ids_at (f (OwnerIndexes s))\<rparr>"
  by (simp add: view_of_def)

lemmas op_ok = ok_simps Let_def

section \<open>Registration\<close>

definition new_config ::
  "address \<Rightarrow> address \<Rightarrow> string \<Rightarrow> string \<Rightarrow> string list \<Rightarrow> string list option \<Rightarrow> u64 \<Rightarrow> alert_config"
  where
  "new_config own target lbl hash rls tgs t =
     \<lparr>label = lbl, webhook_hash = hash, rules = rls, owner = own, target_contract = target,
      created_at = t, updated_at = t, active = True, pending_webhook_hash = None, tags = tgs\<rparr>"

lemma new_config_sel [simp]:
  "label (new_config own target lbl hash rls tgs t) = lbl"
  "webhook_hash (new_config own target lbl hash rls tgs t) = hash"
  "rules (new_config own target lbl hash rls tgs t) = rls"
  "owner (new_config own target lbl hash rls tgs t) = own"
  "target_contract (new_config own target lbl hash rls tgs t) = target"
  "created_at (new_config own target lbl hash rls tgs t) = t"
  "updated_at (new_config own target lbl hash rls tgs t) = t"
  "active (new_config own target lbl hash rls tgs t)"
  "pending_webhook_hash (new_config own target lbl hash rls tgs t) = None"
  "tags (new_config own target lbl hash rls tgs t) = tgs"
  by (simp_all add: new_config_def)

text \<open>The state after the writes of a registration.\<close>

definition registered_state ::
  "alert_ctx \<Rightarrow> alert_config \<Rightarrow> alert_state \<Rightarrow> alert_state" where
  "registered_state c cfg s =
     (let i = ar_get_alert_count s in
      (ContractIndexes_update (index_push c (target_contract cfg) i)
       (OwnerIndexes_update (index_push c (owner cfg) i)
         (AlertActives_update (store_entry c i (active cfg))
           (Alerts_update (store_entry c i cfg)
             (s\<lparr>NEXT_ID := Some (i + 1),
                instance_until :=
                  extend_until c (instance_until s) AR_DEFAULT_TTL AR_DEFAULT_TTL\<rparr>)))))
     \<lparr>events := events s @
        [\<lparr>topic0 = ''alert'', topic1 = ''register'',
          event_data = [VU64 i, VAddr (owner cfg), VAddr (target_contract cfg)]\<rparr>]\<rparr>)"

lemma view_of_registered_state [simp]:
  "view_of (registered_state c cfg s) = create cfg (view_of s)"
  by (simp add: registered_state_def create_def emit_def put_def put_flag_def Let_def)

lemma ar_register_alert_iff:
  "ar_register_alert own target lbl hash rls tgs c s = (Inr i, s') \<longleftrightarrow>
   \<not> ar_is_paused s \<and> length hash = 64 \<and> authorized c own \<and> length lbl \<le> 128 \<and>
   valid_rules rls \<and> valid_tags tgs \<and> within_limit own 1 (view_of s) \<and>
   i = ar_get_alert_count s \<and> unat i + 1 < 18446744073709551616 \<and>
   i \<notin> set (v_owned (prune own (view_of s)) own) \<and> i \<notin> set (ids_at (ContractIndexes s) target) \<and>
   s' = registered_state c (new_config own target lbl hash rls tgs (timestamp c))
          (prune_state c own s)"
  by (auto simp: ar_register_alert_def op_ok registered_state_def new_config_def)

lemma ar_register_alert_effect:
  assumes "ar_register_alert own target lbl hash rls tgs c s = (Inr i, s')"
  shows "\<not> ar_is_paused s" "authorized c own" "length hash = 64" "length lbl \<le> 128"
    "valid_rules rls" "valid_tags tgs" "within_limit own 1 (view_of s)"
    "i = ar_get_alert_count s" "unat i + 1 < 18446744073709551616"
    "i \<notin> set (v_owned (prune own (view_of s)) own)" "i \<notin> set (ids_at (ContractIndexes s) target)"
    "view_of s' =
       create (new_config own target lbl hash rls tgs (timestamp c)) (prune own (view_of s))"
  using assms by (auto simp: ar_register_alert_iff)

section \<open>Mutation of one alert\<close>

lemma ar_set_alert_active_by_admin_effect:
  assumes "ar_set_alert_active_by_admin admin i b c s = (Inr u, s')"
  obtains cfg where "authorized c admin" "ar_admin.is_admin_of admin s"
    "p_get (Alerts s) i = Some cfg"
    "view_of s' = emit ''update'' [VU64 i, VAddr admin, VBool b]
       (put_flag i b (put i (cfg\<lparr>active := b, updated_at := timestamp c\<rparr>) (view_of s)))"
  using assms
  by (auto simp: ar_set_alert_active_by_admin_def op_ok emit_def put_def put_flag_def)

lemma ar_update_alert_effect:
  assumes "ar_update_alert caller i rls b c s = (Inr u, s')"
  obtains cfg where "\<not> ar_is_paused s" "authorized c caller" "p_get (Alerts s) i = Some cfg"
    "owner cfg = caller" "valid_rules rls"
    "view_of s' = emit ''update'' [VU64 i, VAddr caller, VBool b]
       (put_flag i b
         (put i (cfg\<lparr>rules := rls, active := b, updated_at := timestamp c\<rparr>) (view_of s)))"
  using assms
  by (auto simp: ar_update_alert_def op_ok emit_def put_def put_flag_def)

lemma ar_update_webhook_effect:
  assumes "ar_update_webhook caller i hash c s = (Inr u, s')"
  obtains cfg where "\<not> ar_is_paused s" "authorized c caller" "p_get (Alerts s) i = Some cfg"
    "owner cfg = caller" "length hash = 64"
    "view_of s' = emit ''webhook'' [VU64 i, VAddr caller]
       (put i (cfg\<lparr>webhook_hash := hash, updated_at := timestamp c\<rparr>) (view_of s))"
  using assms
  by (auto simp: ar_update_webhook_def op_ok emit_def put_def)

lemma ar_propose_webhook_effect:
  assumes "ar_propose_webhook caller i hash c s = (Inr u, s')"
  obtains cfg where "authorized c caller" "p_get (Alerts s) i = Some cfg" "owner cfg = caller"
    "view_of s' = emit ''wh_prop'' [VU64 i, VAddr caller]
       (put i (cfg\<lparr>pending_webhook_hash := Some hash, updated_at := timestamp c\<rparr>) (view_of s))"
  using assms
  by (auto simp: ar_propose_webhook_def op_ok emit_def put_def)

lemma ar_confirm_webhook_effect:
  assumes "ar_confirm_webhook caller i c s = (Inr u, s')"
  obtains cfg pending where "authorized c caller" "p_get (Alerts s) i = Some cfg"
    "owner cfg = caller" "pending_webhook_hash cfg = Some pending"
    "view_of s' = emit ''webhook'' [VU64 i, VAddr caller]
       (put i (cfg\<lparr>pending_webhook_hash := None, webhook_hash := pending,
                  updated_at := timestamp c\<rparr>) (view_of s))"
  using assms
  by (auto simp: ar_confirm_webhook_def op_ok emit_def put_def)

lemma ar_update_label_effect:
  assumes "ar_update_label caller i lbl c s = (Inr u, s')"
  obtains cfg where "\<not> ar_is_paused s" "authorized c caller" "p_get (Alerts s) i = Some cfg"
    "owner cfg = caller" "length lbl \<le> 128"
    "view_of s' = emit ''update'' [VU64 i, VAddr caller, VBool (active cfg)]
       (put i (cfg\<lparr>label := lbl, updated_at := timestamp c\<rparr>) (view_of s))"
  using assms
  by (auto simp: ar_update_label_def op_ok emit_def put_def)

lemma ar_update_tags_effect:
  assumes "ar_update_tags caller i tgs c s = (Inr u, s')"
  obtains cfg where "\<not> ar_is_paused s" "authorized c caller" "p_get (Alerts s) i = Some cfg"
    "owner cfg = caller" "valid_tags tgs"
    "view_of s' = emit ''tags'' [VU64 i, VAddr caller]
       (put i (cfg\<lparr>tags := tgs, updated_at := timestamp c\<rparr>) (view_of s))"
  using assms
  by (auto simp: ar_update_tags_def op_ok emit_def put_def)

lemma ar_remove_alert_effect:
  assumes "ar_remove_alert caller i c s = (Inr u, s')"
  obtains cfg where "\<not> ar_is_paused s" "authorized c caller" "p_get (Alerts s) i = Some cfg"
    "owner cfg = caller"
    "view_of s' = emit ''remove'' [VU64 i, VAddr caller] (erase i cfg (view_of s))"
  using assms
  by (auto simp: ar_remove_alert_def ar_remove_alert_record_def op_ok emit_def erase_def)

lemma ar_remove_alert_by_admin_effect:
  assumes "ar_remove_alert_by_admin admin i c s = (Inr u, s')"
  obtains cfg where "\<not> ar_is_paused s" "authorized c admin" "ar_admin.is_admin_of admin s"
    "p_get (Alerts s) i = Some cfg"
    "view_of s' = emit ''remove'' [VU64 i, VAddr admin, VAddr (owner cfg)]
       (erase i cfg (view_of s))"
  using assms
  by (auto simp: ar_remove_alert_by_admin_def ar_remove_alert_record_by_admin_def op_ok
      emit_def erase_def)

text \<open>The alert \<open>i\<close>, stored as \<open>cfg\<close>, moves to another target contract.\<close>

definition retarget :: "u64 \<Rightarrow> alert_config \<Rightarrow> address \<Rightarrow> u64 \<Rightarrow> ar_view \<Rightarrow> ar_view" where
  "retarget i cfg target t v =
     (put i (cfg\<lparr>target_contract := target, updated_at := t\<rparr>) v)
       \<lparr>v_watching := list_under target i
                        (unlist_under (target_contract cfg) i (v_watching v))\<rparr>"

lemma ar_update_target_contract_effect:
  assumes "ar_update_target_contract caller i target c s = (Inr u, s')"
  obtains cfg where "\<not> ar_is_paused s" "authorized c caller" "p_get (Alerts s) i = Some cfg"
    "owner cfg = caller"
    "i \<notin> set (unlist_under (target_contract cfg) i (ids_at (ContractIndexes s)) target)"
    "view_of s' = retarget i cfg target (timestamp c) (view_of s)"
  using assms
  by (auto simp: ar_update_target_contract_def op_ok retarget_def put_def ids_at_updates
      unlist_under_def split: if_splits)

text \<open>The alert \<open>i\<close>, stored as \<open>cfg\<close>, moves to another owner.\<close>

definition reown :: "u64 \<Rightarrow> alert_config \<Rightarrow> address \<Rightarrow> u64 \<Rightarrow> ar_view \<Rightarrow> ar_view" where
  "reown i cfg new_owner t v =
     (put i (cfg\<lparr>owner := new_owner, updated_at := t\<rparr>) v)
       \<lparr>v_owned := list_under new_owner i (unlist_under (owner cfg) i (v_owned v))\<rparr>"

lemma ar_transfer_alert_ownership_effect:
  assumes "ar_transfer_alert_ownership own i new_owner c s = (Inr u, s')"
  obtains (same) cfg where "\<not> ar_is_paused s" "authorized c own" "p_get (Alerts s) i = Some cfg"
      "owner cfg = own" "new_owner = own" "s' = s"
  | (moved) cfg where "\<not> ar_is_paused s" "authorized c own" "p_get (Alerts s) i = Some cfg"
      "owner cfg = own" "new_owner \<noteq> own" "within_limit new_owner 1 (view_of s)"
      "i \<notin> set (v_owned (prune new_owner (view_of s)) new_owner)"
      "view_of s' = emit ''transfer'' [VU64 i, VAddr own, VAddr new_owner]
         (reown i cfg new_owner (timestamp c) (prune new_owner (view_of s)))"
proof (cases "new_owner = own")
  case True
  with assms same show thesis
    by (auto simp: ar_transfer_alert_ownership_def op_ok)
next
  case False
  with assms obtain cfg where
    facts: "\<not> ar_is_paused s" "authorized c own" "p_get (Alerts s) i = Some cfg" "owner cfg = own"
      "within_limit new_owner 1 (view_of s)"
      "i \<notin> set (v_owned (prune new_owner (view_of s)) new_owner)" and
    s': "s' = (let t = prune_state c new_owner s
      in Alerts_update (store_entry c i (cfg\<lparr>owner := new_owner, updated_at := timestamp c\<rparr>))
          (OwnerIndexes_update (\<lambda>m. index_push c new_owner i (index_remove c own i m)) t)
        \<lparr>events := events t @ [\<lparr>topic0 = ''alert'', topic1 = ''transfer'',
                    event_data = [VU64 i, VAddr own, VAddr new_owner]\<rparr>]\<rparr>)"
    by (auto simp: ar_transfer_alert_ownership_def op_ok comp_def)
  from s' \<open>owner cfg = own\<close> show thesis
    by (intro moved [OF facts(1-4) False facts(5,6)])
      (simp add: Let_def view_of_owners ids_at_updates emit_def reown_def put_def)
qed

section \<open>Lifetimes\<close>

lemma ar_bump_alert_effect:
  assumes "ar_bump_alert i ttl c s = (Inr u, s')"
  obtains cfg where "\<not> ar_is_paused s" "p_get (Alerts s) i = Some cfg"
    "view_of s' = emit ''bump'' [VU64 i, VU32 (min ttl AR_MAX_TTL)] (view_of s)"
  using assms
  by (auto simp: ar_bump_alert_def op_ok emit_def split: if_splits)

lemma ar_get_alert_effect:
  assumes "ar_get_alert i c s = (Inr r, s')"
  shows "r = p_get (Alerts s) i" "view_of s' = view_of s"
  using assms by (auto simp: ar_get_alert_def op_ok split: if_splits)

text \<open>The events of a bulk renewal: one per identifier that is stored.\<close>

definition renewals :: "u64 list \<Rightarrow> ar_view \<Rightarrow> ar_view" where
  "renewals ids v =
     v\<lparr>v_events := v_events v @
        map (\<lambda>i. \<lparr>topic0 = ''alert'', topic1 = ''bump'',
                  event_data = [VU64 i, VU32 AR_DEFAULT_TTL]\<rparr>)
          (filter (\<lambda>i. v_alerts v i \<noteq> None) ids)\<rparr>"

lemma renewals_Cons:
  "renewals (i # ids) v =
   (if v_alerts v i = None then renewals ids v
    else renewals ids (emit ''bump'' [VU64 i, VU32 AR_DEFAULT_TTL] v))"
  by (auto simp: renewals_def emit_def)

lemma ar_bulk_renew_loop_effect:
  "ar_bulk_renew_loop ids n c s = (Inr m, s') \<Longrightarrow>
   unat m = unat n + length (filter (\<lambda>i. p_get (Alerts s) i \<noteq> None) ids) \<and>
   view_of s' = renewals ids (view_of s)"
proof (induction ids arbitrary: n s)
  case Nil
  then show ?case by (simp add: ret_ok renewals_def)
next
  case (Cons i ids)
  show ?case
  proof (cases "p_get (Alerts s) i")
    case None
    with Cons show ?thesis by (simp add: bind_ok gets_ok renewals_Cons)
  next
    case (Some cfg)
    define t where "t =
      (ContractIndexes_update (p_extend c (target_contract cfg) AR_DEFAULT_TTL AR_DEFAULT_TTL)
        (OwnerIndexes_update (p_extend c (owner cfg) AR_DEFAULT_TTL AR_DEFAULT_TTL)
          (AlertActives_update (p_extend c i AR_DEFAULT_TTL AR_DEFAULT_TTL)
            (Alerts_update (p_extend c i AR_DEFAULT_TTL AR_DEFAULT_TTL) s))))
      \<lparr>events := events s @ [\<lparr>topic0 = ''alert'', topic1 = ''bump'',
                                event_data = [VU64 i, VU32 AR_DEFAULT_TTL]\<rparr>]\<rparr>"
    from Some Cons.prems obtain k where
      k: "checked_add n 1 = Some k" and
      rest: "ar_bulk_renew_loop ids k c t = (Inr m, s')"
      unfolding t_def by (auto simp: op_ok)
    have view: "view_of t = emit ''bump'' [VU64 i, VU32 AR_DEFAULT_TTL] (view_of s)"
      by (simp add: t_def emit_def)
    from view have "p_get (Alerts t) = p_get (Alerts s)"
      using view_sel_of_state(4) [OF view] by (simp add: emit_def)
    moreover have "unat k = Suc (unat n)"
      using checked_add_SomeD [OF k, THEN conjunct2] by simp
    ultimately show ?thesis
      using Cons.IH [OF rest] Some view by (simp add: renewals_Cons)
  qed
qed

section \<open>Bulk deactivation\<close>

fun deactivations :: "u64 \<Rightarrow> u64 list \<Rightarrow> ar_view \<Rightarrow> ar_view" where
  "deactivations t [] v = v"
| "deactivations t (i # ids) v =
     deactivations t ids
       (case v_alerts v i of
          Some cfg \<Rightarrow> if active cfg
                      then put_flag i False (put i (cfg\<lparr>active := False, updated_at := t\<rparr>) v)
                      else v
        | None \<Rightarrow> v)"

lemma ar_deactivate_loop_effect:
  "ar_deactivate_loop ids n c s = (Inr m, s') \<Longrightarrow>
   view_of s' = deactivations (timestamp c) ids (view_of s)"
proof (induction ids arbitrary: n s)
  case Nil
  then show ?case by (simp add: ret_ok)
next
  case (Cons i ids)
  then show ?case
    by (fastforce simp: op_ok split: option.splits if_splits)
qed

lemma ar_deactivate_all_alerts_effect:
  assumes "ar_deactivate_all_alerts caller c s = (Inr m, s')"
  shows "\<not> ar_is_paused s" "authorized c caller"
    "view_of s' = deactivations (timestamp c) (ids_at (OwnerIndexes s) caller) (view_of s)"
  using assms ar_deactivate_loop_effect
  by (auto simp: ar_deactivate_all_alerts_def op_ok ar_owner_index_ids)

section \<open>Batch registration\<close>

definition batch_config :: "address \<Rightarrow> u64 \<Rightarrow> alert_input \<Rightarrow> alert_config" where
  "batch_config own t input =
     new_config own (input_target_contract input) (input_label input) (input_webhook_hash input)
       (input_rules input) None t"

fun creations :: "address \<Rightarrow> u64 \<Rightarrow> alert_input list \<Rightarrow> ar_view \<Rightarrow> ar_view" where
  "creations own t [] v = v"
| "creations own t (input # inputs) v =
     creations own t inputs (create (batch_config own t input) v)"

definition valid_input :: "alert_input \<Rightarrow> bool" where
  "valid_input input \<longleftrightarrow>
     length (input_webhook_hash input) = 64 \<and> length (input_label input) \<le> 128 \<and>
     valid_rules (input_rules input)"

lemma v_count_create [simp]: "v_count (create cfg v) = v_count v + 1"
  by (simp add: create_def emit_def Let_def)

lemma ar_batch_loop_effect:
  "ar_batch_loop own t inputs ids c s = (Inr ids', s') \<Longrightarrow>
   view_of s' = creations own t inputs (view_of s) \<and>
   ids' = ids @ map (\<lambda>k. ar_get_alert_count s + word_of_nat k) [0..<length inputs] \<and>
   (inputs = [] \<or> unat (ar_get_alert_count s) + length inputs < 18446744073709551616)"
proof (induction inputs arbitrary: ids s)
  case Nil
  then show ?case by (simp add: ret_ok)
next
  case (Cons input inputs)
  let ?i = "ar_get_alert_count s"
  define t' where "t' = registered_state c (batch_config own t input) s"
  from Cons.prems have rest: "ar_batch_loop own t inputs (ids @ [?i]) c t' = (Inr ids', s')"
    by (auto simp: op_ok t'_def registered_state_def new_config_def batch_config_def)
  have view: "view_of t' = create (batch_config own t input) (view_of s)"
    by (simp add: t'_def)
  from view have "ar_get_alert_count t' = ?i + 1"
    using view_sel_of_state(1) [OF view] by simp
  moreover from Cons.prems have no_overflow: "unat ?i + 1 < 18446744073709551616"
    by (auto simp: op_ok)
  then have "unat (?i + 1) = unat ?i + 1"
    by (simp add: unat_word_ariths)
  ultimately show ?case
    using Cons.IH [OF rest] view no_overflow
    by (auto simp: upt_conv_Cons map_Suc_upt [symmetric] add.assoc simp del: upt_Suc)
qed

lemma for_each_checks_ok:
  assumes "\<And>x s u s'. f x c s = (Inr u, s') \<longleftrightarrow> P x \<and> s' = s"
  shows "for_each xs f c s = (Inr u, s') \<longleftrightarrow> (\<forall>x \<in> set xs. P x) \<and> s' = s"
  using assms by (induction xs) (auto simp: for_each_Nil_ok for_each_Cons_ok)

lemma ar_batch_register_alerts_effect:
  assumes "ar_batch_register_alerts own inputs c s = (Inr ids, s')"
  shows "\<not> ar_is_paused s" "authorized c own" "length inputs \<le> 50"
    "\<forall>input \<in> set inputs. valid_input input"
    "within_limit own (word_of_nat (length inputs)) (view_of s)"
    "ids = map (\<lambda>k. ar_get_alert_count s + word_of_nat k) [0..<length inputs]"
    "view_of s' = creations own (timestamp c) inputs (prune own (view_of s))"
    "inputs = [] \<or> unat (ar_get_alert_count s) + length inputs < 18446744073709551616"
proof -
  have checks: "for_each inputs (\<lambda>input. block
          [reject_if (length (input_webhook_hash input) \<noteq> 64) InvalidWebhookHash,
           ar_validate_label (input_label input),
           ar_validate_rules (input_rules input)]) c s = (Inr u, t) \<longleftrightarrow>
      (\<forall>input \<in> set inputs. valid_input input) \<and> t = s" for u t and s :: alert_state
    by (rule for_each_checks_ok) (auto simp: op_ok valid_input_def)
  from assms have loop: "ar_batch_loop own (timestamp c) inputs [] c (prune_state c own s) = (Inr ids, s')"
    and all: "\<not> ar_is_paused s \<and> authorized c own \<and> length inputs \<le> 50 \<and>
      (\<forall>input \<in> set inputs. valid_input input) \<and>
      within_limit own (word_of_nat (length inputs)) (view_of s)"
    by (auto simp: ar_batch_register_alerts_def ok_simps checks AR_MAX_BATCH_SIZE_def)
  from all show "\<not> ar_is_paused s" "authorized c own" "length inputs \<le> 50"
    "\<forall>input \<in> set inputs. valid_input input"
    "within_limit own (word_of_nat (length inputs)) (view_of s)"
    by blast+
  from ar_batch_loop_effect [OF loop] show
    "ids = map (\<lambda>k. ar_get_alert_count s + word_of_nat k) [0..<length inputs]"
    "view_of s' = creations own (timestamp c) inputs (prune own (view_of s))"
    "inputs = [] \<or> unat (ar_get_alert_count s) + length inputs < 18446744073709551616"
    by simp_all
qed

section \<open>Configuration\<close>

lemma ar_initialize_effect:
  assumes "ar_initialize admin c s = (Inr u, s')"
  shows "ADMIN s = None"
    "view_of s' = emit_admin ''init'' [VAddr admin] ((view_of s)\<lparr>v_admins := Some [admin]\<rparr>)"
  using assms by (auto simp: ar_initialize_def op_ok emit_admin_def)

lemma ar_transfer_admin_effect:
  assumes "ar_transfer_admin admin new_admin c s = (Inr u, s')"
  shows "authorized c admin" "ar_admin.is_admin_of admin s"
    "view_of s' = emit_admin ''transfer'' [VAddr admin, VAddr new_admin]
       ((view_of s)\<lparr>v_admins := Some [new_admin]\<rparr>)"
  using assms by (auto simp: ar_transfer_admin_def op_ok emit_admin_def)

lemma ar_add_admin_effect:
  assumes "ar_add_admin caller new_admin c s = (Inr u, s')"
  obtains admins where "authorized c caller" "ar_load_admins s = Some admins"
    "caller \<in> set admins" "new_admin \<notin> set admins"
    "view_of s' = emit_admin ''add'' [VAddr caller, VAddr new_admin]
       ((view_of s)\<lparr>v_admins := Some (admins @ [new_admin])\<rparr>)"
  using assms by (auto simp: ar_add_admin_def op_ok emit_admin_def ar_admin.is_admin_of_def)

lemma ar_remove_admin_effect:
  assumes "ar_remove_admin caller target_admin c s = (Inr u, s')"
  obtains admins where "authorized c caller" "ar_load_admins s = Some admins"
    "caller \<in> set admins" "target_admin \<in> set admins" "1 < length admins"
    "view_of s' = emit_admin ''remove'' [VAddr caller, VAddr target_admin]
       ((view_of s)\<lparr>v_admins := Some (filter (\<lambda>a. a \<noteq> target_admin) admins)\<rparr>)"
  using assms
  by (auto simp: ar_remove_admin_def op_ok emit_admin_def ar_admin.is_admin_of_def not_le)

lemma ar_set_per_owner_alert_limit_effect:
  assumes "ar_set_per_owner_alert_limit admin limit c s = (Inr u, s')"
  shows "authorized c admin" "ar_admin.is_admin_of admin s"
    "view_of s' = emit_admin ''limit'' [VAddr admin, VU32 limit] ((view_of s)\<lparr>v_limit := limit\<rparr>)"
  using assms by (auto simp: ar_set_per_owner_alert_limit_def op_ok emit_admin_def)

lemma ar_set_paused_effect:
  assumes "ar_set_paused admin p c s = (Inr u, s')"
  shows "authorized c admin" "ar_admin.is_admin_of admin s"
    "view_of s' = emit_admin (if p then ''pause'' else ''unpause'') [VAddr admin]
       ((view_of s)\<lparr>v_paused := p\<rparr>)"
  using assms by (auto simp: ar_set_paused_def op_ok emit_admin_def)

lemma ar_set_watcher_registry_effect:
  assumes "ar_set_watcher_registry admin w c s = (Inr u, s')"
  shows "authorized c admin" "ar_admin.is_admin_of admin s"
    "view_of s' = (view_of s)\<lparr>v_watchreg := Some w\<rparr>"
  using assms by (auto simp: ar_set_watcher_registry_def op_ok)

end
