(* ===== verification/AlertSpec.thy ===== *)
theory AlertSpec
  imports AlertEffects
begin

text \<open>
  What the alert registry promises, as a step relation on its abstract state: every change is
  one of a few kinds, each with the authority it needs. The calls of the contract are the
  values of \<open>ar_call\<close>; \<open>ar_exec_refines\<close> shows that each of them performs only such changes.
\<close>

section \<open>The permitted changes\<close>

text \<open>What validation guarantees of a stored alert (the webhook hash is not part of it).\<close>

definition wf_config :: "alert_config \<Rightarrow> bool" where
  "wf_config cfg \<longleftrightarrow> valid_rules (rules cfg) \<and> length (label cfg) \<le> 128 \<and> valid_tags (tags cfg)"

definition view_admin :: "address \<Rightarrow> ar_view \<Rightarrow> bool" where
  "view_admin a v \<longleftrightarrow> (\<exists>as. v_admins v = Some as \<and> a \<in> set as)"

definition log :: "event list \<Rightarrow> ar_view \<Rightarrow> ar_view" where
  "log es v = v\<lparr>v_events := v_events v @ es\<rparr>"

inductive ar_change :: "'x ctx_scheme \<Rightarrow> ar_view \<Rightarrow> ar_view \<Rightarrow> bool" for c where
  notify: "ar_change c v (log es v)"
| admins: "authorized c a \<Longrightarrow> v_admins v = Some as \<Longrightarrow> a \<in> set as \<Longrightarrow>
    as \<noteq> [] \<and> distinct as \<longrightarrow> as' \<noteq> [] \<and> distinct as' \<Longrightarrow> ar_change c v (log es (v\<lparr>v_admins := Some as'\<rparr>))"
| configure: "authorized c a \<Longrightarrow> view_admin a v \<Longrightarrow>
    ar_change c v (log es (v\<lparr>v_limit := l, v_paused := p, v_watchreg := w\<rparr>))"
| pruned: "ar_change c v (prune a v)"
| registered: "\<not> v_paused v \<Longrightarrow> authorized c (owner cfg) \<Longrightarrow> wf_config cfg \<Longrightarrow>
    active cfg \<Longrightarrow> created_at cfg = timestamp c \<Longrightarrow> updated_at cfg = timestamp c \<Longrightarrow>
    unat (v_count v) + 1 < 18446744073709551616 \<Longrightarrow> ar_change c v (create cfg v)"
| edited: "v_alerts v i = Some cfg \<Longrightarrow> authorized c (owner cfg) \<Longrightarrow>
    owner cfg' = owner cfg \<Longrightarrow> target_contract cfg' = target_contract cfg \<Longrightarrow>
    created_at cfg' = created_at cfg \<Longrightarrow> active cfg' = active cfg \<Longrightarrow>
    updated_at cfg' = timestamp c \<Longrightarrow> wf_config cfg \<longrightarrow> wf_config cfg' \<Longrightarrow>
    \<not> v_paused v \<or>
      cfg' = cfg\<lparr>pending_webhook_hash := pending_webhook_hash cfg',
                webhook_hash := webhook_hash cfg', updated_at := timestamp c\<rparr> \<Longrightarrow>
    ar_change c v (log es (put i cfg' v))"
| switched: "v_alerts v i = Some cfg \<Longrightarrow> authorized c a \<Longrightarrow>
    a = owner cfg \<and> \<not> v_paused v \<and> (rls = rules cfg \<or> valid_rules rls) \<or>
      view_admin a v \<and> rls = rules cfg \<Longrightarrow>
    ar_change c v (log es
      (put_flag i b (put i (cfg\<lparr>rules := rls, active := b, updated_at := timestamp c\<rparr>) v)))"
| erased: "\<not> v_paused v \<Longrightarrow> v_alerts v i = Some cfg \<Longrightarrow> authorized c a \<Longrightarrow>
    a = owner cfg \<or> view_admin a v \<Longrightarrow> ar_change c v (log es (erase i cfg v))"
| retargeted: "\<not> v_paused v \<Longrightarrow> v_alerts v i = Some cfg \<Longrightarrow> authorized c (owner cfg) \<Longrightarrow>
    i \<notin> set (unlist_under (target_contract cfg) i (v_watching v) target) \<Longrightarrow>
    ar_change c v (retarget i cfg target (timestamp c) v)"
| reowned: "\<not> v_paused v \<Longrightarrow> v_alerts v i = Some cfg \<Longrightarrow> authorized c (owner cfg) \<Longrightarrow>
    new_owner \<noteq> owner cfg \<Longrightarrow> i \<notin> set (v_owned v new_owner) \<Longrightarrow>
    ar_change c v (log es (reown i cfg new_owner (timestamp c) v))"

lemma emit_log:
  "emit t1 d v = log [\<lparr>topic0 = ''alert'', topic1 = t1, event_data = d\<rparr>] v"
  "emit_admin t1 d v = log [\<lparr>topic0 = ''admin'', topic1 = t1, event_data = d\<rparr>] v"
  by (simp_all add: emit_def emit_admin_def log_def)

lemma log_Nil: "log [] v = v"
  by (simp add: log_def)

text \<open>The first admin is installed once, on a contract that has none.\<close>

definition initial_admin :: "ar_view \<Rightarrow> ar_view \<Rightarrow> bool" where
  "initial_admin v v' \<longleftrightarrow>
     v_admins v = None \<and> (\<exists>a es. v' = log es (v\<lparr>v_admins := Some [a]\<rparr>))"

abbreviation ar_changes :: "'x ctx_scheme \<Rightarrow> ar_view \<Rightarrow> ar_view \<Rightarrow> bool" where
  "ar_changes c \<equiv> (ar_change c)\<^sup>*\<^sup>*"

lemma view_admin_of_state: "view_admin a (view_of s) \<longleftrightarrow> ar_admin.is_admin_of a s"
  by (simp add: view_admin_def ar_admin.is_admin_of_def)

section \<open>The invariant\<close>

text \<open>
  Identifiers in use are below the counter; an index lists an identifier once, and only under
  the owner and the target that the stored alert has; the separately stored flag is the
  alert's; the admin set is not empty and has no repetitions; stored alerts passed validation.
\<close>

definition ids_bounded :: "ar_view \<Rightarrow> bool" where
  "ids_bounded v \<longleftrightarrow>
     (\<forall>i. v_alerts v i \<noteq> None \<longrightarrow> i < v_count v) \<and>
     (\<forall>i. v_flags v i \<noteq> None \<longrightarrow> i < v_count v) \<and>
     (\<forall>a. \<forall>i \<in> set (v_owned v a). i < v_count v) \<and>
     (\<forall>a. \<forall>i \<in> set (v_watching v a). i < v_count v)"

definition indexes_distinct :: "ar_view \<Rightarrow> bool" where
  "indexes_distinct v \<longleftrightarrow> (\<forall>a. distinct (v_owned v a)) \<and> (\<forall>a. distinct (v_watching v a))"

definition indexes_sound :: "ar_view \<Rightarrow> bool" where
  "indexes_sound v \<longleftrightarrow>
     (\<forall>i cfg. v_alerts v i = Some cfg \<longrightarrow>
        (\<forall>a. i \<in> set (v_owned v a) \<longrightarrow> a = owner cfg) \<and>
        (\<forall>a. i \<in> set (v_watching v a) \<longrightarrow> a = target_contract cfg))"

definition flags_agree :: "ar_view \<Rightarrow> bool" where
  "flags_agree v \<longleftrightarrow>
     (\<forall>i cfg b. v_alerts v i = Some cfg \<longrightarrow> v_flags v i = Some b \<longrightarrow> b = active cfg)"

definition contents_valid :: "ar_view \<Rightarrow> bool" where
  "contents_valid v \<longleftrightarrow> (\<forall>i cfg. v_alerts v i = Some cfg \<longrightarrow> wf_config cfg)"

definition admins_ok :: "ar_view \<Rightarrow> bool" where
  "admins_ok v \<longleftrightarrow> (\<forall>as. v_admins v = Some as \<longrightarrow> as \<noteq> [] \<and> distinct as)"

definition view_ok :: "ar_view \<Rightarrow> bool" where
  "view_ok v \<longleftrightarrow> ids_bounded v \<and> indexes_distinct v \<and> indexes_sound v \<and> flags_agree v \<and>
     contents_valid v \<and> admins_ok v"

text \<open>
  Where nothing has expired, the indexes and the flags are exactly those of the stored
  alerts.
\<close>

definition view_exact :: "ar_view \<Rightarrow> bool" where
  "view_exact v \<longleftrightarrow>
     (\<forall>i cfg. v_alerts v i = Some cfg \<longrightarrow>
        i \<in> set (v_owned v (owner cfg)) \<and> i \<in> set (v_watching v (target_contract cfg))) \<and>
     (\<forall>a. \<forall>i \<in> set (v_owned v a). v_alerts v i \<noteq> None) \<and>
     (\<forall>a. \<forall>i \<in> set (v_watching v a). v_alerts v i \<noteq> None) \<and>
     (\<forall>i. v_flags v i = map_option active (v_alerts v i))"

lemmas inv_defs = ids_bounded_def indexes_distinct_def indexes_sound_def flags_agree_def
  contents_valid_def admins_ok_def

lemmas change_defs = log_def put_def put_flag_def list_under_def unlist_under_def erase_def
  prune_def retarget_def reown_def

lemma next_id_above: "unat (n :: u64) + 1 < 18446744073709551616 \<Longrightarrow> i < n + 1 \<longleftrightarrow> i \<le> n"
  by (simp add: word_less_nat_alt word_le_nat_alt unat_word_ariths less_Suc_eq_le)

lemma ids_bounded_change: "ar_change c v v' \<Longrightarrow> ids_bounded v \<Longrightarrow> ids_bounded v'"
proof (induction rule: ar_change.induct)
  case (registered v cfg)
  then show ?case
    by (auto simp: ids_bounded_def create_def emit_def Let_def list_under_def next_id_above
        intro: less_imp_le)
qed (auto simp: ids_bounded_def change_defs)

lemma indexes_distinct_change:
  "ar_change c v v' \<Longrightarrow> ids_bounded v \<Longrightarrow> indexes_distinct v \<Longrightarrow> indexes_distinct v'"
proof (induction rule: ar_change.induct)
  case (registered v cfg)
  then have "v_count v \<notin> set (v_owned v a)" "v_count v \<notin> set (v_watching v a)" for a
    by (auto simp: ids_bounded_def)
  with registered show ?case
    by (auto simp: indexes_distinct_def create_def emit_def Let_def list_under_def)
qed (auto simp: indexes_distinct_def change_defs)

lemma indexes_sound_change:
  "ar_change c v v' \<Longrightarrow> ids_bounded v \<Longrightarrow> indexes_sound v \<Longrightarrow> indexes_sound v'"
proof (induction rule: ar_change.induct)
  case (registered v cfg)
  then have "v_count v \<notin> set (v_owned v a)" "v_count v \<notin> set (v_watching v a)" for a
    by (auto simp: ids_bounded_def)
  with registered show ?case
    by (auto simp: indexes_sound_def create_def emit_def Let_def list_under_def)
qed (auto simp: indexes_sound_def change_defs split: if_splits)

lemma flags_agree_change:
  "ar_change c v v' \<Longrightarrow> ids_bounded v \<Longrightarrow> flags_agree v \<Longrightarrow> flags_agree v'"
  by (induction rule: ar_change.induct)
    (auto simp: flags_agree_def change_defs create_def emit_def Let_def split: if_splits)

lemma contents_valid_change: "ar_change c v v' \<Longrightarrow> contents_valid v \<Longrightarrow> contents_valid v'"
  by (induction rule: ar_change.induct)
    (auto simp: contents_valid_def change_defs create_def emit_def Let_def wf_config_def
      split: if_splits)

lemma admins_ok_change: "ar_change c v v' \<Longrightarrow> admins_ok v \<Longrightarrow> admins_ok v'"
  by (induction rule: ar_change.induct)
    (auto simp: admins_ok_def change_defs create_def emit_def Let_def)

lemma view_ok_change: "ar_change c v v' \<Longrightarrow> view_ok v \<Longrightarrow> view_ok v'"
  by (simp add: view_ok_def ids_bounded_change indexes_distinct_change indexes_sound_change
      flags_agree_change contents_valid_change admins_ok_change)

lemma view_ok_changes: "ar_changes c v v' \<Longrightarrow> view_ok v \<Longrightarrow> view_ok v'"
  by (induction rule: rtranclp_induct) (auto intro: view_ok_change)

lemma view_exact_change: "ar_change c v v' \<Longrightarrow> view_ok v \<Longrightarrow> view_exact v \<Longrightarrow> view_exact v'"
proof (induction rule: ar_change.induct)
  case (registered v cfg)
  then show ?case
    by (auto simp: view_exact_def create_def emit_def Let_def list_under_def) metis+
next
  case (erased v i cfg a es)
  then show ?case
    by (auto simp: view_ok_def indexes_sound_def view_exact_def change_defs split: if_splits)
      metis+
next
  case (retargeted v i cfg target)
  then show ?case
    by (auto simp: view_ok_def indexes_sound_def view_exact_def change_defs split: if_splits)
      metis+
next
  case (reowned v i cfg new_owner es)
  then show ?case
    by (auto simp: view_ok_def indexes_sound_def view_exact_def change_defs split: if_splits)
      metis+
qed (auto simp: view_exact_def change_defs split: if_splits)

lemma view_exact_changes:
  "ar_changes c v v' \<Longrightarrow> view_ok v \<Longrightarrow> view_exact v \<Longrightarrow> view_exact v'"
proof (induction rule: rtranclp_induct)
  case (step v1 v2)
  then show ?case using view_ok_changes view_exact_change by blast
qed

text \<open>The initial admin, and the loss of an entry, keep the invariant too.\<close>

lemma view_ok_initial_admin: "initial_admin v v' \<Longrightarrow> view_ok v \<Longrightarrow> view_ok v'"
  by (auto simp: initial_admin_def view_ok_def inv_defs log_def)

lemma view_exact_initial_admin: "initial_admin v v' \<Longrightarrow> view_exact v \<Longrightarrow> view_exact v'"
  by (auto simp: initial_admin_def view_exact_def log_def)

inductive ar_forget :: "ar_view \<Rightarrow> ar_view \<Rightarrow> bool" where
  forget_alert: "ar_forget v (v\<lparr>v_alerts := (v_alerts v)(i := None)\<rparr>)"
| forget_flag: "ar_forget v (v\<lparr>v_flags := (v_flags v)(i := None)\<rparr>)"
| forget_owned: "ar_forget v (v\<lparr>v_owned := (v_owned v)(a := [])\<rparr>)"
| forget_watching: "ar_forget v (v\<lparr>v_watching := (v_watching v)(a := [])\<rparr>)"

lemma view_ok_forget: "ar_forget v v' \<Longrightarrow> view_ok v \<Longrightarrow> view_ok v'"
  by (induction rule: ar_forget.induct) (auto simp: view_ok_def inv_defs split: if_splits)

section \<open>The calls\<close>

text \<open>The entry points that can write, with their arguments.\<close>

datatype ar_call =
    Initialize address
  | TransferAdmin address address
  | AddAdmin address address
  | RemoveAdmin address address
  | SetLimit address u32
  | SetPaused address bool
  | SetWatcherRegistry address address
  | RegisterAlert address address string string "string list" "string list option"
  | BatchRegister address "alert_input list"
  | PauseAlert address u64
  | UnpauseAlert address u64
  | UpdateAlert address u64 "string list" bool
  | UpdateWebhook address u64 string
  | ProposeWebhook address u64 string
  | ConfirmWebhook address u64
  | UpdateLabel address u64 string
  | UpdateTags address u64 "string list option"
  | UpdateTarget address u64 address
  | TransferOwnership address u64 address
  | RemoveAlert address u64
  | RemoveAlertByAdmin address u64
  | BumpAlert u64 u32
  | BulkRenew "u64 list"
  | DeactivateAll address
  | GetAlert u64

definition discard :: "('c, 's, 'e, 'a) op \<Rightarrow> ('c, 's, 'e, unit) op" where
  "discard m = bind m (\<lambda>_. ret ())"

lemma discard_ok: "discard m c s = (Inr u, s') \<longleftrightarrow> (\<exists>a. m c s = (Inr a, s'))"
  by (auto simp: discard_def bind_ok ret_ok)

fun ar_exec :: "ar_call \<Rightarrow> unit ar_op" where
  "ar_exec (Initialize a) = ar_initialize a"
| "ar_exec (TransferAdmin a b) = ar_transfer_admin a b"
| "ar_exec (AddAdmin a b) = ar_add_admin a b"
| "ar_exec (RemoveAdmin a b) = ar_remove_admin a b"
| "ar_exec (SetLimit a l) = ar_set_per_owner_alert_limit a l"
| "ar_exec (SetPaused a p) = ar_set_paused a p"
| "ar_exec (SetWatcherRegistry a w) = ar_set_watcher_registry a w"
| "ar_exec (RegisterAlert a t l h r g) = discard (ar_register_alert a t l h r g)"
| "ar_exec (BatchRegister a xs) = discard (ar_batch_register_alerts a xs)"
| "ar_exec (PauseAlert a i) = ar_pause_alert a i"
| "ar_exec (UnpauseAlert a i) = ar_unpause_alert a i"
| "ar_exec (UpdateAlert a i r b) = ar_update_alert a i r b"
| "ar_exec (UpdateWebhook a i h) = ar_update_webhook a i h"
| "ar_exec (ProposeWebhook a i h) = ar_propose_webhook a i h"
| "ar_exec (ConfirmWebhook a i) = ar_confirm_webhook a i"
| "ar_exec (UpdateLabel a i l) = ar_update_label a i l"
| "ar_exec (UpdateTags a i g) = ar_update_tags a i g"
| "ar_exec (UpdateTarget a i t) = ar_update_target_contract a i t"
| "ar_exec (TransferOwnership a i b) = ar_transfer_alert_ownership a i b"
| "ar_exec (RemoveAlert a i) = ar_remove_alert a i"
| "ar_exec (RemoveAlertByAdmin a i) = ar_remove_alert_by_admin a i"
| "ar_exec (BumpAlert i t) = ar_bump_alert i t"
| "ar_exec (BulkRenew is) = discard (ar_bulk_renew_ttl is)"
| "ar_exec (DeactivateAll a) = discard (ar_deactivate_all_alerts a)"
| "ar_exec (GetAlert i) = discard (ar_get_alert i)"

section \<open>Refinement\<close>

text \<open>The one-step cases, one lemma per kind of change.\<close>

lemma wf_config_upd [simp]:
  "wf_config (cfg\<lparr>updated_at := t\<rparr>) = wf_config cfg"
  "wf_config (cfg\<lparr>webhook_hash := h\<rparr>) = wf_config cfg"
  "wf_config (cfg\<lparr>pending_webhook_hash := p\<rparr>) = wf_config cfg"
  "wf_config (cfg\<lparr>active := b\<rparr>) = wf_config cfg"
  "wf_config (cfg\<lparr>owner := a\<rparr>) = wf_config cfg"
  "wf_config (cfg\<lparr>target_contract := a\<rparr>) = wf_config cfg"
  "wf_config (cfg\<lparr>label := l\<rparr>) \<longleftrightarrow> valid_rules (rules cfg) \<and> length l \<le> 128 \<and> valid_tags (tags cfg)"
  "wf_config (cfg\<lparr>rules := r\<rparr>) \<longleftrightarrow> valid_rules r \<and> length (label cfg) \<le> 128 \<and> valid_tags (tags cfg)"
  "wf_config (cfg\<lparr>tags := g\<rparr>) \<longleftrightarrow>
     valid_rules (rules cfg) \<and> length (label cfg) \<le> 128 \<and> valid_tags g"
  by (simp_all add: wf_config_def)

lemma refines_notify: "view_of s' = log es (view_of s) \<Longrightarrow> ar_changes c (view_of s) (view_of s')"
  by (simp add: ar_change.notify r_into_rtranclp)

lemma deactivations_changes:
  "\<not> v_paused v \<Longrightarrow> authorized c a \<Longrightarrow>
   \<forall>i \<in> set ids. \<forall>cfg. v_alerts v i = Some cfg \<longrightarrow> owner cfg = a \<Longrightarrow>
   ar_changes c v (deactivations (timestamp c) ids v)"
proof (induction ids arbitrary: v)
  case Nil
  then show ?case by simp
next
  case (Cons i ids)
  show ?case
  proof (cases "\<exists>cfg. v_alerts v i = Some cfg \<and> active cfg")
    case True
    then obtain cfg where cfg: "v_alerts v i = Some cfg" "active cfg" by blast
    let ?v = "put_flag i False (put i (cfg\<lparr>active := False, updated_at := timestamp c\<rparr>) v)"
    have "ar_change c v (log [] (put_flag i False
        (put i (cfg\<lparr>rules := rules cfg, active := False, updated_at := timestamp c\<rparr>) v)))"
      using Cons.prems cfg by (intro ar_change.switched [where a = a]) auto
    then have "ar_change c v ?v" by (simp add: log_Nil)
    moreover have "ar_changes c ?v (deactivations (timestamp c) ids ?v)"
      using Cons.prems cfg by (intro Cons.IH) (auto simp: put_def put_flag_def)
    ultimately show ?thesis
      using cfg by (simp add: converse_rtranclp_into_rtranclp)
  next
    case False
    with Cons.prems Cons.IH [of v] show ?thesis
      by (cases "v_alerts v i") auto
  qed
qed

lemma creations_changes:
  "\<not> v_paused v \<Longrightarrow> authorized c own \<Longrightarrow> \<forall>x \<in> set inputs. valid_input x \<Longrightarrow>
   inputs = [] \<or> unat (v_count v) + length inputs < 18446744073709551616 \<Longrightarrow>
   ar_changes c v (creations own (timestamp c) inputs v)"
proof (induction inputs arbitrary: v)
  case Nil
  then show ?case by simp
next
  case (Cons x xs)
  let ?v = "create (batch_config own (timestamp c) x) v"
  have "unat (v_count v + 1) = unat (v_count v) + 1"
    using Cons.prems by (simp add: unat_word_ariths)
  then have "ar_changes c ?v (creations own (timestamp c) xs ?v)"
    using Cons.prems by (intro Cons.IH) (auto simp: create_def emit_def Let_def)
  moreover have "ar_change c v ?v"
    using Cons.prems
    by (intro ar_change.registered)
      (auto simp: batch_config_def wf_config_def valid_input_def valid_tags_def)
  ultimately show ?case by (simp add: converse_rtranclp_into_rtranclp)
qed

end
