(* ===== verification/AlertRefinement.thy ===== *)
theory AlertRefinement
  imports AlertSpec
begin

text \<open>
  The contract implements its specification: a call that returns performs permitted changes
  only. The contract is then run: from the state at deployment, by calls in any context and
  by the expiry of stored entries, and what the specification keeps holds in every state
  reached.
\<close>

section \<open>Each call refines the specification\<close>

lemma changes_two: "ar_change c v w \<Longrightarrow> ar_change c w x \<Longrightarrow> ar_changes c v x"
  by (meson converse_rtranclp_into_rtranclp r_into_rtranclp)

lemma refines_initialize:
  "ar_initialize a c s = (Inr u, s') \<Longrightarrow> initial_admin (view_of s) (view_of s')"
  using ar_initialize_effect [of a c s u s']
  by (auto simp: emit_log ar_load_admins_def initial_admin_def)

lemma refines_transfer_admin:
  "ar_transfer_admin a b c s = (Inr u, s') \<Longrightarrow> ar_change c (view_of s) (view_of s')"
  using ar_transfer_admin_effect [of a b c s u s']
  by (auto simp: emit_log ar_admin.is_admin_of_def intro!: ar_change.admins)

lemma refines_add_admin:
  "ar_add_admin a b c s = (Inr u, s') \<Longrightarrow> ar_change c (view_of s) (view_of s')"
  by (erule ar_add_admin_effect) (auto simp: emit_log intro!: ar_change.admins)

lemma refines_remove_admin:
  assumes "ar_remove_admin a b c s = (Inr u, s')"
  shows "ar_change c (view_of s) (view_of s')"
  using assms
proof (rule ar_remove_admin_effect)
  fix admins
  assume eff: "authorized c a" "ar_load_admins s = Some admins" "a \<in> set admins"
    "b \<in> set admins" "1 < length admins"
    "view_of s' = emit_admin ''remove'' [VAddr a, VAddr b]
       ((view_of s)\<lparr>v_admins := Some (filter (\<lambda>x. x \<noteq> b) admins)\<rparr>)"
  have "distinct admins \<longrightarrow> filter (\<lambda>x. x \<noteq> b) admins \<noteq> []"
    using eff length_filter_neq [of admins b] by fastforce
  with eff show ?thesis
    by (auto simp only: emit_log intro!: ar_change.admins distinct_filter) simp_all
qed

lemma refines_config:
  "ar_set_per_owner_alert_limit a l c s = (Inr u, s') \<Longrightarrow> ar_change c (view_of s) (view_of s')"
  "ar_set_paused a p c s = (Inr u, s') \<Longrightarrow> ar_change c (view_of s) (view_of s')"
  "ar_set_watcher_registry a w c s = (Inr u, s') \<Longrightarrow> ar_change c (view_of s) (view_of s')"
proof -
  have conf: "ar_change c (view_of s) (view_of s')"
    if "authorized c a" "ar_admin.is_admin_of a s"
      "view_of s' = log es ((view_of s)\<lparr>v_limit := l', v_paused := p', v_watchreg := w'\<rparr>)"
    for es l' p' w'
    using that ar_change.configure [of c a "view_of s"] by (simp add: view_admin_of_state)
  show "ar_change c (view_of s) (view_of s')"
    if "ar_set_per_owner_alert_limit a l c s = (Inr u, s')"
    using ar_set_per_owner_alert_limit_effect [OF that]
    by (intro conf [where
        es = "[\<lparr>topic0 = ''admin'', topic1 = ''limit'', event_data = [VAddr a, VU32 l]\<rparr>]"
        and l' = l and p' = "ar_is_paused s" and w' = "WATCHREG s"]) (simp_all add: emit_log log_def view_of_def)
  show "ar_change c (view_of s) (view_of s')" if "ar_set_paused a p c s = (Inr u, s')"
    using ar_set_paused_effect [OF that]
    by (intro conf [where
        es = "[\<lparr>topic0 = ''admin'', topic1 = if p then ''pause'' else ''unpause'',
                event_data = [VAddr a]\<rparr>]"
        and l' = "ar_get_per_owner_alert_limit s" and p' = p and w' = "WATCHREG s"])
      (simp_all add: emit_log log_def view_of_def)
  show "ar_change c (view_of s) (view_of s')" if "ar_set_watcher_registry a w c s = (Inr u, s')"
    using ar_set_watcher_registry_effect [OF that]
    by (intro conf [where es = "[]" and l' = "ar_get_per_owner_alert_limit s"
        and p' = "ar_is_paused s" and w' = "Some w"])
      (simp_all add: log_def view_of_def)
qed

lemma refines_register:
  assumes "ar_register_alert a t l h r g c s = (Inr i, s')"
  shows "ar_changes c (view_of s) (view_of s')"
proof -
  note eff = ar_register_alert_effect [OF assms]
  have "ar_change c (prune a (view_of s)) (view_of s')"
    unfolding eff(12) using eff
    by (intro ar_change.registered) (auto simp: wf_config_def)
  with ar_change.pruned show ?thesis by (rule changes_two)
qed

lemma refines_batch:
  assumes "ar_batch_register_alerts a inputs c s = (Inr ids, s')"
  shows "ar_changes c (view_of s) (view_of s')"
proof -
  note eff = ar_batch_register_alerts_effect [OF assms]
  have "ar_changes c (prune a (view_of s)) (view_of s')"
    unfolding eff(7) using eff by (intro creations_changes) auto
  with ar_change.pruned show ?thesis by (rule converse_rtranclp_into_rtranclp)
qed

lemma edited_view:
  assumes "p_get (Alerts s) i = Some cfg" "view_of s' = emit t1 d (put i cfg' (view_of s))"
    "authorized c (owner cfg)" "owner cfg' = owner cfg"
    "target_contract cfg' = target_contract cfg" "created_at cfg' = created_at cfg"
    "active cfg' = active cfg" "updated_at cfg' = timestamp c" "wf_config cfg \<longrightarrow> wf_config cfg'"
    "\<not> ar_is_paused s \<or>
      cfg' = cfg\<lparr>pending_webhook_hash := pending_webhook_hash cfg',
                webhook_hash := webhook_hash cfg', updated_at := timestamp c\<rparr>"
  shows "ar_change c (view_of s) (view_of s')"
  unfolding assms(2) emit_log using assms by (intro ar_change.edited [where cfg = cfg]) simp_all

lemma switched_view:
  assumes "p_get (Alerts s) i = Some cfg"
    "view_of s' = emit t1 d (put_flag i b
       (put i (cfg\<lparr>rules := rls, active := b, updated_at := timestamp c\<rparr>) (view_of s)))"
    "authorized c a"
    "a = owner cfg \<and> \<not> ar_is_paused s \<and> (rls = rules cfg \<or> valid_rules rls) \<or>
      ar_admin.is_admin_of a s \<and> rls = rules cfg"
  shows "ar_change c (view_of s) (view_of s')"
  unfolding assms(2) emit_log using assms
  by (intro ar_change.switched [where a = a]) (simp_all add: view_admin_of_state)

lemma refines_admin_flag:
  assumes "ar_set_alert_active_by_admin a i b c s = (Inr u, s')"
  shows "ar_change c (view_of s) (view_of s')"
  using assms
proof (rule ar_set_alert_active_by_admin_effect)
  fix cfg
  assume eff: "authorized c a" "ar_admin.is_admin_of a s" "p_get (Alerts s) i = Some cfg"
    "view_of s' = emit ''update'' [VU64 i, VAddr a, VBool b]
       (put_flag i b (put i (cfg\<lparr>active := b, updated_at := timestamp c\<rparr>) (view_of s)))"
  then have "view_of s' = emit ''update'' [VU64 i, VAddr a, VBool b] (put_flag i b
      (put i (cfg\<lparr>rules := rules cfg, active := b, updated_at := timestamp c\<rparr>) (view_of s)))"
    by simp
  from switched_view [OF eff(3) this eff(1)] eff(2) show ?thesis by simp
qed

lemma refines_update_alert:
  assumes "ar_update_alert a i r b c s = (Inr u, s')"
  shows "ar_change c (view_of s) (view_of s')"
  using assms
  by (rule ar_update_alert_effect) (rule switched_view, assumption, assumption, auto)

lemma refines_edits:
  "ar_update_webhook a i h c s = (Inr u, s') \<Longrightarrow> ar_change c (view_of s) (view_of s')"
  "ar_propose_webhook a i h c s = (Inr u, s') \<Longrightarrow> ar_change c (view_of s) (view_of s')"
  "ar_confirm_webhook a i c s = (Inr u, s') \<Longrightarrow> ar_change c (view_of s) (view_of s')"
  "ar_update_label a i l c s = (Inr u, s') \<Longrightarrow> ar_change c (view_of s) (view_of s')"
  "ar_update_tags a i g c s = (Inr u, s') \<Longrightarrow> ar_change c (view_of s) (view_of s')"
  by (erule ar_update_webhook_effect ar_propose_webhook_effect ar_confirm_webhook_effect
      ar_update_label_effect ar_update_tags_effect,
      rule edited_view, assumption, assumption, simp_all add: wf_config_def)+

lemma refines_remove:
  "ar_remove_alert a i c s = (Inr u, s') \<Longrightarrow> ar_change c (view_of s) (view_of s')"
  "ar_remove_alert_by_admin a i c s = (Inr u, s') \<Longrightarrow> ar_change c (view_of s) (view_of s')"
  by (erule ar_remove_alert_effect ar_remove_alert_by_admin_effect,
      simp only: emit_log, rule ar_change.erased [where a = a],
      simp_all add: view_admin_of_state)+

lemma refines_retarget:
  "ar_update_target_contract a i t c s = (Inr u, s') \<Longrightarrow> ar_change c (view_of s) (view_of s')"
  by (erule ar_update_target_contract_effect) (simp only:, rule ar_change.retargeted, simp_all)

lemma refines_transfer:
  assumes "ar_transfer_alert_ownership a i b c s = (Inr u, s')"
  shows "ar_changes c (view_of s) (view_of s')"
  using assms
proof (cases rule: ar_transfer_alert_ownership_effect)
  case (moved cfg)
  then have "ar_change c (prune b (view_of s)) (view_of s')"
    by (simp only: emit_log) (rule ar_change.reowned, simp_all)
  with ar_change.pruned show ?thesis by (rule changes_two)
qed simp

lemma refines_renewals:
  "ar_bump_alert i t c s = (Inr u, s') \<Longrightarrow> ar_change c (view_of s) (view_of s')"
  "ar_bulk_renew_ttl ids c s = (Inr n, s') \<Longrightarrow> ar_change c (view_of s) (view_of s')"
  "ar_get_alert i c s = (Inr r, s') \<Longrightarrow> view_of s' = view_of s"
proof -
  show "ar_change c (view_of s) (view_of s')" if "ar_bump_alert i t c s = (Inr u, s')"
    using that
    by (rule ar_bump_alert_effect) (simp only: emit_log, rule ar_change.notify)
  show "ar_change c (view_of s) (view_of s')" if "ar_bulk_renew_ttl ids c s = (Inr n, s')"
    using that ar_bulk_renew_loop_effect [of ids 0 c s n s', unfolded renewals_def, folded log_def]
    by (auto simp: ar_bulk_renew_ttl_def ok_simps intro: ar_change.notify)
  show "view_of s' = view_of s" if "ar_get_alert i c s = (Inr r, s')"
    using ar_get_alert_effect [OF that] by simp
qed

lemma refines_deactivate_all:
  assumes "ar_deactivate_all_alerts a c s = (Inr n, s')" "view_ok (view_of s)"
  shows "ar_changes c (view_of s) (view_of s')"
proof -
  note eff = ar_deactivate_all_alerts_effect [OF assms(1)]
  show ?thesis
    unfolding eff(3) using eff(1,2) assms(2)
    by (intro deactivations_changes) (auto simp: view_ok_def indexes_sound_def)
qed

lemmas refines_steps =
  refines_transfer_admin refines_add_admin refines_remove_admin refines_config
  refines_admin_flag refines_update_alert refines_edits refines_remove refines_retarget
  refines_renewals

lemma ar_exec_changes:
  assumes "ar_exec call c s = (Inr u, s')" "view_ok (view_of s)"
  shows "ar_changes c (view_of s) (view_of s') \<or>
    (\<exists>a. call = Initialize a) \<and> initial_admin (view_of s) (view_of s')"
  using assms
  by (cases call)
    (auto simp: discard_ok ar_pause_alert_def ar_unpause_alert_def
      dest: refines_steps refines_register refines_batch refines_transfer refines_deactivate_all
        refines_initialize
      intro: r_into_rtranclp)

lemma ar_exec_view_ok:
  "ar_exec call c s = (Inr u, s') \<Longrightarrow> view_ok (view_of s) \<Longrightarrow> view_ok (view_of s')"
  using ar_exec_changes view_ok_changes view_ok_initial_admin by blast

lemma ar_exec_view_exact:
  "ar_exec call c s = (Inr u, s') \<Longrightarrow> view_ok (view_of s) \<Longrightarrow> view_exact (view_of s) \<Longrightarrow>
   view_exact (view_of s')"
  using ar_exec_changes view_exact_changes view_exact_initial_admin by blast

section \<open>Runs of the contract\<close>

text \<open>The storage of a freshly deployed contract.\<close>

definition ar_deployed :: alert_state where
  "ar_deployed =
     \<lparr>events = [], instance_until = 0, ADMIN = None, LIMIT = None, PAUSED = None,
      WATCHREG = None, NEXT_ID = None, Alerts = Map.empty, AlertActives = Map.empty,
      OwnerIndexes = Map.empty, ContractIndexes = Map.empty, NextIds = Map.empty\<rparr>"

text \<open>
  A step is an invocation, rolled back when it fails, in any context; or, where expiry is
  considered, the loss of one persistent entry. An entry may be lost at any moment, whatever
  its lifetime, so what holds here holds for every policy of the host.
\<close>

inductive ar_step :: "bool \<Rightarrow> alert_state \<Rightarrow> alert_state \<Rightarrow> bool" for expiring where
  called: "invoke (ar_exec call) c s = (r, s') \<Longrightarrow> ar_step expiring s s'"
| alert_lost: "expiring \<Longrightarrow> ar_step expiring s (Alerts_update (p_remove i) s)"
| active_lost: "expiring \<Longrightarrow> ar_step expiring s (AlertActives_update (p_remove i) s)"
| owner_index_lost: "expiring \<Longrightarrow> ar_step expiring s (OwnerIndexes_update (p_remove a) s)"
| contract_index_lost: "expiring \<Longrightarrow> ar_step expiring s (ContractIndexes_update (p_remove a) s)"

inductive_cases ar_stepE: "ar_step expiring s s'"

inductive ar_reachable :: "bool \<Rightarrow> alert_state \<Rightarrow> bool" for expiring where
  deployed: "ar_reachable expiring ar_deployed"
| stepped: "ar_reachable expiring s \<Longrightarrow> ar_step expiring s s' \<Longrightarrow> ar_reachable expiring s'"

lemma ids_at_lost:
  "view_of (OwnerIndexes_update (p_remove a) s) =
     (view_of s)\<lparr>v_owned := (ids_at (OwnerIndexes s))(a := [])\<rparr>"
  "view_of (ContractIndexes_update (p_remove a) s) =
     (view_of s)\<lparr>v_watching := (ids_at (ContractIndexes s))(a := [])\<rparr>"
  by (simp_all add: view_of_def ids_at_updates)

lemma view_ok_deployed: "view_ok (view_of ar_deployed)"
  by (simp add: view_ok_def inv_defs ar_deployed_def ar_load_admins_def)

lemma view_exact_deployed: "view_exact (view_of ar_deployed)"
  by (simp add: view_exact_def ar_deployed_def)

lemma view_ok_step: "ar_step e s s' \<Longrightarrow> view_ok (view_of s) \<Longrightarrow> view_ok (view_of s')"
proof (induction rule: ar_step.induct)
  case (called call c s r s')
  then show ?case
    by (cases r) (auto simp: invoke_ok invoke_err intro: ar_exec_view_ok)
next
  case (alert_lost s i)
  then show ?case
    using view_ok_forget [OF ar_forget.forget_alert [of "view_of s" i]] by simp
next
  case (active_lost s i)
  then show ?case
    using view_ok_forget [OF ar_forget.forget_flag [of "view_of s" i]] by simp
next
  case (owner_index_lost s a)
  then show ?case
    using view_ok_forget [OF ar_forget.forget_owned [of "view_of s" a]] by (simp add: ids_at_lost)
next
  case (contract_index_lost s a)
  then show ?case
    using view_ok_forget [OF ar_forget.forget_watching [of "view_of s" a]]
    by (simp add: ids_at_lost)
qed

lemma view_ok_reachable: "ar_reachable e s \<Longrightarrow> view_ok (view_of s)"
  by (induction rule: ar_reachable.induct) (auto intro: view_ok_deployed view_ok_step)

lemma view_exact_reachable: "ar_reachable False s \<Longrightarrow> view_exact (view_of s)"
proof (induction rule: ar_reachable.induct)
  case deployed
  show ?case by (rule view_exact_deployed)
next
  case (stepped s s')
  from \<open>ar_step False s s'\<close> obtain call c r where "invoke (ar_exec call) c s = (r, s')"
    by (rule ar_stepE) auto
  with stepped view_ok_reachable [of False s] show ?case
    by (cases r) (auto simp: invoke_ok invoke_err intro: ar_exec_view_exact)
qed

lemma reachable_call:
  "ar_reachable e s \<Longrightarrow> ar_exec call c s = (Inr u, s') \<Longrightarrow> ar_reachable e s'"
  by (rule ar_reachable.stepped, assumption, rule ar_step.called [of call c s "Inr u"])
    (simp add: invoke_ok)

end
