(* ===== verification/AlertSamples.thy ===== *)
theory AlertSamples
  imports AlertRefinement
begin

text \<open>
  A concrete run of the alert registry: the state at which the properties are applied.
  \<open>Address 1\<close> is the admin; \<open>Address 2\<close> owns the alerts 0 and 1, which watch \<open>Address 3\<close> and
  \<open>Address 4\<close>; \<open>Address 8\<close> answers as a watcher registry that knows the watcher \<open>Address 7\<close>.
\<close>

definition sample_ctx :: "u64 \<Rightarrow> address \<Rightarrow> alert_ctx" where
  "sample_ctx t a =
     \<lparr>timestamp = t, sequence = 0, authorized = (\<lambda>b. b = a),
      extend_until = sdk_extend 0 3110400, fresh_until = 4095,
      watcher_call = (\<lambda>r q. if r = Address 8 then Some (q = Address 7) else None)\<rparr>"

lemma sample_ctx_sel [simp]:
  "timestamp (sample_ctx t a) = t" "authorized (sample_ctx t a) b \<longleftrightarrow> b = a"
  "extend_until (sample_ctx t a) = sdk_extend 0 3110400" "fresh_until (sample_ctx t a) = 4095"
  "sequence (sample_ctx t a) = 0"
  "watcher_call (sample_ctx t a) r q = (if r = Address 8 then Some (q = Address 7) else None)"
  by (simp_all add: sample_ctx_def)

definition sample_hash :: string where
  "sample_hash = replicate 64 (CHR ''a'')"

definition sample_config :: "address \<Rightarrow> u64 \<Rightarrow> alert_config" where
  "sample_config target t =
     new_config (Address 2) target ''label'' sample_hash [''rule:all''] None t"

lemma sample_config_sel [simp]:
  "label (sample_config x t) = ''label''" "webhook_hash (sample_config x t) = sample_hash"
  "rules (sample_config x t) = [''rule:all'']" "owner (sample_config x t) = Address 2"
  "target_contract (sample_config x t) = x" "created_at (sample_config x t) = t"
  "updated_at (sample_config x t) = t" "active (sample_config x t)"
  "pending_webhook_hash (sample_config x t) = None" "tags (sample_config x t) = None"
  by (simp_all add: sample_config_def)

lemma sample_valid [simp]:
  "length sample_hash = 64" "valid_rules [''rule:all'']" "valid_rules [''rule:mint'']"
  "valid_tags None" "wf_config (sample_config x t)"
  by (simp_all add: sample_hash_def valid_rules_def known_rules_def valid_tags_def wf_config_def)

definition sample_init :: alert_state where
  "sample_init =
     ar_deployed\<lparr>ADMIN := Some (AdminVec [Address 1]),
       events := [\<lparr>topic0 = ''admin'', topic1 = ''init'', event_data = [VAddr (Address 1)]\<rparr>]\<rparr>"

definition sample_one :: alert_state where
  "sample_one =
     registered_state (sample_ctx 20 (Address 2)) (sample_config (Address 3) 20) sample_init"

definition sample_state :: alert_state where
  "sample_state =
     registered_state (sample_ctx 30 (Address 2)) (sample_config (Address 4) 30) sample_one"

lemma sample_init_sel [simp]:
  "ar_load_admins sample_init = Some [Address 1]" "ar_get_per_owner_alert_limit sample_init = 0"
  "ar_is_paused sample_init = False" "WATCHREG sample_init = None"
  "ar_get_alert_count sample_init = 0" "p_get (Alerts sample_init) = Map.empty"
  "p_get (AlertActives sample_init) = Map.empty" "ids_at (OwnerIndexes sample_init) a = []"
  "ids_at (ContractIndexes sample_init) a = []"
  by (simp_all add: sample_init_def ar_deployed_def ar_load_admins_def
      ar_get_per_owner_alert_limit_def ar_is_paused_def ar_get_alert_count_def)

lemma sample_init_run:
  "ar_exec (Initialize (Address 1)) (sample_ctx 10 (Address 1)) ar_deployed
     = (Inr (), sample_init)"
  by (simp add: ar_initialize_def block_Cons_ok block_Nil_ok bind_run gets_run reject_if_run
      ar_set_admins_ok publish_ok sample_init_def ar_deployed_def)

lemma sample_init_reachable: "ar_reachable e sample_init"
  by (rule reachable_call [OF ar_reachable.deployed sample_init_run])

lemma no_prune: "ar_get_per_owner_alert_limit s = 0 \<Longrightarrow> prune_state c a s = s"
  by (simp add: prune_state_def Let_def)

lemma view_of_sample:
  "view_of sample_one = create (sample_config (Address 3) 20) (view_of sample_init)"
  "view_of sample_state =
     create (sample_config (Address 4) 30)
       (create (sample_config (Address 3) 20) (view_of sample_init))"
  by (simp_all add: sample_one_def sample_state_def)

lemma sample_one_sel [simp]:
  "ar_load_admins sample_one = Some [Address 1]" "ar_get_per_owner_alert_limit sample_one = 0"
  "ar_is_paused sample_one = False" "WATCHREG sample_one = None"
  "ar_get_alert_count sample_one = 1" "p_get (Alerts sample_one) = [0 \<mapsto> sample_config (Address 3) 20]"
  "p_get (AlertActives sample_one) = [0 \<mapsto> True]"
  "ids_at (OwnerIndexes sample_one) a = (if a = Address 2 then [0] else [])"
  "ids_at (ContractIndexes sample_one) a = (if a = Address 3 then [0] else [])"
  unfolding view_of_sel [symmetric] view_of_sample
  by (auto simp: create_def emit_def Let_def list_under_def)

lemma sample_state_sel [simp]:
  "ar_load_admins sample_state = Some [Address 1]" "ar_get_per_owner_alert_limit sample_state = 0"
  "ar_is_paused sample_state = False" "WATCHREG sample_state = None"
  "ar_get_alert_count sample_state = 2"
  "p_get (Alerts sample_state) =
     [0 \<mapsto> sample_config (Address 3) 20, 1 \<mapsto> sample_config (Address 4) 30]"
  "p_get (AlertActives sample_state) = [0 \<mapsto> True, 1 \<mapsto> True]"
  "ids_at (OwnerIndexes sample_state) a = (if a = Address 2 then [0, 1] else [])"
  "ids_at (ContractIndexes sample_state) a =
     (if a = Address 3 then [0] else if a = Address 4 then [1] else [])"
  unfolding view_of_sel [symmetric] view_of_sample
  by (auto simp: create_def emit_def Let_def list_under_def)

lemma p_get_of_ids: "ids_at m a = i # is \<Longrightarrow> p_get m a = Some (i # is)"
  by (auto simp: ids_at_def split: option.splits)

lemma sample_index_entries [simp]:
  "p_get (OwnerIndexes sample_state) (Address 2) = Some [0, 1]"
  "p_get (ContractIndexes sample_state) (Address 3) = Some [0]"
  "p_get (ContractIndexes sample_state) (Address 4) = Some [1]"
  by (simp_all add: p_get_of_ids)

definition sample_register :: "address \<Rightarrow> ar_call" where
  "sample_register target =
     RegisterAlert (Address 2) target ''label'' sample_hash [''rule:all''] None"

lemma sample_one_run:
  "ar_exec (sample_register (Address 3)) (sample_ctx 20 (Address 2)) sample_init
     = (Inr (), sample_one)"
  by (simp add: sample_register_def discard_ok ar_register_alert_iff within_limit_def
      prune_def no_prune sample_one_def sample_config_def)

lemma sample_state_run:
  "ar_exec (sample_register (Address 4)) (sample_ctx 30 (Address 2)) sample_one
     = (Inr (), sample_state)"
  by (simp add: sample_register_def discard_ok ar_register_alert_iff within_limit_def
      prune_def no_prune sample_state_def sample_config_def)

lemma sample_reachable [simp]: "ar_reachable e sample_state"
  by (rule reachable_call [OF reachable_call [OF sample_init_reachable sample_one_run]
        sample_state_run])

end
