(* ===== verification/AlertSafety.thy ===== *)
theory AlertSafety
  imports AlertSamples
begin

text \<open>
  Properties of the runs of the alert registry: the invariants of every reachable state, who
  may change an alert, what the pause switch stops, and that identifiers are never reused.
\<close>

section \<open>What a sequence of permitted changes keeps\<close>

lemma changes_admins:
  "ar_changes c v v' \<Longrightarrow>
   v_admins v' = v_admins v \<or> (\<exists>a. authorized c a \<and> view_admin a v)"
proof (induction rule: rtranclp_induct)
  case (step v1 v2)
  from step.hyps(2) have "v_admins v2 = v_admins v1 \<or> (\<exists>a. authorized c a \<and> view_admin a v1)"
    by (induction rule: ar_change.induct)
      (auto simp: change_defs create_def emit_def Let_def view_admin_def)
  with step.IH show ?case by (auto simp: view_admin_def)
qed simp

lemma count_change: "ar_change c v v' \<Longrightarrow> v_count v \<le> v_count v'"
proof (induction rule: ar_change.induct)
  case (registered v cfg)
  then show ?case
    by (simp add: word_le_nat_alt unat_word_ariths)
qed (auto simp: change_defs)

lemma count_changes: "ar_changes c v v' \<Longrightarrow> v_count v \<le> v_count v'"
  by (induction rule: rtranclp_induct) (auto dest: count_change)

lemma new_alerts_changes:
  "ar_changes c v v' \<Longrightarrow> v_alerts v i = None \<Longrightarrow> v_alerts v' i \<noteq> None \<Longrightarrow> v_count v \<le> i"
proof (induction rule: rtranclp_induct)
  case (step v1 v2)
  show ?case
  proof (cases "v_alerts v1 i")
    case None
    from step.hyps(2) step.prems(2) None have "i = v_count v1"
      by (induction rule: ar_change.induct)
        (auto simp: change_defs create_def emit_def Let_def split: if_splits)
    with count_changes [OF step.hyps(1)] show ?thesis by simp
  next
    case (Some cfg)
    with step show ?thesis by simp
  qed
qed simp

text \<open>What became of an alert that was stored as \<open>cfg\<close>, and on whose authority.\<close>

definition accounted :: "'x ctx_scheme \<Rightarrow> ar_view \<Rightarrow> alert_config \<Rightarrow> alert_config option \<Rightarrow> bool" where
  "accounted c v cfg after \<longleftrightarrow>
     after = Some cfg \<or> authorized c (owner cfg) \<or>
     (\<exists>a. authorized c a \<and> view_admin a v) \<and>
       (after = None \<or> (\<exists>b. after = Some (cfg\<lparr>active := b, updated_at := timestamp c\<rparr>)))"

lemma accounted_change:
  assumes "ar_change c v v'" "v_alerts v i = Some cfg" "i < v_count v"
  shows "accounted c v cfg (v_alerts v' i)"
  using assms
proof (induction rule: ar_change.induct)
  case (registered v cfg')
  then show ?case
    by (auto simp: accounted_def create_def emit_def Let_def)
next
  case (switched v j cfg' a rls es b)
  show ?case
  proof (cases "i = j \<and> \<not> authorized c (owner cfg)")
    case True
    with switched have "a \<noteq> owner cfg" "cfg' = cfg" by auto
    with switched True have "view_admin a v" "rls = rules cfg" by auto
    with switched True \<open>cfg' = cfg\<close> show ?thesis
      by (auto simp: accounted_def change_defs intro!: exI [of _ b])
  next
    case False
    with switched show ?thesis by (auto simp: accounted_def change_defs)
  qed
qed (auto simp: accounted_def change_defs)

lemma accounted_changes:
  assumes "ar_changes c v v'" "v_alerts v i = Some cfg" "i < v_count v"
  shows "accounted c v cfg (v_alerts v' i)"
  using assms(1)
proof (induction rule: rtranclp_induct)
  case base
  with assms show ?case by (simp add: accounted_def)
next
  case (step v1 v2)
  have admin: "\<exists>a. authorized c a \<and> view_admin a v" if "authorized c a" "view_admin a v1" for a
    using changes_admins [OF step.hyps(1)] that by (auto simp: view_admin_def)
  consider "authorized c (owner cfg)" | "v_alerts v1 i = None" | cfg1 where
    "v_alerts v1 i = Some cfg1" "cfg1 = cfg \<or> (\<exists>a. authorized c a \<and> view_admin a v) \<and>
      (\<exists>b. cfg1 = cfg\<lparr>active := b, updated_at := timestamp c\<rparr>)"
    using step.IH by (auto simp: accounted_def)
  then show ?case
  proof cases
    case 1
    then show ?thesis by (simp add: accounted_def)
  next
    case 2
    have "v_count v \<le> v_count v1" by (rule count_changes [OF step.hyps(1)])
    with assms(3) have "v_alerts v2 i = None"
      using new_alerts_changes [OF r_into_rtranclp [where r = "ar_change c", OF step.hyps(2)] 2] by force
    with 2 step.IH show ?thesis by (simp add: accounted_def)
  next
    case 3
    have "i < v_count v1"
      using count_changes [OF step.hyps(1)] assms(3) by simp
    from accounted_change [OF step.hyps(2) 3(1) this] 3 admin show ?thesis
      unfolding accounted_def by auto
  qed
qed

section \<open>Invariants of the reachable states\<close>

text \<open>
  C1. In every state the registry can reach, also when entries expire at any moment: all
  identifiers in use are below the counter, every index lists an identifier at most once and
  a stored alert only under its own owner and target, the flag stored apart from an alert is
  the alert's, every stored alert has valid rules, label and tags, and the admin set is never
  empty.
\<close>

theorem ar_reachable_invariant: "ar_reachable e s \<Longrightarrow> view_ok (view_of s)"
  by (rule view_ok_reachable)

theorem ar_reachable_invariant_witness: "view_ok (view_of sample_state)"
  by (rule ar_reachable_invariant [OF sample_reachable [of True]])

text \<open>
  C2. As long as no entry expires, the secondary indexes and flags are exact: an address's
  owner index holds exactly the identifiers of the alerts it owns, its contract index exactly
  those of the alerts that watch it, and a flag exists exactly for each stored alert.
\<close>

theorem ar_indexes_exact:
  assumes "ar_reachable False s"
  shows "set (ar_owner_index s a) = {i. \<exists>cfg. p_get (Alerts s) i = Some cfg \<and> owner cfg = a} \<and>
    set (ar_contract_index s a) =
      {i. \<exists>cfg. p_get (Alerts s) i = Some cfg \<and> target_contract cfg = a} \<and>
    ar_get_alert_active s i = map_option active (p_get (Alerts s) i)"
proof -
  have "view_ok (view_of s)" "view_exact (view_of s)"
    using assms by (auto intro: view_ok_reachable view_exact_reachable)
  then show ?thesis
    by (fastforce simp: view_ok_def indexes_sound_def view_exact_def ar_owner_index_ids
        ar_contract_index_ids ar_get_alert_active_def)
qed

theorem ar_indexes_exact_witness:
  "set (ar_owner_index sample_state (Address 2)) =
     {i. \<exists>cfg. p_get (Alerts sample_state) i = Some cfg \<and> owner cfg = Address 2}"
  using ar_indexes_exact [OF sample_reachable, of "Address 2" 0] by blast

text \<open>
  C4. Refinement: every call that returns, in every reachable state, performs only the changes
  that the specification \<open>ar_change\<close> permits on the abstract state, or installs the first
  admin.
\<close>

theorem ar_exec_refines:
  assumes "ar_reachable e s" "ar_exec call c s = (Inr u, s')"
  shows "ar_changes c (view_of s) (view_of s') \<or>
    (\<exists>a. call = Initialize a) \<and> initial_admin (view_of s) (view_of s')"
  using ar_exec_changes [OF assms(2) view_ok_reachable [OF assms(1)]] .

theorem ar_exec_refines_witness:
  "ar_changes (sample_ctx 20 (Address 2)) (view_of sample_init) (view_of sample_one)"
  using ar_exec_refines [OF sample_init_reachable sample_one_run] by (simp add: sample_register_def)

section \<open>Authority\<close>

text \<open>
  C3. An existing alert changes only on the authority of its owner or of an admin: if a call
  returned and the alert is no longer what it was, its owner signed the call, or an admin did
  and the alert has been removed or has had nothing but its active flag and its time stamp
  changed.
\<close>

theorem ar_alert_authority:
  assumes "ar_reachable e s" "ar_exec call c s = (Inr u, s')"
    "p_get (Alerts s) i = Some cfg" "p_get (Alerts s') i \<noteq> Some cfg"
  shows "authorized c (owner cfg) \<or>
    (\<exists>a as. authorized c a \<and> ar_load_admins s = Some as \<and> a \<in> set as) \<and>
      (p_get (Alerts s') i = None \<or>
       (\<exists>b. p_get (Alerts s') i = Some (cfg\<lparr>active := b, updated_at := timestamp c\<rparr>)))"
proof -
  have ok: "view_ok (view_of s)" using assms(1) by (rule view_ok_reachable)
  then have "i < v_count (view_of s)"
    using assms(3) by (auto simp: view_ok_def ids_bounded_def)
  moreover have "ar_changes c (view_of s) (view_of s')"
    using ar_exec_changes [OF assms(2) ok] assms(3,4)
    by (auto simp: initial_admin_def log_def dest: view_sel_of_state(4))
  ultimately have "accounted c (view_of s) cfg (p_get (Alerts s') i)"
    using accounted_changes [of c "view_of s" "view_of s'" i cfg] assms(3) by simp
  with assms(4) show ?thesis by (auto simp: accounted_def view_admin_def)
qed

lemma sample_label_run:
  obtains s' where
    "ar_exec (UpdateLabel (Address 2) 0 ''other'') (sample_ctx 40 (Address 2)) sample_state
       = (Inr (), s')"
    "p_get (Alerts s') 0 = Some ((sample_config (Address 3) 20)\<lparr>label := ''other'', updated_at := 40\<rparr>)"
proof -
  let ?s = "ar_exec (UpdateLabel (Address 2) 0 ''other'') (sample_ctx 40 (Address 2)) sample_state"
  have "\<exists>s'. ?s = (Inr (), s')"
    by (simp add: ar_update_label_def op_ok)
  then show thesis using that
    by (auto simp: ar_update_label_def op_ok)
qed

theorem ar_alert_authority_witness:
  "\<exists>s'. ar_exec (UpdateLabel (Address 2) 0 ''other'') (sample_ctx 40 (Address 2)) sample_state
          = (Inr (), s') \<and> authorized (sample_ctx 40 (Address 2)) (Address 2)"
proof (rule sample_label_run)
  fix s'
  assume run: "ar_exec (UpdateLabel (Address 2) 0 ''other'') (sample_ctx 40 (Address 2)) sample_state
      = (Inr (), s')"
    and upd: "p_get (Alerts s') 0 =
      Some ((sample_config (Address 3) 20)\<lparr>label := ''other'', updated_at := 40\<rparr>)"
  have "p_get (Alerts s') 0 \<noteq> Some (sample_config (Address 3) 20)"
    unfolding upd by (simp add: sample_config_def new_config_def)
  with ar_alert_authority [OF sample_reachable run, of 0 "sample_config (Address 3) 20"] run
  show ?thesis by auto
qed

text \<open>
  C20. Identifiers are never reused: a call never lowers the counter, and an alert that a call
  brings into being has an identifier between the counter before and the counter after. So an
  identifier that was assigned once, and whose alert was removed, is not assigned again.
\<close>

theorem ar_ids_never_reused:
  assumes "ar_reachable e s" "ar_exec call c s = (Inr u, s')"
  shows "ar_get_alert_count s \<le> ar_get_alert_count s' \<and>
    (p_get (Alerts s) i = None \<and> p_get (Alerts s') i \<noteq> None \<longrightarrow>
       ar_get_alert_count s \<le> i \<and> i < ar_get_alert_count s')"
proof -
  have ok: "view_ok (view_of s)" using assms(1) by (rule view_ok_reachable)
  then have "view_ok (view_of s')" using assms(2) ar_exec_view_ok by blast
  then have below: "p_get (Alerts s') i \<noteq> None \<longrightarrow> i < ar_get_alert_count s'"
    by (auto simp: view_ok_def ids_bounded_def)
  from ar_exec_changes [OF assms(2) ok] show ?thesis
  proof
    assume *: "ar_changes c (view_of s) (view_of s')"
    from count_changes [OF *] new_alerts_changes [OF *, of i] below show ?thesis by auto
  next
    assume "(\<exists>a. call = Initialize a) \<and> initial_admin (view_of s) (view_of s')"
    then show ?thesis
      by (auto simp: initial_admin_def log_def dest: view_sel_of_state)
  qed
qed

theorem ar_ids_never_reused_witness:
  "ar_get_alert_count sample_one \<le> 1 \<and> 1 < ar_get_alert_count sample_state"
  using ar_ids_never_reused [OF reachable_call [OF sample_init_reachable sample_one_run]
      sample_state_run, of 1] by simp

section \<open>The pause switch\<close>

text \<open>The calls that start with \<open>assert_not_paused\<close>.\<close>

fun pause_gated :: "ar_call \<Rightarrow> bool" where
  "pause_gated (RegisterAlert a t l h r g) = True"
| "pause_gated (BatchRegister a xs) = True"
| "pause_gated (UpdateAlert a i r b) = True"
| "pause_gated (UpdateWebhook a i h) = True"
| "pause_gated (UpdateLabel a i l) = True"
| "pause_gated (UpdateTags a i g) = True"
| "pause_gated (UpdateTarget a i t) = True"
| "pause_gated (TransferOwnership a i b) = True"
| "pause_gated (RemoveAlert a i) = True"
| "pause_gated (RemoveAlertByAdmin a i) = True"
| "pause_gated (BumpAlert i t) = True"
| "pause_gated (DeactivateAll a) = True"
| "pause_gated _ = False"

lemmas gated_defs =
  ar_register_alert_def ar_batch_register_alerts_def ar_update_alert_def ar_update_webhook_def
  ar_update_label_def ar_update_tags_def ar_update_target_contract_def
  ar_transfer_alert_ownership_def ar_remove_alert_def ar_remove_alert_by_admin_def
  ar_bump_alert_def ar_deactivate_all_alerts_def

lemma paused_stops:
  assumes "ar_is_paused s" "pause_gated call"
  shows "ar_exec call c s = (Inl (Err ContractPaused), s)"
proof -
  have stop: "bind (block (ar_assert_not_paused # ms)) f c s = (Inl (Err ContractPaused), s)"
    for ms and f :: "unit \<Rightarrow> 'a ar_op"
    by (simp add: bind_run ar_pause.closed_block [OF assms(1)])
  have stop1: "bind ar_assert_not_paused f c s = (Inl (Err ContractPaused), s)"
    for f :: "unit \<Rightarrow> 'a ar_op"
    by (simp add: bind_run ar_pause.check_closed [OF assms(1)])
  from assms(2) show ?thesis
    by (cases call) (simp_all add: discard_def bind_run [of _ "\<lambda>_. ret ()"] stop stop1 gated_defs)
qed

text \<open>
  C21. While the contract is paused, each of the gated calls (registration, batch registration,
  every update by an owner but the two-step webhook rotation, removal, ownership transfer,
  bump and bulk deactivation) fails with \<open>ContractPaused\<close> and writes nothing, whoever signs.
\<close>

theorem ar_paused_rejects:
  "ar_is_paused s \<Longrightarrow> pause_gated call \<Longrightarrow>
   ar_exec call c s = (Inl (Err ContractPaused), s)"
  by (rule paused_stops)

theorem ar_paused_rejects_witness:
  "ar_exec (RemoveAlert (Address 2) 0) (sample_ctx 40 (Address 2))
     (sample_state\<lparr>PAUSED := Some True\<rparr>)
   = (Inl (Err ContractPaused), sample_state\<lparr>PAUSED := Some True\<rparr>)"
  using ar_paused_rejects [of "sample_state\<lparr>PAUSED := Some True\<rparr>" "RemoveAlert (Address 2) 0"]
  by simp

text \<open>The parts of an alert that no call may touch while the contract is paused.\<close>

definition essence ::
  "alert_config \<Rightarrow> string \<times> string list \<times> address \<times> address \<times> u64 \<times> string list option" where
  "essence cfg = (label cfg, rules cfg, owner cfg, target_contract cfg, created_at cfg, tags cfg)"

definition frozen :: "alert_state \<Rightarrow> alert_state \<Rightarrow> bool" where
  "frozen s s' \<longleftrightarrow>
     ar_get_alert_count s' = ar_get_alert_count s \<and>
     ids_at (OwnerIndexes s') = ids_at (OwnerIndexes s) \<and>
     ids_at (ContractIndexes s') = ids_at (ContractIndexes s) \<and>
     (\<forall>i. map_option essence (p_get (Alerts s') i) = map_option essence (p_get (Alerts s) i))"

lemma frozen_view:
  assumes "view_of s' = v'" "v_count v' = ar_get_alert_count s"
    "v_owned v' = ids_at (OwnerIndexes s)" "v_watching v' = ids_at (ContractIndexes s)"
    "\<And>i. map_option essence (v_alerts v' i) = map_option essence (p_get (Alerts s) i)"
  shows "frozen s s'"
  using assms by (auto simp: frozen_def)

lemma frozen_edit:
  assumes "view_of s' = emit t d (put i cfg' (view_of s))" "p_get (Alerts s) i = Some cfg"
    "essence cfg' = essence cfg"
  shows "frozen s s'"
  using assms by (intro frozen_view [OF assms(1)]) (auto simp: emit_def put_def)

lemma frozen_switch:
  assumes "ar_set_alert_active_by_admin a i b c s = (Inr u, s')"
  shows "frozen s s'"
  using assms
proof (rule ar_set_alert_active_by_admin_effect)
  fix cfg
  assume "p_get (Alerts s) i = Some cfg" and
    eff: "view_of s' = emit ''update'' [VU64 i, VAddr a, VBool b]
      (put_flag i b (put i (cfg\<lparr>active := b, updated_at := timestamp c\<rparr>) (view_of s)))"
  then show ?thesis
    by (intro frozen_view [OF eff]) (auto simp: emit_def put_def put_flag_def essence_def)
qed

lemma frozen_rotation:
  "ar_propose_webhook a i h c s = (Inr u, s') \<Longrightarrow> frozen s s'"
  "ar_confirm_webhook a i c s = (Inr u, s') \<Longrightarrow> frozen s s'"
  by (erule ar_propose_webhook_effect ar_confirm_webhook_effect,
      erule frozen_edit, assumption, simp add: essence_def)+

lemma frozen_renewals:
  "ar_bulk_renew_ttl ids c s = (Inr n, s') \<Longrightarrow> frozen s s'"
  "ar_get_alert i c s = (Inr r, s') \<Longrightarrow> frozen s s'"
  using ar_bulk_renew_loop_effect [of ids 0 c s n s'] ar_get_alert_effect [of i c s r s']
  by (auto simp: ar_bulk_renew_ttl_def ok_simps renewals_def intro!: frozen_view)

lemma frozen_config:
  "ar_initialize a c s = (Inr u, s') \<Longrightarrow> frozen s s'"
  "ar_transfer_admin a b c s = (Inr u, s') \<Longrightarrow> frozen s s'"
  "ar_set_per_owner_alert_limit a l c s = (Inr u, s') \<Longrightarrow> frozen s s'"
  "ar_set_watcher_registry a w c s = (Inr u, s') \<Longrightarrow> frozen s s'"
  by (rule frozen_view, erule ar_initialize_effect ar_transfer_admin_effect
      ar_set_per_owner_alert_limit_effect ar_set_watcher_registry_effect,
      simp_all add: emit_admin_def)+

lemma frozen_admin_set:
  "ar_add_admin a b c s = (Inr u, s') \<Longrightarrow> frozen s s'"
  "ar_remove_admin a b c s = (Inr u, s') \<Longrightarrow> frozen s s'"
  by (erule ar_add_admin_effect ar_remove_admin_effect,
      rule frozen_view, assumption, simp_all add: emit_admin_def)+

lemmas frozen_steps = frozen_switch frozen_rotation frozen_renewals frozen_config frozen_admin_set

text \<open>
  C22. What a pause protects: while the contract is paused, no call but the switch itself
  changes the counter, an index, the set of stored alerts, or the label, rules, owner, target,
  creation time or tags of any alert. (The active flag, by an admin, and the webhook, by its
  owner, can still change.)
\<close>

theorem ar_paused_freezes:
  assumes "ar_is_paused s" "ar_exec call c s = (Inr u, s')" "\<forall>a p. call \<noteq> SetPaused a p"
  shows "frozen s s'"
proof -
  have "\<not> pause_gated call"
    using paused_stops [OF assms(1), of call c] assms(2) by auto
  with assms(2,3) show ?thesis
    by (cases call)
      (auto simp: discard_ok ar_pause_alert_def ar_unpause_alert_def dest: frozen_steps)
qed

definition sample_paused :: alert_state where
  "sample_paused = sample_state\<lparr>PAUSED := Some True\<rparr>"

theorem ar_paused_freezes_witness:
  "\<exists>s'. ar_exec (PauseAlert (Address 1) 0) (sample_ctx 40 (Address 1)) sample_paused = (Inr (), s')
     \<and> frozen sample_paused s'"
proof -
  obtain s' where "ar_exec (PauseAlert (Address 1) 0) (sample_ctx 40 (Address 1)) sample_paused
      = (Inr (), s')"
    by (simp add: ar_pause_alert_def ar_set_alert_active_by_admin_def op_ok sample_paused_def
        ar_admin.is_admin_of_def)
  with ar_paused_freezes [OF _ this] show ?thesis by (simp add: sample_paused_def)
qed

section \<open>The webhook of an alert\<close>



text \<open>
  Without a pending proposal there is nothing to confirm: the owner's \<open>confirm_webhook\<close>
  fails with \<open>NoPendingWebhook\<close>, in particular a second time after it has succeeded.
\<close>

theorem ar_confirm_needs_proposal:
  assumes "ar_confirm_webhook own i c s = (Inr u, s')" "authorized c' own"
  shows "ar_confirm_webhook own i c' s' = (Inl (Err NoPendingWebhook), s')"
  using assms(1)
proof (rule ar_confirm_webhook_effect)
  fix cfg :: alert_config and pending
  let ?cfg = "cfg\<lparr>pending_webhook_hash := None, webhook_hash := pending,
                 updated_at := timestamp c\<rparr>"
  assume "view_of s' = emit ''webhook'' [VU64 i, VAddr own] (put i ?cfg (view_of s))"
    and own: "owner cfg = own"
  then have "p_get (Alerts s') i = Some ?cfg"
    by (auto simp: emit_def put_def dest: view_sel_of_state(4))
  with own assms(2) show ?thesis
    by (simp add: ar_confirm_webhook_def bind_run require_auth_run ar_load_alert_def gets_run
        ok_or_run ar_assert_owner_def ret_run)
qed

theorem ar_confirm_needs_proposal_witness:
  "\<exists>s1 s2. ar_exec (ProposeWebhook (Address 2) 0 sample_hash) (sample_ctx 40 (Address 2))
       sample_state = (Inr (), s1) \<and>
     ar_confirm_webhook (Address 2) 0 (sample_ctx 50 (Address 2)) s1 = (Inr (), s2) \<and>
     ar_confirm_webhook (Address 2) 0 (sample_ctx 60 (Address 2)) s2
       = (Inl (Err NoPendingWebhook), s2)"
proof -
  have "\<exists>s1 s2. ar_exec (ProposeWebhook (Address 2) 0 sample_hash) (sample_ctx 40 (Address 2))
       sample_state = (Inr (), s1) \<and>
     ar_confirm_webhook (Address 2) 0 (sample_ctx 50 (Address 2)) s1 = (Inr (), s2)"
    by (simp add: ar_propose_webhook_def ar_confirm_webhook_def op_ok)
  then show ?thesis
    using ar_confirm_needs_proposal [of "Address 2" 0 "sample_ctx 50 (Address 2)" _ "()" _
        "sample_ctx 60 (Address 2)"] by fastforce
qed

definition hashes_ok :: "ar_view \<Rightarrow> bool" where
  "hashes_ok v \<longleftrightarrow> (\<forall>i cfg. v_alerts v i = Some cfg \<longrightarrow> length (webhook_hash cfg) = 64)"

lemma hashes_ok_edit:
  assumes "view_of s' = emit t d (put i cfg' (view_of s))" "hashes_ok (view_of s)"
    "length (webhook_hash cfg') = 64"
  shows "hashes_ok (view_of s')"
  using assms by (simp add: hashes_ok_def emit_def put_def)

lemma hashes_ok_same:
  assumes "v_alerts (view_of s') = v_alerts (view_of s)" "hashes_ok (view_of s)"
  shows "hashes_ok (view_of s')"
  using assms by (simp add: hashes_ok_def)

lemma hashes_ok_edits:
  "ar_update_webhook a i h c s = (Inr u, s') \<Longrightarrow> hashes_ok (view_of s) \<Longrightarrow> hashes_ok (view_of s')"
  "ar_propose_webhook a i h c s = (Inr u, s') \<Longrightarrow> hashes_ok (view_of s) \<Longrightarrow> hashes_ok (view_of s')"
  "ar_update_label a i l c s = (Inr u, s') \<Longrightarrow> hashes_ok (view_of s) \<Longrightarrow> hashes_ok (view_of s')"
  "ar_update_tags a i g c s = (Inr u, s') \<Longrightarrow> hashes_ok (view_of s) \<Longrightarrow> hashes_ok (view_of s')"
  by (erule ar_update_webhook_effect ar_propose_webhook_effect ar_update_label_effect
      ar_update_tags_effect, erule hashes_ok_edit, assumption, simp add: hashes_ok_def)+

lemma hashes_ok_view: "view_of s' = v \<Longrightarrow> hashes_ok v \<Longrightarrow> hashes_ok (view_of s')"
  by simp

lemma hashes_ok_switches:
  "ar_update_alert a i r b c s = (Inr u, s') \<Longrightarrow> hashes_ok (view_of s) \<Longrightarrow> hashes_ok (view_of s')"
  "ar_set_alert_active_by_admin a i b c s = (Inr u, s') \<Longrightarrow> hashes_ok (view_of s) \<Longrightarrow>
   hashes_ok (view_of s')"
  by (erule ar_update_alert_effect ar_set_alert_active_by_admin_effect,
      simp add: hashes_ok_def emit_def put_flag_def put_def)+

lemma hashes_ok_moves:
  "ar_remove_alert a i c s = (Inr u, s') \<Longrightarrow> hashes_ok (view_of s) \<Longrightarrow> hashes_ok (view_of s')"
  "ar_remove_alert_by_admin a i c s = (Inr u, s') \<Longrightarrow> hashes_ok (view_of s) \<Longrightarrow>
   hashes_ok (view_of s')"
  "ar_update_target_contract a i t c s = (Inr u, s') \<Longrightarrow> hashes_ok (view_of s) \<Longrightarrow>
   hashes_ok (view_of s')"
  "ar_transfer_alert_ownership a i b c s = (Inr u, s') \<Longrightarrow> hashes_ok (view_of s) \<Longrightarrow>
   hashes_ok (view_of s')"
  by (erule ar_remove_alert_effect ar_remove_alert_by_admin_effect
      ar_update_target_contract_effect, erule hashes_ok_view,
      simp add: hashes_ok_def change_defs emit_def)+
    (erule ar_transfer_alert_ownership_effect, simp, erule hashes_ok_view,
      simp add: hashes_ok_def change_defs emit_def)

lemma hashes_ok_deactivations:
  "hashes_ok v \<Longrightarrow> hashes_ok (deactivations t ids v)"
proof (induction ids arbitrary: v)
  case (Cons i ids)
  have "hashes_ok (put_flag i False (put i (cfg\<lparr>active := False, updated_at := t\<rparr>) v))"
    if "v_alerts v i = Some cfg" for cfg
    using Cons.prems that by (simp add: hashes_ok_def put_def put_flag_def)
  with Cons show ?case by (simp split: option.splits)
qed simp

lemma hashes_ok_create:
  "hashes_ok v \<Longrightarrow> length (webhook_hash cfg) = 64 \<Longrightarrow> hashes_ok (create cfg v)"
  by (simp add: hashes_ok_def create_def emit_def Let_def)

lemma hashes_ok_creations:
  "hashes_ok v \<Longrightarrow> \<forall>x \<in> set xs. valid_input x \<Longrightarrow> hashes_ok (creations a t xs v)"
  by (induction xs arbitrary: v) (simp_all add: hashes_ok_create batch_config_def valid_input_def)

lemma hashes_ok_bulk:
  "ar_register_alert a t l h r g c s = (Inr i, s') \<Longrightarrow> hashes_ok (view_of s) \<Longrightarrow>
   hashes_ok (view_of s')"
  "ar_batch_register_alerts a xs c s = (Inr ids, s') \<Longrightarrow> hashes_ok (view_of s) \<Longrightarrow>
   hashes_ok (view_of s')"
  "ar_deactivate_all_alerts a c s = (Inr n, s') \<Longrightarrow> hashes_ok (view_of s) \<Longrightarrow>
   hashes_ok (view_of s')"
proof -
  have prune: "hashes_ok (prune a v) \<longleftrightarrow> hashes_ok v" for v by (simp add: hashes_ok_def)
  show "hashes_ok (view_of s')"
    if "ar_register_alert a t l h r g c s = (Inr i, s')" "hashes_ok (view_of s)"
    using ar_register_alert_effect [OF that(1)] that(2) by (simp add: hashes_ok_create prune)
  show "hashes_ok (view_of s')"
    if "ar_batch_register_alerts a xs c s = (Inr ids, s')" "hashes_ok (view_of s)"
    using ar_batch_register_alerts_effect [OF that(1)] that(2)
    by (simp add: hashes_ok_creations prune)
  show "hashes_ok (view_of s')"
    if "ar_deactivate_all_alerts a c s = (Inr n, s')" "hashes_ok (view_of s)"
    using ar_deactivate_all_alerts_effect [OF that(1)] that(2)
    by (simp add: hashes_ok_deactivations)
qed

lemma alerts_same:
  "ar_initialize a c s = (Inr u, s') \<Longrightarrow> p_get (Alerts s') = p_get (Alerts s)"
  "ar_transfer_admin a b c s = (Inr u, s') \<Longrightarrow> p_get (Alerts s') = p_get (Alerts s)"
  "ar_add_admin a b c s = (Inr u, s') \<Longrightarrow> p_get (Alerts s') = p_get (Alerts s)"
  "ar_remove_admin a b c s = (Inr u, s') \<Longrightarrow> p_get (Alerts s') = p_get (Alerts s)"
  "ar_set_per_owner_alert_limit a l c s = (Inr u, s') \<Longrightarrow> p_get (Alerts s') = p_get (Alerts s)"
  "ar_set_paused a p c s = (Inr u, s') \<Longrightarrow> p_get (Alerts s') = p_get (Alerts s)"
  "ar_set_watcher_registry a w c s = (Inr u, s') \<Longrightarrow> p_get (Alerts s') = p_get (Alerts s)"
  by (auto simp: ar_initialize_def ar_transfer_admin_def ar_add_admin_def ar_remove_admin_def
      ar_set_per_owner_alert_limit_def ar_set_paused_def ar_set_watcher_registry_def ok_simps)

lemma alerts_same_renewals:
  "ar_bump_alert i t c s = (Inr u, s') \<Longrightarrow> p_get (Alerts s') = p_get (Alerts s)"
  "ar_bulk_renew_ttl ids c s = (Inr n, s') \<Longrightarrow> p_get (Alerts s') = p_get (Alerts s)"
  "ar_get_alert i c s = (Inr r, s') \<Longrightarrow> p_get (Alerts s') = p_get (Alerts s)"
proof -
  show "p_get (Alerts s') = p_get (Alerts s)" if "ar_bump_alert i t c s = (Inr u, s')"
    using that by (rule ar_bump_alert_effect) (auto simp: emit_def dest: view_sel_of_state(4))
  show "p_get (Alerts s') = p_get (Alerts s)" if "ar_bulk_renew_ttl ids c s = (Inr n, s')"
    using frozen_renewals(1) [OF that] that ar_bulk_renew_loop_effect [of ids 0 c s n s']
    by (auto simp: ar_bulk_renew_ttl_def ok_simps renewals_def dest: view_sel_of_state(4))
  show "p_get (Alerts s') = p_get (Alerts s)" if "ar_get_alert i c s = (Inr r, s')"
    using ar_get_alert_effect(2) [OF that] by (auto dest: view_sel_of_state(4))
qed

lemma hashes_ok_alerts:
  "p_get (Alerts s') = p_get (Alerts s) \<Longrightarrow> hashes_ok (view_of s) \<Longrightarrow> hashes_ok (view_of s')"
  by (rule hashes_ok_same) simp_all

text \<open>
  Every other call keeps the 64 characters: if all stored webhook hashes have length 64,
  they still do after any call that returns, except \<open>confirm_webhook\<close>.
\<close>

theorem ar_hash_length_kept:
  assumes "ar_exec call c s = (Inr u, s')" "\<forall>a i. call \<noteq> ConfirmWebhook a i"
    "\<forall>i cfg. p_get (Alerts s) i = Some cfg \<longrightarrow> length (webhook_hash cfg) = 64"
    "p_get (Alerts s') i = Some cfg"
  shows "length (webhook_hash cfg) = 64"
proof -
  have "hashes_ok (view_of s)" using assms(3) by (simp add: hashes_ok_def)
  with assms(1,2) have "hashes_ok (view_of s')"
    by (cases call)
      (auto simp: discard_ok ar_pause_alert_def ar_unpause_alert_def
        dest: hashes_ok_edits hashes_ok_switches hashes_ok_moves hashes_ok_bulk
          hashes_ok_alerts [OF alerts_same(1)] hashes_ok_alerts [OF alerts_same(2)]
          hashes_ok_alerts [OF alerts_same(3)] hashes_ok_alerts [OF alerts_same(4)]
          hashes_ok_alerts [OF alerts_same(5)] hashes_ok_alerts [OF alerts_same(6)]
          hashes_ok_alerts [OF alerts_same(7)]
          alerts_same_renewals [THEN hashes_ok_alerts])
  with assms(4) show ?thesis by (auto simp: hashes_ok_def)
qed

theorem ar_hash_length_kept_witness:
  "length (webhook_hash (sample_config (Address 4) 30)) = 64"
  by (rule ar_hash_length_kept [OF sample_state_run, of 1])
    (auto simp: sample_register_def split: if_splits)

end
