(* ===== verification/AlertFunctions.thy ===== *)
theory AlertFunctions
  imports AlertSamples
begin

text \<open>
  The functional behaviour of the entry points of the alert registry: registration on every
  branch, batches against single registrations, the per-owner limit, removal, the two moves
  of an alert, bulk deactivation and the admin set.
\<close>

section \<open>The verdicts of validation\<close>

text \<open>
  Validation as a function of the input: the error of the first rule that is unknown or
  repeats an earlier one; the error of a tag list.
\<close>

definition bad_rule :: "string list \<Rightarrow> nat \<Rightarrow> bool" where
  "bad_rule rls k \<longleftrightarrow> rls ! k \<notin> known_rules \<or> rls ! k \<in> set (take k rls)"

definition rules_verdict :: "string list \<Rightarrow> ar_error option" where
  "rules_verdict rls =
     (if rls = [] then Some EmptyRules
      else if length rls > 50 then Some TooManyRules
      else case find (bad_rule rls) [0..<length rls] of
        None \<Rightarrow> None
      | Some k \<Rightarrow> Some (if rls ! k \<in> known_rules then DuplicateRule else InvalidRuleDescriptor))"

definition tags_verdict :: "string list option \<Rightarrow> ar_error option" where
  "tags_verdict tgs =
     (case tgs of None \<Rightarrow> None
      | Some t \<Rightarrow> if length t > 10 then Some TooManyTags
                 else if \<exists>x \<in> set t. length x > 32 then Some TagTooLong else None)"

definition verdict :: "ar_error option \<Rightarrow> unit ar_op" where
  "verdict x = (case x of None \<Rightarrow> ret () | Some e \<Rightarrow> throw e)"

lemma verdict_run [run_simps]:
  "verdict None c s = (Inr (), s)" "verdict (Some e) c s = (Inl (Err e), s)"
  by (simp_all add: verdict_def ret_run throw_run)

lemma ar_validate_rule_run:
  "ar_validate_rule r c s =
   (if r \<in> known_rules then (Inr (), s) else (Inl (Err InvalidRuleDescriptor), s))"
  by (auto simp: ar_validate_rule_def reject_if_run known_rules_def)

lemma find_append: "find P (xs @ ys) = (case find P xs of None \<Rightarrow> find P ys | Some x \<Rightarrow> Some x)"
  by (induction xs) auto

lemma rules_loop_verdict:
  "ar_validate_rules_loop seen rls c s =
   (case find (bad_rule (seen @ rls)) [length seen..<length seen + length rls] of
      None \<Rightarrow> (Inr (), s)
    | Some k \<Rightarrow> (Inl (Err (if (seen @ rls) ! k \<in> known_rules then DuplicateRule
                          else InvalidRuleDescriptor)), s))"
proof (induction rls arbitrary: seen)
  case Nil
  then show ?case by (simp add: ret_run)
next
  case (Cons r rls)
  let ?all = "seen @ r # rls"
  let ?is = "[length (seen @ [r])..<length (seen @ [r]) + length rls]"
  have idx: "[length seen..<length seen + length (r # rls)] = length seen # ?is"
    by (subst upt_conv_Cons) (simp_all del: upt_Suc)
  have here: "bad_rule ?all (length seen) \<longleftrightarrow> r \<notin> known_rules \<or> r \<in> set seen"
    by (simp add: bad_rule_def)
  have step: "ar_validate_rules_loop seen (r # rls) c s =
      (if r \<in> known_rules then
         (if r \<in> set seen then (Inl (Err DuplicateRule), s)
          else ar_validate_rules_loop (seen @ [r]) rls c s)
       else (Inl (Err InvalidRuleDescriptor), s))"
    by (simp add: bind_run ar_validate_rule_run reject_if_run)
  show ?case
    unfolding step idx find.simps here Cons.IH append_assoc append_Cons append_Nil
    by (auto simp: nth_append)
qed

lemma ar_validate_rules_verdict: "ar_validate_rules rls c s = verdict (rules_verdict rls) c s"
  by (auto simp: ar_validate_rules_def block_run reject_if_run rules_loop_verdict [where seen = "[]", simplified]
      rules_verdict_def run_simps split: option.splits)

lemma for_each_reject_run:
  "for_each xs (\<lambda>x. reject_if (P x) e) c s =
   (if \<exists>x \<in> set xs. P x then (Inl (Err e), s) else (Inr (), s))"
  by (induction xs) (auto simp: for_each_run reject_if_run)

lemma ar_validate_tags_verdict: "ar_validate_tags tgs c s = verdict (tags_verdict tgs) c s"
  by (auto simp: ar_validate_tags_def tags_verdict_def verdict_def ret_run throw_run block_run
      reject_if_run for_each_reject_run AR_MAX_TAGS_def AR_MAX_TAG_BYTES_def not_less
      split: option.splits)

lemma verdict_ok: "verdict x c s = (Inr u, s') \<longleftrightarrow> x = None \<and> s' = s"
  by (cases x) (auto simp: verdict_run)

lemma rules_verdict_None_iff: "rules_verdict rls = None \<longleftrightarrow> valid_rules rls"
proof -
  have "rules_verdict rls = None \<longleftrightarrow> ar_validate_rules rls (undefined :: alert_ctx) s = (Inr (), s)"
    for s :: alert_state
    by (simp add: ar_validate_rules_verdict verdict_ok)
  then show ?thesis by (simp add: ar_validate_rules_ok)
qed

lemma tags_verdict_None_iff: "tags_verdict tgs = None \<longleftrightarrow> valid_tags tgs"
  by (auto simp: tags_verdict_def valid_tags_def split: option.splits) (meson not_less)

section \<open>Registration\<close>

text \<open>
  The first reason a registration fails for, in the order of the guards; \<open>Trap\<close> is the missing
  signature of the owner.
\<close>

definition register_verdict ::
  "address \<Rightarrow> string \<Rightarrow> string \<Rightarrow> string list \<Rightarrow> string list option \<Rightarrow> alert_ctx \<Rightarrow> alert_state
   \<Rightarrow> ar_error failure option" where
  "register_verdict own lbl hash rls tgs c s =
     (if ar_is_paused s then Some (Err ContractPaused)
      else if length hash \<noteq> 64 then Some (Err InvalidWebhookHash)
      else if \<not> authorized c own then Some Trap
      else if length lbl > 128 then Some (Err LabelTooLong)
      else case rules_verdict rls of Some e \<Rightarrow> Some (Err e)
      | None \<Rightarrow> case tags_verdict tgs of Some e \<Rightarrow> Some (Err e)
      | None \<Rightarrow> if \<not> within_limit own 1 (view_of s) then Some (Err OwnerAlertLimitExceeded)
        else if unat (ar_get_alert_count s) + 1 \<ge> 18446744073709551616
             then Some (Err CounterOverflow)
        else None)"

lemma fst_err: "fst (m c s) = Inl y \<longleftrightarrow> (\<exists>s'. m c s = (Inl y, s'))"
  by (cases "m c s") auto

lemma ar_assert_per_owner_limit_err:
  assumes "ar_assert_per_owner_limit a c s = (Inl y, s')"
  shows "\<not> within_limit a 1 (view_of s) \<and> y = Err OwnerAlertLimitExceeded"
proof -
  have "\<not> within_limit a 1 (view_of s)"
    using assms ar_assert_per_owner_limit_ok [of a c s "()" "prune_state c a s"] by auto
  moreover from assms have "y = Err OwnerAlertLimitExceeded"
    by (auto simp: ar_assert_per_owner_limit_def ar_assert_per_owner_limit_for_def bind_err gets_ok
        gets_err block_Cons_err block_Nil_err reject_if_err st_remove_err st_set_err
        owner_ix.store_never_fails ret_err block_Cons_ok st_set_ok st_extend_ttl_err
        split: if_splits)
  ultimately show ?thesis by simp
qed

lemma ar_register_alert_err:
  assumes "ar_register_alert own target lbl hash rls tgs c s = (Inl y, s')"
    "view_ok (view_of s)"
  shows "register_verdict own lbl hash rls tgs c s = Some y"
proof -
  let ?p = "prune_state c own s"
  have fresh: "ar_get_alert_count s \<notin> set (v_owned (prune own (view_of s)) own)"
    "ar_get_alert_count s \<notin> set (ids_at (ContractIndexes s) target)"
    using assms(2) by (auto simp: view_ok_def ids_bounded_def prune_def)
  show ?thesis
    using assms(1) fresh
    by (auto simp: ar_register_alert_def register_verdict_def bind_err block_Cons_err block_Nil_err
        ok_simps ret_err now_err ar_pause.check_err reject_if_err require_auth_err
        ar_validate_label_err ar_validate_rules_verdict ar_validate_tags_verdict verdict_ok
        ar_next_id_err ar_put_alert_err ar_put_active_err owner_ix.push_err contract_ix.push_err
        publish_err verdict_def throw_err rules_verdict_None_iff [symmetric]
        tags_verdict_None_iff [symmetric]
        dest!: ar_assert_per_owner_limit_err split: option.splits)
qed

lemma register_verdict_None:
  "register_verdict own lbl hash rls tgs c s = None \<longleftrightarrow>
   \<not> ar_is_paused s \<and> length hash = 64 \<and> authorized c own \<and> length lbl \<le> 128 \<and>
   valid_rules rls \<and> valid_tags tgs \<and> within_limit own 1 (view_of s) \<and>
   unat (ar_get_alert_count s) + 1 < 18446744073709551616"
  by (auto simp: register_verdict_def rules_verdict_None_iff [symmetric]
      tags_verdict_None_iff [symmetric] not_less not_le split: option.splits if_splits)

lemma register_returns:
  assumes "view_ok (view_of s)" "register_verdict own lbl hash rls tgs c s = None"
  shows "ar_register_alert own target lbl hash rls tgs c s =
    (Inr (ar_get_alert_count s),
     registered_state c (new_config own target lbl hash rls tgs (timestamp c)) (prune_state c own s))"
proof -
  have "ar_get_alert_count s \<notin> set (v_owned (prune own (view_of s)) own)"
    "ar_get_alert_count s \<notin> set (ids_at (ContractIndexes s) target)"
    using assms(1) by (auto simp: view_ok_def ids_bounded_def prune_def)
  with assms(2) show ?thesis
    unfolding ar_register_alert_iff register_verdict_None by simp
qed

text \<open>
  C8. What \<open>register_alert\<close> answers, on every branch: in every reachable state the outcome is
  the error of the first guard that fails, in the order pause, webhook hash, signature, label,
  rules (the first offending rule), tags, per-owner limit, counter; and the next identifier
  when none fails. No other failure is possible; in particular \<open>DuplicateAlertId\<close> never occurs.
\<close>

theorem ar_register_outcome:
  assumes "ar_reachable e s"
  shows "fst (ar_register_alert own target lbl hash rls tgs c s) =
    (case register_verdict own lbl hash rls tgs c s of
       Some y \<Rightarrow> Inl y | None \<Rightarrow> Inr (ar_get_alert_count s))"
proof -
  have ok: "view_ok (view_of s)" using assms by (rule view_ok_reachable)
  obtain r s' where run: "ar_register_alert own target lbl hash rls tgs c s = (r, s')"
    by (cases "ar_register_alert own target lbl hash rls tgs c s")
  show ?thesis
  proof (cases r)
    case (Inl y)
    with run ar_register_alert_err [of own target lbl hash rls tgs c s y s'] ok
    show ?thesis by simp
  next
    case (Inr i)
    with run have "register_verdict own lbl hash rls tgs c s = None"
      unfolding register_verdict_None by (auto simp: ar_register_alert_iff)
    with register_returns [OF ok] show ?thesis by simp
  qed
qed

theorem ar_register_outcome_witness:
  "fst (ar_register_alert (Address 2) (Address 3) ''x'' sample_hash [''rule:mint'', ''rule:mint'']
     None (sample_ctx 40 (Address 2)) sample_state) = Inl (Err DuplicateRule) \<and>
   fst (ar_register_alert (Address 2) (Address 3) ''x'' sample_hash [''rule:mint''] None
     (sample_ctx 40 (Address 2)) sample_state) = Inr 2"
  using ar_register_outcome [OF sample_reachable, where own = "Address 2" and hash = sample_hash
      and lbl = "''x''" and tgs = None and c = "sample_ctx 40 (Address 2)"]
  by (simp add: register_verdict_def rules_verdict_def bad_rule_def known_rules_def
      tags_verdict_def within_limit_def)

text \<open>
  C9. What a registration leaves behind: the identifier is the previous counter, which grows
  by one; under it is stored exactly the submitted alert, active, stamped with the ledger time
  and with no pending webhook; its flag is set; the target's index is extended by it at the
  end, the owner's index holds it last; every other alert and flag, and every other address's
  index, is as before.
\<close>

theorem ar_register_effect:
  assumes "ar_register_alert own target lbl hash rls tgs c s = (Inr i, s')"
  shows "i = ar_get_alert_count s \<and> ar_get_alert_count s' = i + 1 \<and>
    p_get (Alerts s') = (p_get (Alerts s))(i \<mapsto>
      \<lparr>label = lbl, webhook_hash = hash, rules = rls, owner = own, target_contract = target,
       created_at = timestamp c, updated_at = timestamp c, active = True,
       pending_webhook_hash = None, tags = tgs\<rparr>) \<and>
    p_get (AlertActives s') = (p_get (AlertActives s))(i \<mapsto> True) \<and>
    ar_contract_index s' target = ar_contract_index s target @ [i] \<and>
    (\<exists>ids. ar_owner_index s' own = ids @ [i] \<and> set ids \<subseteq> set (ar_owner_index s own)) \<and>
    (\<forall>a. a \<noteq> target \<longrightarrow> ar_contract_index s' a = ar_contract_index s a) \<and>
    (\<forall>a. a \<noteq> own \<longrightarrow> ar_owner_index s' a = ar_owner_index s a)"
proof -
  note eff = ar_register_alert_effect [OF assms]
  let ?cfg = "new_config own target lbl hash rls tgs (timestamp c)"
  have "view_of s' = create ?cfg (prune own (view_of s))" by (rule eff(12))
  from view_sel_of_state [OF this] arg_cong [OF this, of v_flags] eff(8) show ?thesis
    unfolding ar_owner_index_ids ar_contract_index_ids
    by (auto simp: create_def emit_def Let_def list_under_def prune_def new_config_def)
qed

theorem ar_register_effect_witness:
  "\<exists>s'. ar_register_alert (Address 2) (Address 4) ''label'' sample_hash [''rule:all''] None
      (sample_ctx 30 (Address 2)) sample_one = (Inr 1, s') \<and>
     ar_contract_index s' (Address 4) = ar_contract_index sample_one (Address 4) @ [1]"
proof -
  from sample_state_run obtain i where
    run: "ar_register_alert (Address 2) (Address 4) ''label'' sample_hash [''rule:all''] None
      (sample_ctx 30 (Address 2)) sample_one = (Inr i, sample_state)"
    by (auto simp: sample_register_def discard_ok)
  with ar_register_effect [OF run] show ?thesis by auto
qed

section \<open>Batches\<close>

text \<open>The same alerts, registered one by one.\<close>

fun register_each :: "address \<Rightarrow> alert_input list \<Rightarrow> (u64 list) ar_op" where
  "register_each own [] = ret []"
| "register_each own (x # xs) =
     bind (ar_register_alert own (input_target_contract x) (input_label x) (input_webhook_hash x)
             (input_rules x) None) (\<lambda>i.
     bind (register_each own xs) (\<lambda>is. ret (i # is)))"

lemma saturating_step:
  fixes a n k lim :: u32
  assumes "saturating_add a n \<le> lim" "unat k < unat n"
  shows "saturating_add (a + k) 1 \<le> lim"
proof (cases "unat a + unat n < 4294967296")
  case True
  with assms(2) have "unat (a + k) = unat a + unat k" by (simp add: unat_word_ariths)
  with True assms unat_saturating_add [of a n] unat_saturating_add [of "a + k" 1] show ?thesis
    by (simp add: word_le_nat_alt)
next
  case False
  then have "saturating_add a n = - 1" by (simp add: saturating_add_def)
  with assms(1) show ?thesis by (metis word_order.extremum_unique word_order.extremum)
qed

lemma saturating_shift:
  fixes a n lim :: u32
  assumes "saturating_add a (n + 1) \<le> lim" "unat n + 1 < 4294967296"
  shows "saturating_add (a + 1) n \<le> lim"
proof (cases "unat a + unat (n + 1) < 4294967296")
  case True
  have n: "unat (n + 1) = unat n + 1" using assms(2) by (simp add: unat_word_ariths)
  with True have "unat (a + 1) = unat a + 1" by (simp add: unat_word_ariths)
  with True n have "saturating_add (a + 1) n = a + 1 + n"
    "saturating_add a (n + 1) = a + (n + 1)"
    by (simp_all only: saturating_add_def) simp_all
  moreover have "a + 1 + n = a + (n + 1)" by (simp only: ac_simps)
  ultimately show ?thesis using assms(1) by simp
next
  case False
  then have "saturating_add a (n + 1) = - 1" by (simp add: saturating_add_def)
  with assms(1) show ?thesis by (metis word_order.extremum_unique word_order.extremum)
qed

lemma prune_id: "\<forall>i \<in> set (v_owned v a). v_alerts v i \<noteq> None \<Longrightarrow> prune a v = v"
  by (simp add: prune_def)

lemma prune_create_own:
  assumes "owner cfg = own"
  shows "prune own (create cfg (prune own v)) = create cfg (prune own v)"
proof (cases "0 < v_limit v")
  case True
  with assms show ?thesis
    by (intro prune_id) (auto simp: prune_def create_def emit_def Let_def list_under_def)
next
  case False
  then show ?thesis by (simp add: prune_def create_def emit_def Let_def)
qed

text \<open>The limit that a batch has checked at once covers each of its registrations.\<close>

lemma within_limit_create:
  assumes "owner cfg = own" "prune own v = v"
    "within_limit own (word_of_nat (Suc n)) v" "n < 50"
  shows "within_limit own 1 v" "within_limit own (word_of_nat n) (create cfg v)"
proof -
  let ?live = "filter (\<lambda>i. v_alerts v i \<noteq> None) (v_owned v own)"
  let ?a = "word_of_nat (length ?live) :: u32"
  have n: "unat (word_of_nat (Suc n) :: u32) = Suc n" "unat (word_of_nat n :: u32) = n"
    using assms(4) by (simp_all add: unat_of_nat_small32 del: of_nat_Suc)
  show "within_limit own 1 v"
    using assms(3) saturating_step [of ?a "word_of_nat (Suc n)" "v_limit v" 0] n
    by (auto simp: within_limit_def simp del: of_nat_Suc)
  show "within_limit own (word_of_nat n) (create cfg v)"
  proof (cases "0 < v_limit v")
    case True
    with assms(2) have "v_owned v own = ?live"
      unfolding prune_def by (metis (no_types, lifting) ar_view.select_convs(8) ar_view.surjective
          ar_view.update_convs(8) fun_upd_same)
    from sym [OF this] have "\<forall>i \<in> set (v_owned v own). v_alerts v i \<noteq> None"
      by (simp only: filter_id_conv)
    then have "filter (\<lambda>i. v_alerts (create cfg v) i \<noteq> None) (v_owned (create cfg v) own)
        = v_owned v own @ [v_count v]"
      using assms(1) by (auto simp: create_def emit_def Let_def list_under_def)
    moreover have "saturating_add (?a + 1) (word_of_nat n) \<le> v_limit v"
      using assms(3,4) True n saturating_shift [of ?a "word_of_nat n" "v_limit v"]
      by (auto simp: within_limit_def add.commute)
    ultimately show ?thesis
      using \<open>v_owned v own = ?live\<close>
      by (simp add: within_limit_def create_def emit_def Let_def add.commute)
  next
    case False
    then have "v_limit v = 0" by (simp add: word_neq_0_conv [symmetric])
    then show ?thesis by (simp add: within_limit_def create_def emit_def Let_def)
  qed
qed

lemma within_limit_prune [simp]: "within_limit own n (prune own v) = within_limit own n v"
  by (simp add: within_limit_def prune_def)

lemma prune_prune [simp]: "prune own (prune own v) = prune own v"
  by (simp add: prune_def)

lemma register_each_batch:
  assumes "view_ok (view_of t)" "\<not> ar_is_paused t" "authorized c own"
    "\<forall>x \<in> set xs. valid_input x" "length xs \<le> 50"
    "within_limit own (word_of_nat (length xs)) (view_of t)"
    "xs = [] \<or> unat (ar_get_alert_count t) + length xs < 18446744073709551616"
  shows "\<exists>t'. register_each own xs c t =
      (Inr (map (\<lambda>k. ar_get_alert_count t + word_of_nat k) [0..<length xs]), t') \<and>
    view_of t' = (if xs = [] then view_of t
                  else creations own (timestamp c) xs (prune own (view_of t)))"
  using assms
proof (induction xs arbitrary: t)
  case Nil
  then show ?case by (simp add: ret_run)
next
  case (Cons x xs)
  let ?cfg = "batch_config own (timestamp c) x"
  let ?i = "ar_get_alert_count t"
  let ?w = "create ?cfg (prune own (view_of t))"
  define t1 where "t1 = registered_state c ?cfg (prune_state c own t)"
  have cfg: "owner ?cfg = own" by (simp add: batch_config_def)
  have limits: "within_limit own 1 (prune own (view_of t))"
      "within_limit own (word_of_nat (length xs)) ?w"
    using within_limit_create [OF cfg, of "prune own (view_of t)" "length xs"] Cons.prems
    by (simp_all del: of_nat_Suc)
  have verdict: "register_verdict own (input_label x) (input_webhook_hash x) (input_rules x) None c t
      = None"
    using Cons.prems limits(1) by (simp add: register_verdict_None valid_input_def valid_tags_def)
  have run: "ar_register_alert own (input_target_contract x) (input_label x) (input_webhook_hash x)
      (input_rules x) None c t = (Inr ?i, t1)"
    using register_returns [OF Cons.prems(1) verdict, of "input_target_contract x"]
    by (simp add: t1_def batch_config_def)
  have view: "view_of t1 = ?w" by (simp add: t1_def)
  then have pruned: "prune own (view_of t1) = view_of t1"
    using prune_create_own [OF cfg] by simp
  from view have sel: "ar_get_alert_count t1 = ?i + 1" "ar_is_paused t1 = ar_is_paused t"
    by (auto simp: create_def emit_def Let_def dest: view_sel_of_state(1) arg_cong [of _ _ v_paused])
  have "view_ok (view_of t1)"
    using view_ok_changes [OF refines_register [OF run]] Cons.prems(1) by simp
  moreover have "unat (?i + 1) = unat ?i + 1"
    using Cons.prems(7) by (simp add: unat_word_ariths)
  ultimately obtain t' where
    "register_each own xs c t1 =
      (Inr (map (\<lambda>k. ?i + 1 + word_of_nat k) [0..<length xs]), t')"
    "view_of t' = creations own (timestamp c) xs ?w"
    using Cons.IH [of t1] Cons.prems limits(2) sel pruned view by (auto split: if_splits)
  then show ?case
    using run
    by (simp add: bind_run ret_run upt_conv_Cons map_Suc_upt [symmetric] add.assoc del: upt_Suc)
qed

lemma saturating_unshift:
  fixes a n lim :: u32
  assumes "saturating_add a 1 \<le> lim" "saturating_add (a + 1) n \<le> lim" "unat n + 1 < 4294967296"
  shows "saturating_add a (n + 1) \<le> lim"
proof (cases "unat a + unat n + 1 < 4294967296")
  case True
  with assms(3) have "unat (n + 1) = unat n + 1" "unat (a + 1) = unat a + 1"
    by (simp_all add: unat_word_ariths)
  with True have "saturating_add (a + 1) n = a + 1 + n" "saturating_add a (n + 1) = a + (n + 1)"
    by (simp_all only: saturating_add_def) simp_all
  with assms(2) show ?thesis by (simp only: ac_simps)
next
  case overflow: False
  have "lim = - 1"
  proof (cases "unat a + 1 < 4294967296")
    case True
    then have "unat (a + 1) = unat a + 1" by (simp add: unat_word_ariths)
    with overflow have "saturating_add (a + 1) n = - 1" by (simp add: saturating_add_def)
    with assms(2) show ?thesis by (metis word_order.extremum_unique)
  next
    case False
    then have "saturating_add a 1 = - 1" by (simp add: saturating_add_def)
    with assms(1) show ?thesis by (metis word_order.extremum_unique)
  qed
  then show ?thesis by simp
qed

lemma within_limit_uncreate:
  assumes "owner cfg = own" "prune own v = v" "n < 50"
    "within_limit own 1 v" "within_limit own (word_of_nat n) (create cfg v)"
  shows "within_limit own (word_of_nat (Suc n)) v"
proof (cases "0 < v_limit v")
  case True
  let ?live = "filter (\<lambda>i. v_alerts v i \<noteq> None) (v_owned v own)"
  let ?a = "word_of_nat (length ?live) :: u32"
  from True assms(2) have "v_owned v own = ?live"
    unfolding prune_def by (metis (no_types, lifting) ar_view.select_convs(8) ar_view.surjective
        ar_view.update_convs(8) fun_upd_same)
  from sym [OF this] have "\<forall>i \<in> set (v_owned v own). v_alerts v i \<noteq> None"
    by (simp only: filter_id_conv)
  then have "filter (\<lambda>i. v_alerts (create cfg v) i \<noteq> None) (v_owned (create cfg v) own)
      = v_owned v own @ [v_count v]"
    using assms(1) by (auto simp: create_def emit_def Let_def list_under_def)
  with True assms(4,5) \<open>v_owned v own = ?live\<close>
  have "saturating_add ?a 1 \<le> v_limit v" "saturating_add (?a + 1) (word_of_nat n) \<le> v_limit v"
    by (auto simp: within_limit_def create_def emit_def Let_def add.commute)
  from saturating_unshift [OF this] assms(3) show ?thesis
    by (simp add: within_limit_def unat_of_nat_small32 add.commute)
next
  case False
  then have "v_limit v = 0" by (simp add: word_neq_0_conv [symmetric])
  then show ?thesis by (simp add: within_limit_def)
qed

text \<open>What single registrations that all return have passed, taken together.\<close>

lemma register_each_passed:
  assumes "register_each own xs c t = (Inr ids, t')" "xs \<noteq> []" "length xs \<le> 50"
  shows "\<not> ar_is_paused t \<and> authorized c own \<and> (\<forall>x \<in> set xs. valid_input x) \<and>
    within_limit own (word_of_nat (length xs)) (view_of t) \<and>
    unat (ar_get_alert_count t) + length xs < 18446744073709551616"
  using assms
proof (induction xs arbitrary: t ids)
  case (Cons x xs)
  let ?cfg = "batch_config own (timestamp c) x"
  have cfg: "owner ?cfg = own" by (simp add: batch_config_def)
  from Cons.prems(1) obtain i t1 rest where
    one: "ar_register_alert own (input_target_contract x) (input_label x) (input_webhook_hash x)
      (input_rules x) None c t = (Inr i, t1)" and
    more: "register_each own xs c t1 = (Inr rest, t')"
    by (auto simp: bind_ok ret_ok)
  note eff = ar_register_alert_effect [OF one]
  have view: "view_of t1 = create ?cfg (prune own (view_of t))"
    using eff(12) by (simp add: batch_config_def)
  have x: "\<not> ar_is_paused t" "authorized c own" "valid_input x" "within_limit own 1 (view_of t)"
    "unat (ar_get_alert_count t) + 1 < 18446744073709551616"
    using eff by (simp_all add: valid_input_def)
  show ?case
  proof (cases "xs = []")
    case True
    with x show ?thesis by simp
  next
    case False
    from Cons.IH [OF more this] Cons.prems(3) have
      rest: "\<forall>y \<in> set xs. valid_input y" "within_limit own (word_of_nat (length xs)) (view_of t1)"
      "unat (ar_get_alert_count t1) + length xs < 18446744073709551616"
      by auto
    have "within_limit own (word_of_nat (Suc (length xs))) (prune own (view_of t))"
      using within_limit_uncreate [OF cfg, of "prune own (view_of t)" "length xs"]
        Cons.prems(3) x(4) rest(2) view by (simp del: of_nat_Suc)
    moreover have "ar_get_alert_count t1 = ar_get_alert_count t + 1"
      using view_sel_of_state(1) [OF view] by simp
    moreover have "unat (ar_get_alert_count t + 1) = unat (ar_get_alert_count t) + 1"
      using x(5) by (simp add: unat_word_ariths)
    ultimately show ?thesis using x rest by (simp del: of_nat_Suc)
  qed
qed simp

lemma ids_bounded_create:
  "ids_bounded v \<Longrightarrow> unat (v_count v) + 1 < 18446744073709551616 \<Longrightarrow> ids_bounded (create cfg v)"
  by (auto simp: ids_bounded_def create_def emit_def Let_def list_under_def next_id_above
      intro: less_imp_le)

text \<open>The loop of a batch returns: no identifier it takes is in an index yet.\<close>

lemma batch_loop_returns:
  "ids_bounded (view_of s) \<Longrightarrow>
   inputs = [] \<or> unat (ar_get_alert_count s) + length inputs < 18446744073709551616 \<Longrightarrow>
   \<exists>ids' s'. ar_batch_loop own t inputs ids c s = (Inr ids', s')"
proof (induction inputs arbitrary: ids s)
  case Nil
  then show ?case by (simp add: ret_run)
next
  case (Cons x xs)
  let ?i = "ar_get_alert_count s"
  define t1 where "t1 = registered_state c (batch_config own t x) s"
  from Cons.prems have small: "unat ?i + 1 < 18446744073709551616" by simp
  have view: "view_of t1 = create (batch_config own t x) (view_of s)"
    by (simp add: t1_def)
  then have "ar_get_alert_count t1 = ?i + 1"
    using view_sel_of_state(1) [OF view] by simp
  moreover have "unat (?i + 1) = unat ?i + 1" using small by (simp add: unat_word_ariths)
  moreover have "ids_bounded (view_of t1)"
    unfolding view using Cons.prems(1) small by (intro ids_bounded_create) simp_all
  ultimately obtain ids' s' where
    rest: "ar_batch_loop own t xs (ids @ [?i]) c t1 = (Inr ids', s')"
    using Cons.IH [of t1 "ids @ [?i]"] Cons.prems(2) by auto
  have "?i \<notin> set (ids_at (OwnerIndexes s) own)"
    "?i \<notin> set (ids_at (ContractIndexes s) (input_target_contract x))"
    using Cons.prems(1) by (auto simp: ids_bounded_def)
  with rest small have "ar_batch_loop own t (x # xs) ids c s = (Inr ids', s')"
    by (auto simp: op_ok t1_def registered_state_def new_config_def batch_config_def)
  then show ?case by blast
qed

lemma batch_returns:
  assumes "view_ok (view_of s)" "\<not> ar_is_paused s" "authorized c own" "length inputs \<le> 50"
    "\<forall>x \<in> set inputs. valid_input x" "within_limit own (word_of_nat (length inputs)) (view_of s)"
    "unat (ar_get_alert_count s) + length inputs < 18446744073709551616"
  shows "\<exists>ids s'. ar_batch_register_alerts own inputs c s = (Inr ids, s')"
proof -
  have checks: "for_each inputs (\<lambda>input. block
          [reject_if (length (input_webhook_hash input) \<noteq> 64) InvalidWebhookHash,
           ar_validate_label (input_label input),
           ar_validate_rules (input_rules input)]) c s = (Inr u, t) \<longleftrightarrow>
      (\<forall>input \<in> set inputs. valid_input input) \<and> t = s" for u t and s :: alert_state
    by (rule for_each_checks_ok) (auto simp: op_ok valid_input_def)
  have "ids_bounded (view_of (prune_state c own s))"
    using assms(1) by (auto simp: view_ok_def ids_bounded_def prune_def)
  from batch_loop_returns [OF this, of inputs own "timestamp c" "[]" c] assms(7) obtain ids s' where
    "ar_batch_loop own (timestamp c) inputs [] c (prune_state c own s) = (Inr ids, s')" by auto
  then show ?thesis
    using assms by (auto simp: ar_batch_register_alerts_def ok_simps checks AR_MAX_BATCH_SIZE_def)
qed

text \<open>
  C10. A batch is what it abbreviates: in a reachable state, \<open>batch_register_alerts\<close> of one to
  50 alerts returns if and only if registering the same alerts one by one with
  \<open>register_alert\<close> (without tags), in the same ledger and with the same signatures, returns
  every time, so the per-owner limit that the batch
  checks once admits it exactly when the check of each single registration does; and then both
  return the same identifiers, consecutive from the counter on, and leave the same contents
  and events. The empty batch is not covered: unlike zero registrations, it is checked
  against the limit and, when one is set, removes stale identifiers from the owner's index.
\<close>

theorem ar_batch_is_iterated_register:
  assumes "ar_reachable e s" "inputs \<noteq> []" "length inputs \<le> 50"
  shows "((\<exists>ids s'. ar_batch_register_alerts own inputs c s = (Inr ids, s')) \<longleftrightarrow>
      (\<exists>ids t. register_each own inputs c s = (Inr ids, t))) \<and>
    (\<forall>ids s'. ar_batch_register_alerts own inputs c s = (Inr ids, s') \<longrightarrow>
      ids = map (\<lambda>k. ar_get_alert_count s + word_of_nat k) [0..<length inputs] \<and>
      (\<exists>t. register_each own inputs c s = (Inr ids, t) \<and> view_of t = view_of s'))"
proof -
  have ok: "view_ok (view_of s)" by (rule view_ok_reachable [OF assms(1)])
  have each: "ids = map (\<lambda>k. ar_get_alert_count s + word_of_nat k) [0..<length inputs] \<and>
      (\<exists>t. register_each own inputs c s = (Inr ids, t) \<and> view_of t = view_of s')"
    if "ar_batch_register_alerts own inputs c s = (Inr ids, s')" for ids s'
  proof -
    note eff = ar_batch_register_alerts_effect [OF that]
    from register_each_batch [OF ok eff(1) eff(2) eff(4) eff(3) eff(5)] eff(6-8) assms(2)
    show ?thesis by simp
  qed
  moreover have "\<exists>ids s'. ar_batch_register_alerts own inputs c s = (Inr ids, s')"
    if "register_each own inputs c s = (Inr ids, t)" for ids t
    using register_each_passed [OF that assms(2,3)] batch_returns [OF ok] assms(3) by blast
  ultimately show ?thesis by blast
qed

definition sample_input :: "address \<Rightarrow> alert_input" where
  "sample_input target =
     \<lparr>input_target_contract = target, input_label = ''label'', input_webhook_hash = sample_hash,
      input_rules = [''rule:all'']\<rparr>"

lemma sample_batch_run:
  "\<exists>ids s'. ar_batch_register_alerts (Address 2) [sample_input (Address 3)]
     (sample_ctx 40 (Address 2)) sample_state = (Inr ids, s')"
  by (simp add: ar_batch_register_alerts_def sample_input_def op_ok AR_MAX_BATCH_SIZE_def
      within_limit_def no_prune)

theorem ar_batch_is_iterated_register_witness:
  "\<exists>s' t. ar_batch_register_alerts (Address 2) [sample_input (Address 3)]
       (sample_ctx 40 (Address 2)) sample_state = (Inr [2], s') \<and>
     register_each (Address 2) [sample_input (Address 3)] (sample_ctx 40 (Address 2)) sample_state
       = (Inr [2], t) \<and> view_of t = view_of s'"
proof -
  from sample_batch_run obtain ids s' where
    run: "ar_batch_register_alerts (Address 2) [sample_input (Address 3)]
      (sample_ctx 40 (Address 2)) sample_state = (Inr ids, s')" by blast
  have "ids = [2] \<and> (\<exists>t. register_each (Address 2) [sample_input (Address 3)]
      (sample_ctx 40 (Address 2)) sample_state = (Inr ids, t) \<and> view_of t = view_of s')"
    using ar_batch_is_iterated_register [OF sample_reachable, of "[sample_input (Address 3)]"
        "Address 2" "sample_ctx 40 (Address 2)", THEN conjunct2, rule_format, OF _ _ run]
    by (auto simp del: register_each.simps)
  with run show ?thesis by (auto simp del: register_each.simps)
qed

section \<open>The per-owner limit\<close>

lemma live_ids_create:
  assumes "owner cfg = own" "0 < v_limit v"
  shows "filter (\<lambda>i. v_alerts (create cfg (prune own v)) i \<noteq> None)
      (v_owned (create cfg (prune own v)) own) =
    filter (\<lambda>i. v_alerts v i \<noteq> None) (v_owned v own) @ [v_count v]"
  using assms
  by (auto simp: prune_def create_def emit_def Let_def list_under_def intro: filter_cong)

text \<open>
  C28. The per-owner limit holds: where a limit is set and a registration returns, the owner's
  live alerts afterwards are those from before and the new one, and they are at most the
  limit.
\<close>

theorem ar_owner_limit_respected:
  assumes "ar_register_alert own target lbl hash rls tgs c s = (Inr i, s')"
    "0 < ar_get_per_owner_alert_limit s"
    "length (ar_get_alert_ids_by_owner s own) < 4294967295"
  shows "ar_get_alert_ids_by_owner s' own = ar_get_alert_ids_by_owner s own @ [i] \<and>
    length (ar_get_alert_ids_by_owner s' own) \<le> unat (ar_get_per_owner_alert_limit s)"
proof -
  note eff = ar_register_alert_effect [OF assms(1)]
  let ?live = "filter (\<lambda>i. p_get (Alerts s) i \<noteq> None) (ids_at (OwnerIndexes s) own)"
  have ids: "ar_get_alert_ids_by_owner t own
      = filter (\<lambda>i. v_alerts (view_of t) i \<noteq> None) (v_owned (view_of t) own)" for t
    by (simp add: ar_get_alert_ids_by_owner_def ar_owner_index_ids live_ids_view)
  have new: "ar_get_alert_ids_by_owner s' own = ar_get_alert_ids_by_owner s own @ [i]"
    unfolding ids eff(12) using assms(2) eff(8)
    by (subst live_ids_create) simp_all
  have "length ?live < 4294967295"
    using assms(3) by (simp add: ids)
  then have "unat (word_of_nat (length ?live) :: u32) = length ?live"
    by (simp add: unat_of_nat_small32)
  with eff(7) assms(2) \<open>length ?live < 4294967295\<close>
    unat_saturating_add [of "word_of_nat (length ?live) :: u32" 1]
  have "length ?live + 1 \<le> unat (ar_get_per_owner_alert_limit s)"
    by (auto simp: within_limit_def word_le_nat_alt)
  with new show ?thesis by (simp add: ids)
qed

definition sample_limited :: alert_state where
  "sample_limited = sample_state\<lparr>LIMIT := Some 3\<rparr>"

theorem ar_owner_limit_respected_witness:
  "\<exists>i s'. ar_register_alert (Address 2) (Address 3) ''x'' sample_hash [''rule:all''] None
      (sample_ctx 40 (Address 2)) sample_limited = (Inr i, s') \<and>
     length (ar_get_alert_ids_by_owner s' (Address 2)) \<le> 3"
proof -
  have "\<exists>i s'. ar_register_alert (Address 2) (Address 3) ''x'' sample_hash [''rule:all''] None
      (sample_ctx 40 (Address 2)) sample_limited = (Inr i, s')"
    by (simp add: ar_register_alert_iff within_limit_def prune_def sample_limited_def
        saturating_add_def)
  then obtain i s' where
    run: "ar_register_alert (Address 2) (Address 3) ''x'' sample_hash [''rule:all''] None
      (sample_ctx 40 (Address 2)) sample_limited = (Inr i, s')" by blast
  from ar_owner_limit_respected [OF run] run show ?thesis
    by (auto simp: sample_limited_def ar_get_alert_ids_by_owner_def ar_owner_index_ids
        live_ids_view)
qed

section \<open>Removal and the two moves\<close>

text \<open>
  C24. A removed alert is gone: after \<open>remove_alert\<close> returns, neither the alert nor its flag is
  stored, its identifier is listed under no owner and no target, every index list is otherwise
  the same, and no other alert has changed.
\<close>

theorem ar_remove_erases:
  assumes "ar_reachable e s" "ar_remove_alert caller i c s = (Inr u, s')"
  shows "p_get (Alerts s') = (p_get (Alerts s))(i := None) \<and>
    p_get (AlertActives s') = (p_get (AlertActives s))(i := None) \<and>
    (\<forall>a. ar_owner_index s' a = filter (\<lambda>j. j \<noteq> i) (ar_owner_index s a)) \<and>
    (\<forall>a. ar_contract_index s' a = filter (\<lambda>j. j \<noteq> i) (ar_contract_index s a))"
  using assms(2)
proof (rule ar_remove_alert_effect)
  fix cfg
  assume cfg: "p_get (Alerts s) i = Some cfg"
    and view: "view_of s' = emit ''remove'' [VU64 i, VAddr caller] (erase i cfg (view_of s))"
  have "a \<noteq> owner cfg \<Longrightarrow> i \<notin> set (ids_at (OwnerIndexes s) a)"
    "a \<noteq> target_contract cfg \<Longrightarrow> i \<notin> set (ids_at (ContractIndexes s) a)" for a
    using view_ok_reachable [OF assms(1)] cfg by (auto simp: view_ok_def indexes_sound_def)
  then show ?thesis
    using view_sel_of_state [OF view] arg_cong [OF view, of v_flags]
    by (simp add: emit_def erase_def unlist_under_def ar_owner_index_ids ar_contract_index_ids)
qed

theorem ar_remove_erases_witness:
  "\<exists>s'. ar_remove_alert (Address 2) 0 (sample_ctx 40 (Address 2)) sample_state = (Inr (), s') \<and>
     ar_owner_index s' (Address 2) = [1]"
proof -
  have "\<exists>s'. ar_remove_alert (Address 2) 0 (sample_ctx 40 (Address 2)) sample_state = (Inr (), s')"
    by (simp add: ar_remove_alert_def ar_remove_alert_record_def op_ok)
  then obtain s' where
    run: "ar_remove_alert (Address 2) 0 (sample_ctx 40 (Address 2)) sample_state = (Inr (), s')" ..
  from ar_remove_erases [OF sample_reachable run] run show ?thesis
    by (simp add: ar_owner_index_ids)
qed

text \<open>
  C25. \<open>update_target_contract\<close> moves the alert between the two targets' indexes: afterwards it
  is listed under the new target and under no other one, with only its target and time stamp
  changed; no owner index and no other alert is touched.
\<close>

theorem ar_retarget_moves:
  assumes "ar_reachable e s" "ar_update_target_contract caller i target c s = (Inr u, s')"
  shows "\<exists>cfg. p_get (Alerts s) i = Some cfg \<and> owner cfg = caller \<and>
    p_get (Alerts s') =
      (p_get (Alerts s))(i \<mapsto> cfg\<lparr>target_contract := target, updated_at := timestamp c\<rparr>) \<and>
    (\<forall>a. i \<in> set (ar_contract_index s' a) \<longleftrightarrow> a = target) \<and>
    (\<forall>a j. j \<noteq> i \<longrightarrow> j \<in> set (ar_contract_index s' a) \<longleftrightarrow> j \<in> set (ar_contract_index s a)) \<and>
    ar_owner_index s' = ar_owner_index s"
  using assms(2)
proof (rule ar_update_target_contract_effect)
  fix cfg
  assume cfg: "p_get (Alerts s) i = Some cfg" "owner cfg = caller"
    and view: "view_of s' = retarget i cfg target (timestamp c) (view_of s)"
  have "i \<in> set (ids_at (ContractIndexes s) a) \<Longrightarrow> a = target_contract cfg" for a
    using view_ok_reachable [OF assms(1)] cfg by (auto simp: view_ok_def indexes_sound_def)
  then show ?thesis
    using view_sel_of_state [OF view] cfg
    by (auto simp: retarget_def put_def list_under_def unlist_under_def ar_owner_index_ids
        ar_contract_index_ids fun_eq_iff)
qed

theorem ar_retarget_moves_witness:
  "\<exists>s'. ar_update_target_contract (Address 2) 0 (Address 4) (sample_ctx 40 (Address 2)) sample_state
        = (Inr (), s') \<and> 0 \<in> set (ar_contract_index s' (Address 4)) \<and>
      0 \<notin> set (ar_contract_index s' (Address 3))"
proof -
  have "\<exists>s'. ar_update_target_contract (Address 2) 0 (Address 4) (sample_ctx 40 (Address 2))
      sample_state = (Inr (), s')"
    by (simp add: ar_update_target_contract_def op_ok)
  then obtain s' where
    run: "ar_update_target_contract (Address 2) 0 (Address 4) (sample_ctx 40 (Address 2)) sample_state
      = (Inr (), s')" ..
  from ar_retarget_moves [OF sample_reachable run] run show ?thesis by auto
qed



section \<open>Bulk deactivation\<close>

definition is_active :: "ar_view \<Rightarrow> u64 \<Rightarrow> bool" where
  "is_active v i \<longleftrightarrow> (\<exists>cfg. v_alerts v i = Some cfg \<and> active cfg)"

definition deactivated :: "u64 \<Rightarrow> alert_config \<Rightarrow> alert_config" where
  "deactivated t cfg = (if active cfg then cfg\<lparr>active := False, updated_at := t\<rparr> else cfg)"

lemma deactivations_alerts:
  "v_alerts (deactivations t ids v) i =
   (if i \<in> set ids then map_option (deactivated t) (v_alerts v i) else v_alerts v i)"
proof (induction ids arbitrary: v)
  case (Cons j ids)
  have twice: "deactivated t (deactivated t cfg) = deactivated t cfg" for cfg
    by (simp add: deactivated_def)
  show ?case
    unfolding deactivations.simps Cons.IH
    by (auto simp: put_def put_flag_def deactivated_def [abs_def] split: option.splits)
qed simp

lemma deactivate_loop_count:
  "ar_deactivate_loop ids n c s = (Inr m, s') \<Longrightarrow> distinct ids \<Longrightarrow>
   unat m = unat n + length (filter (is_active (view_of s)) ids)"
proof (induction ids arbitrary: n s)
  case Nil
  then show ?case by (simp add: ret_ok)
next
  case (Cons i ids)
  show ?case
  proof (cases "is_active (view_of s) i")
    case False
    with Cons have "ar_deactivate_loop ids n c s = (Inr m, s')"
      by (auto simp: op_ok is_active_def split: option.splits if_splits)
    with Cons False show ?thesis by simp
  next
    case True
    then obtain cfg where cfg: "p_get (Alerts s) i = Some cfg" "active cfg"
      by (auto simp: is_active_def)
    define t where "t = AlertActives_update (store_entry c i False)
      (Alerts_update (store_entry c i (cfg\<lparr>active := False, updated_at := timestamp c\<rparr>)) s)"
    from Cons.prems(1) cfg obtain k where k: "checked_add n 1 = Some k" and
      rest: "ar_deactivate_loop ids k c t = (Inr m, s')"
      by (auto simp: op_ok t_def)
    have "filter (is_active (view_of t)) ids = filter (is_active (view_of s)) ids"
      using Cons.prems(2)
      by (intro filter_cong) (auto simp: is_active_def t_def put_def put_flag_def)
    moreover have "unat k = Suc (unat n)" using checked_add_SomeD [OF k, THEN conjunct2] by simp
    ultimately show ?thesis
      using Cons.IH [OF rest] Cons.prems(2) True by simp
  qed
qed

text \<open>
  C27. \<open>deactivate_all_alerts\<close> switches off exactly the caller's alerts: afterwards every alert
  listed under the caller is inactive (time-stamped if it was active before, untouched if
  not), every other alert is as before, and the number returned is the number of alerts that
  were active.
\<close>

theorem ar_deactivate_all_exact:
  assumes "ar_reachable e s" "ar_deactivate_all_alerts caller c s = (Inr n, s')"
  shows "p_get (Alerts s') i =
      (if i \<in> set (ar_owner_index s caller)
       then map_option (\<lambda>cfg. if active cfg then cfg\<lparr>active := False, updated_at := timestamp c\<rparr>
                              else cfg) (p_get (Alerts s) i)
       else p_get (Alerts s) i) \<and>
    unat n = length (filter (\<lambda>j. \<exists>cfg. p_get (Alerts s) j = Some cfg \<and> active cfg)
                       (ar_owner_index s caller))"
proof -
  note eff = ar_deactivate_all_alerts_effect [OF assms(2)]
  have "distinct (ids_at (OwnerIndexes s) caller)"
    using view_ok_reachable [OF assms(1)] by (simp add: view_ok_def indexes_distinct_def)
  then have "unat n = length (filter (is_active (view_of s)) (ids_at (OwnerIndexes s) caller))"
    using assms(2) deactivate_loop_count [of "ids_at (OwnerIndexes s) caller" 0 c s n s']
    by (auto simp: ar_deactivate_all_alerts_def op_ok ar_owner_index_ids)
  then show ?thesis
    using view_sel_of_state(4) [OF eff(3)]
    by (simp add: deactivations_alerts is_active_def [abs_def] ar_owner_index_ids
        deactivated_def [abs_def])
qed

theorem ar_deactivate_all_exact_witness:
  "\<exists>n s'. ar_deactivate_all_alerts (Address 2) (sample_ctx 40 (Address 2)) sample_state = (Inr n, s')
     \<and> unat n = 2"
proof -
  have "\<exists>n s'. ar_deactivate_all_alerts (Address 2) (sample_ctx 40 (Address 2)) sample_state
      = (Inr n, s')"
    by (simp add: ar_deactivate_all_alerts_def op_ok ar_owner_index_ids checked_add_def)
  then obtain n s' where run: "ar_deactivate_all_alerts (Address 2) (sample_ctx 40 (Address 2))
      sample_state = (Inr n, s')" by blast
  from ar_deactivate_all_exact [OF sample_reachable run] run show ?thesis
    by (auto simp: ar_owner_index_ids)
qed

end
