(* ===== verification/AlertAdmin.thy ===== *)
theory AlertAdmin
  imports AlertSamples
begin

text \<open>
  The admin set of the alert registry and the calls reserved to it.
\<close>

fun admin_caller :: "ar_call \<Rightarrow> address option" where
  "admin_caller (TransferAdmin a b) = Some a"
| "admin_caller (AddAdmin a b) = Some a"
| "admin_caller (RemoveAdmin a b) = Some a"
| "admin_caller (SetLimit a l) = Some a"
| "admin_caller (SetPaused a p) = Some a"
| "admin_caller (SetWatcherRegistry a w) = Some a"
| "admin_caller (PauseAlert a i) = Some a"
| "admin_caller (UnpauseAlert a i) = Some a"
| "admin_caller (RemoveAlertByAdmin a i) = Some a"
| "admin_caller _ = None"

lemmas admin_call_defs =
  ar_transfer_admin_def ar_add_admin_def ar_remove_admin_def ar_set_per_owner_alert_limit_def
  ar_set_paused_def ar_set_watcher_registry_def ar_pause_alert_def ar_unpause_alert_def
  ar_set_alert_active_by_admin_def ar_remove_alert_by_admin_def

text \<open>
  C29. The configuration calls and the admin's calls on alerts are reserved to admins: one of
  them returns only if the admin it names has signed and is a member of the stored admin set.
  An address that is no member is refused, whatever it signs, and nothing is written.
\<close>

theorem ar_admin_only:
  assumes "admin_caller call = Some a"
    "\<forall>as. ar_load_admins s = Some as \<longrightarrow> a \<notin> set as \<or> \<not> authorized c a"
  shows "\<exists>y. ar_exec call c s = (Inl y, s)"
proof -
  have gate: "\<exists>y. block (require_auth a # ar_assert_admin a # ms) c s = (Inl y, s)" for ms
  proof (cases "authorized c a")
    case True
    with assms(2) have "\<not> ar_admin.is_admin_of a s" by (auto simp: ar_admin.is_admin_of_def)
    then show ?thesis by (rule ar_admin.turned_away)
  next
    case False
    then show ?thesis by (simp add: block_run require_auth_run)
  qed
  have bound: "\<exists>y. bind (block (require_auth a # ar_assert_admin a # ms)) f c s = (Inl y, s)"
    for ms and f :: "unit \<Rightarrow> unit ar_op"
    using gate [of ms] by (auto simp: bind_err)
  have paused: "\<exists>y. bind (block [ar_assert_not_paused, require_auth a, ar_assert_admin a]) f c s
      = (Inl y, s)" for f :: "unit \<Rightarrow> unit ar_op"
    using gate [of "[]"]
    by (cases "ar_is_paused s")
      (auto simp: bind_err block_Cons_err [of ar_assert_not_paused] ar_pause.check_err
        ar_pause.check_ok)
  from assms(1) show ?thesis
    by (cases call) (simp_all add: admin_call_defs gate bound paused)
qed

theorem ar_admin_only_witness:
  "\<exists>y. ar_exec (SetPaused (Address 2) True) (sample_ctx 40 (Address 2)) sample_state
     = (Inl y, sample_state)"
  by (rule ar_admin_only [of _ "Address 2"]) simp_all

lemma admins_stay:
  "ar_changes c v v' \<Longrightarrow> v_admins v \<noteq> None \<Longrightarrow> v_admins v' \<noteq> None"
proof (induction rule: rtranclp_induct)
  case (step v1 v2)
  from step.hyps(2) step.IH [OF step.prems] show ?case
    by (induction rule: ar_change.induct) (auto simp: change_defs create_def emit_def Let_def)
qed simp

text \<open>
  C30. There is always an admin: once the contract has its first admin, after every call that
  returns it still has a non-empty admin set without repetitions, and \<open>initialize\<close> is refused
  with \<open>AlreadyInitialized\<close>.
\<close>

theorem ar_admin_set_persists:
  assumes "ar_reachable e s" "ar_load_admins s = Some as" "ar_exec call c s = (Inr u, s')"
  shows "(\<exists>as'. ar_load_admins s' = Some as' \<and> as' \<noteq> [] \<and> distinct as') \<and>
    ar_initialize a c' s' = (Inl (Err AlreadyInitialized), s')"
proof -
  have ok: "view_ok (view_of s)" using assms(1) by (rule view_ok_reachable)
  have "ar_load_admins s' \<noteq> None"
    using ar_exec_changes [OF assms(3) ok] assms(2) admins_stay [of c "view_of s" "view_of s'"]
    by (auto simp: initial_admin_def)
  then obtain as' where as': "ar_load_admins s' = Some as'" by blast
  moreover have "as' \<noteq> [] \<and> distinct as'"
    using ar_exec_view_ok [OF assms(3) ok] as' by (simp add: view_ok_def admins_ok_def)
  moreover have "ADMIN s' \<noteq> None"
    using as' by (auto simp: ar_load_admins_def split: option.splits)
  ultimately show ?thesis
    by (simp add: ar_initialize_def block_run bind_run gets_run reject_if_run)
qed

theorem ar_admin_set_persists_witness:
  "ar_initialize (Address 5) (sample_ctx 50 (Address 5)) sample_state
     = (Inl (Err AlreadyInitialized), sample_state)"
  by (rule ar_admin_set_persists [OF reachable_call [OF sample_init_reachable sample_one_run] _
        sample_state_run, THEN conjunct2]) simp

text \<open>
  Adding and removing admins: an admin who adds a new admin and then removes it again has
  restored the admin set; and the only admin cannot be removed, the attempt fails with
  \<open>LastAdmin\<close> and writes nothing.
\<close>

theorem ar_admin_roundtrip:
  assumes "ar_load_admins s = Some as" "a \<in> set as" "authorized c a" "b \<notin> set as"
  shows "(\<exists>s1 s2. ar_add_admin a b c s = (Inr (), s1) \<and> ar_load_admins s1 = Some (as @ [b]) \<and>
      ar_remove_admin a b c s1 = (Inr (), s2) \<and> ar_load_admins s2 = Some as) \<and>
    (as = [a] \<longrightarrow> ar_remove_admin a a c s = (Inl (Err LastAdmin), s))"
proof
  from assms show "\<exists>s1 s2. ar_add_admin a b c s = (Inr (), s1) \<and>
      ar_load_admins s1 = Some (as @ [b]) \<and>
      ar_remove_admin a b c s1 = (Inr (), s2) \<and> ar_load_admins s2 = Some as"
    by (cases as)
      (auto simp: ar_add_admin_def ar_remove_admin_def op_ok ar_admin.is_admin_of_def)
  from assms show "as = [a] \<longrightarrow> ar_remove_admin a a c s = (Inl (Err LastAdmin), s)"
    by (auto simp: ar_remove_admin_def block_Cons_err block_Nil_err bind_err ok_simps err_simps
        ar_admin.is_admin_of_def)
qed

theorem ar_admin_roundtrip_witness:
  "ar_remove_admin (Address 1) (Address 1) (sample_ctx 40 (Address 1)) sample_state
     = (Inl (Err LastAdmin), sample_state)"
  using ar_admin_roundtrip [of sample_state "[Address 1]" "Address 1" "sample_ctx 40 (Address 1)"
      "Address 6"] by simp

text \<open>
  Nobody's signature is needed to become the first admin: on a contract without an admin,
  \<open>initialize\<close> succeeds for any address in any context, also one that the address has not
  authorized.
\<close>

theorem ar_initialize_unauthenticated:
  assumes "ADMIN s = None"
  shows "\<exists>s'. ar_initialize a c s = (Inr (), s') \<and> ar_load_admins s' = Some [a]"
  using assms
  by (simp add: ar_initialize_def block_run bind_run gets_run reject_if_run ar_set_admins_def
      modify_run publish_run ar_load_admins_def)

theorem ar_initialize_unauthenticated_witness:
  "\<exists>s'. ar_initialize (Address 5) (sample_ctx 0 (Address 6)) ar_deployed = (Inr (), s') \<and>
     ar_load_admins s' = Some [Address 5]"
  by (rule ar_initialize_unauthenticated) (simp add: ar_deployed_def)

text \<open>The check behind \<open>LimitTooLow\<close> can never fire: no number is both non-zero and below one.\<close>

lemma ar_limit_too_low_unreachable:
  "fst (ar_set_per_owner_alert_limit a l c s) \<noteq> Inl (Err LimitTooLow)"
proof -
  have "\<not> (l \<noteq> 0 \<and> l < 1)" by (simp add: word_less_nat_alt unat_eq_zero)
  then show ?thesis
    by (auto simp: ar_set_per_owner_alert_limit_def block_run reject_if_run modify_run publish_run
        require_auth_def ar_assert_admin_def bind_run gets_run ok_or_def ret_run throw_run
        split: option.splits prod.splits sum.splits if_splits)
qed

end
