(* ===== verification/AlertQueries.thy ===== *)
theory AlertQueries
  imports AlertSamples
begin

text \<open>
  The read side of the alert registry: pages, scans by time, active alerts and counts, and the
  gate in front of the queries that a watcher registry protects.
\<close>

section \<open>Resolved lists and pages\<close>

lemma configs_for_ids_filter:
  "ar_configs_for_ids s ids = List.map_filter (p_get (Alerts s)) ids"
  by (induction ids) (auto simp: List.map_filter_simps split: option.splits)

lemma active_configs_filter:
  "ar_active_configs_for_ids s ids = filter active (ar_configs_for_ids s ids)"
  by (induction ids) (auto split: option.splits)

lemma configs_for_ids_append [simp]:
  "ar_configs_for_ids s (xs @ ys) = ar_configs_for_ids s xs @ ar_configs_for_ids s ys"
  by (induction xs) (auto split: option.splits)

lemma set_configs_for_ids:
  "set (ar_configs_for_ids s ids) = {cfg. \<exists>i \<in> set ids. p_get (Alerts s) i = Some cfg}"
  by (induction ids) (auto split: option.splits)

text \<open>
  Pages are slices: a paginated query returns the alerts of the identifiers at the
  positions \<open>offset\<close> to \<open>offset + min limit 50\<close> of the index list, and the paginated query for
  active alerts the same slice of the list of active alerts, without overflow at any \<open>offset\<close>
  and \<open>limit\<close>.
\<close>

theorem ar_pages_are_slices:
  assumes "length ids < 4294967296" "length (ar_contract_index s target) < 4294967296"
  shows "ar_configs_paginated s ids offset limit =
      ar_configs_for_ids s (take (min (unat limit) 50) (drop (unat offset) ids)) \<and>
    ar_get_active_alerts_paginated s target offset limit =
      take (min (unat limit) 50) (drop (unat offset) (ar_get_active_alerts_for_contract s target))"
proof -
  have eff: "unat (min limit AR_MAX_BATCH_SIZE) = min (unat limit) 50"
    by (simp add: AR_MAX_BATCH_SIZE_def min_def word_le_nat_alt)
  have "length (ar_configs_for_ids s xs) \<le> length xs" for xs
    by (induction xs) (auto split: option.splits)
  then have "length (ar_get_active_alerts_for_contract s target) < 4294967296"
    unfolding ar_get_active_alerts_for_contract_def active_configs_filter
    using assms(2) length_filter_le by (meson le_less_trans)
  from slice_words [OF assms(1), of offset "min limit AR_MAX_BATCH_SIZE"]
    slice_words [OF this, of offset "min limit AR_MAX_BATCH_SIZE"]
  show ?thesis
    by (simp add: ar_configs_paginated_def ar_get_active_alerts_paginated_def Let_def eff
        ar_get_active_alerts_for_contract_def)
qed

theorem ar_pages_are_slices_witness:
  "ar_configs_paginated sample_state (ar_owner_index sample_state (Address 2)) 1 (- 1)
     = [sample_config (Address 4) 30]"
  using ar_pages_are_slices [of "ar_owner_index sample_state (Address 2)" sample_state "Address 3"
      1 "- 1"]
  by (simp add: ar_owner_index_ids ar_contract_index_ids unat_max_word)

lemma slice_of_paginated:
  assumes "length ids < 4294967296"
  shows "ar_configs_paginated s ids off limit =
    ar_configs_for_ids s (take (min (unat limit) 50) (drop (unat off) ids))"
proof -
  have eff: "unat (min limit AR_MAX_BATCH_SIZE) = min (unat limit) 50"
    by (simp add: AR_MAX_BATCH_SIZE_def min_def word_le_nat_alt)
  from slice_words [OF assms, of off "min limit AR_MAX_BATCH_SIZE"] show ?thesis
    by (simp add: ar_configs_paginated_def Let_def eff)
qed

text \<open>
  C32. Walking the pages visits everything once. A page holds at most \<open>min limit 50\<close> alerts,
  its effective size, whatever the \<open>limit\<close> asked for; the pages of an index list shorter than
  \<open>2 ^ 32\<close> at the offsets \<open>0\<close>, \<open>m\<close>, \<open>2 * m\<close> and so on, in steps of the effective size \<open>m\<close>, one
  after the other, are the alerts of the first \<open>k * m\<close> identifiers in order after \<open>k\<close> pages
  (while \<open>k * m\<close> fits in \<open>u32\<close>); so enough pages are the whole result of the unpaginated
  query, with nothing skipped or repeated.
\<close>

theorem ar_pages_concatenate:
  fixes limit :: u32
  defines "m \<equiv> min (unat limit) 50"
  assumes "length ids < 4294967296" "k * m < 4294967296"
  shows "concat (map (\<lambda>j. ar_configs_paginated s ids (word_of_nat (j * m)) limit) [0..<k]) =
      ar_configs_for_ids s (take (k * m) ids) \<and>
    (length ids \<le> k * m \<longrightarrow>
      concat (map (\<lambda>j. ar_configs_paginated s ids (word_of_nat (j * m)) limit) [0..<k]) =
      ar_configs_for_ids s ids)"
proof -
  have "concat (map (\<lambda>j. ar_configs_paginated s ids (word_of_nat (j * m)) limit) [0..<k]) =
      ar_configs_for_ids s (take (k * m) ids)"
    using assms(3)
  proof (induction k)
    case (Suc k)
    then have "unat (word_of_nat (k * m) :: u32) = k * m"
      by (simp add: unat_of_nat_small32 del: of_nat_mult)
    with Suc show ?case
      by (simp add: slice_of_paginated [OF assms(2)] m_def [symmetric] take_add add.commute [of m]
          configs_for_ids_append [symmetric] del: of_nat_mult configs_for_ids_append)
  qed simp
  then show ?thesis by simp
qed

theorem ar_pages_concatenate_witness:
  "concat (map (\<lambda>j. ar_configs_paginated sample_state [0, 1] (word_of_nat (j * 50)) 200) [0..<1])
     = ar_configs_for_ids sample_state [0, 1] \<and>
   concat (map (\<lambda>j. ar_configs_paginated sample_state [0, 1] (word_of_nat (j * 1)) 1) [0..<2])
     = ar_configs_for_ids sample_state [0, 1]"
  using ar_pages_concatenate [of "[0, 1]" 1 200 sample_state, THEN conjunct2, rule_format]
    ar_pages_concatenate [of "[0, 1]" 2 1 sample_state, THEN conjunct2, rule_format]
  by simp

section \<open>Scans by time\<close>

lemma updated_since_loop:
  "unat skipped \<le> unat offset \<Longrightarrow>
   ar_updated_since_loop s since offset limit ids skipped out =
   out @ take (unat limit - length out) (drop (unat offset - unat skipped)
     (filter (\<lambda>cfg. since \<le> updated_at cfg) (ar_configs_for_ids s ids)))"
proof (induction ids arbitrary: skipped out)
  case Nil
  then show ?case by simp
next
  case (Cons i ids)
  show ?case
  proof (cases "skipped < offset")
    case True
    have "unat offset < 2 ^ LENGTH(32)" by (rule unsigned_less)
    with True have "unat (skipped + 1) = unat skipped + 1" "unat skipped < unat offset"
      by (simp_all add: word_less_nat_alt unat_word_ariths)
    with Cons True show ?thesis
      by (auto simp: drop_Cons' split: option.splits)
  next
    case False
    with Cons.prems have "unat offset - unat skipped = 0" by (simp add: word_less_nat_alt)
    with Cons False show ?thesis
      by (auto simp: take_Cons' split: option.splits)
  qed
qed

text \<open>
  C31. \<open>get_alerts_updated_since\<close> is the page it should be: for every \<open>since\<close>, \<open>offset\<close> and
  \<open>limit\<close> its result is the slice of length \<open>limit\<close> from \<open>offset\<close> on of the target's stored
  alerts that were updated at \<open>since\<close> or later, in index order.
\<close>

theorem ar_updated_since_spec:
  "ar_get_alerts_updated_since s target since offset limit =
   take (unat limit) (drop (unat offset)
     (filter (\<lambda>cfg. since \<le> updated_at cfg)
       (ar_configs_for_ids s (ar_contract_index s target))))"
  by (simp add: ar_get_alerts_updated_since_def updated_since_loop)

text \<open>
  C33. The incremental sync misses nothing: in every reachable state
  \<open>get_alerts_modified_since\<close> returns exactly the stored alerts updated at \<open>since\<close> or later,
  each identifier's alert once and in the order of the identifiers.
\<close>

theorem ar_modified_since_complete:
  assumes "ar_reachable e s"
  shows "set (ar_get_alerts_modified_since s since) =
      {cfg. \<exists>i. p_get (Alerts s) i = Some cfg \<and> since \<le> updated_at cfg} \<and>
    (\<exists>ids. sorted ids \<and> distinct ids \<and> (\<forall>i. p_get (Alerts s) i \<noteq> None \<longrightarrow> i \<in> set ids) \<and>
      ar_get_alerts_modified_since s since =
        filter (\<lambda>cfg. since \<le> updated_at cfg) (ar_configs_for_ids s ids))"
proof -
  let ?n = "unat (ar_get_alert_count s)"
  let ?ids = "map word_of_nat [0..<?n] :: u64 list"
  have n: "?n < 18446744073709551616" using unsigned_less [of "ar_get_alert_count s"] by simp
  have mem: "i \<in> set ?ids" if "p_get (Alerts s) i \<noteq> None" for i
  proof -
    have "i < ar_get_alert_count s"
      using view_ok_reachable [OF assms] that by (auto simp: view_ok_def ids_bounded_def)
    then show ?thesis
      by (auto simp: word_less_nat_alt intro!: image_eqI [of _ _ "unat i"])
  qed
  have "sorted ?ids" "distinct ?ids"
    using n by (auto simp: sorted_iff_nth_mono distinct_conv_nth word_le_nat_alt
        unat_of_nat_small64 word_unat_eq_iff)
  moreover have "set (ar_get_alerts_modified_since s since) =
      {cfg. \<exists>i. p_get (Alerts s) i = Some cfg \<and> since \<le> updated_at cfg}"
    using mem by (auto simp: ar_get_alerts_modified_since_def set_configs_for_ids)
  ultimately show ?thesis
    using mem unfolding ar_get_alerts_modified_since_def by blast
qed

theorem ar_modified_since_complete_witness:
  "set (ar_get_alerts_modified_since sample_state 25) = {sample_config (Address 4) 30}"
  unfolding ar_modified_since_complete [OF sample_reachable, of 25, THEN conjunct1]
  by (auto intro: exI [of _ 1] split: if_splits)

section \<open>Active alerts and counts\<close>

text \<open>
  C39. Active alerts and live counts: as long as nothing has expired,
  \<open>get_active_alerts_for_contract\<close> returns exactly the stored active alerts on the target, the
  alert of each identifier once, and \<open>get_active_alert_count\<close> the number of stored alerts of
  the owner (active or not), without overflow for an owner index shorter than \<open>2 ^ 32\<close>.
\<close>

theorem ar_active_queries_exact:
  assumes "ar_reachable False s" "length (ar_owner_index s own) < 4294967296"
  shows "(\<exists>ids. distinct ids \<and>
      set ids = {i. \<exists>cfg. p_get (Alerts s) i = Some cfg \<and> target_contract cfg = target \<and> active cfg} \<and>
      ar_get_active_alerts_for_contract s target = map (\<lambda>i. the (p_get (Alerts s) i)) ids) \<and>
    (\<exists>n. ar_get_active_alert_count own c s = (Inr n, s) \<and>
      unat n = card {i. \<exists>cfg. p_get (Alerts s) i = Some cfg \<and> owner cfg = own})"
proof
  have ok: "view_ok (view_of s)" and exact: "view_exact (view_of s)"
    using assms(1) by (auto intro: view_ok_reachable view_exact_reachable)
  have on: "i \<in> set (ids_at (ContractIndexes s) target) \<longleftrightarrow> target_contract cfg = target"
    if "p_get (Alerts s) i = Some cfg" for i cfg
    using ok exact that by (auto simp: view_ok_def indexes_sound_def view_exact_def)
  let ?hit = "\<lambda>i. \<exists>cfg. p_get (Alerts s) i = Some cfg \<and> active cfg"
  let ?hits = "filter ?hit (ids_at (ContractIndexes s) target)"
  have "distinct ?hits" using ok by (simp add: view_ok_def indexes_distinct_def)
  moreover have "set ?hits =
      {i. \<exists>cfg. p_get (Alerts s) i = Some cfg \<and> target_contract cfg = target \<and> active cfg}"
    using on by auto
  moreover have "filter active (ar_configs_for_ids s ids) =
      map (\<lambda>i. the (p_get (Alerts s) i)) (filter ?hit ids)" for ids
    by (induction ids) (auto split: option.splits)
  then have "ar_get_active_alerts_for_contract s target = map (\<lambda>i. the (p_get (Alerts s) i)) ?hits"
    by (simp add: ar_get_active_alerts_for_contract_def active_configs_filter
        ar_contract_index_ids)
  ultimately show "\<exists>ids. distinct ids \<and>
      set ids = {i. \<exists>cfg. p_get (Alerts s) i = Some cfg \<and> target_contract cfg = target \<and> active cfg} \<and>
      ar_get_active_alerts_for_contract s target = map (\<lambda>i. the (p_get (Alerts s) i)) ids"
    by blast
  let ?ids = "ids_at (OwnerIndexes s) own"
  have "i \<in> set ?ids \<longleftrightarrow> (\<exists>cfg. p_get (Alerts s) i = Some cfg \<and> owner cfg = own)" for i
    using ok exact by (fastforce simp: view_ok_def indexes_sound_def view_exact_def)
  then have "set ?ids = {i. \<exists>cfg. p_get (Alerts s) i = Some cfg \<and> owner cfg = own}"
    by blast
  moreover have "filter (p_has (Alerts s)) ?ids = ?ids"
    using exact by (simp add: view_exact_def p_has_get filter_id_conv)
  moreover have "distinct ?ids" using ok by (simp add: view_ok_def indexes_distinct_def)
  ultimately have "length (filter (p_has (Alerts s)) ?ids) =
      card {i. \<exists>cfg. p_get (Alerts s) i = Some cfg \<and> owner cfg = own}"
    by (metis distinct_card)
  moreover have "length (filter (p_has (Alerts s)) ?ids) < 4294967296"
    using assms(2) \<open>filter (p_has (Alerts s)) ?ids = ?ids\<close> by (simp add: ar_owner_index_ids)
  ultimately show "\<exists>n. ar_get_active_alert_count own c s = (Inr n, s) \<and>
      unat n = card {i. \<exists>cfg. p_get (Alerts s) i = Some cfg \<and> owner cfg = own}"
    using count_loop_exact [of 0 "p_has (Alerts s)" ?ids]
    by (simp add: ar_get_active_alert_count_def bind_run gets_run unwrap_run ar_owner_index_ids
        unat_of_nat_small32)
qed

theorem ar_active_queries_exact_witness:
  "(\<exists>n. ar_get_active_alert_count (Address 2) (sample_ctx 40 (Address 9)) sample_state
      = (Inr n, sample_state)) \<and>
   (\<exists>ids. set ids = {0 :: u64} \<and>
      ar_get_active_alerts_for_contract sample_state (Address 3)
        = map (\<lambda>i. the (p_get (Alerts sample_state) i)) ids)"
proof -
  have len: "length (ar_owner_index sample_state (Address 2)) < 4294967296"
    by (simp add: ar_owner_index_ids)
  have "{i. \<exists>cfg. p_get (Alerts sample_state) i = Some cfg \<and>
      target_contract cfg = Address 3 \<and> active cfg} = {0}"
    by (auto split: if_splits)
  with ar_active_queries_exact [OF sample_reachable len, of "Address 3" "sample_ctx 40 (Address 9)"]
  show ?thesis by (auto simp del: map_eq_conv)
qed

section \<open>The watcher gate\<close>

lemma watcher_gate_run:
  "ar_assert_watcher_if_configured q c s =
   (case WATCHREG s of None \<Rightarrow> (Inr (), s)
    | Some r \<Rightarrow> (case watcher_call c r q of
        None \<Rightarrow> (Inl Trap, s)
      | Some ok \<Rightarrow> if ok then (Inr (), s) else (Inl (Err NotAWatcher), s)))"
  by (auto simp: ar_assert_watcher_if_configured_def bind_run gets_run ask_run ret_run
      reject_if_run unwrap_def split: option.splits)

definition query_refusal :: "alert_ctx \<Rightarrow> alert_state \<Rightarrow> address \<Rightarrow> ar_error failure option" where
  "query_refusal c s q =
     (case WATCHREG s of None \<Rightarrow> None
      | Some r \<Rightarrow> (case watcher_call c r q of None \<Rightarrow> Some Trap
          | Some ok \<Rightarrow> if ok then None else Some (Err NotAWatcher)))"

text \<open>
  The gate of the queries: the four protected queries answer everybody while no registry
  is configured; with a registry they return their result to an address that the registry
  confirms, fail with \<open>NotAWatcher\<close> for one it denies, and abort when the call to it fails;
  they never write.
\<close>

theorem ar_gated_queries:
  "ar_get_alerts_for_contract q target c s =
      (case query_refusal c s q of Some y \<Rightarrow> Inl y
        | None \<Rightarrow> Inr (ar_configs_for_ids s (ar_contract_index s target)), s) \<and>
    ar_get_alerts_by_owner q own c s =
      (case query_refusal c s q of Some y \<Rightarrow> Inl y
        | None \<Rightarrow> Inr (ar_configs_for_ids s (ar_owner_index s own)), s) \<and>
    ar_get_contract_alerts_paginated q target off lim c s =
      (case query_refusal c s q of Some y \<Rightarrow> Inl y
        | None \<Rightarrow> Inr (ar_configs_paginated s (ar_contract_index s target) off lim), s) \<and>
    ar_get_alerts_by_owner_paginated q own off lim c s =
      (case query_refusal c s q of Some y \<Rightarrow> Inl y
        | None \<Rightarrow> Inr (ar_configs_paginated s (ar_owner_index s own) off lim), s)"
  by (auto simp: query_refusal_def ar_get_alerts_for_contract_def ar_get_alerts_by_owner_def
      ar_get_contract_alerts_paginated_def ar_get_alerts_by_owner_paginated_def bind_run
      watcher_gate_run gets_run split: option.splits)

end
