(* ===== verification/AlertLifetime.thy ===== *)
theory AlertLifetime
  imports AlertSamples
begin

text \<open>
  Lifetimes of the entries of the alert registry, on a host that implements \<open>extend_ttl\<close> as
  documented (locale \<open>ttl_host\<close>).
\<close>

abbreviation host_of :: "alert_ctx \<Rightarrow> nat \<Rightarrow> bool" where
  "host_of c cap \<equiv> ttl_host (unat (sequence c)) (extend_until c) (fresh_until c) cap"

lemma sample_host: "host_of (sample_ctx t a) 3110400"
proof -
  have "ttl_host 0 (sdk_extend 0 3110400) 4095 3110400"
    by unfold_locales (auto simp: sdk_extend_def)
  then show ?thesis by simp
qed

lemma bump_renews:
  assumes "host_of c cap" "unat AR_MAX_TTL \<le> cap"
    "ar_bump_alert i ttl c s = (Inr u, s')"
  shows "\<exists>cfg. p_get (Alerts s) i = Some cfg \<and>
    (\<forall>live \<in> {(p_live (Alerts s) i, p_live (Alerts s') i),
               (p_live (AlertActives s) i, p_live (AlertActives s') i),
               (p_live (OwnerIndexes s) (owner cfg), p_live (OwnerIndexes s') (owner cfg)),
               (p_live (ContractIndexes s) (target_contract cfg),
                p_live (ContractIndexes s') (target_contract cfg)),
               (Some (instance_until s), Some (instance_until s'))}.
       \<exists>l. fst live = Some l \<and>
         snd live = Some (max l (unat (sequence c) + unat (min ttl AR_MAX_TTL))))"
proof -
  have "unat (min ttl AR_MAX_TTL) \<le> cap"
    using assms(2) by (simp add: min_def word_le_nat_alt)
  note renew = ttl_host.renew [OF assms(1) this]
  have live: "\<exists>l. p_live m k = Some l" if "p_get m k = Some v" for m and k and v
    using that by (auto simp: p_get_def p_live_def)
  let ?t = "min ttl AR_MAX_TTL"
  from assms(3) obtain cfg b v w where
    stored: "p_get (Alerts s) i = Some cfg" "p_get (AlertActives s) i = Some b"
      "p_get (OwnerIndexes s) (owner cfg) = Some v"
      "p_get (ContractIndexes s) (target_contract cfg) = Some w" and
    maps: "Alerts s' = p_extend c i ?t ?t (Alerts s)"
      "AlertActives s' = p_extend c i ?t ?t (AlertActives s)"
      "OwnerIndexes s' = p_extend c (owner cfg) ?t ?t (OwnerIndexes s)"
      "ContractIndexes s' = p_extend c (target_contract cfg) ?t ?t (ContractIndexes s)"
      "instance_until s' = extend_until c (instance_until s) ?t ?t"
    by (auto simp: ar_bump_alert_def op_ok split: if_splits)
  from stored [THEN live] show ?thesis
    by (intro exI [of _ cfg] conjI) (auto simp: stored maps renew)
qed

text \<open>
  C35. \<open>bump_alert\<close> renews everything the alert needs: the alert, its flag, its owner's and its
  target's index and the contract instance afterwards live at least the requested number of
  ledgers (at most 535680) from now on, and none of them lives shorter than before.
\<close>

theorem ar_bump_renews:
  assumes "host_of c cap" "unat AR_MAX_TTL \<le> cap"
    "ar_bump_alert i ttl c s = (Inr u, s')"
  shows "\<exists>cfg. p_get (Alerts s) i = Some cfg \<and>
    (\<forall>live \<in> {(p_live (Alerts s) i, p_live (Alerts s') i),
               (p_live (AlertActives s) i, p_live (AlertActives s') i),
               (p_live (OwnerIndexes s) (owner cfg), p_live (OwnerIndexes s') (owner cfg)),
               (p_live (ContractIndexes s) (target_contract cfg),
                p_live (ContractIndexes s') (target_contract cfg)),
               (Some (instance_until s), Some (instance_until s'))}.
       \<exists>l. fst live = Some l \<and>
         snd live = Some (max l (unat (sequence c) + unat (min ttl AR_MAX_TTL))))"
  using assms by (rule bump_renews)

text \<open>The alert entries after the loop of a bulk renewal.\<close>

lemma bulk_renew_loop_lives:
  assumes "host_of c cap" "unat AR_DEFAULT_TTL \<le> cap"
    "ar_bulk_renew_loop ids n c s = (Inr m, s')"
  shows "p_live (Alerts s') i =
    (if i \<in> set ids
     then map_option (\<lambda>l. max l (unat (sequence c) + unat AR_DEFAULT_TTL)) (p_live (Alerts s) i)
     else p_live (Alerts s) i)"
  using assms(3)
proof (induction ids arbitrary: n s)
  case Nil
  then show ?case by (simp add: ret_ok)
next
  case (Cons j ids)
  note renew = ttl_host.renew [OF assms(1,2)]
  show ?case
  proof (cases "p_get (Alerts s) j")
    case None
    with Cons.prems have "ar_bulk_renew_loop ids n c s = (Inr m, s')"
      by (auto simp: bind_ok gets_ok)
    moreover from None have "p_live (Alerts s) j = None" by (simp add: p_live_None_iff)
    ultimately show ?thesis using Cons.IH by auto
  next
    case (Some cfg)
    with Cons.prems obtain k t where
      rest: "ar_bulk_renew_loop ids k c t = (Inr m, s')" and
      t: "Alerts t = p_extend c j AR_DEFAULT_TTL AR_DEFAULT_TTL (Alerts s)"
      by (auto simp: op_ok)
    show ?thesis
      unfolding Cons.IH [OF rest] t
      by (auto simp: renew option.map_comp comp_def fun_upd_def)
  qed
qed

text \<open>
  \<open>bulk_renew_ttl\<close> on a batch of at most 50 identifiers returns the number of those that
  are stored, and each stored one's entry then lives at least the default 120960 ledgers and
  not shorter than before; a larger batch is refused with the error \<open>TooManyRules\<close>.
\<close>

theorem ar_bulk_renew_spec:
  assumes "host_of c cap" "unat AR_DEFAULT_TTL \<le> cap"
  shows "(ar_bulk_renew_ttl ids c s = (Inr n, s') \<longrightarrow>
      unat n = length (filter (\<lambda>i. p_get (Alerts s) i \<noteq> None) ids) \<and>
      (\<forall>i \<in> set ids. p_live (Alerts s') i =
        map_option (\<lambda>l. max l (unat (sequence c) + 120960)) (p_live (Alerts s) i))) \<and>
    (50 < length ids \<longrightarrow> ar_bulk_renew_ttl ids c s = (Inl (Err TooManyRules), s))"
proof -
  have "unat n = length (filter (\<lambda>i. p_get (Alerts s) i \<noteq> None) ids) \<and>
      (\<forall>i \<in> set ids. p_live (Alerts s') i =
        map_option (\<lambda>l. max l (unat (sequence c) + 120960)) (p_live (Alerts s) i))"
    if "ar_bulk_renew_ttl ids c s = (Inr n, s')"
  proof -
    from that have loop: "ar_bulk_renew_loop ids 0 c s = (Inr n, s')"
      by (auto simp: ar_bulk_renew_ttl_def op_ok)
    from bulk_renew_loop_lives [OF assms loop] ar_bulk_renew_loop_effect [OF loop]
    show ?thesis by (simp add: AR_DEFAULT_TTL_def)
  qed
  moreover have "50 < length ids \<longrightarrow> ar_bulk_renew_ttl ids c s = (Inl (Err TooManyRules), s)"
    by (simp add: ar_bulk_renew_ttl_def bind_run reject_if_run AR_MAX_BATCH_SIZE_def)
  ultimately show ?thesis by blast
qed

text \<open>
  A lookup renews the alert alone: \<open>get_alert\<close> extends the entry of the alert it returns,
  while its flag and both index entries keep their lifetimes; so an alert kept alive by
  lookups outlives an index entry that is not renewed, and is then stored but no longer found
  through the index.
\<close>

theorem ar_lookup_outlives_index:
  assumes "host_of c cap" "unat AR_DEFAULT_TTL \<le> cap"
    "ar_get_alert i c s = (Inr (Some cfg), s')"
    "p_live (OwnerIndexes s) (owner cfg) = Some l" "l < unat (sequence c) + 120960"
  shows "(\<exists>l'. p_live (Alerts s') i = Some l' \<and> l < l') \<and>
    OwnerIndexes s' = OwnerIndexes s \<and> ContractIndexes s' = ContractIndexes s \<and>
    AlertActives s' = AlertActives s"
proof -
  note renew = ttl_host.renew [OF assms(1,2)]
  from assms(3) have "p_get (Alerts s) i = Some cfg" by (auto simp: ar_get_alert_def op_ok)
  then have "p_live (Alerts s) i \<noteq> None" by (simp add: p_live_None_iff)
  moreover from assms(3)
  have "s' = Alerts_update (p_extend c i AR_DEFAULT_TTL AR_DEFAULT_TTL) s"
    by (auto simp: ar_get_alert_def op_ok split: if_splits)
  moreover have "unat AR_DEFAULT_TTL = 120960" by (simp add: AR_DEFAULT_TTL_def)
  ultimately show ?thesis using assms(5) by (auto simp: renew)
qed

lemma sample_bump_run:
  "\<exists>s'. ar_bump_alert 0 1000 (sample_ctx 40 (Address 9)) sample_state = (Inr (), s')"
proof -
  have "NextIds sample_state = Map.empty"
    by (simp add: sample_state_def sample_one_def sample_init_def ar_deployed_def
        registered_state_def Let_def)
  then show ?thesis by (simp add: ar_bump_alert_def op_ok p_has_get ex_bool_eq)
qed

theorem ar_bump_renews_witness:
  "\<exists>s' l. ar_bump_alert 0 1000 (sample_ctx 40 (Address 9)) sample_state = (Inr (), s') \<and>
     p_live (Alerts s') 0 = Some l \<and> 1000 \<le> l"
proof -
  from sample_bump_run obtain s' where
    run: "ar_bump_alert 0 1000 (sample_ctx 40 (Address 9)) sample_state = (Inr (), s')" ..
  from ar_bump_renews [OF sample_host _ run] run show ?thesis
    by (auto simp: AR_MAX_TTL_def min_def word_le_nat_alt)
qed

theorem ar_bulk_renew_spec_witness:
  "ar_bulk_renew_ttl (replicate 51 0) (sample_ctx 40 (Address 9)) sample_state
     = (Inl (Err TooManyRules), sample_state)"
  by (rule ar_bulk_renew_spec [OF sample_host, THEN conjunct2, rule_format])
    (simp_all add: AR_DEFAULT_TTL_def)

theorem ar_lookup_outlives_index_witness:
  "\<exists>s' l'. ar_get_alert 0 (sample_ctx 40 (Address 9)\<lparr>sequence := 1000,
       extend_until := sdk_extend 1000 3110400\<rparr>) sample_state
      = (Inr (Some (sample_config (Address 3) 20)), s') \<and>
     p_live (Alerts s') 0 = Some l' \<and>
     the (p_live (OwnerIndexes s') (Address 2)) < l'"
proof -
  let ?c = "sample_ctx 40 (Address 9)\<lparr>sequence := 1000, extend_until := sdk_extend 1000 3110400\<rparr>"
  have host: "host_of ?c 3110400"
  proof -
    have "ttl_host 1000 (sdk_extend 1000 3110400) 4095 3110400"
      by unfold_locales (auto simp: sdk_extend_def)
    then show ?thesis by simp
  qed
  have run: "\<exists>s'. ar_get_alert 0 ?c sample_state = (Inr (Some (sample_config (Address 3) 20)), s')"
    by (simp add: ar_get_alert_def op_ok)
  have live: "p_live (OwnerIndexes sample_state) (Address 2) = Some 120960"
    by (simp add: sample_state_def sample_one_def sample_init_def ar_deployed_def
        registered_state_def Let_def index_push_def sdk_extend_def AR_DEFAULT_TTL_def)
  from run obtain s' where
    run': "ar_get_alert 0 ?c sample_state = (Inr (Some (sample_config (Address 3) 20)), s')" ..
  from ar_lookup_outlives_index [OF host _ run', of 120960] live run' show ?thesis
    by (auto simp: AR_DEFAULT_TTL_def)
qed

end
