(* ===== verification/AlertProgress.thy ===== *)
theory AlertProgress
  imports AlertSamples
begin

text \<open>
  Progress: which calls can abort, and that owners are never stuck. A call aborts (\<open>Trap\<close>)
  where the host or an \<open>unwrap\<close> fails; every other failure is one of the contract's errors.
  The section on safe operations is a small calculus of weakest preconditions for \<open>does not
  abort\<close>; the reachable states meet the preconditions of every call as long as no entry has
  been lost.
\<close>

section \<open>Operations that do not abort\<close>

definition safe :: "('c, 's, 'e, 'a) op \<Rightarrow> 'c \<Rightarrow> 's \<Rightarrow> bool" where
  "safe m c s \<longleftrightarrow> fst (m c s) \<noteq> Inl Trap"

named_theorems safe_simps "when an operation does not abort"

lemma safeI: "(\<And>s'. m c s \<noteq> (Inl Trap, s')) \<Longrightarrow> safe m c s"
  by (cases "m c s") (auto simp: safe_def)

lemma safe_not: "safe m c s \<Longrightarrow> m c s \<noteq> (Inl Trap, s')"
  by (auto simp: safe_def)

lemma safe_basic [safe_simps]:
  "safe (ret x) c s" "safe (throw e) c s" "\<not> safe panic c s" "safe (ask g) c s"
  "safe (gets h) c s" "safe (modify f) c s" "safe (reject_if b e) c s"
  "safe (ok_or y e) c s" "safe (unwrap y) c s \<longleftrightarrow> y \<noteq> None"
  by (auto simp: safe_def ret_def throw_def panic_def ask_def gets_def modify_def reject_if_def
      ok_or_def unwrap_def split: option.splits)

lemma safe_bind [safe_simps]:
  "safe (bind m f) c s \<longleftrightarrow> safe m c s \<and> (\<forall>a t. m c s = (Inr a, t) \<longrightarrow> safe (f a) c t)"
  by (cases "m c s") (auto simp: safe_def bind_run split: sum.splits)

lemma safe_block [safe_simps]:
  "safe (block []) c s"
  "safe (block (m # ms)) c s \<longleftrightarrow> safe m c s \<and> (\<forall>t. m c s = (Inr (), t) \<longrightarrow> safe (block ms) c t)"
  by (auto simp: block.simps safe_simps)

lemma safe_for_each:
  "(\<And>x t. x \<in> set xs \<Longrightarrow> safe (f x) c t) \<Longrightarrow> safe (for_each xs f) c s"
  by (induction xs arbitrary: s) (auto simp: for_each.simps safe_simps)

lemma safe_host [safe_simps]:
  "safe now c s" "safe (publish t0 t1 d) c' s'" "safe (instance_extend_ttl n m) c s'"
  "safe (st_set upd k v) c s" "safe (st_remove upd k) c' s"
  "safe (require_auth a) c s \<longleftrightarrow> authorized c a"
  "safe (st_extend_ttl sel upd k n m) c s \<longleftrightarrow> p_get (sel s) k \<noteq> None"
  by (auto simp: safe_def now_run publish_run instance_extend_ttl_run st_set_run st_remove_run
      require_auth_def st_extend_ttl_def p_has_get)

section \<open>The helpers of the registry\<close>

lemma safe_helpers [safe_simps]:
  "safe ar_assert_not_paused c s" "safe (ar_assert_owner cfg a) c s" "safe (ar_assert_admin a) c s"
  "safe (ar_set_admins as) c s" "safe (ar_load_alert i) c s" "safe ar_next_id c s"
  "safe (ar_put_alert i cfg) c s" "safe (ar_put_active i b) c s"
  "safe (ar_push_owner_index a i) c s" "safe (ar_push_contract_index a i) c s"
  "safe (ar_remove_from_owner_index a i) c s" "safe (ar_remove_from_contract_index a i) c s"
  "safe (ar_validate_label l) c s"
  by (intro safeI, simp add: err_simps; fail)+

lemma safe_validate_rules [safe_simps]: "safe (ar_validate_rules r) c s"
proof -
  have "safe (ar_validate_rules_loop seen r) c s" for seen
    by (induction r arbitrary: seen s) (auto simp: ar_validate_rule_def safe_simps)
  then show ?thesis by (auto simp: ar_validate_rules_def safe_simps reject_if_ok)
qed

lemma safe_validate_tags [safe_simps]: "safe (ar_validate_tags g) c s"
  by (auto simp: ar_validate_tags_def safe_simps intro: safe_for_each split: option.splits)

lemma safe_limit_for [safe_simps]: "safe (ar_assert_per_owner_limit_for a n) c s"
  by (auto simp: ar_assert_per_owner_limit_for_def safe_simps op_ok)

lemma safe_limit [safe_simps]: "safe (ar_assert_per_owner_limit a) c s"
  by (simp add: ar_assert_per_owner_limit_def safe_limit_for)

lemma safe_remove_record [safe_simps]:
  "safe (ar_remove_alert_record cfg i a) c s"
  "safe (ar_remove_alert_record_by_admin cfg i a b) c s"
  by (auto simp: ar_remove_alert_record_def ar_remove_alert_record_by_admin_def safe_simps)

lemma safe_batch_loop [safe_simps]: "safe (ar_batch_loop a t inputs ids) c s"
  by (induction inputs arbitrary: ids s) (auto simp: safe_simps)

lemma safe_deactivate_loop:
  "unat n + length ids < 4294967296 \<Longrightarrow> safe (ar_deactivate_loop ids n) c s"
proof (induction ids arbitrary: n s)
  case Nil
  then show ?case by (simp add: safe_simps)
next
  case (Cons i ids)
  from Cons.prems have add: "checked_add n 1 = Some (n + 1)" and "unat (n + 1) = unat n + 1"
    by (simp_all add: checked_add_def unat_word_ariths)
  with Cons show ?case
    by (auto simp: safe_simps op_ok split: option.splits)
qed

text \<open>What renewal needs of an alert: its flag and both index entries are stored.\<close>

definition fully_stored :: "u64 \<Rightarrow> alert_state \<Rightarrow> bool" where
  "fully_stored i s \<longleftrightarrow>
     (\<exists>cfg. p_get (Alerts s) i = Some cfg \<and> p_get (AlertActives s) i \<noteq> None \<and>
        p_get (OwnerIndexes s) (owner cfg) \<noteq> None \<and>
        p_get (ContractIndexes s) (target_contract cfg) \<noteq> None)"

lemma ids_at_stored: "i \<in> set (ids_at m a) \<Longrightarrow> p_get m a \<noteq> None"
  by (cases "p_get m a") (auto simp: ids_at_def)

lemma fully_stored_reachable:
  assumes "ar_reachable False s" "p_get (Alerts s) i = Some cfg"
  shows "fully_stored i s"
proof -
  have "i \<in> set (ids_at (OwnerIndexes s) (owner cfg))"
    "i \<in> set (ids_at (ContractIndexes s) (target_contract cfg))"
    "p_get (AlertActives s) i = Some (active cfg)"
    using view_exact_reachable [OF assms(1)] assms(2) by (auto simp: view_exact_def)
  with assms(2) show ?thesis
    using ids_at_stored by (fastforce simp: fully_stored_def)
qed

lemma safe_bulk_renew_loop:
  "unat n + length ids < 4294967296 \<Longrightarrow>
   \<forall>i \<in> set ids. p_get (Alerts s) i \<noteq> None \<longrightarrow> fully_stored i s \<Longrightarrow>
   safe (ar_bulk_renew_loop ids n) c s"
proof (induction ids arbitrary: n s)
  case Nil
  then show ?case by (simp add: safe_simps)
next
  case (Cons i ids)
  from Cons.prems have add: "checked_add n 1 = Some (n + 1)" and n: "unat (n + 1) = unat n + 1"
    by (simp_all add: checked_add_def unat_word_ariths)
  show ?case
  proof (cases "p_get (Alerts s) i")
    case None
    with Cons show ?thesis by (simp add: safe_simps op_ok)
  next
    case (Some cfg)
    with Cons.prems have full: "p_get (AlertActives s) i \<noteq> None"
      "p_get (OwnerIndexes s) (owner cfg) \<noteq> None"
      "p_get (ContractIndexes s) (target_contract cfg) \<noteq> None"
      by (auto simp: fully_stored_def)
    from Some full add n Cons show ?thesis
      by (simp add: safe_simps op_ok fully_stored_def)
  qed
qed

section \<open>No call aborts\<close>

text \<open>The address whose signature a call asks for.\<close>

fun call_signer :: "ar_call \<Rightarrow> address option" where
  "call_signer (Initialize a) = None"
| "call_signer (TransferAdmin a b) = Some a"
| "call_signer (AddAdmin a b) = Some a"
| "call_signer (RemoveAdmin a b) = Some a"
| "call_signer (SetLimit a l) = Some a"
| "call_signer (SetPaused a p) = Some a"
| "call_signer (SetWatcherRegistry a w) = Some a"
| "call_signer (RegisterAlert a t l h r g) = Some a"
| "call_signer (BatchRegister a xs) = Some a"
| "call_signer (PauseAlert a i) = Some a"
| "call_signer (UnpauseAlert a i) = Some a"
| "call_signer (UpdateAlert a i r b) = Some a"
| "call_signer (UpdateWebhook a i h) = Some a"
| "call_signer (ProposeWebhook a i h) = Some a"
| "call_signer (ConfirmWebhook a i) = Some a"
| "call_signer (UpdateLabel a i l) = Some a"
| "call_signer (UpdateTags a i g) = Some a"
| "call_signer (UpdateTarget a i t) = Some a"
| "call_signer (TransferOwnership a i b) = Some a"
| "call_signer (RemoveAlert a i) = Some a"
| "call_signer (RemoveAlertByAdmin a i) = Some a"
| "call_signer (BumpAlert i t) = None"
| "call_signer (BulkRenew is) = None"
| "call_signer (DeactivateAll a) = Some a"
| "call_signer (GetAlert i) = None"

lemma safe_discard [safe_simps]: "safe (discard m) c s \<longleftrightarrow> safe m c s"
  by (auto simp: discard_def safe_simps)

lemma safe_configuration:
  "authorized c a \<Longrightarrow> safe (ar_transfer_admin a b) c s"
  "authorized c a \<Longrightarrow> safe (ar_add_admin a b) c s"
  "authorized c a \<Longrightarrow> safe (ar_remove_admin a b) c s"
  "authorized c a \<Longrightarrow> safe (ar_set_per_owner_alert_limit a l) c s"
  "authorized c a \<Longrightarrow> safe (ar_set_paused a p) c s"
  "authorized c a \<Longrightarrow> safe (ar_set_watcher_registry a w) c s"
  "safe (ar_initialize a) c s"
  by (auto simp: ar_transfer_admin_def ar_add_admin_def ar_remove_admin_def
      ar_set_per_owner_alert_limit_def ar_set_paused_def ar_set_watcher_registry_def
      ar_initialize_def safe_simps)

lemma safe_registration:
  "authorized c a \<Longrightarrow> safe (ar_register_alert a t l h r g) c s"
  "authorized c a \<Longrightarrow> safe (ar_batch_register_alerts a inputs) c s"
  by (auto simp: ar_register_alert_def ar_batch_register_alerts_def safe_simps
      intro!: safe_for_each)

lemma safe_edits:
  "authorized c a \<Longrightarrow> safe (ar_set_alert_active_by_admin a i b) c s"
  "authorized c a \<Longrightarrow> safe (ar_propose_webhook a i h) c s"
  "authorized c a \<Longrightarrow> safe (ar_confirm_webhook a i) c s"
  "authorized c a \<Longrightarrow> safe (ar_update_tags a i g) c s"
  "authorized c a \<Longrightarrow> safe (ar_update_target_contract a i t) c s"
  "authorized c a \<Longrightarrow> safe (ar_transfer_alert_ownership a i b') c s"
  "authorized c a \<Longrightarrow> safe (ar_remove_alert a i) c s"
  "authorized c a \<Longrightarrow> safe (ar_remove_alert_by_admin a i) c s"
  "safe (ar_get_alert i) c s"
  by (auto simp: ar_set_alert_active_by_admin_def ar_propose_webhook_def ar_confirm_webhook_def
      ar_update_tags_def ar_update_target_contract_def ar_transfer_alert_ownership_def
      ar_remove_alert_def ar_remove_alert_by_admin_def ar_get_alert_def safe_simps op_ok)

text \<open>The calls that renew the index entries of an alert.\<close>

lemma safe_renewing:
  assumes "p_get (Alerts s) i \<noteq> None \<longrightarrow> fully_stored i s"
  shows "authorized c a \<Longrightarrow> safe (ar_update_alert a i r b) c s"
    "authorized c a \<Longrightarrow> safe (ar_update_webhook a i h) c s"
    "authorized c a \<Longrightarrow> safe (ar_update_label a i l) c s"
    "safe (ar_bump_alert i ttl) c s"
  using assms
  by (auto simp: ar_update_alert_def ar_update_webhook_def ar_update_label_def ar_bump_alert_def
      fully_stored_def safe_simps op_ok p_has_get)



section \<open>When a renewal returns\<close>

lemma ok_or_safe: "safe m c s \<Longrightarrow> (\<exists>a s'. m c s = (Inr a, s')) \<or> (\<exists>e s'. m c s = (Inl (Err e), s'))"
  by (cases "m c s"; cases "fst (m c s)") (auto simp: safe_def, metis failure.exhaust)

lemma bulk_renew_loop_returns:
  assumes "unat n + length ids < 4294967296"
  shows "(\<exists>m s'. ar_bulk_renew_loop ids n c s = (Inr m, s')) \<longleftrightarrow>
    (\<forall>i \<in> set ids. p_get (Alerts s) i \<noteq> None \<longrightarrow> fully_stored i s)"
  using assms
proof (induction ids arbitrary: n s)
  case Nil
  then show ?case by (simp add: ret_ok)
next
  case (Cons i ids)
  from Cons.prems have add: "checked_add n 1 = Some (n + 1)" and n: "unat (n + 1) = unat n + 1"
    by (simp_all add: checked_add_def unat_word_ariths)
  show ?case
  proof (cases "p_get (Alerts s) i")
    case None
    with Cons show ?thesis by (simp add: op_ok)
  next
    case (Some cfg)
    define t where "t =
      (ContractIndexes_update (p_extend c (target_contract cfg) AR_DEFAULT_TTL AR_DEFAULT_TTL)
        (OwnerIndexes_update (p_extend c (owner cfg) AR_DEFAULT_TTL AR_DEFAULT_TTL)
          (AlertActives_update (p_extend c i AR_DEFAULT_TTL AR_DEFAULT_TTL)
            (Alerts_update (p_extend c i AR_DEFAULT_TTL AR_DEFAULT_TTL) s))))
      \<lparr>events := events s @ [\<lparr>topic0 = ''alert'', topic1 = ''bump'',
                                event_data = [VU64 i, VU32 AR_DEFAULT_TTL]\<rparr>]\<rparr>"
    have "fully_stored j t = fully_stored j s" for j
      by (simp add: t_def fully_stored_def)
    moreover have "p_get (Alerts t) = p_get (Alerts s)"
      by (simp add: t_def)
    moreover have "(\<exists>m s'. ar_bulk_renew_loop (i # ids) n c s = (Inr m, s')) \<longleftrightarrow>
        fully_stored i s \<and> (\<exists>m s'. ar_bulk_renew_loop ids (n + 1) c t = (Inr m, s'))"
      unfolding t_def using Some add by (auto simp: op_ok fully_stored_def)
    ultimately show ?thesis
      using Cons.IH [of "n + 1" t] Cons.prems n Some by simp
  qed
qed

lemma bump_returns_iff:
  "(\<exists>s'. ar_bump_alert i ttl c s = (Inr (), s')) \<longleftrightarrow> \<not> ar_is_paused s \<and> fully_stored i s"
  by (auto simp: ar_bump_alert_def op_ok fully_stored_def p_has_get)

lemma bulk_renew_returns_iff:
  "(\<exists>n s'. ar_bulk_renew_ttl ids c s = (Inr n, s')) \<longleftrightarrow>
   length ids \<le> 50 \<and> (\<forall>j \<in> set ids. p_get (Alerts s) j \<noteq> None \<longrightarrow> fully_stored j s)"
  using bulk_renew_loop_returns [of 0 ids c s]
  by (auto simp: ar_bulk_renew_ttl_def ok_simps AR_MAX_BATCH_SIZE_def not_less)

text \<open>
  C15. When a renewal returns: \<open>bump_alert\<close> returns exactly for an alert that is stored together
  with its flag and both of its index entries, on a contract that is not paused. One alert of
  a batch that is stored but lacks one of them makes \<open>bulk_renew_ttl\<close> fail for the whole
  batch; only identifiers without a stored alert are skipped.
\<close>

theorem ar_renewal_returns_iff:
  "((\<exists>s'. ar_bump_alert i ttl c s = (Inr (), s')) \<longleftrightarrow> \<not> ar_is_paused s \<and> fully_stored i s) \<and>
   ((\<exists>n s'. ar_bulk_renew_ttl ids c s = (Inr n, s')) \<longleftrightarrow>
      length ids \<le> 50 \<and> (\<forall>j \<in> set ids. p_get (Alerts s) j \<noteq> None \<longrightarrow> fully_stored j s))"
  using bump_returns_iff bulk_renew_returns_iff by blast

theorem ar_renewal_returns_iff_witness:
  "(\<exists>n s'. ar_bulk_renew_ttl [0, 5] (sample_ctx 40 (Address 9)) sample_state = (Inr n, s')) \<and>
   \<not> (\<exists>n s'. ar_bulk_renew_ttl [5, 0] (sample_ctx 40 (Address 9))
        (OwnerIndexes_update (p_remove (Address 2)) sample_state) = (Inr n, s'))"
proof -
  have "fully_stored 0 sample_state" by (rule fully_stored_reachable) auto
  moreover have "\<not> fully_stored 0 (OwnerIndexes_update (p_remove (Address 2)) sample_state)"
    by (simp add: fully_stored_def)
  ultimately show ?thesis
    using ar_renewal_returns_iff [THEN conjunct2, of "[0, 5]" "sample_ctx 40 (Address 9)" sample_state]
      ar_renewal_returns_iff [THEN conjunct2, of "[5, 0]" "sample_ctx 40 (Address 9)"
        "OwnerIndexes_update (p_remove (Address 2)) sample_state"]
    by simp
qed

section \<open>Owners can always leave\<close>

text \<open>Only an admin can have paused the contract, and an admin remains.\<close>

lemma pause_has_admin_change:
  "ar_change c v v' \<Longrightarrow> (v_paused v \<longrightarrow> v_admins v \<noteq> None) \<Longrightarrow> v_paused v' \<longrightarrow> v_admins v' \<noteq> None"
  by (induction rule: ar_change.induct)
    (auto simp: change_defs create_def emit_def Let_def view_admin_def)

lemma pause_has_admin_changes:
  "ar_changes c v v' \<Longrightarrow> (v_paused v \<longrightarrow> v_admins v \<noteq> None) \<Longrightarrow> v_paused v' \<longrightarrow> v_admins v' \<noteq> None"
  by (induction rule: rtranclp_induct) (auto dest: pause_has_admin_change)

lemma pause_has_admin_exec:
  assumes "ar_exec call c s = (Inr u, s')" "view_ok (view_of s)"
    "ar_is_paused s \<longrightarrow> ar_load_admins s \<noteq> None"
  shows "ar_is_paused s' \<longrightarrow> ar_load_admins s' \<noteq> None"
  using ar_exec_changes [OF assms(1,2)]
proof
  assume "ar_changes c (view_of s) (view_of s')"
  from pause_has_admin_changes [OF this] assms(3) show ?thesis by simp
next
  assume "(\<exists>a. call = Initialize a) \<and> initial_admin (view_of s) (view_of s')"
  then have "v_admins (view_of s') \<noteq> None"
    by (auto simp: initial_admin_def log_def simp del: view_of_sel)
  then show ?thesis by simp
qed

lemma pause_has_admin_step:
  "ar_step e s s' \<Longrightarrow> view_ok (view_of s) \<Longrightarrow> ar_is_paused s \<longrightarrow> ar_load_admins s \<noteq> None \<Longrightarrow>
   ar_is_paused s' \<longrightarrow> ar_load_admins s' \<noteq> None"
proof (induction rule: ar_step.induct)
  case (called call c s r s')
  then show ?case
    by (cases r) (auto simp: invoke_ok invoke_err dest: pause_has_admin_exec)
qed auto

lemma pause_has_admin: "ar_reachable e s \<Longrightarrow> ar_is_paused s \<longrightarrow> ar_load_admins s \<noteq> None"
proof (induction rule: ar_reachable.induct)
  case deployed
  show ?case by (simp add: ar_deployed_def ar_is_paused_def)
next
  case (stepped s s')
  from pause_has_admin_step [OF stepped.hyps(2) view_ok_reachable [OF stepped.hyps(1)] stepped.IH]
  show ?case .
qed

lemma unpause_returns:
  assumes "ar_load_admins s = Some as" "a \<in> set as" "authorized c a"
  obtains s1 where "ar_exec (SetPaused a False) c s = (Inr (), s1)" "\<not> ar_is_paused s1"
    "Alerts s1 = Alerts s"
  using assms by (auto simp: ar_set_paused_def op_ok ar_admin.is_admin_of_def)

lemma remove_returns:
  assumes "\<not> ar_is_paused s" "p_get (Alerts s) i = Some cfg" "authorized c (owner cfg)"
  obtains s' where "ar_exec (RemoveAlert (owner cfg) i) c s = (Inr (), s')"
    "p_get (Alerts s') i = None"
  using assms by (auto simp: ar_remove_alert_def ar_remove_alert_record_def op_ok)

text \<open>
  C14. Nobody is stuck: in every reachable state, also when entries have been lost, each stored
  alert can be removed by its owner. If the contract is paused it has an admin, whose
  \<open>set_paused\<close> call returns and opens it, keeping the alerts; on a contract that is not paused
  the owner's \<open>remove_alert\<close> returns, and then the alert is gone.
\<close>

theorem ar_owner_can_leave:
  assumes "ar_reachable e s" "p_get (Alerts s) i = Some cfg"
  shows "(ar_is_paused s \<longrightarrow>
      (\<exists>as. ar_load_admins s = Some as \<and> as \<noteq> [] \<and>
        (\<forall>a \<in> set as. \<forall>c. authorized c a \<longrightarrow>
          (\<exists>s1. ar_exec (SetPaused a False) c s = (Inr (), s1) \<and> \<not> ar_is_paused s1 \<and>
                p_get (Alerts s1) i = Some cfg)))) \<and>
    (\<not> ar_is_paused s \<longrightarrow>
      (\<forall>c. authorized c (owner cfg) \<longrightarrow>
        (\<exists>s2. ar_exec (RemoveAlert (owner cfg) i) c s = (Inr (), s2) \<and>
              p_get (Alerts s2) i = None)))"
proof -
  have "as \<noteq> []" if "ar_load_admins s = Some as" for as
    using view_ok_reachable [OF assms(1)] that by (auto simp: view_ok_def admins_ok_def)
  moreover have "\<exists>s1. ar_exec (SetPaused a False) c s = (Inr (), s1) \<and> \<not> ar_is_paused s1 \<and>
      p_get (Alerts s1) i = Some cfg"
    if "ar_load_admins s = Some as" "a \<in> set as" "authorized c a" for a as c
    using unpause_returns [OF that] assms(2) by metis
  moreover have "\<exists>s2. ar_exec (RemoveAlert (owner cfg) i) c s = (Inr (), s2) \<and>
      p_get (Alerts s2) i = None" if "\<not> ar_is_paused s" "authorized c (owner cfg)" for c
    using remove_returns [OF that(1) assms(2) that(2)] by metis
  ultimately show ?thesis
    using pause_has_admin [OF assms(1)] by blast
qed

theorem ar_owner_can_leave_witness:
  "\<exists>s2. ar_exec (RemoveAlert (Address 2) 0) (sample_ctx 40 (Address 2)) sample_state
      = (Inr (), s2) \<and> p_get (Alerts s2) 0 = None"
  using ar_owner_can_leave [OF sample_reachable, of 0 "sample_config (Address 3) 20"] by auto

end
