(* ===== verification/AlertKeeper.thy ===== *)
theory AlertKeeper
  imports AlertLifetime AlertProgress
begin

text \<open>
  The keeper service that docs/ttl.md describes: it calls \<open>bump_alert\<close> again and again. Here
  entries expire as the ledger moves on, each at the end of its lifetime, and a keeper that is
  never late keeps its alert, and the way to it through both indexes, forever.
\<close>

section \<open>The passage of time\<close>

definition lapse :: "nat \<Rightarrow> ('k \<rightharpoonup> 'v entry) \<Rightarrow> ('k \<rightharpoonup> 'v entry)" where
  "lapse n m = (\<lambda>k. case m k of None \<Rightarrow> None | Some e \<Rightarrow> if entry_live e < n then None else Some e)"

lemma p_get_lapse:
  "p_get (lapse n m) k = (case p_live m k of None \<Rightarrow> None
     | Some l \<Rightarrow> if l < n then None else p_get m k)"
  by (auto simp: lapse_def p_get_def p_live_def split: option.splits)

lemma p_live_lapse:
  "p_live (lapse n m) k = (case p_live m k of None \<Rightarrow> None
     | Some l \<Rightarrow> if l < n then None else Some l)"
  by (auto simp: lapse_def p_live_def split: option.splits)

text \<open>The persistent storage of the registry at ledger \<open>n\<close>.\<close>

definition ar_lapse :: "nat \<Rightarrow> alert_state \<Rightarrow> alert_state" where
  "ar_lapse n s = s\<lparr>Alerts := lapse n (Alerts s), AlertActives := lapse n (AlertActives s),
     OwnerIndexes := lapse n (OwnerIndexes s), ContractIndexes := lapse n (ContractIndexes s),
     NextIds := lapse n (NextIds s)\<rparr>"

text \<open>
  \<open>bump_alert\<close> in a sequence of invocations, the storage having aged to the ledger of each;
  \<open>None\<close> when one of them fails.
\<close>

fun keeper_run :: "u64 \<Rightarrow> u32 \<Rightarrow> alert_ctx list \<Rightarrow> alert_state \<Rightarrow> alert_state option" where
  "keeper_run i ttl [] s = Some s"
| "keeper_run i ttl (c # cs) s =
     (case ar_bump_alert i ttl c (ar_lapse (unat (sequence c)) s) of
        (Inl y, t) \<Rightarrow> None
      | (Inr u, t) \<Rightarrow> keeper_run i ttl cs t)"

text \<open>
  The lifetime that \<open>bump_alert\<close> renews to: the requested one, cut to \<open>MAX_TTL\<close>; and invocations
  of which none comes later than \<open>ttl\<close> ledgers after the one before it.
\<close>

abbreviation renewed_ttl :: "u32 \<Rightarrow> u32" where
  "renewed_ttl ttl \<equiv> min ttl AR_MAX_TTL"

fun on_time :: "u32 \<Rightarrow> nat \<Rightarrow> alert_ctx list \<Rightarrow> bool" where
  "on_time ttl q [] = True"
| "on_time ttl q (c # cs) =
     (unat (sequence c) \<le> q + unat ttl \<and> on_time ttl (unat (sequence c)) cs)"

section \<open>A keeper that is on time\<close>

text \<open>The four entries of an alert live at least until ledger \<open>n\<close>.\<close>

definition lives :: "nat \<Rightarrow> u64 \<Rightarrow> alert_config \<Rightarrow> alert_state \<Rightarrow> bool" where
  "lives n i cfg s \<longleftrightarrow>
     (\<exists>l. p_live (Alerts s) i = Some l \<and> n \<le> l) \<and>
     (\<exists>l. p_live (AlertActives s) i = Some l \<and> n \<le> l) \<and>
     (\<exists>l. p_live (OwnerIndexes s) (owner cfg) = Some l \<and> n \<le> l) \<and>
     (\<exists>l. p_live (ContractIndexes s) (target_contract cfg) = Some l \<and> n \<le> l)"

text \<open>What a query of the alert depends on.\<close>

definition findable ::
  "u64 \<Rightarrow> alert_config \<Rightarrow> alert_state \<Rightarrow> bool option \<times> u64 list option \<times> u64 list option" where
  "findable i cfg s = (p_get (AlertActives s) i, p_get (OwnerIndexes s) (owner cfg),
     p_get (ContractIndexes s) (target_contract cfg))"

lemma lives_lapse:
  assumes "lives n i cfg s"
  shows "lives n i cfg (ar_lapse n s)" "findable i cfg (ar_lapse n s) = findable i cfg s"
    "p_get (Alerts (ar_lapse n s)) i = p_get (Alerts s) i"
  using assms
  by (auto simp: lives_def findable_def ar_lapse_def p_get_lapse p_live_lapse)

lemma lives_mono: "lives n i cfg s \<Longrightarrow> m \<le> n \<Longrightarrow> lives m i cfg s"
  by (auto simp: lives_def intro: le_trans)

lemma lives_fully_stored:
  "lives n i cfg s \<Longrightarrow> p_get (Alerts s) i = Some cfg \<Longrightarrow> fully_stored i s"
  by (auto simp: lives_def fully_stored_def p_live_None_iff [symmetric])

lemma bump_once:
  assumes "host_of c cap" "unat AR_MAX_TTL \<le> cap" "\<not> ar_is_paused s" "p_get (Alerts s) i = Some cfg" "lives (unat (sequence c)) i cfg s"
  obtains t where "ar_bump_alert i ttl c (ar_lapse (unat (sequence c)) s) = (Inr (), t)"
    "\<not> ar_is_paused t" "p_get (Alerts t) i = Some cfg" "findable i cfg t = findable i cfg s"
    "lives (unat (sequence c) + unat (renewed_ttl ttl)) i cfg t"
proof -
  let ?s = "ar_lapse (unat (sequence c)) s"
  note aged = lives_lapse [OF assms(5)]
  have "\<not> ar_is_paused ?s"
    using assms(3) by (simp add: ar_lapse_def ar_is_paused_def)
  moreover have stored: "p_get (Alerts ?s) i = Some cfg"
    using aged(3) assms(4) by simp
  ultimately obtain t where run: "ar_bump_alert i ttl c ?s = (Inr (), t)"
    using bump_returns_iff lives_fully_stored [OF aged(1)] by blast
  from run \<open>\<not> ar_is_paused ?s\<close> have "\<not> ar_is_paused t" "p_get (Alerts t) i = Some cfg"
    "findable i cfg t = findable i cfg ?s"
    using stored by (auto simp: ar_bump_alert_def op_ok findable_def split: if_splits)
  moreover have "lives (unat (sequence c) + unat (renewed_ttl ttl)) i cfg t"
    using bump_renews [OF assms(1,2) run] stored
    by (fastforce simp: lives_def)
  ultimately show thesis
    using that run aged(2) by simp
qed

lemma keeper_run_alive:
  assumes "unat AR_MAX_TTL \<le> cap"
  shows "\<forall>c \<in> set cs. host_of c cap \<Longrightarrow> on_time (renewed_ttl ttl) q cs \<Longrightarrow> \<not> ar_is_paused s \<Longrightarrow>
    p_get (Alerts s) i = Some cfg \<Longrightarrow> lives (q + unat (renewed_ttl ttl)) i cfg s \<Longrightarrow>
    \<exists>s'. keeper_run i ttl cs s = Some s' \<and> p_get (Alerts s') i = Some cfg \<and>
      findable i cfg s' = findable i cfg s"
proof (induction cs arbitrary: q s)
  case Nil
  then show ?case by simp
next
  case (Cons c cs)
  then have "host_of c cap" "unat (sequence c) \<le> q + unat (renewed_ttl ttl)" by auto
  then obtain t where bumped: "ar_bump_alert i ttl c (ar_lapse (unat (sequence c)) s) = (Inr (), t)"
    "\<not> ar_is_paused t" "p_get (Alerts t) i = Some cfg" "findable i cfg t = findable i cfg s"
    "lives (unat (sequence c) + unat (renewed_ttl ttl)) i cfg t"
    using bump_once [OF _ assms Cons.prems(3,4) lives_mono [OF Cons.prems(5)]] by blast
  moreover from Cons.prems have "\<forall>c \<in> set cs. host_of c cap" "on_time (renewed_ttl ttl) (unat (sequence c)) cs"
    by auto
  ultimately show ?case
    using Cons.IH [of "unat (sequence c)" t] by simp
qed

text \<open>
  C13. A punctual keeper keeps an alert alive. Let \<open>T\<close> be the smaller of the requested \<open>ttl\<close> and
  \<open>MAX_TTL\<close> (535680), on a host whose \<open>extend_ttl\<close> follows its documentation with a maximum
  lifetime of at least \<open>MAX_TTL\<close>. If the contract is not paused, the alert, its flag and its two
  index entries live \<open>T\<close> ledgers from ledger \<open>q\<close> on, and \<open>bump_alert\<close> is called with \<open>ttl\<close> any
  number of times, with no other call in between and each time at most \<open>T\<close> ledgers after the
  time before (the first time, after \<open>q\<close>), then every call returns although the storage ages and expires between them; and
  at the end the alert, its flag and both index lists are what they were.
\<close>

theorem ar_keeper_keeps_alive:
  assumes "\<forall>c \<in> set cs. host_of c cap" "unat AR_MAX_TTL \<le> cap"
    "on_time (min ttl AR_MAX_TTL) q cs" "\<not> ar_is_paused s" "p_get (Alerts s) i = Some cfg"
    "lives (q + unat (min ttl AR_MAX_TTL)) i cfg s"
  shows "\<exists>s'. keeper_run i ttl cs s = Some s' \<and> p_get (Alerts s') i = Some cfg \<and>
    ar_get_alert_active s' i = ar_get_alert_active s i \<and>
    ar_owner_index s' (owner cfg) = ar_owner_index s (owner cfg) \<and>
    ar_contract_index s' (target_contract cfg) = ar_contract_index s (target_contract cfg)"
  using keeper_run_alive [OF assms(2,1,3,4,5,6)]
  by (auto simp: findable_def ar_get_alert_active_def ar_owner_index_def ar_contract_index_def)

text \<open>The context at ledger \<open>n\<close>, on a host with a maximum lifetime of 3110400 ledgers.\<close>

definition keeper_ctx :: "u32 \<Rightarrow> alert_ctx" where
  "keeper_ctx n = sample_ctx 40 (Address 9)\<lparr>sequence := n,
     extend_until := sdk_extend (unat n) 3110400, fresh_until := unat n + 4095\<rparr>"

lemma keeper_ctx_host: "host_of (keeper_ctx n) 3110400"
proof -
  have "ttl_host (unat n) (sdk_extend (unat n) 3110400) (unat n + 4095) 3110400"
    by unfold_locales (auto simp: sdk_extend_def)
  then show ?thesis by (simp add: keeper_ctx_def)
qed

lemma sample_lives: "lives 120960 0 (sample_config (Address 3) 20) sample_state"
  by (simp add: lives_def sample_state_def sample_one_def sample_init_def ar_deployed_def
      registered_state_def Let_def index_push_def store_entry_def sdk_extend_def
      AR_DEFAULT_TTL_def ar_get_alert_count_def)

theorem ar_keeper_keeps_alive_witness:
  "\<exists>s'. keeper_run 0 100000 (map keeper_ctx [90000, 190000, 290000, 380000]) sample_state = Some s' \<and>
     p_get (Alerts s') 0 = Some (sample_config (Address 3) 20)"
proof -
  have "lives (0 + unat (min 100000 AR_MAX_TTL)) 0 (sample_config (Address 3) 20) sample_state"
    by (rule lives_mono [OF sample_lives]) (simp add: AR_MAX_TTL_def)
  from ar_keeper_keeps_alive [OF _ _ _ _ _ this, of "map keeper_ctx [90000, 190000, 290000, 380000]"
      3110400] show ?thesis
    by (auto simp: keeper_ctx_host AR_MAX_TTL_def) (auto simp: keeper_ctx_def)
qed

end
