(* ===== verification/AlertEvents.thy ===== *)
theory AlertEvents
  imports AlertSamples
begin

text \<open>
  The event stream of the alert registry as docs/events.md and docs/event-indexing.md present
  it to off-chain services: what an indexer that reads all events in order knows of the
  contract, and which calls it cannot see.
\<close>

section \<open>An indexer\<close>

text \<open>
  The indexer keeps the owner of each alert, the admin set, the pause switch and the limit. It
  reads the topics and the data in the shapes of docs/events.md.
\<close>

record log_view =
  log_owners :: "u64 \<rightharpoonup> address"
  log_admins :: "address list option"
  log_paused :: bool
  log_limit :: u32

definition read_alert :: "string \<Rightarrow> event_value list \<Rightarrow> log_view \<Rightarrow> log_view" where
  "read_alert t d l =
     (if t = ''register''
      then case d of [VU64 i, VAddr a, VAddr b] \<Rightarrow> l\<lparr>log_owners := (log_owners l)(i \<mapsto> a)\<rparr> | _ \<Rightarrow> l
      else if t = ''transfer''
      then case d of [VU64 i, VAddr a, VAddr b] \<Rightarrow> l\<lparr>log_owners := (log_owners l)(i \<mapsto> b)\<rparr> | _ \<Rightarrow> l
      else if t = ''remove''
      then case d of VU64 i # rest \<Rightarrow> l\<lparr>log_owners := (log_owners l)(i := None)\<rparr> | _ \<Rightarrow> l
      else l)"

definition read_admin :: "string \<Rightarrow> event_value list \<Rightarrow> log_view \<Rightarrow> log_view" where
  "read_admin t d l =
     (if t = ''init''
      then case d of [VAddr a] \<Rightarrow> l\<lparr>log_admins := Some [a]\<rparr> | _ \<Rightarrow> l
      else if t = ''transfer''
      then case d of [VAddr a, VAddr b] \<Rightarrow> l\<lparr>log_admins := Some [b]\<rparr> | _ \<Rightarrow> l
      else if t = ''add''
      then case d of [VAddr a, VAddr b] \<Rightarrow>
             l\<lparr>log_admins := map_option (\<lambda>as. as @ [b]) (log_admins l)\<rparr> | _ \<Rightarrow> l
      else if t = ''remove''
      then case d of [VAddr a, VAddr b] \<Rightarrow>
             l\<lparr>log_admins := map_option (filter (\<lambda>x. x \<noteq> b)) (log_admins l)\<rparr> | _ \<Rightarrow> l
      else if t = ''pause'' then l\<lparr>log_paused := True\<rparr>
      else if t = ''unpause'' then l\<lparr>log_paused := False\<rparr>
      else if t = ''limit''
      then case d of [VAddr a, VU32 n] \<Rightarrow> l\<lparr>log_limit := n\<rparr> | _ \<Rightarrow> l
      else l)"

definition read_event :: "event \<Rightarrow> log_view \<Rightarrow> log_view" where
  "read_event e l =
     (if topic0 e = ''alert'' then read_alert (topic1 e) (event_data e) l
      else if topic0 e = ''admin'' then read_admin (topic1 e) (event_data e) l
      else l)"

definition replay :: "event list \<Rightarrow> log_view" where
  "replay es = fold read_event es
     \<lparr>log_owners = Map.empty, log_admins = None, log_paused = False, log_limit = 0\<rparr>"

section \<open>The indexer is right\<close>

text \<open>
  The log agrees with a state: on the configuration, on the owner of each stored alert, and,
  where no entry has been lost, on which alerts there are.
\<close>

definition told :: "bool \<Rightarrow> ar_view \<Rightarrow> bool" where
  "told e v \<longleftrightarrow>
     (let l = replay (v_events v) in
      log_admins l = v_admins v \<and> log_paused l = v_paused v \<and> log_limit l = v_limit v \<and>
      (\<forall>i cfg. v_alerts v i = Some cfg \<longrightarrow> log_owners l i = Some (owner cfg)) \<and>
      (\<not> e \<longrightarrow> (\<forall>i. v_alerts v i = None \<longrightarrow> log_owners l i = None)))"

lemma replay_emit [simp]:
  "replay (v_events (emit t d v)) = read_alert t d (replay (v_events v))"
  "replay (v_events (emit_admin t d v)) = read_admin t d (replay (v_events v))"
  by (simp_all add: emit_def emit_admin_def replay_def read_event_def)

lemma view_emit_sel [simp]:
  "v_admins (emit t d v) = v_admins v" "v_paused (emit t d v) = v_paused v"
  "v_limit (emit t d v) = v_limit v" "v_alerts (emit t d v) = v_alerts v"
  "v_admins (emit_admin t d v) = v_admins v" "v_paused (emit_admin t d v) = v_paused v"
  "v_limit (emit_admin t d v) = v_limit v" "v_alerts (emit_admin t d v) = v_alerts v"
  by (simp_all add: emit_def emit_admin_def)

text \<open>Events that the indexer passes over, and changes that keep every owner.\<close>

lemma told_emit_other:
  "t \<notin> {''register'', ''transfer'', ''remove''} \<Longrightarrow> told e (emit t d v) = told e v"
  by (simp add: told_def Let_def read_alert_def)

lemma told_put:
  "told e v \<Longrightarrow> map_option owner (v_alerts v i) = Some (owner cfg) \<Longrightarrow> told e (put i cfg v)"
  by (auto simp: told_def Let_def put_def)

lemma told_put_flag [simp]: "told e (put_flag i b v) = told e v"
  by (simp add: told_def put_flag_def)

lemma told_prune [simp]: "told e (prune a v) = told e v"
  by (simp add: told_def)

lemma told_indexes [simp]:
  "told e (v\<lparr>v_owned := x\<rparr>) = told e v" "told e (v\<lparr>v_watching := y\<rparr>) = told e v"
  "told e (v\<lparr>v_watchreg := w\<rparr>) = told e v" "told e (v\<lparr>v_flags := f\<rparr>) = told e v"
  by (simp_all add: told_def)

lemma told_create: "told e v \<Longrightarrow> told e (create cfg v)"
  by (auto simp: told_def Let_def create_def read_alert_def emit_def replay_def read_event_def)

lemma told_erase:
  "told e v \<Longrightarrow> d = VU64 i # rest \<Longrightarrow> told e (emit ''remove'' d (erase i cfg v))"
  by (auto simp: told_def Let_def read_alert_def erase_def)

lemma told_reown:
  "told e v \<Longrightarrow> v_alerts v i = Some cfg \<Longrightarrow>
   told e (emit ''transfer'' [VU64 i, VAddr a, VAddr b] (reown i cfg b t v))"
  by (auto simp: told_def Let_def read_alert_def reown_def put_def)

lemma told_retarget:
  "told e v \<Longrightarrow> v_alerts v i = Some cfg \<Longrightarrow> told e (retarget i cfg target t v)"
  by (auto simp: told_def Let_def retarget_def put_def)

lemma told_creations: "told e v \<Longrightarrow> told e (creations a t inputs v)"
  by (induction inputs arbitrary: v) (auto intro: told_create)

lemma told_deactivations: "told e v \<Longrightarrow> told e (deactivations t ids v)"
proof (induction ids arbitrary: v)
  case (Cons i ids)
  then show ?case by (auto simp: told_put intro!: Cons.IH split: option.splits)
qed simp

lemma told_renewals: "told e v \<Longrightarrow> told e (renewals ids v)"
proof (induction ids arbitrary: v)
  case Nil
  then show ?case by (simp add: renewals_def)
next
  case (Cons i ids)
  then show ?case by (simp add: renewals_Cons told_emit_other)
qed

lemma told_configure:
  "told e v \<Longrightarrow> told e (emit_admin ''limit'' [VAddr a, VU32 n] (v\<lparr>v_limit := n\<rparr>))"
  "told e v \<Longrightarrow> told e (emit_admin ''pause'' d (v\<lparr>v_paused := True\<rparr>))"
  "told e v \<Longrightarrow> told e (emit_admin ''unpause'' d (v\<lparr>v_paused := False\<rparr>))"
  "told e v \<Longrightarrow> told e (emit_admin ''init'' [VAddr a] (v\<lparr>v_admins := Some [a]\<rparr>))"
  "told e v \<Longrightarrow> told e (emit_admin ''transfer'' [VAddr a, VAddr b] (v\<lparr>v_admins := Some [b]\<rparr>))"
  "told e v \<Longrightarrow> v_admins v = Some as \<Longrightarrow>
     told e (emit_admin ''add'' [VAddr a, VAddr b] (v\<lparr>v_admins := Some (as @ [b])\<rparr>))"
  "told e v \<Longrightarrow> v_admins v = Some as \<Longrightarrow>
     told e (emit_admin ''remove'' [VAddr a, VAddr b]
       (v\<lparr>v_admins := Some (filter (\<lambda>x. x \<noteq> b) as)\<rparr>))"
  by (auto simp: told_def Let_def read_admin_def)

lemma told_exec:
  assumes "ar_exec call c s = (Inr u, s')" "told e (view_of s)"
  shows "told e (view_of s')"
proof (cases call)
  case (PauseAlert a i)
  with assms show ?thesis
    by (auto simp: ar_pause_alert_def told_emit_other told_put
        elim!: ar_set_alert_active_by_admin_effect)
next
  case (UnpauseAlert a i)
  with assms show ?thesis
    by (auto simp: ar_unpause_alert_def told_emit_other told_put
        elim!: ar_set_alert_active_by_admin_effect)
next
  case (TransferOwnership a i b)
  with assms have "ar_transfer_alert_ownership a i b c s = (Inr u, s')" by simp
  then show ?thesis
    by (cases rule: ar_transfer_alert_ownership_effect) (use assms(2) in \<open>auto intro: told_reown\<close>)
next
  case (BulkRenew ids)
    with assms obtain n where "ar_bulk_renew_loop ids 0 c s = (Inr n, s')"
      by (auto simp: discard_ok ar_bulk_renew_ttl_def ok_simps)
    from ar_bulk_renew_loop_effect [OF this] told_renewals [OF assms(2)] show ?thesis by simp
qed (use assms in \<open>auto simp: discard_ok told_emit_other told_put ar_register_alert_effect(12)
      ar_batch_register_alerts_effect(7) ar_deactivate_all_alerts_effect(3) ar_get_alert_effect(2)
      ar_initialize_effect(2) ar_transfer_admin_effect(3) ar_set_per_owner_alert_limit_effect(3)
      ar_set_paused_effect(3) ar_set_watcher_registry_effect(3)
      told_configure told_create told_creations told_deactivations told_erase told_retarget
      elim!: ar_add_admin_effect ar_remove_admin_effect ar_update_alert_effect
        ar_update_webhook_effect ar_propose_webhook_effect ar_confirm_webhook_effect
        ar_update_label_effect ar_update_tags_effect ar_update_target_contract_effect
        ar_remove_alert_effect ar_remove_alert_by_admin_effect ar_bump_alert_effect\<close>)

lemma told_lost:
  "told True (view_of s) \<Longrightarrow> told True ((view_of s)\<lparr>v_alerts := (p_get (Alerts s))(i := None)\<rparr>)"
  by (auto simp: told_def Let_def)

lemma told_step: "ar_step e s s' \<Longrightarrow> told e (view_of s) \<Longrightarrow> told e (view_of s')"
proof (induction rule: ar_step.induct)
  case (called call c s r s')
  then show ?case by (cases r) (auto simp: invoke_ok invoke_err intro: told_exec)
qed (use told_lost in \<open>auto simp: ids_at_lost\<close>)

lemma told_reachable: "ar_reachable e s \<Longrightarrow> told e (view_of s)"
proof (induction rule: ar_reachable.induct)
  case deployed
  show ?case
    by (simp add: told_def ar_deployed_def replay_def ar_load_admins_def ar_is_paused_def
        ar_get_per_owner_alert_limit_def)
next
  case (stepped s s')
  from told_step [OF stepped.hyps(2) stepped.IH] show ?case .
qed

text \<open>
  C7. The event stream tells who owns what: an indexer that reads all events in order has, in
  every reachable state, the exact admin set, pause switch and per-owner limit, and the right
  owner of every stored alert; as long as no entry has been lost it has exactly the stored
  alerts.
\<close>

theorem ar_log_tells:
  assumes "ar_reachable e s"
  shows "log_admins (replay (events s)) = ar_get_admins s \<and>
    log_paused (replay (events s)) = ar_is_paused s \<and>
    log_limit (replay (events s)) = ar_get_per_owner_alert_limit s \<and>
    (\<forall>i cfg. p_get (Alerts s) i = Some cfg \<longrightarrow> log_owners (replay (events s)) i = Some (owner cfg)) \<and>
    (\<not> e \<longrightarrow> log_owners (replay (events s)) = (\<lambda>i. map_option owner (p_get (Alerts s) i)))"
proof -
  have owners: "log_owners (replay (events s)) i = map_option owner (p_get (Alerts s) i)"
    if "\<not> e" for i
    using told_reachable [OF assms] that
    by (cases "p_get (Alerts s) i") (auto simp: told_def Let_def)
  show ?thesis
    using told_reachable [OF assms] owners by (auto simp: told_def Let_def ar_get_admins_def)
qed

theorem ar_log_tells_witness:
  "log_owners (replay (events sample_state)) = [0 \<mapsto> Address 2, 1 \<mapsto> Address 2]"
  using ar_log_tells [OF sample_reachable [of False]] by (auto simp: fun_eq_iff)

section \<open>What the indexer is not told\<close>

text \<open>The number of events that a call publishes when it returns.\<close>

fun event_count :: "ar_call \<Rightarrow> alert_state \<Rightarrow> nat" where
  "event_count (SetWatcherRegistry a w) s = 0"
| "event_count (UpdateTarget a i t) s = 0"
| "event_count (DeactivateAll a) s = 0"
| "event_count (GetAlert i) s = 0"
| "event_count (TransferOwnership a i b) s = (if b = a then 0 else 1)"
| "event_count (BatchRegister a inputs) s = length inputs"
| "event_count (BulkRenew ids) s = length (filter (\<lambda>i. p_get (Alerts s) i \<noteq> None) ids)"
| "event_count call s = 1"

definition grown :: "nat \<Rightarrow> ar_view \<Rightarrow> ar_view \<Rightarrow> bool" where
  "grown n v v' \<longleftrightarrow> (\<exists>es. v_events v' = v_events v @ es \<and> length es = n)"

lemma grown_emit: "grown 0 v v' \<Longrightarrow> grown (Suc 0) v (emit t d v')"
  "grown 0 v v' \<Longrightarrow> grown (Suc 0) v (emit_admin t d v')"
  by (auto simp: grown_def emit_def emit_admin_def)

lemma grown_silent [simp]:
  "grown n v (put i cfg v') = grown n v v'" "grown n v (put_flag i b v') = grown n v v'"
  "grown n v (erase i cfg v') = grown n v v'" "grown n v (prune a v') = grown n v v'"
  "grown n v (retarget i cfg x t v') = grown n v v'" "grown n v (reown i cfg x t v') = grown n v v'"
  "grown n v (v'\<lparr>v_admins := as\<rparr>) = grown n v v'" "grown n v (v'\<lparr>v_limit := l\<rparr>) = grown n v v'"
  "grown n v (v'\<lparr>v_paused := p\<rparr>) = grown n v v'" "grown n v (v'\<lparr>v_watchreg := w\<rparr>) = grown n v v'"
  "grown n v v \<longleftrightarrow> n = 0"
  by (auto simp: grown_def change_defs)

lemma grown_create: "grown n v v' \<Longrightarrow> grown (Suc n) v (create cfg v')"
  by (auto simp: grown_def create_def emit_def Let_def)

lemma grown_creations: "grown n v v' \<Longrightarrow> grown (n + length inputs) v (creations a t inputs v')"
proof (induction inputs arbitrary: n v')
  case (Cons x xs)
  from Cons.IH [OF grown_create [OF Cons.prems]] show ?case by simp
qed simp

lemma grown_deactivations: "grown n v v' \<Longrightarrow> grown n v (deactivations t ids v')"
proof (induction ids arbitrary: v')
  case (Cons i ids)
  then show ?case by (auto intro!: Cons.IH split: option.splits)
qed simp

lemma grown_exec:
  assumes "ar_exec call c s = (Inr u, s')"
  shows "grown (event_count call s) (view_of s) (view_of s')"
proof (cases call)
  case (PauseAlert a i)
  with assms show ?thesis
    by (auto simp: ar_pause_alert_def grown_emit elim!: ar_set_alert_active_by_admin_effect)
next
  case (UnpauseAlert a i)
  with assms show ?thesis
    by (auto simp: ar_unpause_alert_def grown_emit elim!: ar_set_alert_active_by_admin_effect)
next
  case (TransferOwnership a i b)
  with assms have "ar_transfer_alert_ownership a i b c s = (Inr u, s')" by simp
  then show ?thesis
    by (cases rule: ar_transfer_alert_ownership_effect)
      (use TransferOwnership in \<open>auto simp: grown_emit\<close>)
next
  case (BulkRenew ids)
  with assms obtain n where "ar_bulk_renew_loop ids 0 c s = (Inr n, s')"
    by (auto simp: discard_ok ar_bulk_renew_ttl_def ok_simps)
  from ar_bulk_renew_loop_effect [OF this] BulkRenew show ?thesis
    by (simp add: grown_def renewals_def)
next
  case (RegisterAlert a t l h r g)
  with assms show ?thesis
    using grown_create [of 0 "view_of s"] by (auto simp: discard_ok ar_register_alert_effect(12))
next
  case (BatchRegister a inputs)
  with assms show ?thesis
    using grown_creations [of 0 "view_of s"]
    by (auto simp: discard_ok ar_batch_register_alerts_effect(7))
qed (use assms in \<open>auto simp: discard_ok grown_emit ar_deactivate_all_alerts_effect(3)
      ar_get_alert_effect(2) ar_initialize_effect(2) ar_transfer_admin_effect(3)
      ar_set_per_owner_alert_limit_effect(3) ar_set_paused_effect(3)
      ar_set_watcher_registry_effect(3) grown_deactivations
      elim!: ar_add_admin_effect ar_remove_admin_effect ar_update_alert_effect
        ar_update_webhook_effect ar_propose_webhook_effect ar_confirm_webhook_effect
        ar_update_label_effect ar_update_tags_effect ar_update_target_contract_effect
        ar_remove_alert_effect ar_remove_alert_by_admin_effect ar_bump_alert_effect\<close>)

text \<open>
  C34. One event for each effect, and four silent calls: the stream only grows; a batch
  registration adds an event for each alert, a bulk renewal one for each stored alert, and
  every other call that returns exactly one, except \<open>update_target_contract\<close>,
  \<open>deactivate_all_alerts\<close>, \<open>set_watcher_registry\<close> and \<open>get_alert\<close> (and a transfer to oneself),
  which add none: an indexer does not learn that an alert has moved to another target or has
  been switched off in bulk.
\<close>

theorem ar_events_per_call:
  assumes "ar_exec call c s = (Inr u, s')"
  shows "\<exists>es. events s' = events s @ es \<and> length es = event_count call s"
  using grown_exec [OF assms] by (simp add: grown_def)

theorem ar_events_per_call_witness:
  "\<exists>s'. ar_exec (UpdateTarget (Address 2) 0 (Address 5)) (sample_ctx 40 (Address 2)) sample_state
     = (Inr (), s') \<and> events s' = events sample_state"
proof -
  have "\<exists>s'. ar_exec (UpdateTarget (Address 2) 0 (Address 5)) (sample_ctx 40 (Address 2)) sample_state
     = (Inr (), s')"
    by (simp add: ar_update_target_contract_def op_ok)
  then obtain s' where run: "ar_exec (UpdateTarget (Address 2) 0 (Address 5))
      (sample_ctx 40 (Address 2)) sample_state = (Inr (), s')" ..
  from ar_events_per_call [OF run] run show ?thesis by auto
qed

end
