(* ===== verification/WatcherRegistry.thy ===== *)
theory WatcherRegistry
  imports Interfaces
begin

text \<open>
  The contract \<open>WatcherRegistry\<close> (contracts/watcher-registry/src/lib.rs): its errors, its
  storage and every entry point, in the order of the source.

  The source refers to names it does not declare. They are kept visible instead of being
  guessed: the constants \<open>MAX_LABEL_BYTES\<close> and \<open>MAX_PAGE_LIMIT\<close> are fields of the context;
  the variables \<open>label\<close> and \<open>watchers\<close> that \<open>register_watcher\<close> uses without binding them are
  arguments of its definition; the error variants \<open>MultipleAdminsExist\<close> and \<open>LabelTooLong\<close>
  and the storage key \<open>WatcherInfo(address)\<close> are added to the declared ones; the struct
  \<open>WatcherInfo\<close> has the fields of the literal that \<open>replace_watcher\<close> builds.
\<close>

section \<open>Constants, errors, storage\<close>

definition WR_DEFAULT_TTL :: u32 where "WR_DEFAULT_TTL = 518400"

definition WR_MAX_BATCH_SIZE :: u32 where "WR_MAX_BATCH_SIZE = 20"

definition MAX_WATCHERS :: u32 where "MAX_WATCHERS = 1000"

datatype wr_error =
    AlreadyInitialized
  | Unauthorized
  | NotInitialized
  | LastAdmin
  | WatcherNotFound
  | ContractPaused
  | BatchTooLarge
  | WatcherLimitExceeded
  | MultipleAdminsExist
  | LabelTooLong

record watcher_info =
  info_address :: address
  info_label :: string
  info_registered_at :: u64
  info_registered_by :: address

text \<open>
  Instance storage: one optional value per key (\<open>DataKey::Admins\<close>, \<open>Watchers\<close>, \<open>Paused\<close>,
  \<open>Expiries\<close> and the symbol \<open>W_CNT\<close>). Persistent storage: one entry per
  \<open>DataKey::WatcherInfo\<close>.
\<close>

record watcher_state = ledger +
  Admins :: "address list option"
  Watchers :: "address list option"
  Paused :: "bool option"
  Expiries :: "(address \<rightharpoonup> u64) option"
  W_CNT :: "u32 option"
  WatcherInfos :: "address \<rightharpoonup> watcher_info entry"

record watcher_ctx = ctx +
  MAX_LABEL_BYTES :: u32
  MAX_PAGE_LIMIT :: u32

type_synonym 'a wr_op = "(watcher_ctx, watcher_state, wr_error, 'a) op"

section \<open>Internal helpers\<close>

definition wr_is_paused :: "watcher_state \<Rightarrow> bool" where
  "wr_is_paused s = (case Paused s of None \<Rightarrow> False | Some b \<Rightarrow> b)"

definition wr_load_admins :: "watcher_state \<Rightarrow> address list" where
  "wr_load_admins s = (case Admins s of None \<Rightarrow> [] | Some v \<Rightarrow> v)"

definition wr_load_watchers :: "watcher_state \<Rightarrow> address list" where
  "wr_load_watchers s = (case Watchers s of None \<Rightarrow> [] | Some v \<Rightarrow> v)"

definition wr_load_expiries :: "watcher_state \<Rightarrow> address \<rightharpoonup> u64" where
  "wr_load_expiries s = (case Expiries s of None \<Rightarrow> Map.empty | Some m \<Rightarrow> m)"

definition wr_get_watcher_count :: "watcher_state \<Rightarrow> u32" where
  "wr_get_watcher_count s = (case W_CNT s of None \<Rightarrow> 0 | Some n \<Rightarrow> n)"

definition wr_extend_instance_ttl :: "unit wr_op" where
  "wr_extend_instance_ttl = instance_extend_ttl WR_DEFAULT_TTL WR_DEFAULT_TTL"

definition wr_save_info :: "watcher_info \<Rightarrow> unit wr_op" where
  "wr_save_info info =
     block
       [st_set WatcherInfos_update (info_address info) info,
        st_extend_ttl WatcherInfos WatcherInfos_update (info_address info)
          WR_DEFAULT_TTL WR_DEFAULT_TTL]"

definition wr_increment_watcher_count :: "unit wr_op" where
  "wr_increment_watcher_count =
     bind (gets wr_get_watcher_count) (\<lambda>count.
     bind (unwrap (checked_add count 1)) (\<lambda>n.
     modify (\<lambda>s. s\<lparr>W_CNT := Some n\<rparr>)))"

definition wr_decrement_watcher_count :: "unit wr_op" where
  "wr_decrement_watcher_count =
     bind (gets wr_get_watcher_count) (\<lambda>count.
     if count > 0 then modify (\<lambda>s. s\<lparr>W_CNT := Some (count - 1)\<rparr>) else ret ())"

definition wr_assert_not_paused :: "unit wr_op" where
  "wr_assert_not_paused = bind (gets wr_is_paused) (\<lambda>p. reject_if p ContractPaused)"

definition wr_set_expiry :: "address \<Rightarrow> u64 option \<Rightarrow> unit wr_op" where
  "wr_set_expiry watcher expires_at =
     bind (gets wr_load_expiries) (\<lambda>m.
     modify (\<lambda>s. s\<lparr>Expiries := Some (case expires_at of
                                       Some exp \<Rightarrow> m(watcher \<mapsto> exp)
                                     | None \<Rightarrow> m(watcher := None))\<rparr>))"

definition wr_assert_admin :: "address \<Rightarrow> unit wr_op" where
  "wr_assert_admin caller =
     bind (gets (\<lambda>s. Admins s \<noteq> None)) (\<lambda>initialized.
     bind (gets wr_load_admins) (\<lambda>admins.
     block
       [reject_if (\<not> initialized) NotInitialized,
        if caller \<in> set admins then ret () else throw Unauthorized]))"

section \<open>Admin entry points\<close>

definition wr_initialize :: "address \<Rightarrow> unit wr_op" where
  "wr_initialize admin =
     block
       [require_auth admin,
        bind (gets (\<lambda>s. Admins s \<noteq> None)) (\<lambda>has. reject_if has AlreadyInitialized),
        modify (\<lambda>s. s\<lparr>Admins := Some [admin]\<rparr>),
        wr_extend_instance_ttl,
        publish ''admin'' ''init'' [VAddr admin]]"

definition wr_add_admin :: "address \<Rightarrow> address \<Rightarrow> unit wr_op" where
  "wr_add_admin caller new_admin =
     block
       [require_auth caller,
        wr_assert_admin caller,
        wr_assert_not_paused,
        bind (gets wr_load_admins) (\<lambda>admins.
          if new_admin \<in> set admins then ret ()
          else block
            [modify (\<lambda>s. s\<lparr>Admins := Some (admins @ [new_admin])\<rparr>),
             wr_extend_instance_ttl,
             publish ''admin'' ''add'' [VAddr caller, VAddr new_admin]])]"

definition wr_remove_admin :: "address \<Rightarrow> address \<Rightarrow> unit wr_op" where
  "wr_remove_admin caller target_admin =
     block
       [require_auth caller,
        wr_assert_admin caller,
        wr_assert_not_paused,
        bind (gets wr_load_admins) (\<lambda>admins.
          block
            [reject_if (length admins \<le> 1) LastAdmin,
             modify (\<lambda>s. s\<lparr>Admins := Some (filter (\<lambda>a. a \<noteq> target_admin) admins)\<rparr>),
             wr_extend_instance_ttl,
             publish ''admin'' ''remove'' [VAddr caller, VAddr target_admin],
             if caller = target_admin then publish ''admin'' ''self_remove'' [VAddr caller]
             else ret ()])]"

definition wr_transfer_admin :: "address \<Rightarrow> address \<Rightarrow> unit wr_op" where
  "wr_transfer_admin admin new_admin =
     block
       [require_auth admin,
        wr_assert_admin admin,
        wr_assert_not_paused,
        bind (gets wr_load_admins) (\<lambda>admins. reject_if (length admins > 1) MultipleAdminsExist),
        modify (\<lambda>s. s\<lparr>Admins := Some [new_admin]\<rparr>),
        wr_extend_instance_ttl,
        publish ''admin'' ''transfer'' [VAddr admin, VAddr new_admin]]"

section \<open>Watcher entry points\<close>

text \<open>
  \<open>label\<close> and \<open>watchers\<close> are the two variables the source does not bind. The entry point
  itself, \<open>wr_register_watcher\<close>, binds \<open>watchers\<close> as every other entry point of the contract
  does, to the stored list, and leaves \<open>label\<close> to the caller.
\<close>

definition wr_register_watcher_body ::
  "string option \<Rightarrow> address list \<Rightarrow> address \<Rightarrow> address \<Rightarrow> u64 option \<Rightarrow> unit wr_op" where
  "wr_register_watcher_body label watchers admin watcher expires_at =
     block
       [require_auth admin,
        wr_assert_admin admin,
        wr_assert_not_paused,
        bind (ask MAX_LABEL_BYTES) (\<lambda>max_label.
          reject_if (length (case label of None \<Rightarrow> '''' | Some l \<Rightarrow> l) > unat max_label)
            LabelTooLong),
        bind (gets (\<lambda>s. p_has (WatcherInfos s) watcher)) (\<lambda>registered.
          if registered then ret ()
          else block
            [reject_if (length watchers \<ge> unat MAX_WATCHERS) WatcherLimitExceeded,
             wr_set_expiry watcher expires_at,
             modify (\<lambda>s. s\<lparr>Watchers := Some (watchers @ [watcher])\<rparr>),
             wr_extend_instance_ttl,
             wr_increment_watcher_count,
             publish ''watcher'' ''register'' [VAddr watcher]])]"

definition wr_register_watcher ::
  "string option \<Rightarrow> address \<Rightarrow> address \<Rightarrow> u64 option \<Rightarrow> unit wr_op" where
  "wr_register_watcher label admin watcher expires_at =
     bind (gets wr_load_watchers) (\<lambda>watchers.
     wr_register_watcher_body label watchers admin watcher expires_at)"

definition wr_remove_watcher :: "address \<Rightarrow> address \<Rightarrow> unit wr_op" where
  "wr_remove_watcher admin watcher =
     block
       [require_auth admin,
        wr_assert_admin admin,
        wr_assert_not_paused,
        bind (gets wr_load_watchers) (\<lambda>watchers.
          let updated = filter (\<lambda>w. w \<noteq> watcher) watchers;
              removed = (watcher \<in> set watchers)
          in block
            [reject_if (\<not> removed) WatcherNotFound,
             modify (\<lambda>s. s\<lparr>Watchers := Some updated\<rparr>),
             wr_extend_instance_ttl,
             if removed then block
               [wr_set_expiry watcher None,
                wr_decrement_watcher_count,
                publish ''watcher'' ''remove'' [VAddr watcher]]
             else ret ()])]"

definition wr_replace_watcher :: "address \<Rightarrow> address \<Rightarrow> address \<Rightarrow> unit wr_op" where
  "wr_replace_watcher admin old_watcher new_watcher =
     block
       [require_auth admin,
        wr_assert_admin admin,
        wr_assert_not_paused,
        bind (gets wr_load_watchers) (\<lambda>watchers.
          let found = (old_watcher \<in> set watchers);
              updated = filter (\<lambda>w. w \<noteq> old_watcher) watchers;
              already_present = (new_watcher \<in> set updated)
          in block
            [reject_if (\<not> found) WatcherNotFound,
             wr_set_expiry old_watcher None,
             st_remove WatcherInfos_update old_watcher,
             if \<not> already_present then
               bind now (\<lambda>t.
               wr_save_info
                 \<lparr>info_address = new_watcher, info_label = '''',
                  info_registered_at = t, info_registered_by = admin\<rparr>)
             else wr_decrement_watcher_count,
             modify (\<lambda>s. s\<lparr>Watchers := Some (if \<not> already_present then updated @ [new_watcher]
                                              else updated)\<rparr>),
             wr_extend_instance_ttl,
             publish ''watcher'' ''remove'' [VAddr old_watcher],
             publish ''watcher'' ''replace'' [VAddr old_watcher, VAddr new_watcher]])]"

text \<open>The scan of \<open>batch_register_watchers\<close>: the grown list and the addresses added to it.\<close>

fun wr_batch_scan ::
  "address list \<Rightarrow> address list \<Rightarrow> address list \<Rightarrow> address list \<times> address list" where
  "wr_batch_scan stored added [] = (stored, added)"
| "wr_batch_scan stored added (w # ws) =
     (if w \<notin> set stored then wr_batch_scan (stored @ [w]) (added @ [w]) ws
      else wr_batch_scan stored added ws)"

definition wr_batch_register_watchers :: "address \<Rightarrow> address list \<Rightarrow> u32 wr_op" where
  "wr_batch_register_watchers admin watchers =
     bind (block
       [require_auth admin,
        wr_assert_admin admin,
        wr_assert_not_paused,
        reject_if (length watchers > unat WR_MAX_BATCH_SIZE) BatchTooLarge]) (\<lambda>_.
     bind (gets wr_load_watchers) (\<lambda>stored0.
     case wr_batch_scan stored0 [] watchers of (stored, added) \<Rightarrow>
     bind (block
       [reject_if (length stored > unat MAX_WATCHERS) WatcherLimitExceeded,
        modify (\<lambda>s. s\<lparr>Watchers := Some stored\<rparr>),
        wr_extend_instance_ttl,
        for_each added (\<lambda>w. block
          [wr_increment_watcher_count,
           publish ''watcher'' ''register'' [VAddr w]])]) (\<lambda>_.
     ret (word_of_nat (length added)))))"

definition wr_renew_watcher :: "address \<Rightarrow> address \<Rightarrow> u64 option \<Rightarrow> unit wr_op" where
  "wr_renew_watcher admin watcher new_expiry =
     block
       [require_auth admin,
        wr_assert_admin admin,
        wr_assert_not_paused,
        bind (gets wr_load_watchers) (\<lambda>watchers.
          reject_if (watcher \<notin> set watchers) WatcherNotFound),
        wr_set_expiry watcher new_expiry,
        wr_extend_instance_ttl,
        publish ''watcher'' ''renew'' [VAddr watcher, VOptU64 new_expiry]]"

definition wr_set_paused :: "address \<Rightarrow> bool \<Rightarrow> unit wr_op" where
  "wr_set_paused admin paused =
     block
       [require_auth admin,
        wr_assert_admin admin,
        modify (\<lambda>s. s\<lparr>Paused := Some paused\<rparr>),
        wr_extend_instance_ttl,
        publish ''admin'' (if paused then ''pause'' else ''unpause'') [VAddr admin]]"

definition wr_is_watcher_authorized :: "address \<Rightarrow> bool wr_op" where
  "wr_is_watcher_authorized watcher =
     bind wr_extend_instance_ttl (\<lambda>_.
     bind (gets wr_load_watchers) (\<lambda>watchers.
     if watcher \<notin> set watchers then ret False
     else bind (gets wr_load_expiries) (\<lambda>m.
       case m watcher of
         Some exp \<Rightarrow> bind now (\<lambda>t. ret (t \<le> exp))
       | None \<Rightarrow> ret True)))"

definition wr_is_authorized :: "address \<Rightarrow> bool wr_op" where
  "wr_is_authorized watcher = wr_is_watcher_authorized watcher"

definition wr_clear_all_watchers :: "address \<Rightarrow> unit wr_op" where
  "wr_clear_all_watchers admin =
     block
       [require_auth admin,
        wr_assert_admin admin,
        wr_assert_not_paused,
        bind (gets wr_load_watchers) (\<lambda>watchers.
          for_each watchers (\<lambda>w. block
            [publish ''watcher'' ''remove'' [VAddr w],
             st_remove WatcherInfos_update w])),
        modify (\<lambda>s. s\<lparr>Watchers := Some []\<rparr>),
        modify (\<lambda>s. s\<lparr>Expiries := None\<rparr>),
        wr_extend_instance_ttl,
        modify (\<lambda>s. s\<lparr>W_CNT := Some 0\<rparr>)]"

section \<open>Read-only entry points\<close>

definition wr_get_watchers :: "watcher_state \<Rightarrow> address list" where
  "wr_get_watchers s = wr_load_watchers s"

definition wr_get_all_watchers :: "watcher_state \<Rightarrow> address list" where
  "wr_get_all_watchers s = wr_load_watchers s"

definition wr_get_all_watchers_paginated ::
  "watcher_ctx \<Rightarrow> watcher_state \<Rightarrow> u32 \<Rightarrow> u32 \<Rightarrow> address list" where
  "wr_get_all_watchers_paginated c s offset limit =
     (let watchers = wr_load_watchers s;
          limit' = min limit (MAX_PAGE_LIMIT c);
          end' = min (unat (saturating_add offset limit')) (length watchers)
      in map (\<lambda>i. watchers ! i) [unat offset..<end'])"

definition wr_get_watcher_info :: "watcher_state \<Rightarrow> address \<Rightarrow> watcher_info option" where
  "wr_get_watcher_info s watcher = p_get (WatcherInfos s) watcher"

definition wr_get_admins :: "(address list) wr_op" where
  "wr_get_admins =
     bind (gets (\<lambda>s. Admins s \<noteq> None)) (\<lambda>has.
     if \<not> has then throw NotInitialized else gets wr_load_admins)"

definition wr_is_initialized :: "watcher_state \<Rightarrow> bool" where
  "wr_is_initialized s \<longleftrightarrow> Admins s \<noteq> None"

definition wr_is_admin :: "watcher_state \<Rightarrow> address \<Rightarrow> bool" where
  "wr_is_admin s a \<longleftrightarrow> (if Admins s = None then False else a \<in> set (wr_load_admins s))"

definition wr_get_admin :: "address wr_op" where
  "wr_get_admin =
     bind wr_get_admins (\<lambda>admins.
     unwrap (case admins of [] \<Rightarrow> None | a # _ \<Rightarrow> Some a))"

end
