(* ===== verification/WatcherLemmas.thy ===== *)
theory WatcherLemmas
  imports WatcherRegistry
begin

text \<open>
  What the entry points of \<open>WatcherRegistry\<close> do: the interfaces interpreted on its guards, and
  for every entry point the conditions under which it returns and the update it performs on
  the contents of the contract, a record without lifetimes and events.
\<close>

section \<open>The interfaces provided by the contract\<close>

interpretation watcher_infos: storage_map WatcherInfos WatcherInfos_update
  by unfold_locales simp

interpretation wr_pause: pause_gate wr_is_paused wr_assert_not_paused ContractPaused
  by unfold_locales
    (simp_all add: wr_assert_not_paused_def bind_run gets_run reject_if_run)

interpretation wr_admin: admin_gate Admins wr_assert_admin NotInitialized Unauthorized
  by unfold_locales
    (simp_all add: wr_assert_admin_def block_run bind_run gets_run reject_if_run ret_run throw_run
      wr_load_admins_def)

lemmas wr_gates_ok [ok_simps] = wr_pause.check_ok wr_admin.check_ok
lemmas wr_gates_err [err_simps] = wr_pause.check_err wr_admin.check_err

section \<open>The helpers\<close>

lemma wr_extend_instance_ttl_ok [ok_simps]:
  "wr_extend_instance_ttl c s = (Inr u, s') \<longleftrightarrow>
   s' = s\<lparr>instance_until := extend_until c (instance_until s) WR_DEFAULT_TTL WR_DEFAULT_TTL\<rparr>"
  by (simp add: wr_extend_instance_ttl_def instance_extend_ttl_ok)

lemma wr_increment_ok [ok_simps]:
  "wr_increment_watcher_count c s = (Inr u, s') \<longleftrightarrow>
   unat (wr_get_watcher_count s) + 1 < 4294967296 \<and>
   s' = s\<lparr>W_CNT := Some (wr_get_watcher_count s + 1)\<rparr>"
  by (auto simp: wr_increment_watcher_count_def bind_ok gets_ok unwrap_ok modify_ok checked_add_def)

lemma wr_decrement_ok [ok_simps]:
  "wr_decrement_watcher_count c s = (Inr u, s') \<longleftrightarrow>
   s' = (if 0 < wr_get_watcher_count s then s\<lparr>W_CNT := Some (wr_get_watcher_count s - 1)\<rparr> else s)"
  by (auto simp: wr_decrement_watcher_count_def bind_ok gets_ok modify_ok ret_ok)

lemma wr_set_expiry_ok [ok_simps]:
  "wr_set_expiry w e c s = (Inr u, s') \<longleftrightarrow> s' = s\<lparr>Expiries := Some ((wr_load_expiries s)(w := e))\<rparr>"
  by (cases e) (auto simp: wr_set_expiry_def bind_ok gets_ok modify_ok)

lemma wr_save_info_ok [ok_simps]:
  "wr_save_info i c s = (Inr u, s') \<longleftrightarrow>
   s' = WatcherInfos_update (p_extend c (info_address i) WR_DEFAULT_TTL WR_DEFAULT_TTL)
          (WatcherInfos_update (p_set c (info_address i) i) s)"
  unfolding wr_save_info_def watcher_infos.store_ok ..

section \<open>The contents of the contract\<close>

record wr_view =
  w_admins :: "address list option"
  w_list :: "address list"
  w_paused :: bool
  w_expiry :: "address \<rightharpoonup> u64"
  w_count :: u32
  w_infos :: "address \<rightharpoonup> watcher_info"

definition wview :: "watcher_state \<Rightarrow> wr_view" where
  "wview s =
     \<lparr>w_admins = Admins s, w_list = wr_load_watchers s, w_paused = wr_is_paused s,
      w_expiry = wr_load_expiries s, w_count = wr_get_watcher_count s,
      w_infos = p_get (WatcherInfos s)\<rparr>"

lemmas wr_read_defs = wr_load_admins_def wr_load_watchers_def wr_is_paused_def
  wr_load_expiries_def wr_get_watcher_count_def

lemma wview_sel [simp]:
  "w_admins (wview s) = Admins s" "w_list (wview s) = wr_load_watchers s"
  "w_paused (wview s) = wr_is_paused s" "w_expiry (wview s) = wr_load_expiries s"
  "w_count (wview s) = wr_get_watcher_count s" "w_infos (wview s) = p_get (WatcherInfos s)"
  by (simp_all add: wview_def)

lemma wview_writes [simp]:
  "wview (s\<lparr>instance_until := l\<rparr>) = wview s"
  "wview (s\<lparr>events := es\<rparr>) = wview s"
  "wview (s\<lparr>Admins := Some as\<rparr>) = (wview s)\<lparr>w_admins := Some as\<rparr>"
  "wview (s\<lparr>Watchers := Some ws\<rparr>) = (wview s)\<lparr>w_list := ws\<rparr>"
  "wview (s\<lparr>Paused := Some p\<rparr>) = (wview s)\<lparr>w_paused := p\<rparr>"
  "wview (s\<lparr>Expiries := Some m\<rparr>) = (wview s)\<lparr>w_expiry := m\<rparr>"
  "wview (s\<lparr>Expiries := None\<rparr>) = (wview s)\<lparr>w_expiry := Map.empty\<rparr>"
  "wview (s\<lparr>W_CNT := Some n\<rparr>) = (wview s)\<lparr>w_count := n\<rparr>"
  "wview (WatcherInfos_update f s) = (wview s)\<lparr>w_infos := p_get (f (WatcherInfos s))\<rparr>"
  by (simp_all add: wview_def wr_read_defs)

lemma wview_same:
  "Admins s = Some as \<Longrightarrow> (wview s)\<lparr>w_admins := Some as\<rparr> = wview s"
  "(wview s)\<lparr>w_list := x, w_expiry := y, w_count := wr_get_watcher_count s\<rparr>
     = (wview s)\<lparr>w_list := x, w_expiry := y\<rparr>"
  by (simp_all add: wview_def)

lemma wr_reads_frame [simp]:
  "wr_load_watchers (s\<lparr>Expiries := e\<rparr>) = wr_load_watchers s"
  "wr_load_watchers (s\<lparr>W_CNT := n\<rparr>) = wr_load_watchers s"
  "wr_load_watchers (s\<lparr>instance_until := l\<rparr>) = wr_load_watchers s"
  "wr_load_watchers (s\<lparr>events := es\<rparr>) = wr_load_watchers s"
  "wr_load_watchers (s\<lparr>Watchers := Some ws\<rparr>) = ws"
  "wr_load_watchers (WatcherInfos_update f s) = wr_load_watchers s"
  "wr_load_expiries (s\<lparr>Watchers := w\<rparr>) = wr_load_expiries s"
  "wr_load_expiries (s\<lparr>W_CNT := n\<rparr>) = wr_load_expiries s"
  "wr_load_expiries (s\<lparr>instance_until := l\<rparr>) = wr_load_expiries s"
  "wr_load_expiries (s\<lparr>events := es\<rparr>) = wr_load_expiries s"
  "wr_load_expiries (WatcherInfos_update f s) = wr_load_expiries s"
  "wr_get_watcher_count (s\<lparr>Watchers := w\<rparr>) = wr_get_watcher_count s"
  "wr_get_watcher_count (s\<lparr>Expiries := e\<rparr>) = wr_get_watcher_count s"
  "wr_get_watcher_count (s\<lparr>instance_until := l\<rparr>) = wr_get_watcher_count s"
  "wr_get_watcher_count (s\<lparr>events := es\<rparr>) = wr_get_watcher_count s"
  "wr_get_watcher_count (s\<lparr>W_CNT := Some k\<rparr>) = k"
  "wr_get_watcher_count (WatcherInfos_update f s) = wr_get_watcher_count s"
  "wr_load_admins (s\<lparr>Admins := Some as\<rparr>) = as"
  by (simp_all add: wr_read_defs)

lemmas wr_ok = ok_simps Let_def

section \<open>The effect of each entry point\<close>

text \<open>What every admin entry point but \<open>set_paused\<close> has checked when it returns.\<close>

definition wr_admitted :: "watcher_ctx \<Rightarrow> address \<Rightarrow> watcher_state \<Rightarrow> bool" where
  "wr_admitted c a s \<longleftrightarrow>
     authorized c a \<and> (\<exists>as. Admins s = Some as \<and> a \<in> set as) \<and> \<not> wr_is_paused s"

lemma wr_initialize_effect:
  assumes "wr_initialize a c s = (Inr u, s')"
  shows "authorized c a" "Admins s = None" "wview s' = (wview s)\<lparr>w_admins := Some [a]\<rparr>"
  using assms by (auto simp: wr_initialize_def wr_ok)

lemma wr_add_admin_effect:
  assumes "wr_add_admin a b c s = (Inr u, s')"
  shows "wr_admitted c a s"
    "wview s' = (wview s)\<lparr>w_admins := Some (if b \<in> set (wr_load_admins s) then wr_load_admins s
                                             else wr_load_admins s @ [b])\<rparr>"
  using assms
  by (auto simp: wr_add_admin_def wr_ok wr_admitted_def wr_admin.is_admin_of_def wr_load_admins_def
      wview_same split: if_splits)

lemma wr_remove_admin_effect:
  assumes "wr_remove_admin a b c s = (Inr u, s')"
  shows "wr_admitted c a s" "1 < length (wr_load_admins s)"
    "wview s' = (wview s)\<lparr>w_admins := Some (filter (\<lambda>x. x \<noteq> b) (wr_load_admins s))\<rparr>"
  using assms
  by (auto simp: wr_remove_admin_def wr_ok wr_admitted_def wr_admin.is_admin_of_def not_le
      split: if_splits)

lemma wr_transfer_admin_effect:
  assumes "wr_transfer_admin a b c s = (Inr u, s')"
  shows "wr_admitted c a s" "length (wr_load_admins s) \<le> 1"
    "wview s' = (wview s)\<lparr>w_admins := Some [b]\<rparr>"
  using assms
  by (auto simp: wr_transfer_admin_def wr_ok wr_admitted_def wr_admin.is_admin_of_def not_less)

lemma wr_register_watcher_effect:
  assumes "wr_register_watcher l a w e c s = (Inr u, s')"
  shows "wr_admitted c a s"
    "p_has (WatcherInfos s) w \<and> s' = s \<or>
     \<not> p_has (WatcherInfos s) w \<and> length (wr_load_watchers s) < 1000 \<and>
     unat (wr_get_watcher_count s) + 1 < 4294967296 \<and>
     wview s' = (wview s)\<lparr>w_list := wr_load_watchers s @ [w],
       w_expiry := (wr_load_expiries s)(w := e), w_count := wr_get_watcher_count s + 1\<rparr>"
  using assms
  by (auto simp: wr_register_watcher_def wr_register_watcher_body_def wr_ok wr_admitted_def
      wr_admin.is_admin_of_def MAX_WATCHERS_def not_le split: if_splits)

lemma wr_remove_watcher_effect:
  assumes "wr_remove_watcher a w c s = (Inr u, s')"
  shows "wr_admitted c a s" "w \<in> set (wr_load_watchers s)"
    "wview s' = (wview s)\<lparr>w_list := filter (\<lambda>x. x \<noteq> w) (wr_load_watchers s),
       w_expiry := (wr_load_expiries s)(w := None),
       w_count := (if 0 < wr_get_watcher_count s then wr_get_watcher_count s - 1
                   else wr_get_watcher_count s)\<rparr>"
  using assms
  by (auto simp: wr_remove_watcher_def wr_ok wr_admitted_def wr_admin.is_admin_of_def
      wview_same split: if_splits)

text \<open>\<open>replace_watcher\<close>: the new address takes the place of the old one, or, where it is already
  listed, the old one is dropped and the count lowered.\<close>

definition replaced :: "address \<Rightarrow> u64 \<Rightarrow> address \<Rightarrow> address \<Rightarrow> wr_view \<Rightarrow> wr_view" where
  "replaced a t old new v =
     (let rest = filter (\<lambda>w. w \<noteq> old) (w_list v);
          v1 = v\<lparr>w_expiry := (w_expiry v)(old := None), w_infos := (w_infos v)(old := None)\<rparr>
      in if new \<in> set rest
         then v1\<lparr>w_list := rest,
                 w_count := (if 0 < w_count v then w_count v - 1 else w_count v)\<rparr>
         else v1\<lparr>w_list := rest @ [new],
                 w_infos := (w_infos v1)(new \<mapsto> \<lparr>info_address = new, info_label = '''',
                   info_registered_at = t, info_registered_by = a\<rparr>)\<rparr>)"

lemma wview_count_same:
  "(wview s)\<lparr>w_list := x, w_expiry := y, w_count := wr_get_watcher_count s, w_infos := z\<rparr>
     = (wview s)\<lparr>w_list := x, w_expiry := y, w_infos := z\<rparr>"
  by (simp add: wview_def)

lemma wr_replace_watcher_effect:
  assumes "wr_replace_watcher a old new c s = (Inr u, s')"
  shows "wr_admitted c a s" "old \<in> set (wr_load_watchers s)"
    "wview s' = replaced a (timestamp c) old new (wview s)"
  using assms
  by (auto simp: wr_replace_watcher_def wr_ok wr_admitted_def wr_admin.is_admin_of_def replaced_def
      wview_count_same split: if_splits)

text \<open>The scan of a batch adds the unlisted addresses, each once, in order.\<close>

lemma wr_batch_scan_acc:
  "wr_batch_scan stored added ws =
   (stored @ snd (wr_batch_scan stored [] ws), added @ snd (wr_batch_scan stored [] ws))"
proof (induction ws arbitrary: stored added)
  case Nil
  then show ?case by simp
next
  case (Cons w ws)
  show ?case
    using Cons [of "stored @ [w]" "added @ [w]"] Cons [of "stored @ [w]" "[w]"]
      Cons [of stored added]
    by simp
qed

definition newcomers :: "address list \<Rightarrow> address list \<Rightarrow> address list" where
  "newcomers stored ws = snd (wr_batch_scan stored [] ws)"

lemma newcomers_simps [simp]:
  "newcomers stored [] = []"
  "newcomers stored (w # ws) =
     (if w \<in> set stored then newcomers stored ws else w # newcomers (stored @ [w]) ws)"
  using wr_batch_scan_acc [of "stored @ [w]" "[w]" ws]
  by (simp_all add: newcomers_def)

lemma wr_batch_scan_newcomers:
  "wr_batch_scan stored [] ws = (stored @ newcomers stored ws, newcomers stored ws)"
  using wr_batch_scan_acc [of stored "[]" ws] by (simp add: newcomers_def)

lemma set_newcomers: "set (newcomers stored ws) = set ws - set stored"
  by (induction ws arbitrary: stored) auto

lemma distinct_newcomers: "distinct stored \<Longrightarrow> distinct (stored @ newcomers stored ws)"
proof (induction ws arbitrary: stored)
  case (Cons w ws)
  then show ?case using Cons.IH [of "stored @ [w]"] by auto
qed simp

lemma length_newcomers: "length (newcomers stored ws) \<le> length ws"
  by (induction ws arbitrary: stored) (auto intro: le_SucI)

text \<open>The publishing loop of a batch counts.\<close>

lemma wr_count_loop_ok:
  "for_each ws (\<lambda>w. block [wr_increment_watcher_count, publish t0 t1 (d w)]) c s = (Inr u, s') \<Longrightarrow>
   (ws = [] \<or> unat (wr_get_watcher_count s) + length ws < 4294967296) \<and>
   wview s' = (wview s)\<lparr>w_count := wr_get_watcher_count s + word_of_nat (length ws)\<rparr>"
proof (induction ws arbitrary: s)
  case Nil
  then show ?case by (simp add: for_each_Nil_ok wview_def)
next
  case (Cons w ws)
  let ?n = "wr_get_watcher_count s"
  define t where "t = s\<lparr>W_CNT := Some (?n + 1),
    events := events s @ [\<lparr>topic0 = t0, topic1 = t1, event_data = d w\<rparr>]\<rparr>"
  from Cons.prems have n: "unat ?n + 1 < 4294967296" and
    rest: "for_each ws (\<lambda>w. block [wr_increment_watcher_count, publish t0 t1 (d w)]) c t = (Inr u, s')"
    by (auto simp: wr_ok t_def)
  have "wr_get_watcher_count t = ?n + 1" "wview t = (wview s)\<lparr>w_count := ?n + 1\<rparr>"
    by (simp_all add: t_def)
  moreover have "unat (?n + 1) = unat ?n + 1" using n by (simp add: unat_word_ariths)
  ultimately show ?case
    using Cons.IH [OF rest] n by (auto simp: add.assoc)
qed

lemma wr_batch_register_watchers_effect:
  assumes "wr_batch_register_watchers a ws c s = (Inr n, s')"
  shows "wr_admitted c a s" "length ws \<le> 20"
    "length (wr_load_watchers s @ newcomers (wr_load_watchers s) ws) \<le> 1000"
    "n = word_of_nat (length (newcomers (wr_load_watchers s) ws))"
    "newcomers (wr_load_watchers s) ws = [] \<or>
       unat (wr_get_watcher_count s) + length (newcomers (wr_load_watchers s) ws) < 4294967296"
    "wview s' = (wview s)
       \<lparr>w_list := wr_load_watchers s @ newcomers (wr_load_watchers s) ws,
        w_count := wr_get_watcher_count s + n\<rparr>"
proof -
  let ?new = "newcomers (wr_load_watchers s) ws"
  define t where "t = s\<lparr>Watchers := Some (wr_load_watchers s @ ?new),
    instance_until := extend_until c (instance_until s) WR_DEFAULT_TTL WR_DEFAULT_TTL\<rparr>"
  from assms have all: "wr_admitted c a s \<and> length ws \<le> 20 \<and>
      length (wr_load_watchers s @ ?new) \<le> 1000 \<and> n = word_of_nat (length ?new)"
    by (auto simp: wr_batch_register_watchers_def wr_ok wr_batch_scan_newcomers wr_admitted_def
        wr_admin.is_admin_of_def WR_MAX_BATCH_SIZE_def MAX_WATCHERS_def)
  then show "wr_admitted c a s" "length ws \<le> 20" "length (wr_load_watchers s @ ?new) \<le> 1000"
    "n = word_of_nat (length ?new)" by blast+
  from assms have loop: "for_each ?new (\<lambda>w. block [wr_increment_watcher_count,
      publish ''watcher'' ''register'' [VAddr w]]) c t = (Inr (), s')"
    by (auto simp: wr_batch_register_watchers_def ok_simps wr_batch_scan_newcomers t_def)
  have "wr_get_watcher_count t = wr_get_watcher_count s"
    "wview t = (wview s)\<lparr>w_list := wr_load_watchers s @ ?new\<rparr>"
    by (simp_all add: t_def)
  with wr_count_loop_ok [OF loop] all show
    "?new = [] \<or> unat (wr_get_watcher_count s) + length ?new < 4294967296"
    "wview s' = (wview s)\<lparr>w_list := wr_load_watchers s @ ?new, w_count := wr_get_watcher_count s + n\<rparr>"
    by simp_all
qed

lemma wr_renew_watcher_effect:
  assumes "wr_renew_watcher a w e c s = (Inr u, s')"
  shows "wr_admitted c a s" "w \<in> set (wr_load_watchers s)"
    "wview s' = (wview s)\<lparr>w_expiry := (wr_load_expiries s)(w := e)\<rparr>"
  using assms
  by (auto simp: wr_renew_watcher_def wr_ok wr_admitted_def wr_admin.is_admin_of_def)

lemma wr_set_paused_effect:
  assumes "wr_set_paused a p c s = (Inr u, s')"
  shows "authorized c a" "\<exists>as. Admins s = Some as \<and> a \<in> set as"
    "wview s' = (wview s)\<lparr>w_paused := p\<rparr>"
  using assms by (auto simp: wr_set_paused_def wr_ok wr_admin.is_admin_of_def)

lemma wr_clear_loop_ok:
  "for_each ws (\<lambda>w. block [publish t0 t1 (d w), st_remove WatcherInfos_update w]) c s = (Inr u, s') \<Longrightarrow>
   wview s' = (wview s)\<lparr>w_infos := (\<lambda>w. if w \<in> set ws then None else p_get (WatcherInfos s) w)\<rparr>"
proof (induction ws arbitrary: s)
  case Nil
  then show ?case by (simp add: for_each_Nil_ok wview_def)
next
  case (Cons w ws)
  then show ?case by (auto simp: wr_ok fun_eq_iff intro!: arg_cong [of _ _ "\<lambda>f. (wview s)\<lparr>w_infos := f\<rparr>"])
qed

lemma wr_clear_all_watchers_effect:
  assumes "wr_clear_all_watchers a c s = (Inr u, s')"
  shows "wr_admitted c a s"
    "wview s' = (wview s)\<lparr>w_list := [], w_expiry := Map.empty, w_count := 0,
       w_infos := (\<lambda>w. if w \<in> set (wr_load_watchers s) then None else p_get (WatcherInfos s) w)\<rparr>"
  using assms
  by (auto simp: wr_clear_all_watchers_def wr_ok wr_admitted_def wr_admin.is_admin_of_def
      dest!: wr_clear_loop_ok)

lemma wr_is_watcher_authorized_run:
  "wr_is_watcher_authorized w c s =
   (Inr (w \<in> set (wr_load_watchers s) \<and>
         (case wr_load_expiries s w of None \<Rightarrow> True | Some e \<Rightarrow> timestamp c \<le> e)),
    s\<lparr>instance_until := extend_until c (instance_until s) WR_DEFAULT_TTL WR_DEFAULT_TTL\<rparr>)"
  by (auto simp: wr_is_watcher_authorized_def wr_extend_instance_ttl_def instance_extend_ttl_run
      run_simps split: option.splits)

end
