(* ===== verification/WatcherProperties.thy ===== *)
theory WatcherProperties
  imports WatcherLemmas
begin

text \<open>
  Properties of the watcher registry: its calls as a datatype, the consistency of its list,
  counter and expiries, what an admin's signature is needed for, and what \<open>register_watcher\<close>
  does to that consistency.
\<close>

section \<open>The calls\<close>

datatype wr_call =
    WInitialize address
  | WAddAdmin address address
  | WRemoveAdmin address address
  | WTransferAdmin address address
  | WRegister "string option" address address "u64 option"
  | WRemove address address
  | WReplace address address address
  | WBatch address "address list"
  | WRenew address address "u64 option"
  | WSetPaused address bool
  | WIsAuthorized address
  | WClear address

definition wr_discard :: "'a wr_op \<Rightarrow> unit wr_op" where
  "wr_discard m = bind m (\<lambda>_. ret ())"

lemma wr_discard_ok: "wr_discard m c s = (Inr u, s') \<longleftrightarrow> (\<exists>a. m c s = (Inr a, s'))"
  by (auto simp: wr_discard_def bind_ok ret_ok)

fun wr_exec :: "wr_call \<Rightarrow> unit wr_op" where
  "wr_exec (WInitialize a) = wr_initialize a"
| "wr_exec (WAddAdmin a b) = wr_add_admin a b"
| "wr_exec (WRemoveAdmin a b) = wr_remove_admin a b"
| "wr_exec (WTransferAdmin a b) = wr_transfer_admin a b"
| "wr_exec (WRegister l a w e) = wr_register_watcher l a w e"
| "wr_exec (WRemove a w) = wr_remove_watcher a w"
| "wr_exec (WReplace a old new) = wr_replace_watcher a old new"
| "wr_exec (WBatch a ws) = wr_discard (wr_batch_register_watchers a ws)"
| "wr_exec (WRenew a w e) = wr_renew_watcher a w e"
| "wr_exec (WSetPaused a p) = wr_set_paused a p"
| "wr_exec (WIsAuthorized w) = wr_discard (wr_is_authorized w)"
| "wr_exec (WClear a) = wr_clear_all_watchers a"

section \<open>Consistency\<close>

text \<open>
  The list has no repetitions and at most 1000 entries, the counter is its length, only listed
  addresses have an expiry, and a stored admin set is not empty and has no repetitions.
\<close>

definition registry_ok :: "wr_view \<Rightarrow> bool" where
  "registry_ok v \<longleftrightarrow>
     distinct (w_list v) \<and> length (w_list v) \<le> 1000 \<and>
     unat (w_count v) = length (w_list v) \<and> dom (w_expiry v) \<subseteq> set (w_list v) \<and>
     (\<forall>as. w_admins v = Some as \<longrightarrow> as \<noteq> [] \<and> distinct as)"

lemma distinct_filter_neq_length:
  "distinct xs \<Longrightarrow> length (filter (\<lambda>y. y \<noteq> x) xs) = (if x \<in> set xs then length xs - 1 else length xs)"
  by (simp add: length_filter_neq)

lemma registry_ok_drop:
  assumes "registry_ok v" "w \<in> set (w_list v)"
  shows "registry_ok (v\<lparr>w_list := filter (\<lambda>x. x \<noteq> w) (w_list v), w_expiry := (w_expiry v)(w := None),
      w_count := (if 0 < w_count v then w_count v - 1 else w_count v)\<rparr>)"
proof -
  have "0 < length (w_list v)" using assms(2) by (cases "w_list v") auto
  then have "0 < w_count v" using assms(1) by (simp add: registry_ok_def word_less_nat_alt)
  then have "unat (w_count v - 1) = unat (w_count v) - 1"
    by (simp add: unat_sub word_le_nat_alt word_less_nat_alt)
  with assms \<open>0 < w_count v\<close> show ?thesis
    by (auto simp: registry_ok_def length_filter_neq dom_def)
qed

lemma registry_ok_grow:
  assumes "registry_ok v" "distinct (w_list v @ new)" "length (w_list v @ new) \<le> 1000"
    "dom m \<subseteq> set (w_list v @ new)"
  shows "registry_ok (v\<lparr>w_list := w_list v @ new, w_expiry := m,
    w_count := w_count v + word_of_nat (length new)\<rparr>)"
proof -
  have "unat (word_of_nat (length new) :: u32) = length new"
    using assms(3) by (simp add: unat_of_nat_small32)
  then have "unat (w_count v + word_of_nat (length new)) = unat (w_count v) + length new"
    using assms by (simp add: unat_word_ariths registry_ok_def)
  with assms show ?thesis by (auto simp: registry_ok_def)
qed

lemma registry_ok_admins:
  "registry_ok v \<Longrightarrow> as \<noteq> [] \<Longrightarrow> distinct as \<Longrightarrow> registry_ok (v\<lparr>w_admins := Some as\<rparr>)"
  by (simp add: registry_ok_def)

lemma registry_ok_replaced:
  assumes "registry_ok v" "old \<in> set (w_list v)"
  shows "registry_ok (replaced a t old new v)"
proof (cases "new \<in> set (filter (\<lambda>w. w \<noteq> old) (w_list v))")
  case True
  with registry_ok_drop [OF assms] show ?thesis
    by (simp add: replaced_def registry_ok_def Let_def)
next
  case False
  have "0 < length (w_list v)" using assms(2) by (cases "w_list v") auto
  with False assms show ?thesis
    by (auto simp: replaced_def registry_ok_def Let_def length_filter_neq dom_def)
qed

lemma admitted_admins: "wr_admitted c a s \<Longrightarrow> Admins s = Some (wr_load_admins s)"
  by (auto simp: wr_admitted_def wr_load_admins_def)

text \<open>
  C16. Every call keeps the registry consistent, except a registration of an address that is
  already listed: the list stays without repetitions and within 1000 entries, the counter
  stays its length, expiries stay with listed addresses, and there is always an admin.
\<close>

theorem wr_consistency_kept:
  assumes "registry_ok (wview s)" "wr_exec call c s = (Inr u, s')"
    "\<forall>l a w e. call = WRegister l a w e \<longrightarrow> w \<notin> set (wr_load_watchers s)"
  shows "registry_ok (wview s')"
proof (cases call)
  case (WInitialize a)
  with assms(2) have "wr_initialize a c s = (Inr u, s')" by simp
  from wr_initialize_effect(3) [OF this] assms(1) show ?thesis
    by (simp only: registry_ok_admins list.distinct distinct.simps empty_iff list.set simp_thms)
next
  case (WAddAdmin a b)
  with assms have eff: "wr_add_admin a b c s = (Inr u, s')" by simp
  note e = wr_add_admin_effect [OF this]
  show ?thesis
    unfolding e(2) using assms(1) admitted_admins [OF e(1)]
    by (auto simp: registry_ok_def)
next
  case (WRemoveAdmin a b)
  with assms have "wr_remove_admin a b c s = (Inr u, s')" by simp
  note e = wr_remove_admin_effect [OF this]
  have d: "distinct (wr_load_admins s)"
    using assms(1) admitted_admins [OF e(1)] by (simp add: registry_ok_def)
  then have "0 < length (filter (\<lambda>x. x \<noteq> b) (wr_load_admins s))"
    using e(2) by (auto simp: distinct_filter_neq_length)
  with d show ?thesis
    unfolding e(3) using assms(1) by (intro registry_ok_admins) auto
next
  case (WTransferAdmin a b)
  with assms(2) have "wr_transfer_admin a b c s = (Inr u, s')" by simp
  from wr_transfer_admin_effect(3) [OF this] assms(1) show ?thesis
    by (simp only: registry_ok_admins list.distinct distinct.simps empty_iff list.set simp_thms)
next
  case (WRegister l a w e)
  with assms(2) have "wr_register_watcher l a w e c s = (Inr u, s')" by simp
  from wr_register_watcher_effect(2) [OF this] show ?thesis
  proof (elim disjE conjE)
    assume view: "wview s' = (wview s)\<lparr>w_list := wr_load_watchers s @ [w],
        w_expiry := (wr_load_expiries s)(w := e), w_count := wr_get_watcher_count s + 1\<rparr>"
      and room: "length (wr_load_watchers s) < 1000"
    have "dom ((wr_load_expiries s)(w := e)) \<subseteq> set (w_list (wview s) @ [w])"
      using assms(1) by (auto simp: registry_ok_def split: if_splits)
    moreover have "distinct (w_list (wview s) @ [w])"
      using assms(1,3) WRegister by (simp add: registry_ok_def)
    ultimately show ?thesis
      unfolding view using registry_ok_grow [OF assms(1), of "[w]"] room by simp
  qed (use assms(1) in simp)
next
  case (WRemove a w)
  with assms(2) have "wr_remove_watcher a w c s = (Inr u, s')" by simp
  note e = wr_remove_watcher_effect [OF this]
  from registry_ok_drop [OF assms(1), of w] e(2) show ?thesis
    unfolding e(3) by (simp split: if_splits)
next
  case (WReplace a old new)
  with assms(2) have "wr_replace_watcher a old new c s = (Inr u, s')" by simp
  note e = wr_replace_watcher_effect [OF this]
  from registry_ok_replaced [OF assms(1), of old] e(2) show ?thesis unfolding e(3) by simp
next
  case (WBatch a ws)
  with assms(2) obtain n where "wr_batch_register_watchers a ws c s = (Inr n, s')"
    by (auto simp: wr_discard_ok)
  note e = wr_batch_register_watchers_effect [OF this]
  have "distinct (wr_load_watchers s @ newcomers (wr_load_watchers s) ws)"
    using assms(1) by (intro distinct_newcomers) (simp add: registry_ok_def)
  then have "registry_ok ((wview s)\<lparr>w_list := w_list (wview s) @ newcomers (wr_load_watchers s) ws,
      w_expiry := wr_load_expiries s,
      w_count := w_count (wview s) + word_of_nat (length (newcomers (wr_load_watchers s) ws))\<rparr>)"
    using assms(1) e(3) by (intro registry_ok_grow) (auto simp: registry_ok_def)
  moreover have "(wview s)\<lparr>w_list := x, w_expiry := wr_load_expiries s, w_count := k\<rparr>
      = (wview s)\<lparr>w_list := x, w_count := k\<rparr>" for x k
    by (simp add: wview_def)
  ultimately show ?thesis unfolding e(6) e(4) by simp
next
  case (WRenew a w e)
  with assms(2) have "wr_renew_watcher a w e c s = (Inr u, s')" by simp
  note e = wr_renew_watcher_effect [OF this]
  show ?thesis
    unfolding e(3) using assms(1) e(2) by (auto simp: registry_ok_def dom_def split: if_splits)
next
  case (WSetPaused a p)
  with assms(2) have "wr_set_paused a p c s = (Inr u, s')" by simp
  note e = wr_set_paused_effect [OF this]
  show ?thesis unfolding e(3) using assms(1) by (simp add: registry_ok_def)
next
  case (WIsAuthorized w)
  with assms show ?thesis
    by (auto simp: wr_discard_ok wr_is_authorized_def wr_is_watcher_authorized_run)
next
  case (WClear a)
  with assms(2) have "wr_clear_all_watchers a c s = (Inr u, s')" by simp
  note e = wr_clear_all_watchers_effect [OF this]
  show ?thesis unfolding e(2) using assms(1) by (simp add: registry_ok_def)
qed

section \<open>A concrete registry\<close>

definition wr_sample_ctx :: "u64 \<Rightarrow> address \<Rightarrow> watcher_ctx" where
  "wr_sample_ctx t a =
     \<lparr>timestamp = t, sequence = 0, authorized = (\<lambda>b. b = a),
      extend_until = sdk_extend 0 3110400, fresh_until = 4095,
      MAX_LABEL_BYTES = 64, MAX_PAGE_LIMIT = 50\<rparr>"

lemma wr_sample_ctx_sel [simp]:
  "timestamp (wr_sample_ctx t a) = t" "authorized (wr_sample_ctx t a) b \<longleftrightarrow> b = a"
  "MAX_LABEL_BYTES (wr_sample_ctx t a) = 64" "MAX_PAGE_LIMIT (wr_sample_ctx t a) = 50"
  by (simp_all add: wr_sample_ctx_def)

text \<open>\<open>Address 1\<close> is the admin; \<open>Address 7\<close> is a watcher that expires at time 100.\<close>

definition wr_sample :: watcher_state where
  "wr_sample =
     \<lparr>events = [], instance_until = 0, Admins = Some [Address 1], Watchers = Some [Address 7],
      Paused = None, Expiries = Some [Address 7 \<mapsto> 100], W_CNT = Some 1,
      WatcherInfos = Map.empty\<rparr>"

lemma wr_sample_sel [simp]:
  "Admins wr_sample = Some [Address 1]" "wr_load_admins wr_sample = [Address 1]"
  "wr_load_watchers wr_sample = [Address 7]" "wr_is_paused wr_sample = False"
  "wr_load_expiries wr_sample = [Address 7 \<mapsto> 100]" "wr_get_watcher_count wr_sample = 1"
  "WatcherInfos wr_sample = Map.empty"
  by (simp_all add: wr_sample_def wr_read_defs)

lemma wr_sample_ok: "registry_ok (wview wr_sample)"
  by (simp add: registry_ok_def)

lemma wr_sample_admitted [simp]: "wr_admitted (wr_sample_ctx t (Address 1)) (Address 1) wr_sample"
  by (simp add: wr_admitted_def)

theorem wr_consistency_kept_witness:
  "\<exists>s'. wr_exec (WRegister None (Address 1) (Address 6) None) (wr_sample_ctx 10 (Address 1)) wr_sample
       = (Inr (), s') \<and> registry_ok (wview s')"
proof -
  have "\<exists>s'. wr_exec (WRegister None (Address 1) (Address 6) None) (wr_sample_ctx 10 (Address 1))
      wr_sample = (Inr (), s')"
    by (simp add: wr_register_watcher_def wr_register_watcher_body_def wr_ok p_has_def
        MAX_WATCHERS_def wr_admin.is_admin_of_def ex_bool_eq)
  then obtain s' where run: "wr_exec (WRegister None (Address 1) (Address 6) None)
      (wr_sample_ctx 10 (Address 1)) wr_sample = (Inr (), s')" by blast
  from wr_consistency_kept [OF wr_sample_ok run] run show ?thesis by simp
qed

section \<open>Registration against the stored information\<close>

text \<open>
  The body of \<open>register_watcher\<close> on whatever list \<open>ws\<close> the variable \<open>watchers\<close> holds, and the
  entry point, which is read with the stored list.
\<close>

lemma wr_register_body_runs:
  assumes "wr_admitted c a s" "length (case l of None \<Rightarrow> '''' | Some x \<Rightarrow> x) \<le> unat (MAX_LABEL_BYTES c)"
    "p_get (WatcherInfos s) w = None" "length ws < 1000"
    "unat (wr_get_watcher_count s) + 1 < 4294967296"
  shows "\<exists>s'. wr_register_watcher_body l ws a w e c s = (Inr (), s') \<and>
    wview s' = (wview s)\<lparr>w_list := ws @ [w],
      w_expiry := (wr_load_expiries s)(w := e), w_count := wr_get_watcher_count s + 1\<rparr> \<and>
    wr_admitted c a s'"
  using assms
  by (auto simp: wr_register_watcher_body_def wr_ok p_has_get MAX_WATCHERS_def
      wr_admin.is_admin_of_def wr_admitted_def not_le wr_is_paused_def ex_bool_eq)

lemma wr_register_on_stored:
  "wr_register_watcher l a w e c s = wr_register_watcher_body l (wr_load_watchers s) a w e c s"
  by (simp add: wr_register_watcher_def bind_run gets_run)

lemmas wr_register_runs =
  wr_register_body_runs [where ws = "wr_load_watchers s" and s = s for s, folded wr_register_on_stored]

lemma wr_remove_runs:
  assumes "wr_admitted c a s" "w \<in> set (wr_load_watchers s)"
  shows "\<exists>s'. wr_remove_watcher a w c s = (Inr (), s')"
  using assms
  by (auto simp: wr_remove_watcher_def wr_ok wr_admin.is_admin_of_def wr_admitted_def ex_bool_eq)

text \<open>
  C17. \<open>register_watcher\<close> does not recognise what it has registered. Take a call by an admin on
  a consistent registry that is not paused, with a label within the bound, for an address that
  is already listed but has no stored \<open>WatcherInfo\<close>. Whatever list of less than 1000 addresses
  the variable \<open>watchers\<close>, which the source does not bind, holds, the call returns, stores that
  list with the address appended, raises the counter, and stores no \<open>WatcherInfo\<close>, by
  which the next call could tell that the address is registered. Read with \<open>watchers\<close> as the stored list, of less than
  1000 addresses, it lists the address a second time; removing it then drops both copies and
  lowers the counter once, and right after that removal the counter is one higher than the
  length of the list.
\<close>

theorem wr_register_twice:
  assumes "registry_ok (wview s)" "wr_admitted c a s" "w \<in> set (wr_load_watchers s)"
    "p_get (WatcherInfos s) w = None" "length (wr_load_watchers s) < 1000"
    "length (case l of None \<Rightarrow> '''' | Some x \<Rightarrow> x) \<le> unat (MAX_LABEL_BYTES c)"
  shows "(\<forall>ws. length ws < 1000 \<longrightarrow>
      (\<exists>s1. wr_register_watcher_body l ws a w e c s = (Inr (), s1) \<and>
        wr_load_watchers s1 = ws @ [w] \<and> p_get (WatcherInfos s1) w = None \<and>
        wr_get_watcher_count s1 = wr_get_watcher_count s + 1)) \<and>
    (\<exists>s1 s2. wr_register_watcher l a w e c s = (Inr (), s1) \<and>
      wr_load_watchers s1 = wr_load_watchers s @ [w] \<and> \<not> distinct (wr_load_watchers s1) \<and>
      wr_remove_watcher a w c s1 = (Inr (), s2) \<and> w \<notin> set (wr_load_watchers s2) \<and>
      unat (wr_get_watcher_count s2) = length (wr_load_watchers s2) + 1)"
proof (intro conjI allI impI)
  have ok: "distinct (wr_load_watchers s)" "unat (wr_get_watcher_count s) = length (wr_load_watchers s)"
    using assms(1) by (auto simp: registry_ok_def)
  then have small: "unat (wr_get_watcher_count s) + 1 < 4294967296" using assms(5) by simp
  show "\<exists>s1. wr_register_watcher_body l ws a w e c s = (Inr (), s1) \<and>
      wr_load_watchers s1 = ws @ [w] \<and> p_get (WatcherInfos s1) w = None \<and>
      wr_get_watcher_count s1 = wr_get_watcher_count s + 1" if room: "length ws < 1000" for ws
  proof -
    obtain s1 where reg: "wr_register_watcher_body l ws a w e c s = (Inr (), s1)" and
      view: "wview s1 = (wview s)\<lparr>w_list := ws @ [w],
        w_expiry := (wr_load_expiries s)(w := e), w_count := wr_get_watcher_count s + 1\<rparr>"
      using wr_register_body_runs [OF assms(2,6,4) room small, of e] by blast
    from reg assms(4) arg_cong [OF view, of w_list] arg_cong [OF view, of w_count]
      arg_cong [OF view, of w_infos] show ?thesis by simp
  qed
  obtain s1 where reg: "wr_register_watcher l a w e c s = (Inr (), s1)" and
    view: "wview s1 = (wview s)\<lparr>w_list := wr_load_watchers s @ [w],
      w_expiry := (wr_load_expiries s)(w := e), w_count := wr_get_watcher_count s + 1\<rparr>"
    and adm: "wr_admitted c a s1"
    using wr_register_runs [OF assms(2,6,4,5) small, of e] by auto
  have s1: "wr_load_watchers s1 = wr_load_watchers s @ [w]"
    "wr_get_watcher_count s1 = wr_get_watcher_count s + 1"
    using arg_cong [OF view, of w_list] arg_cong [OF view, of w_count] by simp_all
  then obtain s2 where rem: "wr_remove_watcher a w c s1 = (Inr (), s2)"
    using wr_remove_runs [OF adm, of w] by auto
  have count1: "unat (wr_get_watcher_count s + 1) = length (wr_load_watchers s) + 1"
    using ok assms(5) by (simp add: unat_word_ariths)
  note view2 = wr_remove_watcher_effect(3) [OF rem]
  have "wr_load_watchers s2 = filter (\<lambda>x. x \<noteq> w) (wr_load_watchers s)"
    "wr_get_watcher_count s2 = wr_get_watcher_count s"
    using arg_cong [OF view2, of w_list] arg_cong [OF view2, of w_count] s1 count1
    by (simp_all add: word_less_nat_alt)
  moreover have "0 < length (wr_load_watchers s)" using assms(3) by (cases "wr_load_watchers s") auto
  ultimately show "\<exists>s1 s2. wr_register_watcher l a w e c s = (Inr (), s1) \<and>
      wr_load_watchers s1 = wr_load_watchers s @ [w] \<and> \<not> distinct (wr_load_watchers s1) \<and>
      wr_remove_watcher a w c s1 = (Inr (), s2) \<and> w \<notin> set (wr_load_watchers s2) \<and>
      unat (wr_get_watcher_count s2) = length (wr_load_watchers s2) + 1"
    using reg rem s1 assms(3) ok by (auto simp: length_filter_neq)
qed

theorem wr_register_twice_witness:
  "(\<exists>s1. wr_register_watcher_body None [Address 7, Address 6] (Address 1) (Address 7) None
       (wr_sample_ctx 10 (Address 1)) wr_sample = (Inr (), s1) \<and>
     wr_load_watchers s1 = [Address 7, Address 6, Address 7]) \<and>
   (\<exists>s1 s2. wr_register_watcher None (Address 1) (Address 7) None (wr_sample_ctx 10 (Address 1)) wr_sample
       = (Inr (), s1) \<and> \<not> distinct (wr_load_watchers s1) \<and>
     wr_remove_watcher (Address 1) (Address 7) (wr_sample_ctx 10 (Address 1)) s1 = (Inr (), s2) \<and>
     unat (wr_get_watcher_count s2) = length (wr_load_watchers s2) + 1)"
proof -
  note twice = wr_register_twice [OF wr_sample_ok wr_sample_admitted [of 10], of "Address 7" None None]
  have "\<exists>s1. wr_register_watcher_body None [Address 7, Address 6] (Address 1) (Address 7) None
       (wr_sample_ctx 10 (Address 1)) wr_sample = (Inr (), s1) \<and>
     wr_load_watchers s1 = [Address 7, Address 6, Address 7]"
    using twice [THEN conjunct1, THEN spec, of "[Address 7, Address 6]"] by simp metis
  moreover have "\<exists>s1 s2. wr_register_watcher None (Address 1) (Address 7) None
       (wr_sample_ctx 10 (Address 1)) wr_sample = (Inr (), s1) \<and> \<not> distinct (wr_load_watchers s1) \<and>
     wr_remove_watcher (Address 1) (Address 7) (wr_sample_ctx 10 (Address 1)) s1 = (Inr (), s2) \<and>
     unat (wr_get_watcher_count s2) = length (wr_load_watchers s2) + 1"
    using twice [THEN conjunct2] by simp metis
  ultimately show ?thesis by blast
qed

section \<open>Runs, and an address that was replaced in and removed\<close>

text \<open>A sequence of invocations; the host discards the effects of one that fails.\<close>

fun wr_run :: "(wr_call \<times> watcher_ctx) list \<Rightarrow> watcher_state \<Rightarrow> watcher_state" where
  "wr_run [] s = s"
| "wr_run ((call, c) # rest) s = wr_run rest (snd (invoke (wr_exec call) c s))"

text \<open>The calls besides \<open>register_watcher\<close> that can put \<open>w\<close> on the list.\<close>

fun wr_brings_in :: "address \<Rightarrow> wr_call \<Rightarrow> bool" where
  "wr_brings_in w (WBatch a ws) = (w \<in> set ws)"
| "wr_brings_in w (WReplace a old new) = (new = w)"
| "wr_brings_in w call = False"

text \<open>What blocks \<open>register_watcher\<close>: information is stored of an address that is not listed.\<close>

definition stranded :: "address \<Rightarrow> wr_view \<Rightarrow> bool" where
  "stranded w v \<longleftrightarrow> w_infos v w \<noteq> None \<and> w \<notin> set (w_list v)"

lemma stranded_exec:
  assumes "stranded w (wview s)" "wr_exec call c s = (Inr u, s')" "\<not> wr_brings_in w call"
  shows "stranded w (wview s')"
proof (cases call)
  case (WRegister l a x e)
  with assms(2) have "wr_register_watcher l a x e c s = (Inr u, s')" by simp
  from wr_register_watcher_effect(2) [OF this] show ?thesis
  proof (elim disjE conjE)
    assume view: "wview s' = (wview s)\<lparr>w_list := wr_load_watchers s @ [x],
        w_expiry := (wr_load_expiries s)(x := e), w_count := wr_get_watcher_count s + 1\<rparr>"
      and "\<not> p_has (WatcherInfos s) x"
    with assms(1) show ?thesis
      unfolding view by (auto simp: stranded_def p_has_get)
  qed (use assms(1) in simp)
next
  case (WReplace a old new)
  with assms(2) have "wr_replace_watcher a old new c s = (Inr u, s')" by simp
  note e = wr_replace_watcher_effect [OF this]
  from assms(1,3) WReplace e(2) show ?thesis
    unfolding e(3) by (auto simp: stranded_def replaced_def Let_def)
next
  case (WBatch a ws)
  with assms(2) obtain n where "wr_batch_register_watchers a ws c s = (Inr n, s')"
    by (auto simp: wr_discard_ok)
  note e = wr_batch_register_watchers_effect [OF this]
  from assms(1,3) WBatch show ?thesis
    unfolding e(6) by (auto simp: stranded_def set_newcomers)
next
  case (WIsAuthorized x)
  with assms(1,2) show ?thesis
    by (auto simp: wr_discard_ok wr_is_authorized_def wr_is_watcher_authorized_run)
qed (use assms(1,2) in \<open>(auto dest!: wr_initialize_effect(3)
  wr_add_admin_effect(2) wr_remove_admin_effect(3) wr_transfer_admin_effect(3)
  wr_remove_watcher_effect(3) wr_renew_watcher_effect(3) wr_set_paused_effect(3)
  wr_clear_all_watchers_effect(2)), auto simp: stranded_def\<close>)

lemma stranded_run:
  "stranded w (wview s) \<Longrightarrow> \<forall>(call, c) \<in> set run. \<not> wr_brings_in w call \<Longrightarrow>
   stranded w (wview (wr_run run s))"
proof (induction run s rule: wr_run.induct)
  case (2 call c rest s)
  then have "stranded w (wview (snd (invoke (wr_exec call) c s)))"
    using stranded_exec [of w s call c]
    by (auto simp: invoke_def split: prod.split sum.split)
  with 2 show ?case by simp
qed simp

lemma stranded_register:
  assumes "stranded w (wview s)" "wr_admitted c a s"
    "length (case l of None \<Rightarrow> '''' | Some x \<Rightarrow> x) \<le> unat (MAX_LABEL_BYTES c)"
  shows "wr_register_watcher_body l ws a w e c s = (Inr (), s)"
  using assms
  by (auto simp: wr_register_watcher_body_def wr_ok stranded_def p_has_get wr_admitted_def
      wr_admin.is_admin_of_def not_less ex_bool_eq)

text \<open>
  C18. A watcher that was replaced in and then removed can no longer be registered: directly
  after \<open>replace_watcher(old, new)\<close>, which put \<open>new\<close> on the list, and the removal of \<open>new\<close> by any
  admin, and also after every sequence of further calls, failed ones included, in which
  neither \<open>batch_register_watchers\<close> nor \<open>replace_watcher\<close> is given \<open>new\<close> to add (those two can
  list it again), \<open>new\<close> is not authorized, and every \<open>register_watcher\<close> of \<open>new\<close> by any admin
  with a label within the bound, while the registry is not paused, returns without an error and changes nothing at all, whatever
  list its unbound variable \<open>watchers\<close> holds. The information that \<open>replace_watcher\<close> stored is
  taken not to expire.
\<close>

theorem wr_replaced_never_registers:
  assumes "wr_replace_watcher a old new c s = (Inr (), s1)"
    "new \<notin> set (filter (\<lambda>w. w \<noteq> old) (wr_load_watchers s))"
    "wr_remove_watcher a' new c' s1 = (Inr (), s2)"
    "\<forall>(call, k) \<in> set run. \<not> wr_brings_in new call"
  shows "(\<forall>k. fst (wr_is_watcher_authorized new k (wr_run run s2)) = Inr False) \<and>
    (\<forall>k b l ws e. wr_admitted k b (wr_run run s2) \<and>
        length (case l of None \<Rightarrow> '''' | Some x \<Rightarrow> x) \<le> unat (MAX_LABEL_BYTES k) \<longrightarrow>
      wr_register_watcher_body l ws b new e k (wr_run run s2) = (Inr (), wr_run run s2) \<and>
      wr_register_watcher l b new e k (wr_run run s2) = (Inr (), wr_run run s2))"
proof -
  note v1 = wr_replace_watcher_effect(3) [OF assms(1)]
  note v2 = wr_remove_watcher_effect(3) [OF assms(3)]
  have "p_get (WatcherInfos s1) new \<noteq> None"
    using arg_cong [OF v1, of w_infos] assms(2) by (simp add: replaced_def Let_def)
  then have "stranded new (wview s2)" by (simp add: v2 stranded_def)
  then have out: "stranded new (wview (wr_run run s2))" using assms(4) by (rule stranded_run)
  then have "new \<notin> set (wr_load_watchers (wr_run run s2))" by (simp add: stranded_def)
  then show ?thesis
    using stranded_register [OF out]
    by (auto simp: wr_is_watcher_authorized_run wr_register_on_stored)
qed

lemma wr_replace_runs:
  "\<exists>s1 s2. wr_replace_watcher (Address 1) (Address 7) (Address 6) (wr_sample_ctx 10 (Address 1))
       wr_sample = (Inr (), s1) \<and>
     wr_remove_watcher (Address 1) (Address 6) (wr_sample_ctx 20 (Address 1)) s1 = (Inr (), s2) \<and>
     wr_admitted (wr_sample_ctx 30 (Address 1)) (Address 1) s2"
  by (simp add: wr_replace_watcher_def wr_remove_watcher_def wr_ok wr_admin.is_admin_of_def
      wr_admitted_def ex_bool_eq wr_is_paused_def)
    (simp add: wr_sample_def)

theorem wr_replaced_never_registers_witness:
  "\<exists>s1 s2. wr_replace_watcher (Address 1) (Address 7) (Address 6) (wr_sample_ctx 10 (Address 1))
       wr_sample = (Inr (), s1) \<and>
     wr_remove_watcher (Address 1) (Address 6) (wr_sample_ctx 20 (Address 1)) s1 = (Inr (), s2) \<and>
     wr_register_watcher None (Address 1) (Address 6) None (wr_sample_ctx 30 (Address 1)) s2
       = (Inr (), s2) \<and>
     fst (wr_is_watcher_authorized (Address 6) (wr_sample_ctx 30 (Address 1))
       (wr_run [(WRegister None (Address 1) (Address 6) None, wr_sample_ctx 30 (Address 1)),
                (WClear (Address 1), wr_sample_ctx 40 (Address 1))] s2)) = Inr False"
proof -
  from wr_replace_runs obtain s1 s2 where
    run: "wr_replace_watcher (Address 1) (Address 7) (Address 6) (wr_sample_ctx 10 (Address 1))
       wr_sample = (Inr (), s1)"
     "wr_remove_watcher (Address 1) (Address 6) (wr_sample_ctx 20 (Address 1)) s1 = (Inr (), s2)"
     "wr_admitted (wr_sample_ctx 30 (Address 1)) (Address 1) s2" by blast
  note never = wr_replaced_never_registers [OF run(1) _ run(2)]
  have "wr_register_watcher None (Address 1) (Address 6) None (wr_sample_ctx 30 (Address 1)) s2
      = (Inr (), s2)"
    using never [of "[]"] run(3) by simp
  moreover have "fst (wr_is_watcher_authorized (Address 6) (wr_sample_ctx 30 (Address 1))
       (wr_run [(WRegister None (Address 1) (Address 6) None, wr_sample_ctx 30 (Address 1)),
                (WClear (Address 1), wr_sample_ctx 40 (Address 1))] s2)) = Inr False"
    by (rule never [THEN conjunct1, rule_format]) auto
  ultimately show ?thesis using run(1,2) by blast
qed

section \<open>Authority\<close>

text \<open>The address in whose name a call is made, for the calls reserved to admins.\<close>

fun wr_caller :: "wr_call \<Rightarrow> address option" where
  "wr_caller (WInitialize a) = None"
| "wr_caller (WAddAdmin a b) = Some a"
| "wr_caller (WRemoveAdmin a b) = Some a"
| "wr_caller (WTransferAdmin a b) = Some a"
| "wr_caller (WRegister l a w e) = Some a"
| "wr_caller (WRemove a w) = Some a"
| "wr_caller (WReplace a old new) = Some a"
| "wr_caller (WBatch a ws) = Some a"
| "wr_caller (WRenew a w e) = Some a"
| "wr_caller (WSetPaused a p) = Some a"
| "wr_caller (WIsAuthorized w) = None"
| "wr_caller (WClear a) = Some a"

lemma wr_exec_admitted:
  assumes "wr_exec call c s = (Inr u, s')" "wr_caller call = Some a" "\<forall>p. call \<noteq> WSetPaused a p"
  shows "wr_admitted c a s"
  using assms
  by (cases call)
    (auto simp: wr_discard_ok dest: wr_add_admin_effect(1) wr_remove_admin_effect(1)
      wr_transfer_admin_effect(1) wr_register_watcher_effect(1) wr_remove_watcher_effect(1)
      wr_replace_watcher_effect(1) wr_batch_register_watchers_effect(1)
      wr_renew_watcher_effect(1) wr_clear_all_watchers_effect(1))

text \<open>
  C19. Only admins change the registry, and none while it is paused: a call that returns and
  has changed the admin set, the list, an expiry, the counter, the stored information or the
  pause flag was signed by a member of the admin set, on a registry that was not paused unless
  it was \<open>set_paused\<close>; or it was \<open>initialize\<close>, signed by the first admin.
\<close>

theorem wr_change_needs_admin:
  assumes "wr_exec call c s = (Inr u, s')" "wview s' \<noteq> wview s"
  shows "(\<exists>a as. wr_caller call = Some a \<and> authorized c a \<and> Admins s = Some as \<and> a \<in> set as \<and>
      (wr_is_paused s \<longrightarrow> (\<exists>p. call = WSetPaused a p))) \<or>
    (\<exists>a. call = WInitialize a \<and> authorized c a \<and> Admins s = None)"
proof -
  have admitted: "wr_admitted c a s \<Longrightarrow> wr_caller call = Some a \<Longrightarrow> ?thesis" for a
    by (auto simp: wr_admitted_def)
  show ?thesis
  proof (cases call)
    case (WInitialize a)
    with assms(1) have "wr_initialize a c s = (Inr u, s')" by simp
    from wr_initialize_effect [OF this] WInitialize show ?thesis by simp
  next
    case (WSetPaused a p)
    with assms(1) have "wr_set_paused a p c s = (Inr u, s')" by simp
    from wr_set_paused_effect [OF this] WSetPaused show ?thesis by auto
  next
    case (WIsAuthorized w)
    with assms show ?thesis
      by (auto simp: wr_discard_ok wr_is_authorized_def wr_is_watcher_authorized_run)
  qed (use wr_exec_admitted [OF assms(1)] admitted in simp_all)
qed

theorem wr_change_needs_admin_witness:
  "\<exists>s'. wr_exec (WRenew (Address 1) (Address 7) (Some 200)) (wr_sample_ctx 10 (Address 1)) wr_sample
       = (Inr (), s') \<and> authorized (wr_sample_ctx 10 (Address 1)) (Address 1)"
proof -
  have "\<exists>s'. wr_exec (WRenew (Address 1) (Address 7) (Some 200)) (wr_sample_ctx 10 (Address 1))
      wr_sample = (Inr (), s')"
    by (simp add: wr_renew_watcher_def wr_ok wr_admin.is_admin_of_def ex_bool_eq)
  then obtain s' where run: "wr_exec (WRenew (Address 1) (Address 7) (Some 200))
      (wr_sample_ctx 10 (Address 1)) wr_sample = (Inr (), s')" by blast
  then have "wr_renew_watcher (Address 1) (Address 7) (Some 200) (wr_sample_ctx 10 (Address 1))
      wr_sample = (Inr (), s')" by simp
  from arg_cong [OF wr_renew_watcher_effect(3) [OF this], of "\<lambda>v. w_expiry v (Address 7)"]
  have "wview s' \<noteq> wview wr_sample" by (auto dest: arg_cong [of _ _ "\<lambda>v. w_expiry v (Address 7)"])
  from wr_change_needs_admin [OF run this] run show ?thesis by simp
qed

section \<open>Who is authorized\<close>

text \<open>
  The answer that gates the alert registry: \<open>is_watcher_authorized\<close> says yes exactly for
  an address on the list whose expiry, if it has one, is not in the past; it answers always,
  also when the registry is paused or not initialized, and changes nothing but the lifetime
  of the instance.
\<close>

theorem wr_authorized_spec:
  "fst (wr_is_watcher_authorized w c s) =
     Inr (w \<in> set (wr_load_watchers s) \<and>
          (case wr_load_expiries s w of None \<Rightarrow> True | Some e \<Rightarrow> timestamp c \<le> e)) \<and>
   wview (snd (wr_is_watcher_authorized w c s)) = wview s \<and>
   events (snd (wr_is_watcher_authorized w c s)) = events s"
  by (auto simp: wr_is_watcher_authorized_run split: option.splits)

text \<open>
  Revocation is immediate and precise: after \<open>remove_watcher\<close> returns, the removed address
  is denied at every time, and every other address gets the answer it got before.
\<close>

theorem wr_removal_revokes:
  assumes "wr_remove_watcher a w c s = (Inr u, s')"
  shows "fst (wr_is_watcher_authorized w c' s') = Inr False \<and>
    (x \<noteq> w \<longrightarrow> fst (wr_is_watcher_authorized x c' s') = fst (wr_is_watcher_authorized x c' s))"
proof -
  note view = wr_remove_watcher_effect(3) [OF assms]
  show ?thesis
    using arg_cong [OF view, of w_list] arg_cong [OF view, of w_expiry]
    by (simp add: wr_is_watcher_authorized_run)
qed

theorem wr_removal_revokes_witness:
  "\<exists>s'. wr_remove_watcher (Address 1) (Address 7) (wr_sample_ctx 10 (Address 1)) wr_sample = (Inr (), s') \<and>
     fst (wr_is_watcher_authorized (Address 7) (wr_sample_ctx 20 (Address 5)) wr_sample) = Inr True \<and>
     fst (wr_is_watcher_authorized (Address 7) (wr_sample_ctx 20 (Address 5)) s') = Inr False"
proof -
  obtain s' where run:
    "wr_remove_watcher (Address 1) (Address 7) (wr_sample_ctx 10 (Address 1)) wr_sample = (Inr (), s')"
    using wr_remove_runs [OF wr_sample_admitted, of "Address 7"] by auto
  from wr_removal_revokes [OF run] run show ?thesis
    by (auto simp: wr_is_watcher_authorized_run)
qed

section \<open>Replacement and batches\<close>

text \<open>
  C36. Where \<open>replace_watcher\<close> returns in a consistent registry, it leaves exactly the list without the old
  address, followed by the new one unless it is on it already, and the counter at its length.
  In the state it leaves, the old address is denied at every time if it is not the new one (an
  address replaced by itself stays listed, at the end of the list); the new one is listed, and
  unless it was listed beside the old one, it is authorized at every time, and its stored
  information names the admin and the time; and every third address gets the answer it got
  before.
\<close>

theorem wr_replace_effect:
  assumes "registry_ok (wview s)" "wr_replace_watcher a old new c s = (Inr u, s')"
  defines "kept \<equiv> filter (\<lambda>w. w \<noteq> old) (wr_load_watchers s)"
  shows "wr_load_watchers s' = kept @ (if new \<in> set kept then [] else [new]) \<and>
    unat (wr_get_watcher_count s') = length (wr_load_watchers s') \<and>
    (old \<noteq> new \<longrightarrow> (\<forall>k. fst (wr_is_watcher_authorized old k s') = Inr False)) \<and>
    new \<in> set (wr_load_watchers s') \<and>
    (new \<notin> set kept \<longrightarrow>
      (\<forall>k. fst (wr_is_watcher_authorized new k s') = Inr True) \<and>
      wr_get_watcher_info s' new = Some \<lparr>info_address = new, info_label = '''',
        info_registered_at = timestamp c, info_registered_by = a\<rparr>) \<and>
    (\<forall>x k. x \<noteq> old \<longrightarrow> x \<noteq> new \<longrightarrow>
      fst (wr_is_watcher_authorized x k s') = fst (wr_is_watcher_authorized x k s))"
proof -
  note e = wr_replace_watcher_effect [OF assms(2)]
  have lst: "wr_load_watchers s' = kept @ (if new \<in> set kept then [] else [new])"
    using arg_cong [OF e(3), of w_list] by (simp add: replaced_def Let_def kept_def)
  have exp: "wr_load_expiries s' = (wr_load_expiries s)(old := None)"
    using arg_cong [OF e(3), of w_expiry] by (simp add: replaced_def Let_def)
  have "registry_ok (wview s')"
    unfolding e(3) using assms(1) e(2) by (intro registry_ok_replaced) simp_all
  then have "unat (wr_get_watcher_count s') = length (wr_load_watchers s')"
    by (simp add: registry_ok_def)
  moreover have "wr_load_expiries s' new = None" if "new \<notin> set kept"
    using assms(1) that exp by (auto simp: registry_ok_def kept_def)
  moreover have "wr_get_watcher_info s' new = Some \<lparr>info_address = new, info_label = '''',
        info_registered_at = timestamp c, info_registered_by = a\<rparr>" if "new \<notin> set kept"
    using arg_cong [OF e(3), of w_infos] that
    by (simp add: replaced_def Let_def kept_def wr_get_watcher_info_def)
  ultimately show ?thesis
    using lst exp by (auto simp: wr_is_watcher_authorized_run kept_def)
qed

theorem wr_replace_effect_witness:
  "\<exists>s'. wr_replace_watcher (Address 1) (Address 7) (Address 6) (wr_sample_ctx 10 (Address 1)) wr_sample
       = (Inr (), s') \<and> wr_load_watchers s' = [Address 6] \<and>
     fst (wr_is_watcher_authorized (Address 7) (wr_sample_ctx 20 (Address 5)) s') = Inr False \<and>
     fst (wr_is_watcher_authorized (Address 6) (wr_sample_ctx 20 (Address 5)) s') = Inr True"
proof -
  from wr_replace_runs obtain s' where
    run: "wr_replace_watcher (Address 1) (Address 7) (Address 6) (wr_sample_ctx 10 (Address 1))
      wr_sample = (Inr (), s')" by blast
  from wr_replace_effect [OF wr_sample_ok run] run show ?thesis by simp
qed



section \<open>Further behaviour\<close>

text \<open>Removing an address that is no admin succeeds, changes nothing and still announces it.\<close>

lemma wr_remove_admin_of_stranger:
  assumes "wr_admitted c a s" "1 < length (wr_load_admins s)" "b \<notin> set (wr_load_admins s)" "a \<noteq> b"
  shows "\<exists>s'. wr_remove_admin a b c s = (Inr (), s') \<and> wview s' = wview s \<and>
    events s' = events s @ [\<lparr>topic0 = ''admin'', topic1 = ''remove'', event_data = [VAddr a, VAddr b]\<rparr>]"
proof -
  have adm: "Admins s = Some (wr_load_admins s)" by (rule admitted_admins [OF assms(1)])
  with assms show ?thesis
    by (auto simp: wr_remove_admin_def wr_ok wr_admitted_def wr_admin.is_admin_of_def ex_bool_eq
        not_le wview_same)
qed

text \<open>The pages of the list of watchers.\<close>

lemma wr_pages_are_slices:
  assumes "length (wr_load_watchers s) < 4294967296"
  shows "wr_get_all_watchers_paginated c s offset limit =
    take (unat (min limit (MAX_PAGE_LIMIT c))) (drop (unat offset) (wr_load_watchers s))"
  unfolding wr_get_all_watchers_paginated_def Let_def slice_start [OF assms, symmetric]
  by (rule slice_words [OF assms])

end
