(* ===== verification/System.thy ===== *)
theory System
  imports AlertQueries WatcherProperties
begin

text \<open>
  The two contracts together: the watcher registry behind the gate of the alert registry's
  queries. The alert registry relies on an interface, a service that grants and revokes;
  the watcher registry provides it.
\<close>

section \<open>The interface of the gate\<close>

locale watcher_service =
  fixes granted :: "'s \<Rightarrow> u64 \<Rightarrow> address \<Rightarrow> bool"
    and revoke :: "address \<Rightarrow> 's \<Rightarrow> 's \<Rightarrow> bool"
  assumes revoked: "revoke w s s' \<Longrightarrow> \<not> granted s' t w"
    and others: "revoke w s s' \<Longrightarrow> x \<noteq> w \<Longrightarrow> granted s' t x = granted s t x"
begin

definition serves :: "alert_ctx \<Rightarrow> address \<Rightarrow> 's \<Rightarrow> bool" where
  "serves c r s \<longleftrightarrow> (\<forall>q. watcher_call c r q = Some (granted s (timestamp c) q))"

lemma refusal:
  "WATCHREG a = Some r \<Longrightarrow> serves c r s \<Longrightarrow>
   query_refusal c a q = (if granted s (timestamp c) q then None else Some (Err NotAWatcher))"
  by (simp add: query_refusal_def serves_def)

lemma refusal_after_revoke:
  assumes "WATCHREG a = Some r" "serves c r s" "serves c' r s'" "revoke w s s'"
  shows "query_refusal c' a w = Some (Err NotAWatcher)"
    "timestamp c' = timestamp c \<Longrightarrow> x \<noteq> w \<Longrightarrow> query_refusal c' a x = query_refusal c a x"
  using assms by (simp_all add: refusal revoked others)

end

definition watcher_granted :: "watcher_state \<Rightarrow> u64 \<Rightarrow> address \<Rightarrow> bool" where
  "watcher_granted s t w \<longleftrightarrow>
     w \<in> set (wr_load_watchers s) \<and> (\<forall>e. wr_load_expiries s w = Some e \<longrightarrow> t \<le> e)"

definition watcher_removed :: "address \<Rightarrow> watcher_state \<Rightarrow> watcher_state \<Rightarrow> bool" where
  "watcher_removed w s s' \<longleftrightarrow> (\<exists>a c u. wr_remove_watcher a w c s = (Inr u, s'))"

lemma watcher_removed_reads:
  assumes "watcher_removed w s s'"
  shows "wr_load_watchers s' = filter (\<lambda>x. x \<noteq> w) (wr_load_watchers s)"
    "wr_load_expiries s' = (wr_load_expiries s)(w := None)"
proof -
  from assms obtain a c u where "wr_remove_watcher a w c s = (Inr u, s')"
    by (auto simp: watcher_removed_def)
  note view = wr_remove_watcher_effect(3) [OF this]
  show "wr_load_watchers s' = filter (\<lambda>x. x \<noteq> w) (wr_load_watchers s)"
    "wr_load_expiries s' = (wr_load_expiries s)(w := None)"
    using arg_cong [OF view, of w_list] arg_cong [OF view, of w_expiry] by simp_all
qed

interpretation watchers: watcher_service watcher_granted watcher_removed
  by unfold_locales (simp_all add: watcher_granted_def watcher_removed_reads)

text \<open>
  The registry at the address \<open>r\<close> is this watcher registry, in the state \<open>ws\<close>: a call to
  \<open>r\<close> is a call of \<open>is_watcher_authorized\<close> there, at the same ledger time.
\<close>

definition linked :: "alert_ctx \<Rightarrow> address \<Rightarrow> watcher_ctx \<Rightarrow> watcher_state \<Rightarrow> bool" where
  "linked c r wc ws \<longleftrightarrow> timestamp wc = timestamp c \<and>
     (\<forall>q. watcher_call c r q = (case fst (wr_is_watcher_authorized q wc ws) of
                                  Inr b \<Rightarrow> Some b | Inl y \<Rightarrow> None))"

lemma linked_serves: "linked c r wc ws \<Longrightarrow> watchers.serves c r ws"
  by (auto simp: linked_def watchers.serves_def watcher_granted_def wr_is_watcher_authorized_run
      split: option.splits)

section \<open>Gated queries on the composed system\<close>

text \<open>
  C11. With the watcher registry behind the gate, a query answers exactly the listed watchers
  whose expiry has not passed: it returns the alerts of the target to them and fails with
  \<open>NotAWatcher\<close> for everybody else, and writes nothing.
\<close>

theorem gated_query_composed:
  assumes "WATCHREG s = Some r" "linked c r wc ws"
  shows "ar_get_alerts_for_contract q target c s =
    (if q \<in> set (wr_load_watchers ws) \<and>
        (\<forall>e. wr_load_expiries ws q = Some e \<longrightarrow> timestamp c \<le> e)
     then Inr (ar_configs_for_ids s (ar_contract_index s target))
     else Inl (Err NotAWatcher), s)"
proof -
  have "query_refusal c s q = (if watcher_granted ws (timestamp c) q then None
      else Some (Err NotAWatcher))"
    by (rule watchers.refusal [OF assms(1) linked_serves [OF assms(2)]])
  moreover have "ar_get_alerts_for_contract q target c s =
      (case query_refusal c s q of Some y \<Rightarrow> Inl y
        | None \<Rightarrow> Inr (ar_configs_for_ids s (ar_contract_index s target)), s)"
    by (auto simp: ar_get_alerts_for_contract_def bind_run watcher_gate_run gets_run
        query_refusal_def split: option.splits)
  ultimately show ?thesis by (simp add: watcher_granted_def)
qed

definition linked_ctx :: "u64 \<Rightarrow> watcher_state \<Rightarrow> alert_ctx" where
  "linked_ctx t ws = (sample_ctx t (Address 9))\<lparr>watcher_call := (\<lambda>r q.
     if r = Address 8 then
       (case fst (wr_is_watcher_authorized q (wr_sample_ctx t (Address 9)) ws) of
          Inr b \<Rightarrow> Some b | Inl y \<Rightarrow> None)
     else None)\<rparr>"

lemma linked_linked_ctx: "linked (linked_ctx t ws) (Address 8) (wr_sample_ctx t (Address 9)) ws"
  by (simp add: linked_def linked_ctx_def)

definition gated_sample :: alert_state where
  "gated_sample = sample_state\<lparr>WATCHREG := Some (Address 8)\<rparr>"

theorem gated_query_composed_witness:
  "fst (ar_get_alerts_for_contract (Address 7) (Address 3) (linked_ctx 50 wr_sample) gated_sample)
     = Inr [sample_config (Address 3) 20] \<and>
   fst (ar_get_alerts_for_contract (Address 7) (Address 3) (linked_ctx 150 wr_sample) gated_sample)
     = Inl (Err NotAWatcher)"
  using gated_query_composed [OF _ linked_linked_ctx [of 50 wr_sample], of gated_sample "Address 7"
      "Address 3"]
    gated_query_composed [OF _ linked_linked_ctx [of 150 wr_sample], of gated_sample "Address 7"
      "Address 3"]
  by (simp add: gated_sample_def linked_ctx_def ar_contract_index_ids)



end
