(* ===== verification/ModularRegistry.thy ===== *)
theory ModularRegistry
  imports Interfaces
begin

text \<open>
  The second implementation of the alert registry in the repository, which is not the compiled
  entry point: contracts/alert-registry/src/contract.rs over the storage functions of
  storage.rs and the types of types.rs. It is modelled next to the first one, with its own
  state and errors; names that the first one uses too carry the prefix \<open>sec\<close>.

  The source of \<open>update_webhook\<close> refers to two variables it does not bind, \<open>owner\<close> and
  \<open>active\<close>; they are arguments of its definition. \<open>storage::bulk_renew_one\<close>, which nothing calls,
  reads a field \<open>target\<close> that \<open>AlertConfig\<close> does not have; that selector is an argument too. The
  constants that storage.rs imports from the crate root have the values of types.rs and lib.rs.
\<close>

section \<open>Types\<close>

definition SEC_DEFAULT_TTL :: u32 where "SEC_DEFAULT_TTL = 120960"

definition SEC_MAX_BATCH_SIZE :: u32 where "SEC_MAX_BATCH_SIZE = 20"

definition RATE_LIMIT_COUNT :: u32 where "RATE_LIMIT_COUNT = 10"

definition RATE_LIMIT_WINDOW :: u32 where "RATE_LIMIT_WINDOW = 100"

datatype sec_error =
    Unauthorized
  | AlertNotFound
  | AlreadyInitialized
  | NotInitialized
  | NoPendingWebhook
  | LabelTooLong
  | TooManyRules
  | InvalidRuleDescriptor
  | OwnerAlertLimitExceeded
  | DuplicateAlertId
  | RateLimitExceeded
  | CounterOverflow
  | ContractPaused

record sec_config =
  sec_label :: string
  sec_webhook_hash :: string
  sec_rules :: "string list"
  sec_owner :: address
  sec_target_contract :: address
  sec_created_at :: u64
  sec_updated_at :: u64
  sec_active :: bool
  sec_pending_webhook_hash :: "string option"

text \<open>
  Instance storage: the symbols \<open>ADMIN\<close>, \<open>LIMIT\<close>, \<open>PAUSED\<close> (read by storage.rs) and the key
  \<open>DataKey::Paused\<close> (read and written by contract.rs). Persistent storage: \<open>Alert\<close>,
  \<open>OwnerIndex\<close>, \<open>ContractIndex\<close>, \<open>NextId\<close>, \<open>RateLimit\<close> (window start and count).
\<close>

record sec_state = ledger +
  SecAdmin :: "address option"
  SecLimit :: "u32 option"
  SecPausedSymbol :: "bool option"
  SecPaused :: "bool option"
  SecAlerts :: "u64 \<rightharpoonup> sec_config entry"
  SecOwnerIndexes :: "address \<rightharpoonup> u64 list entry"
  SecContractIndexes :: "address \<rightharpoonup> u64 list entry"
  SecNextIds :: "unit \<rightharpoonup> u64 entry"
  SecRateLimits :: "address \<rightharpoonup> (u32 \<times> u32) entry"

type_synonym 'a sec_op = "(ctx, sec_state, sec_error, 'a) op"

section \<open>storage.rs\<close>

definition sec_get_alert_count :: "sec_state \<Rightarrow> u64" where
  "sec_get_alert_count s = (case p_get (SecNextIds s) () of None \<Rightarrow> 0 | Some n \<Rightarrow> n)"

definition sec_next_id :: "u64 sec_op" where
  "sec_next_id =
     bind (gets sec_get_alert_count) (\<lambda>aid.
     bind (ok_or (checked_add aid 1) CounterOverflow) (\<lambda>next.
     bind (block
       [st_set SecNextIds_update () next,
        st_extend_ttl SecNextIds SecNextIds_update () SEC_DEFAULT_TTL SEC_DEFAULT_TTL]) (\<lambda>_.
     ret aid)))"

definition sec_extend_next_id_ttl :: "unit sec_op" where
  "sec_extend_next_id_ttl =
     bind (gets (\<lambda>s. p_has (SecNextIds s) ())) (\<lambda>has.
     if has then st_extend_ttl SecNextIds SecNextIds_update () SEC_DEFAULT_TTL SEC_DEFAULT_TTL
     else ret ())"

definition sec_get_alert :: "sec_state \<Rightarrow> u64 \<Rightarrow> sec_config option" where
  "sec_get_alert s aid = p_get (SecAlerts s) aid"

definition sec_set_alert :: "u64 \<Rightarrow> sec_config \<Rightarrow> unit sec_op" where
  "sec_set_alert aid config =
     block
       [st_set SecAlerts_update aid config,
        st_extend_ttl SecAlerts SecAlerts_update aid SEC_DEFAULT_TTL SEC_DEFAULT_TTL]"

definition sec_storage_remove_alert :: "u64 \<Rightarrow> unit sec_op" where
  "sec_storage_remove_alert aid = st_remove SecAlerts_update aid"

definition sec_has_alert :: "sec_state \<Rightarrow> u64 \<Rightarrow> bool" where
  "sec_has_alert s aid = p_has (SecAlerts s) aid"

definition sec_extend_alert_ttl :: "u64 \<Rightarrow> unit sec_op" where
  "sec_extend_alert_ttl aid = st_extend_ttl SecAlerts SecAlerts_update aid 100 100"

definition sec_owner_index :: "sec_state \<Rightarrow> address \<Rightarrow> u64 list" where
  "sec_owner_index s a = (case p_get (SecOwnerIndexes s) a of None \<Rightarrow> [] | Some ids \<Rightarrow> ids)"

definition sec_push_owner_index :: "address \<Rightarrow> u64 \<Rightarrow> unit sec_op" where
  "sec_push_owner_index a aid =
     bind (gets (\<lambda>s. sec_owner_index s a)) (\<lambda>ids.
     if aid \<in> set ids then throw DuplicateAlertId
     else block
       [st_set SecOwnerIndexes_update a (ids @ [aid]),
        st_extend_ttl SecOwnerIndexes SecOwnerIndexes_update a SEC_DEFAULT_TTL SEC_DEFAULT_TTL])"

definition sec_remove_from_owner_index :: "address \<Rightarrow> u64 \<Rightarrow> unit sec_op" where
  "sec_remove_from_owner_index a aid =
     bind (gets (\<lambda>s. sec_owner_index s a)) (\<lambda>ids.
     block
       [st_set SecOwnerIndexes_update a (filter (\<lambda>v. v \<noteq> aid) ids),
        st_extend_ttl SecOwnerIndexes SecOwnerIndexes_update a SEC_DEFAULT_TTL SEC_DEFAULT_TTL])"

definition sec_extend_owner_index_ttl :: "address \<Rightarrow> unit sec_op" where
  "sec_extend_owner_index_ttl a =
     bind (gets (\<lambda>s. p_has (SecOwnerIndexes s) a)) (\<lambda>has.
     if has then st_extend_ttl SecOwnerIndexes SecOwnerIndexes_update a 100 100 else ret ())"

definition sec_contract_index :: "sec_state \<Rightarrow> address \<Rightarrow> u64 list" where
  "sec_contract_index s a = (case p_get (SecContractIndexes s) a of None \<Rightarrow> [] | Some ids \<Rightarrow> ids)"

definition sec_push_contract_index :: "address \<Rightarrow> u64 \<Rightarrow> unit sec_op" where
  "sec_push_contract_index a aid =
     bind (gets (\<lambda>s. sec_contract_index s a)) (\<lambda>ids.
     if aid \<in> set ids then throw DuplicateAlertId
     else block
       [st_set SecContractIndexes_update a (ids @ [aid]),
        st_extend_ttl SecContractIndexes SecContractIndexes_update a
          SEC_DEFAULT_TTL SEC_DEFAULT_TTL])"

definition sec_remove_from_contract_index :: "address \<Rightarrow> u64 \<Rightarrow> unit sec_op" where
  "sec_remove_from_contract_index a aid =
     bind (gets (\<lambda>s. sec_contract_index s a)) (\<lambda>ids.
     block
       [st_set SecContractIndexes_update a (filter (\<lambda>v. v \<noteq> aid) ids),
        st_extend_ttl SecContractIndexes SecContractIndexes_update a
          SEC_DEFAULT_TTL SEC_DEFAULT_TTL])"

definition sec_extend_contract_index_ttl :: "address \<Rightarrow> unit sec_op" where
  "sec_extend_contract_index_ttl a =
     bind (gets (\<lambda>s. p_has (SecContractIndexes s) a)) (\<lambda>has.
     if has then st_extend_ttl SecContractIndexes SecContractIndexes_update a 100 100
     else ret ())"

text \<open>The answer says whether the alert was there; \<open>target\<close> is the missing field.\<close>

definition sec_bulk_renew_one :: "(sec_config \<Rightarrow> address) \<Rightarrow> u64 \<Rightarrow> bool sec_op" where
  "sec_bulk_renew_one target aid =
     bind (gets (\<lambda>s. p_get (SecAlerts s) aid)) (\<lambda>found.
     case found of
       None \<Rightarrow> ret False
     | Some cfg \<Rightarrow>
         bind (block
           [st_extend_ttl SecAlerts SecAlerts_update aid 100 100,
            sec_extend_owner_index_ttl (sec_owner cfg),
            sec_extend_contract_index_ttl (target cfg)]) (\<lambda>_.
         ret True))"

fun sec_configs_for_ids :: "sec_state \<Rightarrow> u64 list \<Rightarrow> sec_config list" where
  "sec_configs_for_ids s [] = []"
| "sec_configs_for_ids s (aid # ids) =
     (case p_get (SecAlerts s) aid of
        None \<Rightarrow> sec_configs_for_ids s ids
      | Some cfg \<Rightarrow> cfg # sec_configs_for_ids s ids)"

text \<open>The sum \<open>offset + limit\<close> is unchecked: it panics when it overflows.\<close>

definition sec_configs_paginated :: "u64 list \<Rightarrow> u32 \<Rightarrow> u32 \<Rightarrow> (sec_config list) sec_op" where
  "sec_configs_paginated ids offset limit =
     bind (unwrap (checked_add offset limit)) (\<lambda>sum.
     let len = length ids;
         start = min (unat offset) len;
         end' = min (unat sum) len
     in gets (\<lambda>s. sec_configs_for_ids s (map (\<lambda>i. ids ! i) [start..<end'])))"

definition sec_storage_get_admin :: "sec_state \<Rightarrow> address option" where
  "sec_storage_get_admin s = SecAdmin s"

definition sec_storage_set_admin :: "address \<Rightarrow> unit sec_op" where
  "sec_storage_set_admin admin = modify (\<lambda>s. s\<lparr>SecAdmin := Some admin\<rparr>)"

definition sec_storage_has_admin :: "sec_state \<Rightarrow> bool" where
  "sec_storage_has_admin s \<longleftrightarrow> SecAdmin s \<noteq> None"

definition sec_storage_get_limit :: "sec_state \<Rightarrow> u32 option" where
  "sec_storage_get_limit s = SecLimit s"

definition sec_storage_set_limit :: "u32 \<Rightarrow> unit sec_op" where
  "sec_storage_set_limit limit = modify (\<lambda>s. s\<lparr>SecLimit := Some limit\<rparr>)"

definition sec_storage_is_paused :: "sec_state \<Rightarrow> bool" where
  "sec_storage_is_paused s = (case SecPausedSymbol s of None \<Rightarrow> False | Some b \<Rightarrow> b)"

definition sec_storage_set_paused :: "bool \<Rightarrow> unit sec_op" where
  "sec_storage_set_paused paused = modify (\<lambda>s. s\<lparr>SecPausedSymbol := Some paused\<rparr>)"

definition sec_check_rate_limit :: "address \<Rightarrow> unit sec_op" where
  "sec_check_rate_limit own =
     bind (gets sec_storage_is_paused) (\<lambda>paused.
     bind (reject_if paused ContractPaused) (\<lambda>_.
     bind (ask sequence) (\<lambda>now.
     bind (gets (\<lambda>s. case p_get (SecRateLimits s) own of None \<Rightarrow> (now, 0) | Some e \<Rightarrow> e)) (\<lambda>e.
     case e of (window_start, count) \<Rightarrow>
     if saturating_sub now window_start \<ge> RATE_LIMIT_WINDOW then
       block
         [st_set SecRateLimits_update own (now, 1),
          st_extend_ttl SecRateLimits SecRateLimits_update own SEC_DEFAULT_TTL SEC_DEFAULT_TTL]
     else
       bind (reject_if (count \<ge> RATE_LIMIT_COUNT) RateLimitExceeded) (\<lambda>_.
       bind (unwrap (checked_add count 1)) (\<lambda>n.
       block
         [st_set SecRateLimits_update own (window_start, n),
          st_extend_ttl SecRateLimits SecRateLimits_update own SEC_DEFAULT_TTL SEC_DEFAULT_TTL]))))))"

section \<open>contract.rs: the private helpers\<close>

definition sec_assert_owner :: "sec_config \<Rightarrow> address \<Rightarrow> unit sec_op" where
  "sec_assert_owner config caller =
     (if sec_owner config = caller then ret () else throw Unauthorized)"

definition sec_is_paused :: "sec_state \<Rightarrow> bool" where
  "sec_is_paused s = (case SecPaused s of None \<Rightarrow> False | Some b \<Rightarrow> b)"

definition sec_assert_not_paused :: "unit sec_op" where
  "sec_assert_not_paused = bind (gets sec_is_paused) (\<lambda>p. reject_if p ContractPaused)"

definition sec_assert_admin :: "address \<Rightarrow> unit sec_op" where
  "sec_assert_admin caller =
     bind (gets sec_storage_get_admin) (\<lambda>stored.
     case stored of
       Some admin \<Rightarrow> if admin = caller then ret () else throw Unauthorized
     | None \<Rightarrow> throw NotInitialized)"

definition sec_assert_per_owner_limit :: "address \<Rightarrow> unit sec_op" where
  "sec_assert_per_owner_limit own =
     bind (gets sec_storage_get_limit) (\<lambda>stored.
     let limit = (case stored of None \<Rightarrow> 0 | Some n \<Rightarrow> n) in
     if limit > 0 then
       bind (gets (\<lambda>s. count_loop (sec_has_alert s) (sec_owner_index s own) 0)) (\<lambda>counted.
       bind (unwrap counted) (\<lambda>count.
       reject_if (count \<ge> limit) OwnerAlertLimitExceeded))
     else ret ())"

definition sec_validate_label :: "string \<Rightarrow> unit sec_op" where
  "sec_validate_label lbl = reject_if (length lbl > 128) LabelTooLong"

definition sec_validate_rules :: "string list \<Rightarrow> unit sec_op" where
  "sec_validate_rules rls =
     block
       [reject_if (length rls > 50) TooManyRules,
        for_each rls (\<lambda>rule.
          reject_if (rule \<noteq> ''rule:transfer'' \<and> rule \<noteq> ''rule:mint'') InvalidRuleDescriptor)]"

definition sec_remove_alert_record :: "sec_config \<Rightarrow> u64 \<Rightarrow> address \<Rightarrow> unit sec_op" where
  "sec_remove_alert_record config config_id caller =
     block
       [sec_storage_remove_alert config_id,
        sec_remove_from_owner_index (sec_owner config) config_id,
        sec_remove_from_contract_index (sec_target_contract config) config_id,
        publish ''alert'' ''remove'' [VU64 config_id, VAddr caller]]"

definition sec_load_alert :: "u64 \<Rightarrow> sec_config sec_op" where
  "sec_load_alert aid = bind (gets (\<lambda>s. sec_get_alert s aid)) (\<lambda>found. ok_or found AlertNotFound)"

section \<open>contract.rs: the entry points\<close>

definition sec_register_alert ::
  "address \<Rightarrow> address \<Rightarrow> string \<Rightarrow> string \<Rightarrow> string list \<Rightarrow> u64 sec_op" where
  "sec_register_alert own target lbl hash rls =
     bind (block
       [require_auth own, sec_assert_not_paused, sec_validate_label lbl, sec_validate_rules rls,
        sec_assert_per_owner_limit own]) (\<lambda>_.
     bind sec_next_id (\<lambda>aid.
     bind now (\<lambda>t.
     bind (block
       [sec_set_alert aid
          \<lparr>sec_label = lbl, sec_webhook_hash = hash, sec_rules = rls, sec_owner = own,
           sec_target_contract = target, sec_created_at = t, sec_updated_at = t,
           sec_active = True, sec_pending_webhook_hash = None\<rparr>,
        sec_push_owner_index own aid,
        sec_push_contract_index target aid,
        publish ''alert'' ''register'' [VU64 aid, VAddr own, VAddr target]]) (\<lambda>_.
     ret aid))))"

definition sec_update_alert :: "address \<Rightarrow> u64 \<Rightarrow> string list \<Rightarrow> bool \<Rightarrow> unit sec_op" where
  "sec_update_alert own config_id rls is_active =
     bind (block [require_auth own, sec_assert_not_paused]) (\<lambda>_.
     bind (sec_load_alert config_id) (\<lambda>config.
     bind (block [sec_assert_owner config own, sec_validate_rules rls]) (\<lambda>_.
     bind now (\<lambda>t.
     block
       [sec_set_alert config_id
          (config\<lparr>sec_rules := rls, sec_active := is_active, sec_updated_at := t\<rparr>),
        publish ''alert'' ''update'' [VU64 config_id, VAddr own, VBool is_active]]))))"

text \<open>\<open>owner\<close> and \<open>active\<close> are the two variables the source does not bind.\<close>

definition sec_update_webhook ::
  "address \<Rightarrow> bool \<Rightarrow> address \<Rightarrow> u64 \<Rightarrow> string \<Rightarrow> unit sec_op" where
  "sec_update_webhook owner active caller config_id hash =
     bind (block [require_auth caller, sec_assert_not_paused]) (\<lambda>_.
     bind (sec_load_alert config_id) (\<lambda>config.
     bind (sec_assert_owner config caller) (\<lambda>_.
     bind now (\<lambda>t.
     block
       [sec_set_alert config_id (config\<lparr>sec_webhook_hash := hash, sec_updated_at := t\<rparr>),
        publish ''alert'' ''update'' [VU64 config_id, VAddr owner, VBool active]]))))"

definition sec_propose_webhook :: "address \<Rightarrow> u64 \<Rightarrow> string \<Rightarrow> unit sec_op" where
  "sec_propose_webhook caller config_id new_hash =
     bind (block [require_auth caller, sec_assert_not_paused]) (\<lambda>_.
     bind (sec_load_alert config_id) (\<lambda>config.
     bind (sec_assert_owner config caller) (\<lambda>_.
     bind now (\<lambda>t.
     block
       [sec_set_alert config_id
          (config\<lparr>sec_pending_webhook_hash := Some new_hash, sec_updated_at := t\<rparr>),
        publish ''alert'' ''wh_prop'' [VU64 config_id, VAddr caller]]))))"

definition sec_confirm_webhook :: "address \<Rightarrow> u64 \<Rightarrow> unit sec_op" where
  "sec_confirm_webhook caller config_id =
     bind (block [require_auth caller, sec_assert_not_paused]) (\<lambda>_.
     bind (sec_load_alert config_id) (\<lambda>config.
     bind (sec_assert_owner config caller) (\<lambda>_.
     bind (ok_or (sec_pending_webhook_hash config) NoPendingWebhook) (\<lambda>pending.
     bind now (\<lambda>t.
     block
       [sec_set_alert config_id
          (config\<lparr>sec_pending_webhook_hash := None, sec_webhook_hash := pending,
                  sec_updated_at := t\<rparr>),
        publish ''alert'' ''wh_conf'' [VU64 config_id, VAddr caller]])))))"

definition sec_renew_alert_ttl :: "address \<Rightarrow> u64 \<Rightarrow> unit sec_op" where
  "sec_renew_alert_ttl caller config_id =
     bind (block [require_auth caller, sec_assert_not_paused]) (\<lambda>_.
     bind (sec_load_alert config_id) (\<lambda>config.
     block
       [sec_assert_owner config caller,
        sec_extend_alert_ttl config_id,
        sec_extend_owner_index_ttl (sec_owner config),
        sec_extend_contract_index_ttl (sec_target_contract config),
        sec_extend_next_id_ttl]))"

fun sec_bulk_renew_loop :: "u64 list \<Rightarrow> u32 \<Rightarrow> u32 sec_op" where
  "sec_bulk_renew_loop [] renewed = ret renewed"
| "sec_bulk_renew_loop (aid # ids) renewed =
     bind (gets (\<lambda>s. sec_get_alert s aid)) (\<lambda>found.
     case found of
       None \<Rightarrow> sec_bulk_renew_loop ids renewed
     | Some config \<Rightarrow>
         bind (block
           [sec_extend_alert_ttl aid,
            sec_extend_owner_index_ttl (sec_owner config),
            sec_extend_contract_index_ttl (sec_target_contract config),
            publish ''alert'' ''bump'' [VU64 aid]]) (\<lambda>_.
         bind (unwrap (checked_add renewed 1)) (\<lambda>n.
         sec_bulk_renew_loop ids n)))"

definition sec_bulk_renew_ttl :: "u64 list \<Rightarrow> u32 sec_op" where
  "sec_bulk_renew_ttl config_ids =
     (if length config_ids > unat SEC_MAX_BATCH_SIZE then ret 0
      else sec_bulk_renew_loop config_ids 0)"

definition sec_remove_alert :: "address \<Rightarrow> u64 \<Rightarrow> unit sec_op" where
  "sec_remove_alert caller config_id =
     bind (block [require_auth caller, sec_assert_not_paused]) (\<lambda>_.
     bind (sec_load_alert config_id) (\<lambda>config.
     block [sec_assert_owner config caller, sec_remove_alert_record config config_id caller]))"

definition sec_initialize :: "address \<Rightarrow> unit sec_op" where
  "sec_initialize admin =
     block
       [bind (gets sec_storage_has_admin) (\<lambda>has. reject_if has AlreadyInitialized),
        sec_storage_set_admin admin]"

definition sec_transfer_admin :: "address \<Rightarrow> address \<Rightarrow> unit sec_op" where
  "sec_transfer_admin admin new_admin =
     block
       [require_auth admin, sec_assert_not_paused, sec_assert_admin admin,
        sec_storage_set_admin new_admin]"

definition sec_get_admin :: "address sec_op" where
  "sec_get_admin = bind (gets sec_storage_get_admin) (\<lambda>stored. ok_or stored NotInitialized)"

definition sec_set_per_owner_alert_limit :: "address \<Rightarrow> u32 \<Rightarrow> unit sec_op" where
  "sec_set_per_owner_alert_limit admin limit =
     block
       [require_auth admin, sec_assert_not_paused, sec_assert_admin admin,
        sec_storage_set_limit limit]"

definition sec_get_per_owner_alert_limit :: "sec_state \<Rightarrow> u32 option" where
  "sec_get_per_owner_alert_limit s = sec_storage_get_limit s"

definition sec_remove_alert_by_admin :: "address \<Rightarrow> u64 \<Rightarrow> unit sec_op" where
  "sec_remove_alert_by_admin admin config_id =
     bind (block [require_auth admin, sec_assert_not_paused, sec_assert_admin admin]) (\<lambda>_.
     bind (sec_load_alert config_id) (\<lambda>config.
     sec_remove_alert_record config config_id admin))"

definition sec_get_alerts_for_contract :: "sec_state \<Rightarrow> address \<Rightarrow> sec_config list" where
  "sec_get_alerts_for_contract s target = sec_configs_for_ids s (sec_contract_index s target)"

definition sec_get_alerts_by_owner :: "sec_state \<Rightarrow> address \<Rightarrow> sec_config list" where
  "sec_get_alerts_by_owner s own = sec_configs_for_ids s (sec_owner_index s own)"

definition sec_get_contract_alerts_paginated ::
  "address \<Rightarrow> u32 \<Rightarrow> u32 \<Rightarrow> (sec_config list) sec_op" where
  "sec_get_contract_alerts_paginated target offset limit =
     bind (gets (\<lambda>s. sec_contract_index s target)) (\<lambda>ids.
     sec_configs_paginated ids offset limit)"

definition sec_get_alerts_by_owner_paginated ::
  "address \<Rightarrow> u32 \<Rightarrow> u32 \<Rightarrow> (sec_config list) sec_op" where
  "sec_get_alerts_by_owner_paginated own offset limit =
     bind (gets (\<lambda>s. sec_owner_index s own)) (\<lambda>ids.
     sec_configs_paginated ids offset limit)"

definition sec_get_active_alert_count :: "address \<Rightarrow> u32 sec_op" where
  "sec_get_active_alert_count own =
     bind (gets (\<lambda>s. count_loop (sec_has_alert s) (sec_owner_index s own) 0)) unwrap"

definition sec_get_alert_count_for_contract :: "address \<Rightarrow> u32 sec_op" where
  "sec_get_alert_count_for_contract target =
     bind (gets (\<lambda>s. count_loop (sec_has_alert s) (sec_contract_index s target) 0)) unwrap"

definition sec_set_paused :: "address \<Rightarrow> bool \<Rightarrow> unit sec_op" where
  "sec_set_paused admin paused =
     block
       [require_auth admin, sec_assert_admin admin,
        modify (\<lambda>s. s\<lparr>SecPaused := Some paused\<rparr>),
        publish ''admin'' (if paused then ''pause'' else ''unpause'') [VAddr admin]]"

end
