(* ===== verification/ModularProperties.thy ===== *)
theory ModularProperties
  imports ModularRegistry
begin

text \<open>
  The second implementation of the alert registry: the same interfaces as the first one,
  interpreted on its operations, the round trip of registration and removal, and what its
  rate limiter allows.
\<close>

section \<open>The interfaces\<close>

lemmas sec_storage_defs = sec_storage_remove_alert_def sec_storage_get_admin_def
  sec_storage_set_admin_def sec_storage_has_admin_def sec_storage_get_limit_def
  sec_storage_set_limit_def

declare sec_storage_defs [simp]

interpretation sec_alerts: storage_map SecAlerts SecAlerts_update
  by unfold_locales simp

interpretation sec_rates: storage_map SecRateLimits SecRateLimits_update
  by unfold_locales simp

interpretation sec_counter: storage_map SecNextIds SecNextIds_update
  by unfold_locales simp

interpretation sec_pause: pause_gate sec_is_paused sec_assert_not_paused ContractPaused
  by unfold_locales (simp_all add: sec_assert_not_paused_def bind_run gets_run reject_if_run)

interpretation sec_admin_gate:
  admin_gate "\<lambda>s. map_option (\<lambda>a. [a]) (SecAdmin s)" sec_assert_admin NotInitialized Unauthorized
  by unfold_locales (auto simp: sec_assert_admin_def bind_run gets_run ret_run throw_run)

definition sec_push_map ::
  "'x ctx_scheme \<Rightarrow> address \<Rightarrow> u64 \<Rightarrow> (address \<rightharpoonup> u64 list entry) \<Rightarrow> (address \<rightharpoonup> u64 list entry)"
  where
  "sec_push_map c a i m =
     p_extend c a SEC_DEFAULT_TTL SEC_DEFAULT_TTL (p_set c a (ids_at m a @ [i]) m)"

definition sec_rem_map ::
  "'x ctx_scheme \<Rightarrow> address \<Rightarrow> u64 \<Rightarrow> (address \<rightharpoonup> u64 list entry) \<Rightarrow> (address \<rightharpoonup> u64 list entry)"
  where
  "sec_rem_map c a i m =
     p_extend c a SEC_DEFAULT_TTL SEC_DEFAULT_TTL
       (p_set c a (filter (\<lambda>j. j \<noteq> i) (ids_at m a)) m)"

lemma ids_at_sec_maps [simp]:
  "ids_at (sec_push_map c a i m) b = (if b = a then ids_at m a @ [i] else ids_at m b)"
  "ids_at (sec_rem_map c a i m) b =
     (if b = a then filter (\<lambda>j. j \<noteq> i) (ids_at m a) else ids_at m b)"
  by (simp_all add: sec_push_map_def sec_rem_map_def)

lemma sec_index_ids:
  "sec_owner_index s a = ids_at (SecOwnerIndexes s) a"
  "sec_contract_index s a = ids_at (SecContractIndexes s) a"
  by (simp_all add: sec_owner_index_def sec_contract_index_def ids_at_def)

interpretation sec_owner_ix:
  id_index SecOwnerIndexes SecOwnerIndexes_update sec_push_owner_index sec_remove_from_owner_index
    sec_push_map sec_rem_map DuplicateAlertId
proof
  show "SecOwnerIndexes (SecOwnerIndexes_update f s) = f (SecOwnerIndexes s)"
    for f and s :: sec_state by simp
  show "i \<in> set (ids_at (SecOwnerIndexes s) a) \<Longrightarrow>
      sec_push_owner_index a i c s = (Inl (Err DuplicateAlertId), s)" for a i c s
    by (simp add: sec_push_owner_index_def bind_run gets_run sec_index_ids throw_run)
  show "i \<notin> set (ids_at (SecOwnerIndexes s) a) \<Longrightarrow>
      sec_push_owner_index a i c s = (Inr (), SecOwnerIndexes_update (sec_push_map c a i) s)"
    for a i c s
    by (cases s) (simp add: sec_push_owner_index_def run_simps sec_index_ids sec_push_map_def)
  show "sec_remove_from_owner_index a i c s =
      (Inr (), SecOwnerIndexes_update (sec_rem_map c a i) s)" for a i c s
    by (cases s) (simp add: sec_remove_from_owner_index_def run_simps sec_index_ids sec_rem_map_def)
qed simp_all

interpretation sec_contract_ix:
  id_index SecContractIndexes SecContractIndexes_update sec_push_contract_index
    sec_remove_from_contract_index sec_push_map sec_rem_map DuplicateAlertId
proof
  show "SecContractIndexes (SecContractIndexes_update f s) = f (SecContractIndexes s)"
    for f and s :: sec_state by simp
  show "i \<in> set (ids_at (SecContractIndexes s) a) \<Longrightarrow>
      sec_push_contract_index a i c s = (Inl (Err DuplicateAlertId), s)" for a i c s
    by (simp add: sec_push_contract_index_def bind_run gets_run sec_index_ids throw_run)
  show "i \<notin> set (ids_at (SecContractIndexes s) a) \<Longrightarrow>
      sec_push_contract_index a i c s = (Inr (), SecContractIndexes_update (sec_push_map c a i) s)"
    for a i c s
    by (cases s) (simp add: sec_push_contract_index_def run_simps sec_index_ids sec_push_map_def)
  show "sec_remove_from_contract_index a i c s =
      (Inr (), SecContractIndexes_update (sec_rem_map c a i) s)" for a i c s
    by (cases s)
      (simp add: sec_remove_from_contract_index_def run_simps sec_index_ids sec_rem_map_def)
qed simp_all

lemma sec_set_alert_ok:
  "sec_set_alert i cfg c s = (Inr u, s') \<longleftrightarrow>
   s' = SecAlerts_update (p_extend c i SEC_DEFAULT_TTL SEC_DEFAULT_TTL)
          (SecAlerts_update (p_set c i cfg) s)"
  unfolding sec_set_alert_def sec_alerts.store_ok ..

lemma sec_next_id_ok:
  "sec_next_id c s = (Inr i, s') \<longleftrightarrow>
   i = sec_get_alert_count s \<and> unat i + 1 < 18446744073709551616 \<and>
   s' = SecNextIds_update (p_extend c () SEC_DEFAULT_TTL SEC_DEFAULT_TTL)
          (SecNextIds_update (p_set c () (i + 1)) s)"
  unfolding sec_next_id_def
  by (auto simp: bind_ok gets_ok ok_or_ok sec_counter.store_ok ret_ok checked_add_def)

lemmas sec_ok = ok_simps sec_pause.check_ok sec_admin_gate.check_ok sec_owner_ix.push_ok
  sec_owner_ix.rem_ok sec_contract_ix.push_ok sec_contract_ix.rem_ok sec_set_alert_ok sec_next_id_ok

section \<open>Registration and removal\<close>

text \<open>The guards of a registration write nothing.\<close>

lemma sec_guards_keep:
  "sec_validate_label l c s = (Inr u, s') \<Longrightarrow> s' = s"
  "sec_validate_rules r c s = (Inr u, s') \<Longrightarrow> s' = s"
  "sec_assert_per_owner_limit a c s = (Inr u, s') \<Longrightarrow> s' = s"
proof -
  have loop: "for_each r (\<lambda>x. reject_if (P x) e) c s = (Inr v, s') \<Longrightarrow> s' = s"
    for P and e :: sec_error and c :: ctx and s s' :: sec_state and v
    by (induction r) (auto simp: for_each_Nil_ok for_each_Cons_ok reject_if_ok)
  show "sec_validate_label l c s = (Inr u, s') \<Longrightarrow> s' = s"
    by (auto simp: sec_validate_label_def reject_if_ok)
  show "sec_validate_rules r c s = (Inr u, s') \<Longrightarrow> s' = s"
    by (auto simp: sec_validate_rules_def block_Cons_ok block_Nil_ok reject_if_ok dest: loop)
  show "sec_assert_per_owner_limit a c s = (Inr u, s') \<Longrightarrow> s' = s"
    by (auto simp: sec_assert_per_owner_limit_def Let_def ok_simps split: if_splits)
qed

lemma sec_register_alert_effect:
  assumes "sec_register_alert own target lbl hash rls c s = (Inr i, s')"
  shows "\<not> sec_is_paused s" "authorized c own" "i = sec_get_alert_count s"
    "i \<notin> set (ids_at (SecOwnerIndexes s) own)" "i \<notin> set (ids_at (SecContractIndexes s) target)"
    "p_get (SecAlerts s') = (p_get (SecAlerts s))(i \<mapsto>
       \<lparr>sec_label = lbl, sec_webhook_hash = hash, sec_rules = rls, sec_owner = own,
        sec_target_contract = target, sec_created_at = timestamp c, sec_updated_at = timestamp c,
        sec_active = True, sec_pending_webhook_hash = None\<rparr>)"
    "ids_at (SecOwnerIndexes s') b =
       (if b = own then ids_at (SecOwnerIndexes s) own @ [i] else ids_at (SecOwnerIndexes s) b)"
    "ids_at (SecContractIndexes s') b =
       (if b = target then ids_at (SecContractIndexes s) target @ [i]
        else ids_at (SecContractIndexes s) b)"
    "sec_get_alert_count s' = i + 1"
  using assms
  by (auto simp: sec_register_alert_def sec_ok sec_get_alert_count_def dest!: sec_guards_keep)

lemma sec_remove_alert_effect:
  assumes "sec_remove_alert caller i c s = (Inr u, s')"
  obtains cfg where "p_get (SecAlerts s) i = Some cfg" "sec_owner cfg = caller"
    "p_get (SecAlerts s') = (p_get (SecAlerts s))(i := None)"
    "\<And>b. ids_at (SecOwnerIndexes s') b = (if b = sec_owner cfg
       then filter (\<lambda>j. j \<noteq> i) (ids_at (SecOwnerIndexes s) b) else ids_at (SecOwnerIndexes s) b)"
    "\<And>b. ids_at (SecContractIndexes s') b = (if b = sec_target_contract cfg
       then filter (\<lambda>j. j \<noteq> i) (ids_at (SecContractIndexes s) b)
       else ids_at (SecContractIndexes s) b)"
    "sec_get_alert_count s' = sec_get_alert_count s"
  using assms
  by (auto simp: sec_remove_alert_def sec_remove_alert_record_def sec_load_alert_def
      sec_assert_owner_def sec_get_alert_def sec_get_alert_count_def sec_ok split: if_splits)

text \<open>
  C38. In the second implementation, registering an alert and removing it again restores the
  stored alerts and both indexes, whatever the identifier, as long as it was not stored
  before; only the counter keeps the registration.
\<close>

theorem sec_register_remove_roundtrip:
  assumes "sec_register_alert own target lbl hash rls c s = (Inr i, s1)"
    "sec_remove_alert caller i c' s1 = (Inr u, s2)" "p_get (SecAlerts s) i = None"
  shows "caller = own \<and> p_get (SecAlerts s2) = p_get (SecAlerts s) \<and>
    ids_at (SecOwnerIndexes s2) = ids_at (SecOwnerIndexes s) \<and>
    ids_at (SecContractIndexes s2) = ids_at (SecContractIndexes s) \<and>
    sec_get_alert_count s2 = sec_get_alert_count s + 1"
  using assms(2)
proof (rule sec_remove_alert_effect)
  fix cfg
  note reg = sec_register_alert_effect [OF assms(1)]
  assume rem: "p_get (SecAlerts s1) i = Some cfg" "sec_owner cfg = caller"
    "p_get (SecAlerts s2) = (p_get (SecAlerts s1))(i := None)"
    "\<And>b. ids_at (SecOwnerIndexes s2) b = (if b = sec_owner cfg
       then filter (\<lambda>j. j \<noteq> i) (ids_at (SecOwnerIndexes s1) b) else ids_at (SecOwnerIndexes s1) b)"
    "\<And>b. ids_at (SecContractIndexes s2) b = (if b = sec_target_contract cfg
       then filter (\<lambda>j. j \<noteq> i) (ids_at (SecContractIndexes s1) b)
       else ids_at (SecContractIndexes s1) b)"
    "sec_get_alert_count s2 = sec_get_alert_count s1"
  have "sec_owner cfg = own" "sec_target_contract cfg = target"
    using rem(1) by (auto simp: reg(6))
  with rem reg(3-5) assms(3) show ?thesis
    by (auto simp: reg(6-9) fun_eq_iff)
qed

section \<open>The rate limiter\<close>

text \<open>The number of registrations that the limiter admits in a sequence of invocations.\<close>

fun sec_admitted :: "address \<Rightarrow> ctx list \<Rightarrow> sec_state \<Rightarrow> nat" where
  "sec_admitted own [] s = 0"
| "sec_admitted own (c # cs) s =
     (case invoke (sec_check_rate_limit own) c s of
        (Inl y, s') \<Rightarrow> sec_admitted own cs s'
      | (Inr u, s') \<Rightarrow> Suc (sec_admitted own cs s'))"

text \<open>The state of the limiter for one owner, as the next check at ledger \<open>seq\<close> sees it.\<close>

definition rate_state :: "sec_state \<Rightarrow> address \<Rightarrow> u32 \<Rightarrow> u32 \<times> u32" where
  "rate_state s own seq = (case p_get (SecRateLimits s) own of None \<Rightarrow> (seq, 0) | Some e \<Rightarrow> e)"

lemma sec_check_rate_limit_step:
  assumes "\<not> sec_storage_is_paused s" "rate_state s own (sequence c) = (w, n)"
    "unat (sequence c) - unat w < 100"
  shows "unat n < 10 \<Longrightarrow> \<exists>s'. sec_check_rate_limit own c s = (Inr (), s') \<and>
      p_get (SecRateLimits s') own = Some (w, n + 1) \<and> \<not> sec_storage_is_paused s'"
    "10 \<le> unat n \<Longrightarrow> sec_check_rate_limit own c s = (Inl (Err RateLimitExceeded), s)"
  using assms
  by (auto simp: sec_check_rate_limit_def ok_simps err_simps rate_state_def RATE_LIMIT_WINDOW_def
      RATE_LIMIT_COUNT_def word_le_nat_alt unat_saturating_sub not_le sec_storage_is_paused_def
      sec_rates.store_ok checked_add_def split: if_splits prod.splits)

lemma sec_window_exact:
  assumes "\<not> sec_storage_is_paused s" "unat n \<le> 10" "p_get (SecRateLimits s) own = Some (w, n)"
    "\<forall>c \<in> set cs. unat (sequence c) - unat w < 100"
  shows "sec_admitted own cs s = min (10 - unat n) (length cs)"
  using assms
proof (induction cs arbitrary: n s)
  case Nil
  then show ?case by simp
next
  case (Cons c cs)
  have rate: "rate_state s own (sequence c) = (w, n)" using Cons.prems by (simp add: rate_state_def)
  have here: "unat (sequence c) - unat w < 100" using Cons.prems by simp
  note step = sec_check_rate_limit_step [OF Cons.prems(1) rate here]
  show ?case
  proof (cases "unat n < 10")
    case True
    with step(1) obtain s' where "sec_check_rate_limit own c s = (Inr (), s')"
      "p_get (SecRateLimits s') own = Some (w, n + 1)" "\<not> sec_storage_is_paused s'" by blast
    moreover have "unat (n + 1) = unat n + 1" using True by (simp add: unat_word_ariths)
    ultimately show ?thesis
      using Cons.IH [of s' "n + 1"] Cons.prems(4) True by (simp add: invoke_def)
  next
    case False
    with step(2) Cons.IH [of s n] Cons.prems show ?thesis by (simp add: invoke_def)
  qed
qed

lemma sec_admitted_paused: "sec_storage_is_paused s \<Longrightarrow> sec_admitted own cs s = 0"
  by (induction cs)
    (simp_all add: invoke_def sec_check_rate_limit_def bind_run gets_run reject_if_run)

text \<open>
  C40. The rate limiter of storage.rs counts as it should: of any number of checks of an owner
  without a window, all made less than one hundred ledgers after the first, exactly the first
  ten succeed while its pause flag is off (all, if they are fewer), and none while it is on.
  This is about the checks: no entry point calls the limiter.
\<close>

theorem sec_rate_limit_window:
  assumes "p_get (SecRateLimits s) own = None"
    "\<forall>d \<in> set cs. unat (sequence d) - unat (sequence c) < 100"
  shows "sec_admitted own (c # cs) s =
    (if sec_storage_is_paused s then 0 else min 10 (length (c # cs)))"
proof (cases "sec_storage_is_paused s")
  case True
  then show ?thesis by (simp only: sec_admitted_paused if_True)
next
  case False
  have "rate_state s own (sequence c) = (sequence c, 0)"
    using assms(1) by (simp add: rate_state_def)
  from sec_check_rate_limit_step(1) [OF False this] obtain s' where
    "sec_check_rate_limit own c s = (Inr (), s')"
    "p_get (SecRateLimits s') own = Some (sequence c, 1)" "\<not> sec_storage_is_paused s'"
    by auto
  with sec_window_exact [of s' 1 own "sequence c" cs] assms(2) False show ?thesis
    by (simp add: invoke_def)
qed

section \<open>Two pause flags\<close>

text \<open>
  \<open>set_paused\<close> of contract.rs writes the key \<open>DataKey::Paused\<close>; the limiter reads the symbol
  \<open>PAUSED\<close>, which it leaves as it was.
\<close>

lemma sec_pause_unseen_by_limiter:
  "sec_set_paused admin p c s = (Inr u, s') \<Longrightarrow>
   sec_is_paused s' = p \<and> sec_storage_is_paused s' = sec_storage_is_paused s"
  by (auto simp: sec_set_paused_def sec_ok sec_is_paused_def sec_storage_is_paused_def)

section \<open>Concrete inputs\<close>

definition sec_sample_ctx :: "u32 \<Rightarrow> address \<Rightarrow> ctx" where
  "sec_sample_ctx n a =
     \<lparr>timestamp = 10, sequence = n, authorized = (\<lambda>b. b = a),
      extend_until = sdk_extend (unat n) 3110400, fresh_until = 4095\<rparr>"

definition sec_sample :: sec_state where
  "sec_sample =
     \<lparr>events = [], instance_until = 0, SecAdmin = None, SecLimit = None, SecPausedSymbol = None,
      SecPaused = None, SecAlerts = Map.empty, SecOwnerIndexes = Map.empty,
      SecContractIndexes = Map.empty, SecNextIds = Map.empty, SecRateLimits = Map.empty\<rparr>"

theorem sec_register_remove_roundtrip_witness:
  "\<exists>s1 s2. sec_register_alert (Address 2) (Address 3) ''x'' ''h'' [] (sec_sample_ctx 5 (Address 2))
      sec_sample = (Inr 0, s1) \<and>
    sec_remove_alert (Address 2) 0 (sec_sample_ctx 6 (Address 2)) s1 = (Inr (), s2) \<and>
    p_get (SecAlerts s2) = Map.empty"
proof -
  have "\<exists>s1 s2. sec_register_alert (Address 2) (Address 3) ''x'' ''h'' []
      (sec_sample_ctx 5 (Address 2)) sec_sample = (Inr 0, s1) \<and>
    sec_remove_alert (Address 2) 0 (sec_sample_ctx 6 (Address 2)) s1 = (Inr (), s2)"
    by (simp add: sec_register_alert_def sec_remove_alert_def sec_remove_alert_record_def
        sec_load_alert_def sec_assert_owner_def sec_get_alert_def sec_get_alert_count_def
        sec_validate_label_def sec_validate_rules_def sec_assert_per_owner_limit_def sec_ok
        sec_sample_ctx_def sec_sample_def sec_is_paused_def ex_bool_eq)
  then obtain s1 s2 where run:
    "sec_register_alert (Address 2) (Address 3) ''x'' ''h'' [] (sec_sample_ctx 5 (Address 2))
      sec_sample = (Inr 0, s1)"
    "sec_remove_alert (Address 2) 0 (sec_sample_ctx 6 (Address 2)) s1 = (Inr (), s2)" by blast
  from sec_register_remove_roundtrip [OF run] run show ?thesis by (simp add: sec_sample_def)
qed

theorem sec_rate_limit_window_witness:
  "sec_admitted (Address 2) (sec_sample_ctx 5 (Address 2) # replicate 20 (sec_sample_ctx 90 (Address 2)))
     sec_sample = 10"
proof -
  have "p_get (SecRateLimits sec_sample) (Address 2) = None" by (simp add: sec_sample_def)
  from sec_rate_limit_window [OF this, of "replicate 20 (sec_sample_ctx 90 (Address 2))"
      "sec_sample_ctx 5 (Address 2)"] show ?thesis
    by (simp add: sec_sample_ctx_def)
      (simp add: sec_sample_def sec_storage_is_paused_def)
qed

end
