(* ===== verification/AlertFrame.thy ===== *)
theory AlertFrame
  imports AlertRefinement
begin

text \<open>
  The entry \<open>ADMIN\<close> of the alert registry: which operations leave it alone, and the format it
  has in every reachable state. \<open>load_admins\<close> reads three formats; a contract that was
  deployed with this code only ever holds a vector.
\<close>

section \<open>The format of the admin entry\<close>

text \<open>Operations that leave the entry \<open>ADMIN\<close> alone.\<close>

definition leaves_admin :: "'a ar_op \<Rightarrow> bool" where
  "leaves_admin m \<longleftrightarrow> (\<forall>c s. ADMIN (snd (m c s)) = ADMIN s)"

named_theorems leaves_intros "operations that do not write the admin entry"

lemma leaves_basic [leaves_intros]:
  "leaves_admin (ret x)" "leaves_admin (throw e)" "leaves_admin (gets g)" "leaves_admin (ask h)"
  "leaves_admin (reject_if b e)" "leaves_admin (ok_or y e)" "leaves_admin (unwrap y)"
  "leaves_admin now" "leaves_admin (require_auth a)" "leaves_admin (publish t0 t1 d)"
  "leaves_admin (instance_extend_ttl n m)" "leaves_admin (modify (\<lambda>s. s\<lparr>NEXT_ID := k\<rparr>))"
  "leaves_admin (modify (\<lambda>s. s\<lparr>LIMIT := l\<rparr>))" "leaves_admin (modify (\<lambda>s. s\<lparr>PAUSED := p\<rparr>))"
  "leaves_admin (modify (\<lambda>s. s\<lparr>WATCHREG := w\<rparr>))"
  by (auto simp: leaves_admin_def ret_def throw_def gets_def ask_def reject_if_def ok_or_def
      unwrap_def now_run require_auth_def publish_run instance_extend_ttl_run modify_run
      split: option.splits)

lemma leaves_storage [leaves_intros]:
  "leaves_admin (st_set Alerts_update i cfg)" "leaves_admin (st_remove Alerts_update i)"
  "leaves_admin (st_extend_ttl Alerts Alerts_update i n m)"
  "leaves_admin (st_set AlertActives_update i b)" "leaves_admin (st_remove AlertActives_update i)"
  "leaves_admin (st_extend_ttl AlertActives AlertActives_update i n m)"
  "leaves_admin (st_set OwnerIndexes_update a ids)" "leaves_admin (st_remove OwnerIndexes_update a)"
  "leaves_admin (st_extend_ttl OwnerIndexes OwnerIndexes_update a n m)"
  "leaves_admin (st_set ContractIndexes_update a ids)"
  "leaves_admin (st_remove ContractIndexes_update a)"
  "leaves_admin (st_extend_ttl ContractIndexes ContractIndexes_update a n m)"
  "leaves_admin (st_extend_ttl NextIds NextIds_update k n m)"
  by (auto simp: leaves_admin_def st_set_run st_remove_run st_extend_ttl_def)

lemma leaves_bind [leaves_intros]:
  "leaves_admin m \<Longrightarrow> (\<And>a. leaves_admin (f a)) \<Longrightarrow> leaves_admin (bind m f)"
proof -
  assume m: "leaves_admin m" and f: "\<And>a. leaves_admin (f a)"
  have "ADMIN (snd (bind m f c s)) = ADMIN s" for c s
    using m [unfolded leaves_admin_def, rule_format, of c s] f [unfolded leaves_admin_def]
    by (cases "m c s"; cases "fst (m c s)") (auto simp: bind_run)
  then show ?thesis by (simp add: leaves_admin_def)
qed

lemma leaves_block [leaves_intros]:
  "leaves_admin (block [])" "leaves_admin m \<Longrightarrow> leaves_admin (block ms) \<Longrightarrow> leaves_admin (block (m # ms))"
  by (simp_all add: block.simps leaves_intros)

lemma leaves_for_each [leaves_intros]:
  "(\<And>x. leaves_admin (f x)) \<Longrightarrow> leaves_admin (for_each xs f)"
  by (induction xs) (simp_all add: for_each.simps leaves_intros)

lemma leaves_if [leaves_intros]:
  "leaves_admin m \<Longrightarrow> leaves_admin n \<Longrightarrow> leaves_admin (if b then m else n)"
  "leaves_admin m \<Longrightarrow> (\<And>x. leaves_admin (f x)) \<Longrightarrow> leaves_admin (case y of None \<Rightarrow> m | Some x \<Rightarrow> f x)"
  by (auto split: option.splits)

lemmas leaves_helper_defs = ar_assert_not_paused_def ar_assert_owner_def ar_assert_admin_def
  ar_load_alert_def ar_next_id_def ar_put_alert_def ar_put_active_def ar_push_owner_index_def
  ar_push_contract_index_def ar_remove_from_owner_index_def ar_remove_from_contract_index_def
  ar_validate_label_def ar_validate_tags_def ar_validate_rules_def ar_validate_rule_def
  ar_assert_per_owner_limit_def ar_assert_per_owner_limit_for_def Let_def

lemma leaves_rules_loop [leaves_intros]: "leaves_admin (ar_validate_rules_loop seen r)"
  by (induction r arbitrary: seen) (auto simp: ar_validate_rule_def intro!: leaves_intros)

lemma leaves_helpers [leaves_intros]:
  "leaves_admin ar_assert_not_paused" "leaves_admin (ar_assert_owner cfg a)"
  "leaves_admin (ar_assert_admin a)" "leaves_admin (ar_load_alert i)" "leaves_admin ar_next_id"
  "leaves_admin (ar_put_alert i cfg)" "leaves_admin (ar_put_active i b)"
  "leaves_admin (ar_push_owner_index a i)" "leaves_admin (ar_push_contract_index a i)"
  "leaves_admin (ar_remove_from_owner_index a i)" "leaves_admin (ar_remove_from_contract_index a i)"
  "leaves_admin (ar_validate_label l)" "leaves_admin (ar_validate_tags g)"
  "leaves_admin (ar_validate_rules r)" "leaves_admin (ar_assert_per_owner_limit_for a n)"
  "leaves_admin (ar_assert_per_owner_limit a)"
  unfolding leaves_helper_defs by (intro leaves_intros; assumption?)+

lemma leaves_loops [leaves_intros]:
  "leaves_admin (ar_batch_loop a t inputs out)" "leaves_admin (ar_bulk_renew_loop ids n)"
  "leaves_admin (ar_deactivate_loop ids n)"
proof -
  show "leaves_admin (ar_batch_loop a t inputs out)"
    by (induction inputs arbitrary: out) (auto intro!: leaves_intros)
  show "leaves_admin (ar_bulk_renew_loop ids n)" "leaves_admin (ar_deactivate_loop ids n)"
    by (induction ids arbitrary: n) (auto intro!: leaves_intros)
qed


lemma leaves_exec:
  assumes "\<And>a. call \<noteq> Initialize a" "\<And>a b. call \<noteq> TransferAdmin a b" "\<And>a b. call \<noteq> AddAdmin a b"
    "\<And>a b. call \<noteq> RemoveAdmin a b"
  shows "leaves_admin (ar_exec call)"
  using assms
  by (cases call)
    (auto simp: discard_def ar_set_per_owner_alert_limit_def ar_set_paused_def
      ar_set_watcher_registry_def ar_register_alert_def ar_batch_register_alerts_def
      ar_pause_alert_def ar_unpause_alert_def ar_set_alert_active_by_admin_def ar_update_alert_def
      ar_update_webhook_def ar_propose_webhook_def ar_confirm_webhook_def ar_update_label_def
      ar_update_tags_def ar_update_target_contract_def ar_transfer_alert_ownership_def
      ar_remove_alert_def ar_remove_alert_by_admin_def ar_remove_alert_record_def
      ar_remove_alert_record_by_admin_def ar_bump_alert_def ar_bulk_renew_ttl_def
      ar_deactivate_all_alerts_def ar_get_alert_def Let_def intro!: leaves_intros)

lemma admin_entry_exec:
  assumes "ar_exec call c s = (Inr u, s')"
  shows "ADMIN s' = ADMIN s \<or> (\<exists>v. ADMIN s' = Some (AdminVec v))"
proof -
  consider "leaves_admin (ar_exec call)" | a where "call = Initialize a"
    | a b where "call = TransferAdmin a b" | a b where "call = AddAdmin a b"
    | a b where "call = RemoveAdmin a b"
    using leaves_exec [of call] by blast
  then show ?thesis
  proof cases
    case 1
    with assms show ?thesis unfolding leaves_admin_def by (metis snd_conv)
  qed (use assms in \<open>auto simp: ar_initialize_def ar_transfer_admin_def ar_add_admin_def
      ar_remove_admin_def op_ok\<close>)
qed

lemma admin_entry_format:
  "ar_reachable e s \<Longrightarrow> ADMIN s = None \<or> (\<exists>v. ADMIN s = Some (AdminVec v))"
proof (induction rule: ar_reachable.induct)
  case deployed
  show ?case by (simp add: ar_deployed_def)
next
  case (stepped s s')
  from stepped.hyps(2) stepped.IH show ?case
  proof (induction rule: ar_step.induct)
    case (called call c s r s')
    then show ?case
      by (cases r) (auto simp: invoke_ok invoke_err dest: admin_entry_exec)
  qed simp_all
qed

lemma no_admin_entry: "ar_reachable e s \<Longrightarrow> ar_load_admins s = None \<Longrightarrow> ADMIN s = None"
  using admin_entry_format [of e s] by (auto simp: ar_load_admins_def)

end
