(* ===== verification/ModularRefinement.thy ===== *)
theory ModularRefinement
  imports ModularProperties AlertProgress AlertFrame
begin

text \<open>
  The second implementation of the alert registry (contract.rs) against the compiled one
  (lib.rs): a simulation. Whatever a run of the second implementation does with inputs that
  lib.rs accepts, lib.rs does too, and then answers the queries alike. The differences that
  remain are the additional validation of lib.rs, its error codes, its events and lifetimes.
\<close>

section \<open>The calls of the second implementation\<close>

datatype sec_call =
    SecInitialize address
  | SecTransferAdmin address address
  | SecSetLimit address u32
  | SecSetPaused address bool
  | SecRegister address address string string "string list"
  | SecUpdateAlert address u64 "string list" bool
  | SecUpdateWebhook address bool address u64 string
  | SecProposeWebhook address u64 string
  | SecConfirmWebhook address u64
  | SecRenew address u64
  | SecBulkRenew "u64 list"
  | SecRemove address u64
  | SecRemoveByAdmin address u64

fun sec_exec :: "sec_call \<Rightarrow> unit sec_op" where
  "sec_exec (SecInitialize a) = sec_initialize a"
| "sec_exec (SecTransferAdmin a b) = sec_transfer_admin a b"
| "sec_exec (SecSetLimit a l) = sec_set_per_owner_alert_limit a l"
| "sec_exec (SecSetPaused a p) = sec_set_paused a p"
| "sec_exec (SecRegister a t l h r) = discard (sec_register_alert a t l h r)"
| "sec_exec (SecUpdateAlert a i r b) = sec_update_alert a i r b"
| "sec_exec (SecUpdateWebhook x y a i h) = sec_update_webhook x y a i h"
| "sec_exec (SecProposeWebhook a i h) = sec_propose_webhook a i h"
| "sec_exec (SecConfirmWebhook a i) = sec_confirm_webhook a i"
| "sec_exec (SecRenew a i) = sec_renew_alert_ttl a i"
| "sec_exec (SecBulkRenew ids) = discard (sec_bulk_renew_ttl ids)"
| "sec_exec (SecRemove a i) = sec_remove_alert a i"
| "sec_exec (SecRemoveByAdmin a i) = sec_remove_alert_by_admin a i"

text \<open>The call of lib.rs that corresponds to each.\<close>

fun lib_call :: "sec_call \<Rightarrow> ar_call" where
  "lib_call (SecInitialize a) = Initialize a"
| "lib_call (SecTransferAdmin a b) = TransferAdmin a b"
| "lib_call (SecSetLimit a l) = SetLimit a l"
| "lib_call (SecSetPaused a p) = SetPaused a p"
| "lib_call (SecRegister a t l h r) = RegisterAlert a t l h r None"
| "lib_call (SecUpdateAlert a i r b) = UpdateAlert a i r b"
| "lib_call (SecUpdateWebhook x y a i h) = UpdateWebhook a i h"
| "lib_call (SecProposeWebhook a i h) = ProposeWebhook a i h"
| "lib_call (SecConfirmWebhook a i) = ConfirmWebhook a i"
| "lib_call (SecRenew a i) = BumpAlert i 100"
| "lib_call (SecBulkRenew ids) = BulkRenew ids"
| "lib_call (SecRemove a i) = RemoveAlert a i"
| "lib_call (SecRemoveByAdmin a i) = RemoveAlertByAdmin a i"

text \<open>What lib.rs asks of the inputs and contract.rs does not.\<close>

fun acceptable :: "sec_call \<Rightarrow> bool" where
  "acceptable (SecRegister a t l h r) \<longleftrightarrow> length h = 64 \<and> r \<noteq> [] \<and> distinct r"
| "acceptable (SecUpdateAlert a i r b) \<longleftrightarrow> r \<noteq> [] \<and> distinct r"
| "acceptable (SecUpdateWebhook x y a i h) \<longleftrightarrow> length h = 64"
| "acceptable (SecBulkRenew ids) \<longleftrightarrow> length ids \<le> 50"
| "acceptable call \<longleftrightarrow> True"

section \<open>The simulation relation\<close>

definition lib_config :: "sec_config \<Rightarrow> alert_config" where
  "lib_config x =
     \<lparr>label = sec_label x, webhook_hash = sec_webhook_hash x, rules = sec_rules x,
      owner = sec_owner x, target_contract = sec_target_contract x,
      created_at = sec_created_at x, updated_at = sec_updated_at x, active = sec_active x,
      pending_webhook_hash = sec_pending_webhook_hash x, tags = None\<rparr>"

lemma lib_config_sel [simp]:
  "label (lib_config x) = sec_label x" "rules (lib_config x) = sec_rules x"
  "owner (lib_config x) = sec_owner x" "target_contract (lib_config x) = sec_target_contract x"
  "pending_webhook_hash (lib_config x) = sec_pending_webhook_hash x" "tags (lib_config x) = None"
  by (simp_all add: lib_config_def)

definition mirrors :: "sec_state \<Rightarrow> ar_view \<Rightarrow> bool" where
  "mirrors s v \<longleftrightarrow>
     v_alerts v = (\<lambda>i. map_option lib_config (p_get (SecAlerts s) i)) \<and>
     v_owned v = ids_at (SecOwnerIndexes s) \<and>
     v_watching v = ids_at (SecContractIndexes s) \<and>
     v_count v = sec_get_alert_count s \<and>
     v_paused v = sec_is_paused s \<and>
     v_admins v = map_option (\<lambda>a. [a]) (SecAdmin s) \<and>
     v_limit v = (case SecLimit s of None \<Rightarrow> 0 | Some n \<Rightarrow> n)"

text \<open>The host is the same for both; lib.rs also sees the watcher registry.\<close>

abbreviation host_ctx :: "alert_ctx \<Rightarrow> ctx" where
  "host_ctx c \<equiv> ctx.truncate c"

lemma host_ctx_sel [simp]:
  "timestamp (host_ctx c) = timestamp c" "authorized (host_ctx c) = authorized c"
  "sequence (host_ctx c) = sequence c"
  by (simp_all add: ctx.truncate_def)

lemma mirrors_emit [simp]:
  "mirrors s (emit t d v) = mirrors s v" "mirrors s (emit_admin t d v) = mirrors s v"
  "mirrors s (put_flag i b v) = mirrors s v" "mirrors s (v\<lparr>v_events := es\<rparr>) = mirrors s v"
  by (simp_all add: mirrors_def emit_def emit_admin_def put_flag_def)

lemma mirrors_prune:
  assumes "mirrors s v" "view_exact v"
  shows "prune a v = v"
proof (cases "0 < v_limit v")
  case True
  have "filter (\<lambda>i. v_alerts v i \<noteq> None) (v_owned v a) = v_owned v a"
    using assms(2) by (auto simp: view_exact_def intro: filter_True)
  then have "(v_owned v)(a := filter (\<lambda>i. v_alerts v i \<noteq> None) (v_owned v a)) = v_owned v"
    by simp
  with True show ?thesis by (simp add: prune_def)
qed (simp add: prune_def)

section \<open>Each call is simulated\<close>

lemmas sec_step_defs = sec_load_alert_def sec_get_alert_def sec_assert_owner_def sec_ok

lemma sec_set_view:
  assumes "mirrors s v"
    "s' = (SecAlerts_update (p_extend c i n m) (SecAlerts_update (p_set c i x) s))\<lparr>events := es\<rparr>"
  shows "mirrors s' (put i (lib_config x) v)"
  using assms
  by (auto simp: mirrors_def put_def sec_get_alert_count_def sec_is_paused_def fun_eq_iff)

lemma mirrors_stored:
  "mirrors s (view_of t) \<Longrightarrow> p_get (SecAlerts s) i = Some x \<Longrightarrow> p_get (Alerts t) i = Some (lib_config x)"
  by (simp add: mirrors_def)

lemma mirrors_paused: "mirrors s (view_of t) \<Longrightarrow> ar_is_paused t = sec_is_paused s"
  by (simp add: mirrors_def)

lemma mirrors_admin:
  "mirrors s (view_of t) \<Longrightarrow> ar_load_admins t = map_option (\<lambda>a. [a]) (SecAdmin s)"
  by (simp add: mirrors_def)

lemma sec_rules_ok:
  "sec_validate_rules r c s = (Inr u, s') \<longleftrightarrow>
   length r \<le> 50 \<and> set r \<subseteq> {''rule:transfer'', ''rule:mint''} \<and> s' = s"
proof -
  have "(\<forall>x \<in> set r. \<not> (x \<noteq> y \<and> x \<noteq> z)) \<longleftrightarrow> set r \<subseteq> {y, z}" for y z :: string
    by blast
  then show ?thesis
    by (simp only: sec_validate_rules_def block_Cons_ok block_Nil_ok reject_if_ok
        for_each_reject_ok not_less) blast
qed

lemma sec_rules_valid:
  "sec_validate_rules r c s = (Inr u, s') \<Longrightarrow> r \<noteq> [] \<Longrightarrow> distinct r \<Longrightarrow> valid_rules r \<and> s' = s"
  unfolding sec_rules_ok valid_rules_def known_rules_def by blast

text \<open>The edits of one alert.\<close>

text \<open>The edits of one alert: \<open>x\<close> becomes \<open>x'\<close> on both sides.\<close>

lemma edit_mirrored:
  assumes "mirrors s (view_of t)" "p_get (SecAlerts s) i = Some x" "p_get (Alerts t) i = Some cfg"
    "s' = (SecAlerts_update (p_extend c i n m) (SecAlerts_update (p_set c i x') s))\<lparr>events := es\<rparr>"
    "view_of t' = emit tp d (put i cfg' (view_of t))"
    "cfg = lib_config x \<Longrightarrow> cfg' = lib_config x'"
  shows "mirrors s' (view_of t')"
  using sec_set_view [OF assms(1,4)] mirrors_stored [OF assms(1,2)] assms(3,5,6) by simp

lemma simulate_update_alert:
  assumes "mirrors s (view_of t)" "\<And>i. p_get (Alerts t) i \<noteq> None \<Longrightarrow> fully_stored i t"
    "sec_update_alert a i r b (host_ctx c) s = (Inr u, s')" "r \<noteq> []" "distinct r"
  shows "\<exists>t'. ar_update_alert a i r b c t = (Inr (), t') \<and> mirrors s' (view_of t')"
proof -
  from assms(3) obtain x where x: "p_get (SecAlerts s) i = Some x" "sec_owner x = a"
    "authorized c a" "\<not> sec_is_paused s" "valid_rules r" and
    s': "s' = (SecAlerts_update (p_extend (host_ctx c) i SEC_DEFAULT_TTL SEC_DEFAULT_TTL)
        (SecAlerts_update (p_set (host_ctx c) i
          (x\<lparr>sec_rules := r, sec_active := b, sec_updated_at := timestamp c\<rparr>)) s))
      \<lparr>events := events s @ [\<lparr>topic0 = ''alert'', topic1 = ''update'',
                                event_data = [VU64 i, VAddr a, VBool b]\<rparr>]\<rparr>"
    using sec_rules_valid [OF _ assms(4,5)]
    by (auto simp: sec_update_alert_def sec_step_defs split: if_splits)
  note stored = mirrors_stored [OF assms(1) x(1)]
  with assms(2) have "fully_stored i t" by simp
  with stored x mirrors_paused [OF assms(1)]
  obtain t' where run: "ar_update_alert a i r b c t = (Inr (), t')"
    by (auto simp: ar_update_alert_def op_ok fully_stored_def)
  then show ?thesis
  proof (rule ar_update_alert_effect)
    fix cfg
    assume cfg: "p_get (Alerts t) i = Some cfg" and
      "view_of t' = emit ''update'' [VU64 i, VAddr a, VBool b] (put_flag i b
        (put i (cfg\<lparr>rules := r, active := b, updated_at := timestamp c\<rparr>) (view_of t)))"
    moreover have "mirrors s' (put i (lib_config
        (x\<lparr>sec_rules := r, sec_active := b, sec_updated_at := timestamp c\<rparr>)) (view_of t))"
      by (rule sec_set_view [OF assms(1) s'])
    ultimately show ?thesis
      using run stored by (auto simp: lib_config_def)
  qed
qed

lemma simulate_update_webhook:
  assumes "mirrors s (view_of t)" "\<And>i. p_get (Alerts t) i \<noteq> None \<Longrightarrow> fully_stored i t"
    "sec_update_webhook x1 x2 a i h (host_ctx c) s = (Inr u, s')" "length h = 64"
  shows "\<exists>t'. ar_update_webhook a i h c t = (Inr (), t') \<and> mirrors s' (view_of t')"
proof -
  from assms(3) obtain x es where x: "p_get (SecAlerts s) i = Some x" "sec_owner x = a"
    "authorized c a" "\<not> sec_is_paused s" and
    s': "s' = (SecAlerts_update (p_extend (host_ctx c) i SEC_DEFAULT_TTL SEC_DEFAULT_TTL)
        (SecAlerts_update (p_set (host_ctx c) i
          (x\<lparr>sec_webhook_hash := h, sec_updated_at := timestamp c\<rparr>)) s))\<lparr>events := es\<rparr>"
    by (auto simp: sec_update_webhook_def sec_step_defs split: if_splits)
  note stored = mirrors_stored [OF assms(1) x(1)]
  with assms(2) have "fully_stored i t" by simp
  with stored x mirrors_paused [OF assms(1)] assms(4)
  obtain t' where run: "ar_update_webhook a i h c t = (Inr (), t')"
    by (auto simp: ar_update_webhook_def op_ok fully_stored_def)
  then have "mirrors s' (view_of t')"
    by (rule ar_update_webhook_effect)
      (rule edit_mirrored [OF assms(1) x(1) _ s'], assumption, assumption, simp add: lib_config_def)
  with run show ?thesis by blast
qed

lemma simulate_propose_webhook:
  assumes "mirrors s (view_of t)" "sec_propose_webhook a i h (host_ctx c) s = (Inr u, s')"
  shows "\<exists>t'. ar_propose_webhook a i h c t = (Inr (), t') \<and> mirrors s' (view_of t')"
proof -
  from assms(2) obtain x es where x: "p_get (SecAlerts s) i = Some x" "sec_owner x = a"
    "authorized c a" and
    s': "s' = (SecAlerts_update (p_extend (host_ctx c) i SEC_DEFAULT_TTL SEC_DEFAULT_TTL)
        (SecAlerts_update (p_set (host_ctx c) i
          (x\<lparr>sec_pending_webhook_hash := Some h, sec_updated_at := timestamp c\<rparr>)) s))\<lparr>events := es\<rparr>"
    by (auto simp: sec_propose_webhook_def sec_step_defs split: if_splits)
  with mirrors_stored [OF assms(1) x(1)]
  obtain t' where run: "ar_propose_webhook a i h c t = (Inr (), t')"
    by (auto simp: ar_propose_webhook_def op_ok)
  then have "mirrors s' (view_of t')"
    by (rule ar_propose_webhook_effect)
      (rule edit_mirrored [OF assms(1) x(1) _ s'], assumption, assumption, simp add: lib_config_def)
  with run show ?thesis by blast
qed

lemma simulate_confirm_webhook:
  assumes "mirrors s (view_of t)" "sec_confirm_webhook a i (host_ctx c) s = (Inr u, s')"
  shows "\<exists>t'. ar_confirm_webhook a i c t = (Inr (), t') \<and> mirrors s' (view_of t')"
proof -
  from assms(2) obtain x h es where x: "p_get (SecAlerts s) i = Some x" "sec_owner x = a"
    "authorized c a" "sec_pending_webhook_hash x = Some h" and
    s': "s' = (SecAlerts_update (p_extend (host_ctx c) i SEC_DEFAULT_TTL SEC_DEFAULT_TTL)
        (SecAlerts_update (p_set (host_ctx c) i (x\<lparr>sec_pending_webhook_hash := None,
          sec_webhook_hash := h, sec_updated_at := timestamp c\<rparr>)) s))\<lparr>events := es\<rparr>"
    by (auto simp: sec_confirm_webhook_def sec_step_defs split: if_splits)
  with mirrors_stored [OF assms(1) x(1)]
  obtain t' where run: "ar_confirm_webhook a i c t = (Inr (), t')"
    by (auto simp: ar_confirm_webhook_def op_ok)
  then have "mirrors s' (view_of t')"
    by (rule ar_confirm_webhook_effect)
      (rule edit_mirrored [OF assms(1) x(1) _ s'], assumption, assumption,
       use x(4) in \<open>simp add: lib_config_def\<close>)
  with run show ?thesis by blast
qed

section \<open>Registration and removal are simulated\<close>

lemma count_loop_SomeD: "count_loop p xs n = Some m \<Longrightarrow> unat m = unat n + length (filter p xs)"
proof (induction xs arbitrary: n)
  case (Cons x xs)
  then show ?case
    by (cases "p x") (auto dest: checked_add_SomeD split: option.splits)
qed simp

lemma sec_limit_within:
  assumes "mirrors s v" "sec_assert_per_owner_limit a c s = (Inr u, s')"
  shows "within_limit a 1 v"
proof (cases "SecLimit s")
  case None
  with assms(1) show ?thesis by (simp add: within_limit_def mirrors_def)
next
  case (Some l)
  let ?n = "length (filter (\<lambda>i. p_get (SecAlerts s) i \<noteq> None) (ids_at (SecOwnerIndexes s) a))"
  have view: "v_limit v = l" "filter (\<lambda>i. v_alerts v i \<noteq> None) (v_owned v a)
      = filter (\<lambda>i. p_get (SecAlerts s) i \<noteq> None) (ids_at (SecOwnerIndexes s) a)"
    using assms(1) Some by (simp_all add: mirrors_def)
  show ?thesis
  proof (cases "l = 0")
    case False
    then have "0 < l" by (simp add: word_neq_0_conv)
    with assms(2) Some obtain n where
      n: "count_loop (sec_has_alert s) (sec_owner_index s a) 0 = Some n" "n < l"
      by (auto simp: sec_assert_per_owner_limit_def sec_ok not_le split: if_splits)
    have "sec_has_alert s = (\<lambda>i. p_get (SecAlerts s) i \<noteq> None)"
      by (simp add: fun_eq_iff sec_has_alert_def p_has_get)
    then have "unat n = ?n"
      using count_loop_SomeD [OF n(1)] by (simp add: sec_index_ids)
    from this [symmetric] have "n = word_of_nat ?n" by simp
    with n(2) view show ?thesis
      by (auto simp: within_limit_def word_le_nat_alt word_less_nat_alt unat_saturating_add min_def)
  qed (use view in \<open>simp add: within_limit_def\<close>)
qed

lemma simulate_register:
  assumes "mirrors s (view_of t)" "view_exact (view_of t)"
    "sec_register_alert a tg l h r (host_ctx c) s = (Inr i, s')" "length h = 64" "r \<noteq> []" "distinct r"
  shows "\<exists>t'. ar_register_alert a tg l h r None c t = (Inr i, t') \<and> mirrors s' (view_of t')"
proof -
  note eff = sec_register_alert_effect [OF assms(3)]
  note prune = mirrors_prune [OF assms(1,2)]
  from assms(3) obtain w where "sec_assert_per_owner_limit a (host_ctx c) s = (Inr (), w)"
    by (auto simp: sec_register_alert_def sec_validate_label_def sec_ok sec_rules_ok)
  from sec_limit_within [OF assms(1) this] have limit: "within_limit a 1 (view_of t)" .
  from assms(3) have guards: "length l \<le> 128" "valid_rules r"
    "unat (sec_get_alert_count s) + 1 < 18446744073709551616"
    using sec_rules_valid [OF _ assms(5,6)]
    by (auto simp: sec_register_alert_def sec_validate_label_def sec_ok dest!: sec_guards_keep(3))
  have frame: "sec_is_paused s' = sec_is_paused s" "SecAdmin s' = SecAdmin s" "SecLimit s' = SecLimit s"
    using assms(3) by (auto simp: sec_register_alert_def sec_ok sec_is_paused_def dest!: sec_guards_keep)
  let ?cfg = "new_config a tg l h r None (timestamp c)"
  have "\<exists>t'. ar_register_alert a tg l h r None c t = (Inr i, t')"
    unfolding ar_register_alert_iff prune using limit guards eff(1-5) assms(1,4)
    by (simp add: mirrors_def valid_tags_def)
  then obtain t' where run: "ar_register_alert a tg l h r None c t = (Inr i, t')" ..
  have "mirrors s' (create ?cfg (view_of t))"
    using assms(1) eff(3) frame
    by (auto simp: mirrors_def create_def emit_def Let_def list_under_def fun_eq_iff eff(6-9)
        new_config_def lib_config_def)
  with run show ?thesis by (simp add: ar_register_alert_effect(12) [OF run] prune)
qed

text \<open>Removal by the owner and by an admin.\<close>

lemma sec_remove_record_mirrored:
  assumes "mirrors s (view_of t)" "sec_remove_alert_record x i a c s = (Inr u, s')"
  shows "mirrors s' (erase i (lib_config x) (view_of t))"
  using assms
  by (auto simp: sec_remove_alert_record_def sec_ok mirrors_def erase_def unlist_under_def
      sec_get_alert_count_def sec_is_paused_def fun_eq_iff)

lemma simulate_remove:
  assumes "mirrors s (view_of t)" "sec_remove_alert a i (host_ctx c) s = (Inr u, s')"
  shows "\<exists>t'. ar_remove_alert a i c t = (Inr (), t') \<and> mirrors s' (view_of t')"
proof -
  from assms(2) obtain x where x: "p_get (SecAlerts s) i = Some x" "sec_owner x = a"
    "authorized c a" "\<not> sec_is_paused s"
    "sec_remove_alert_record x i a (host_ctx c) s = (Inr (), s')"
    by (auto simp: sec_remove_alert_def sec_step_defs split: if_splits)
  note stored = mirrors_stored [OF assms(1) x(1)]
  from remove_returns [of t i "lib_config x" c] stored x mirrors_paused [OF assms(1)]
  obtain t' where run: "ar_remove_alert a i c t = (Inr (), t')" by auto
  then have "mirrors s' (view_of t')"
    by (rule ar_remove_alert_effect)
      (use stored sec_remove_record_mirrored [OF assms(1) x(5)] in simp)
  with run show ?thesis by blast
qed

lemma simulate_remove_by_admin:
  assumes "mirrors s (view_of t)" "sec_remove_alert_by_admin a i (host_ctx c) s = (Inr u, s')"
  shows "\<exists>t'. ar_remove_alert_by_admin a i c t = (Inr (), t') \<and> mirrors s' (view_of t')"
proof -
  from assms(2) obtain x where x: "p_get (SecAlerts s) i = Some x" "authorized c a"
    "SecAdmin s = Some a" "\<not> sec_is_paused s"
    "sec_remove_alert_record x i a (host_ctx c) s = (Inr (), s')"
    by (auto simp: sec_remove_alert_by_admin_def sec_step_defs sec_admin_gate.is_admin_of_def)
  note stored = mirrors_stored [OF assms(1) x(1)]
  from stored x mirrors_paused [OF assms(1)] mirrors_admin [OF assms(1)]
  obtain t' where run: "ar_remove_alert_by_admin a i c t = (Inr (), t')"
    by (auto simp: ar_remove_alert_by_admin_def ar_remove_alert_record_by_admin_def op_ok
        ar_admin.is_admin_of_def)
  then have "mirrors s' (view_of t')"
    by (rule ar_remove_alert_by_admin_effect)
      (use stored sec_remove_record_mirrored [OF assms(1) x(5)] in simp)
  with run show ?thesis by blast
qed

section \<open>Configuration and lifetimes are simulated\<close>

lemma simulate_config:
  assumes "mirrors s (view_of t)"
  shows "sec_initialize a (host_ctx c) s = (Inr u, s') \<Longrightarrow> ADMIN t = None \<Longrightarrow>
      \<exists>t'. ar_initialize a c t = (Inr (), t') \<and> mirrors s' (view_of t')"
    "sec_transfer_admin a b (host_ctx c) s = (Inr u, s') \<Longrightarrow>
      \<exists>t'. ar_transfer_admin a b c t = (Inr (), t') \<and> mirrors s' (view_of t')"
    "sec_set_per_owner_alert_limit a l (host_ctx c) s = (Inr u, s') \<Longrightarrow>
      \<exists>t'. ar_set_per_owner_alert_limit a l c t = (Inr (), t') \<and> mirrors s' (view_of t')"
    "sec_set_paused a p (host_ctx c) s = (Inr u, s') \<Longrightarrow>
      \<exists>t'. ar_set_paused a p c t = (Inr (), t') \<and> mirrors s' (view_of t')"
  using assms
  by (auto simp: sec_initialize_def sec_transfer_admin_def sec_set_per_owner_alert_limit_def
      sec_set_paused_def ar_initialize_def ar_transfer_admin_def ar_set_per_owner_alert_limit_def
      ar_set_paused_def op_ok sec_ok ar_admin.is_admin_of_def sec_admin_gate.is_admin_of_def
      mirrors_def sec_get_alert_count_def sec_is_paused_def word_less_1)

lemma sec_extend_mirrored:
  "sec_extend_alert_ttl i c s = (Inr u, s') \<Longrightarrow> mirrors s' = mirrors s"
  "sec_extend_owner_index_ttl a c s = (Inr u, s') \<Longrightarrow> mirrors s' = mirrors s"
  "sec_extend_contract_index_ttl a c s = (Inr u, s') \<Longrightarrow> mirrors s' = mirrors s"
  "sec_extend_next_id_ttl c s = (Inr u, s') \<Longrightarrow> mirrors s' = mirrors s"
  by (auto simp: sec_extend_alert_ttl_def sec_extend_owner_index_ttl_def sec_ok
      sec_extend_contract_index_ttl_def sec_extend_next_id_ttl_def mirrors_def fun_eq_iff
      sec_get_alert_count_def sec_is_paused_def split: if_splits)

lemma sec_events_mirrored: "mirrors (s\<lparr>events := es\<rparr>) = mirrors s"
  by (simp add: mirrors_def fun_eq_iff sec_get_alert_count_def sec_is_paused_def)

lemma sec_renew_mirrored:
  "sec_renew_alert_ttl a i c s = (Inr u, s') \<Longrightarrow> mirrors s' = mirrors s"
  by (auto simp: sec_renew_alert_ttl_def sec_step_defs dest!: sec_extend_mirrored split: if_splits)

lemma sec_bulk_renew_loop_mirrored:
  "sec_bulk_renew_loop ids m c s = (Inr n, s') \<Longrightarrow> mirrors s' = mirrors s"
proof (induction ids arbitrary: m s)
  case (Cons j ids)
  show ?case
  proof (cases "p_get (SecAlerts s) j")
    case None
    with Cons show ?thesis by (simp add: sec_get_alert_def sec_ok)
  next
    case (Some x)
    with Cons.prems obtain k t1 t2 t3 where
      "sec_extend_alert_ttl j c s = (Inr (), t1)"
      "sec_extend_owner_index_ttl (sec_owner x) c t1 = (Inr (), t2)"
      "sec_extend_contract_index_ttl (sec_target_contract x) c t2 = (Inr (), t3)" and
      rest: "sec_bulk_renew_loop ids k c (t3\<lparr>events := events t3 @ [\<lparr>topic0 = ''alert'',
        topic1 = ''bump'', event_data = [VU64 j]\<rparr>]\<rparr>) = (Inr n, s')"
      by (auto simp: sec_get_alert_def sec_ok)
    with Cons.IH [OF rest] show ?thesis
      by (auto simp: sec_events_mirrored dest!: sec_extend_mirrored)
  qed
qed (simp add: ret_ok)

lemma sec_bulk_renew_mirrored:
  "sec_bulk_renew_ttl ids c s = (Inr n, s') \<Longrightarrow> mirrors s' = mirrors s"
  by (auto simp: sec_bulk_renew_ttl_def ret_ok dest: sec_bulk_renew_loop_mirrored split: if_splits)

lemma mirrors_log: "mirrors s (log es v) = mirrors s v" "mirrors s (renewals ids v) = mirrors s v"
  by (simp_all add: mirrors_def log_def renewals_def)

lemma simulate_renew:
  assumes "mirrors s (view_of t)" "\<And>i. p_get (Alerts t) i \<noteq> None \<Longrightarrow> fully_stored i t"
  shows "sec_renew_alert_ttl a i (host_ctx c) s = (Inr u, s') \<Longrightarrow>
      \<exists>t'. ar_bump_alert i 100 c t = (Inr (), t') \<and> mirrors s' (view_of t')"
    "sec_bulk_renew_ttl ids (host_ctx c) s = (Inr n, s') \<Longrightarrow> length ids \<le> 50 \<Longrightarrow>
      \<exists>m t'. ar_bulk_renew_ttl ids c t = (Inr m, t') \<and> mirrors s' (view_of t')"
proof -
  assume run: "sec_renew_alert_ttl a i (host_ctx c) s = (Inr u, s')"
  then obtain x where "p_get (SecAlerts s) i = Some x" "\<not> sec_is_paused s"
    by (auto simp: sec_renew_alert_ttl_def sec_step_defs split: if_splits)
  with mirrors_stored [OF assms(1), of i] mirrors_paused [OF assms(1)] assms(2) [of i]
  have "\<not> ar_is_paused t \<and> fully_stored i t" by simp
  then obtain t' where lib: "ar_bump_alert i 100 c t = (Inr (), t')"
    using bump_returns_iff by blast
  then show "\<exists>t'. ar_bump_alert i 100 c t = (Inr (), t') \<and> mirrors s' (view_of t')"
    using assms(1) sec_renew_mirrored [OF run]
    by (auto elim!: ar_bump_alert_effect)
next
  assume run: "sec_bulk_renew_ttl ids (host_ctx c) s = (Inr n, s')" and "length ids \<le> 50"
  with assms(2) obtain m t' where lib: "ar_bulk_renew_ttl ids c t = (Inr m, t')"
    using bulk_renew_returns_iff [of ids c t] by blast
  then have "view_of t' = renewals ids (view_of t)"
    using ar_bulk_renew_loop_effect by (auto simp: ar_bulk_renew_ttl_def ok_simps)
  with lib assms(1) sec_bulk_renew_mirrored [OF run]
  show "\<exists>m t'. ar_bulk_renew_ttl ids c t = (Inr m, t') \<and> mirrors s' (view_of t')"
    by (auto simp: mirrors_log)
qed

section \<open>Runs\<close>

lemma sec_exec_simulated:
  assumes "ar_reachable False t" "mirrors s (view_of t)" "acceptable call"
    "sec_exec call (host_ctx c) s = (Inr u, s')"
  shows "\<exists>t'. ar_exec (lib_call call) c t = (Inr (), t') \<and> mirrors s' (view_of t')"
proof -
  have stored: "p_get (Alerts t) i \<noteq> None \<Longrightarrow> fully_stored i t" for i
    using fully_stored_reachable [OF assms(1)] by blast
  have fresh: "ADMIN t = None" if "SecAdmin s = None"
    using no_admin_entry [OF assms(1)] mirrors_admin [OF assms(2)] that by simp
  note exact = view_exact_reachable [OF assms(1)]
  note sims = simulate_config [OF assms(2)] simulate_propose_webhook [OF assms(2)]
    simulate_confirm_webhook [OF assms(2)]
    simulate_remove [OF assms(2)] simulate_remove_by_admin [OF assms(2)]
  show ?thesis
  proof (cases call)
    case (SecInitialize a)
    with assms(4) have "SecAdmin s = None" by (auto simp: sec_initialize_def sec_ok)
    with SecInitialize assms(4) fresh sims(1) show ?thesis by auto
  next
    case (SecRegister a tg l h r)
    with assms(4) obtain i where "sec_register_alert a tg l h r (host_ctx c) s = (Inr i, s')"
      by (auto simp: discard_ok)
    from simulate_register [OF assms(2) exact this] SecRegister assms(3) show ?thesis
      by (auto simp: discard_ok)
  next
    case (SecUpdateAlert a i r b)
    with assms(3,4) simulate_update_alert [OF assms(2), of a i r b c u s'] stored
    show ?thesis by auto
  next
    case (SecUpdateWebhook x y a i h)
    with assms(3,4) simulate_update_webhook [OF assms(2), of x y a i h c u s'] stored
    show ?thesis by auto
  next
    case (SecRenew a i)
    with assms(4) simulate_renew(1) [OF assms(2), of a i c u s'] stored show ?thesis by auto
  next
    case (SecBulkRenew ids)
    with assms(4) obtain n where "sec_bulk_renew_ttl ids (host_ctx c) s = (Inr n, s')"
      by (auto simp: discard_ok)
    from simulate_renew(2) [OF assms(2) stored this] SecBulkRenew assms(3) show ?thesis
      by (auto simp: discard_ok)
  qed (use assms(3,4) in \<open>auto dest: sims\<close>)
qed

text \<open>A run of invocations, one after the other, none of which fails.\<close>

fun sec_run :: "(sec_call \<times> alert_ctx) list \<Rightarrow> sec_state \<Rightarrow> sec_state option" where
  "sec_run [] s = Some s"
| "sec_run ((call, c) # calls) s =
     (case sec_exec call (host_ctx c) s of (Inl y, t) \<Rightarrow> None | (Inr u, t) \<Rightarrow> sec_run calls t)"

fun lib_run :: "(sec_call \<times> alert_ctx) list \<Rightarrow> alert_state \<Rightarrow> alert_state option" where
  "lib_run [] s = Some s"
| "lib_run ((call, c) # calls) s =
     (case ar_exec (lib_call call) c s of (Inl y, t) \<Rightarrow> None | (Inr u, t) \<Rightarrow> lib_run calls t)"

definition sec_deployed :: sec_state where
  "sec_deployed =
     \<lparr>events = [], instance_until = 0, SecAdmin = None, SecLimit = None, SecPausedSymbol = None,
      SecPaused = None, SecAlerts = Map.empty, SecOwnerIndexes = Map.empty,
      SecContractIndexes = Map.empty, SecNextIds = Map.empty, SecRateLimits = Map.empty\<rparr>"

lemma deployed_mirrors: "mirrors sec_deployed (view_of ar_deployed)"
  by (simp add: mirrors_def sec_deployed_def ar_deployed_def ar_load_admins_def ar_is_paused_def
      ar_get_per_owner_alert_limit_def ar_get_alert_count_def sec_get_alert_count_def
      sec_is_paused_def fun_eq_iff)

lemma sec_run_simulated:
  "sec_run calls s = Some s' \<Longrightarrow> \<forall>x \<in> set calls. acceptable (fst x) \<Longrightarrow> ar_reachable False t \<Longrightarrow>
   mirrors s (view_of t) \<Longrightarrow> \<exists>t'. lib_run calls t = Some t' \<and> mirrors s' (view_of t')"
proof (induction calls arbitrary: s t)
  case (Cons x calls)
  obtain call c where x: "x = (call, c)" by force
  with Cons.prems(1) obtain s1 where step: "sec_exec call (host_ctx c) s = (Inr (), s1)"
    and rest: "sec_run calls s1 = Some s'"
    by (auto split: prod.splits sum.splits)
  with sec_exec_simulated [OF Cons.prems(3,4) _ step] Cons.prems(2) x obtain t1 where
    lib: "ar_exec (lib_call call) c t = (Inr (), t1)" and sim: "mirrors s1 (view_of t1)"
    by auto
  from Cons.IH [OF rest _ reachable_call [OF Cons.prems(3) lib] sim] Cons.prems(2) lib x
  show ?case by simp
qed simp

lemma configs_mirrored:
  "mirrors s (view_of t) \<Longrightarrow> ar_configs_for_ids t ids = map lib_config (sec_configs_for_ids s ids)"
  by (induction ids) (auto simp: mirrors_def split: option.splits)

text \<open>
  C6. The compiled contract can stand in for the second implementation: whatever sequence of
  calls that are acceptable to lib.rs runs through on a freshly deployed contract.rs, the same
  calls run through on a freshly deployed lib.rs; and afterwards the two queries of the second
  implementation return exactly the alerts that lib.rs has for the same owner and the same
  target, in the same order, and both have assigned the same number of identifiers.
\<close>

theorem sec_refined_by_lib:
  assumes "sec_run calls sec_deployed = Some s" "\<forall>x \<in> set calls. acceptable (fst x)"
  shows "\<exists>t. lib_run calls ar_deployed = Some t \<and>
    ar_configs_for_ids t (ar_owner_index t a) = map lib_config (sec_get_alerts_by_owner s a) \<and>
    ar_configs_for_ids t (ar_contract_index t a) = map lib_config (sec_get_alerts_for_contract s a) \<and>
    ar_get_alert_count t = sec_get_alert_count s"
proof -
  obtain t where t: "lib_run calls ar_deployed = Some t" and sim: "mirrors s (view_of t)"
    using sec_run_simulated [OF assms ar_reachable.deployed deployed_mirrors] by blast
  from sim show ?thesis
    by (intro exI [of _ t])
      (auto simp: t configs_mirrored [OF sim] ar_owner_index_ids ar_contract_index_ids
        sec_get_alerts_by_owner_def sec_get_alerts_for_contract_def sec_index_ids mirrors_def)
qed

theorem sec_refined_by_lib_witness:
  "\<exists>s t. sec_run [(SecRegister (Address 2) (Address 3) ''x'' sample_hash [''rule:mint''],
            sample_ctx 20 (Address 2))] sec_deployed = Some s \<and>
     lib_run [(SecRegister (Address 2) (Address 3) ''x'' sample_hash [''rule:mint''],
            sample_ctx 20 (Address 2))] ar_deployed = Some t \<and>
     ar_configs_for_ids t (ar_owner_index t (Address 2))
       = map lib_config (sec_get_alerts_by_owner s (Address 2))"
proof -
  let ?calls = "[(SecRegister (Address 2) (Address 3) ''x'' sample_hash [''rule:mint''],
            sample_ctx 20 (Address 2))]"
  have "\<exists>i s. sec_register_alert (Address 2) (Address 3) ''x'' sample_hash [''rule:mint'']
      (host_ctx (sample_ctx 20 (Address 2))) sec_deployed = (Inr i, s)"
    by (simp add: sec_register_alert_def sec_get_alert_count_def sec_validate_label_def sec_rules_ok
        sec_assert_per_owner_limit_def sec_ok sec_deployed_def sec_is_paused_def ex_bool_eq)
  then obtain i s where "sec_register_alert (Address 2) (Address 3) ''x'' sample_hash [''rule:mint'']
      (host_ctx (sample_ctx 20 (Address 2))) sec_deployed = (Inr i, s)" by blast
  then have run: "sec_run ?calls sec_deployed = Some s"
    by (simp add: discard_def bind_run ret_run)
  from sec_refined_by_lib [OF run, of "Address 2"] run show ?thesis by auto
qed

end
