(* ===== verification/TestHarness.thy ===== *)
theory TestHarness
  imports System ModularRefinement
begin

text \<open>
  The environment of the repository's unit tests. A test is an operation on the state of the
  Soroban test environment: the ledger clock, whether signatures are mocked, the addresses
  generated so far, and the storage of the contracts under test. It panics where an
  assertion of the test fails or a call that the test does not guard aborts.

  Three conventions of the SDK's test utilities are written out. \<open>client.f(..)\<close> panics when the
  call fails and otherwise yields its value; \<open>client.try_f(..)\<close> yields the result, and a
  failed call is rolled back. \<open>Address::generate\<close> returns an address that was not returned
  before. \<open>mock_all_auths\<close> makes every \<open>require_auth\<close> succeed, \<open>set_auths(&[])\<close> none.

  The tests do not type-check as they stand (for one, the value of a generated client call is
  not a \<open>Result\<close>, and has no \<open>unwrap\<close>). They are read as their authors meant them: \<open>unwrap\<close> on the
  value of a call that did not panic is that value, and a missing last argument (\<open>tags\<close>,
  \<open>expires_at\<close>) is \<open>None\<close>.
\<close>

section \<open>The environment\<close>

record test_env =
  test_clock :: u64
  mocked :: bool
  generated :: nat
  alert_store :: alert_state
  watcher_store :: watcher_state
  second_store :: sec_state

type_synonym 'a test = "(unit, test_env, unit, 'a) op"

definition wr_deployed :: watcher_state where
  "wr_deployed =
     \<lparr>events = [], instance_until = 0, Admins = None, Watchers = None, Paused = None,
      Expiries = None, W_CNT = None, WatcherInfos = Map.empty\<rparr>"

lemma wr_deployed_sel:
  "events wr_deployed = []" "Admins wr_deployed = None" "Watchers wr_deployed = None"
  "Paused wr_deployed = None" "Expiries wr_deployed = None" "W_CNT wr_deployed = None"
  "WatcherInfos wr_deployed = Map.empty"
  by (simp_all add: wr_deployed_def)

text \<open>
  \<open>Env::default()\<close> with the contracts registered: \<open>Address 0\<close> is the alert registry,
  \<open>Address 1\<close> the watcher registry. The ledger time starts at 0 and nobody has signed.
\<close>

definition env_default :: test_env where
  "env_default =
     \<lparr>test_clock = 0, mocked = False, generated = 2, alert_store = ar_deployed,
      watcher_store = wr_deployed, second_store = sec_deployed\<rparr>"

definition watcher_registry_id :: address where
  "watcher_registry_id = Address 1"

text \<open>The context in which the test environment runs a call.\<close>

definition call_ctx :: "u64 \<Rightarrow> bool \<Rightarrow> ctx" where
  "call_ctx t auths =
     \<lparr>timestamp = t, sequence = 0, authorized = (\<lambda>_. auths),
      extend_until = sdk_extend 0 6311999, fresh_until = 4095\<rparr>"

definition watcher_call_ctx :: "u64 \<Rightarrow> bool \<Rightarrow> watcher_ctx" where
  "watcher_call_ctx t auths =
     ctx.extend (call_ctx t auths) \<lparr>MAX_LABEL_BYTES = 64, MAX_PAGE_LIMIT = 50\<rparr>"

definition alert_call_ctx :: "u64 \<Rightarrow> bool \<Rightarrow> watcher_state \<Rightarrow> alert_ctx" where
  "alert_call_ctx t auths ws =
     ctx.extend (call_ctx t auths) \<lparr>watcher_call = (\<lambda>r q.
       if r = watcher_registry_id then
         (case fst (wr_is_watcher_authorized q (watcher_call_ctx t auths) ws) of
            Inr b \<Rightarrow> Some b
          | Inl y \<Rightarrow> None)
       else None)\<rparr>"

section \<open>The steps of a test\<close>

definition generate :: "address test" where
  "generate = (\<lambda>_ e. (Inr (Address (generated e)), e\<lparr>generated := generated e + 1\<rparr>))"

definition set_mocked :: "bool \<Rightarrow> unit test" where
  "set_mocked b = modify (\<lambda>e. e\<lparr>mocked := b\<rparr>)"

definition set_timestamp :: "u64 \<Rightarrow> unit test" where
  "set_timestamp t = modify (\<lambda>e. e\<lparr>test_clock := t\<rparr>)"

definition check :: "bool \<Rightarrow> unit test" where
  "check b = (\<lambda>_ e. if b then (Inr (), e) else (Inl Trap, e))"

text \<open>\<open>client.f(..)\<close> and \<open>client.try_f(..)\<close>, one pair for each contract.\<close>

definition ar_client :: "'a ar_op \<Rightarrow> 'a test" where
  "ar_client m = (\<lambda>_ e.
     case m (alert_call_ctx (test_clock e) (mocked e) (watcher_store e)) (alert_store e) of
       (r, s) \<Rightarrow> case r of
         Inl y \<Rightarrow> (Inl Trap, e)
       | Inr x \<Rightarrow> (Inr x, e\<lparr>alert_store := s\<rparr>))"

definition ar_try :: "'a ar_op \<Rightarrow> (ar_error failure + 'a) test" where
  "ar_try m = (\<lambda>_ e.
     case m (alert_call_ctx (test_clock e) (mocked e) (watcher_store e)) (alert_store e) of
       (r, s) \<Rightarrow> case r of
         Inl y \<Rightarrow> (Inr (Inl y), e)
       | Inr x \<Rightarrow> (Inr (Inr x), e\<lparr>alert_store := s\<rparr>))"

definition wr_client :: "'a wr_op \<Rightarrow> 'a test" where
  "wr_client m = (\<lambda>_ e.
     case m (watcher_call_ctx (test_clock e) (mocked e)) (watcher_store e) of
       (r, s) \<Rightarrow> case r of
         Inl y \<Rightarrow> (Inl Trap, e)
       | Inr x \<Rightarrow> (Inr x, e\<lparr>watcher_store := s\<rparr>))"

definition wr_try :: "'a wr_op \<Rightarrow> (wr_error failure + 'a) test" where
  "wr_try m = (\<lambda>_ e.
     case m (watcher_call_ctx (test_clock e) (mocked e)) (watcher_store e) of
       (r, s) \<Rightarrow> case r of
         Inl y \<Rightarrow> (Inr (Inl y), e)
       | Inr x \<Rightarrow> (Inr (Inr x), e\<lparr>watcher_store := s\<rparr>))"

definition sec_client :: "'a sec_op \<Rightarrow> 'a test" where
  "sec_client m = (\<lambda>_ e.
     case m (call_ctx (test_clock e) (mocked e)) (second_store e) of
       (r, s) \<Rightarrow> case r of
         Inl y \<Rightarrow> (Inl Trap, e)
       | Inr x \<Rightarrow> (Inr x, e\<lparr>second_store := s\<rparr>))"

text \<open>
  Frequent shapes of an assertion: a call whose value is dropped, a call with a predicate on
  its value, a predicate on what a read-only entry point returns, and the two outcomes of a
  guarded call.
\<close>

definition ar_do :: "'a ar_op \<Rightarrow> unit test" where
  "ar_do m = bind (ar_client m) (\<lambda>_. ret ())"

definition ar_gives :: "'a ar_op \<Rightarrow> ('a \<Rightarrow> bool) \<Rightarrow> unit test" where
  "ar_gives m p = bind (ar_client m) (\<lambda>x. check (p x))"

definition ar_shows :: "(alert_state \<Rightarrow> bool) \<Rightarrow> unit test" where
  "ar_shows p = bind (gets alert_store) (\<lambda>s. check (p s))"

definition ar_returns :: "'a ar_op \<Rightarrow> 'a \<Rightarrow> unit test" where
  "ar_returns m x = bind (ar_try m) (\<lambda>r. check (r = Inr x))"

definition ar_rejects :: "'a ar_op \<Rightarrow> ar_error \<Rightarrow> unit test" where
  "ar_rejects m y = bind (ar_try m) (\<lambda>r. check (r = Inl (Err y)))"

definition wr_do :: "'a wr_op \<Rightarrow> unit test" where
  "wr_do m = bind (wr_client m) (\<lambda>_. ret ())"

definition wr_gives :: "'a wr_op \<Rightarrow> ('a \<Rightarrow> bool) \<Rightarrow> unit test" where
  "wr_gives m p = bind (wr_client m) (\<lambda>x. check (p x))"

definition wr_shows :: "(watcher_state \<Rightarrow> bool) \<Rightarrow> unit test" where
  "wr_shows p = bind (gets watcher_store) (\<lambda>s. check (p s))"

definition wr_returns :: "'a wr_op \<Rightarrow> 'a \<Rightarrow> unit test" where
  "wr_returns m x = bind (wr_try m) (\<lambda>r. check (r = Inr x))"

definition wr_rejects :: "'a wr_op \<Rightarrow> wr_error \<Rightarrow> unit test" where
  "wr_rejects m y = bind (wr_try m) (\<lambda>r. check (r = Inl (Err y)))"

definition sec_do :: "'a sec_op \<Rightarrow> unit test" where
  "sec_do m = bind (sec_client m) (\<lambda>_. ret ())"

definition sec_gives :: "'a sec_op \<Rightarrow> ('a \<Rightarrow> bool) \<Rightarrow> unit test" where
  "sec_gives m p = bind (sec_client m) (\<lambda>x. check (p x))"

definition sec_shows :: "(sec_state \<Rightarrow> bool) \<Rightarrow> unit test" where
  "sec_shows p = bind (gets second_store) (\<lambda>s. check (p s))"

text \<open>\<open>client.get_alert(&id).unwrap()\<close>, and the predicate of a search in the event log.\<close>

definition ar_fetch :: "u64 \<Rightarrow> alert_config test" where
  "ar_fetch aid = bind (ar_client (ar_get_alert aid)) unwrap"

definition is_event :: "string \<Rightarrow> string \<Rightarrow> event \<Rightarrow> bool" where
  "is_event t0 t1 ev \<longleftrightarrow> topic0 ev = t0 \<and> topic1 ev = t1"

text \<open>
  The verdict: a test passes when its body runs to its end, a test that is marked
  \<open>should_panic\<close> when it does not. The message that such a mark expects is not modelled.
\<close>

definition passes :: "unit test \<Rightarrow> bool" where
  "passes t = (case fst (t () env_default) of Inl y \<Rightarrow> False | Inr u \<Rightarrow> True)"

definition panics :: "unit test \<Rightarrow> bool" where
  "panics t \<longleftrightarrow> \<not> passes t"

section \<open>Running a test\<close>

named_theorems test_runs "equations that run a test on the environment"

lemmas on_args = fun_cong [THEN fun_cong]

lemma check_run [test_runs]: "check b u e = (if b then (Inr (), e) else (Inl Trap, e))"
  by (simp add: check_def)

lemma if_op_run [test_runs]: "(if b then f else g) c s = (if b then f c s else g c s)"
  by simp

lemma let_op_run [test_runs]: "(Let x f) c s = f x c s"
  by simp

lemma generate_run [test_runs]:
  "generate u e = (Inr (Address (generated e)), e\<lparr>generated := generated e + 1\<rparr>)"
  by (simp add: generate_def)

lemma call_ctx_sel [test_runs]:
  "timestamp (call_ctx t b) = t" "authorized (call_ctx t b) a = b"
  "timestamp (watcher_call_ctx t b) = t" "authorized (watcher_call_ctx t b) a = b"
  "MAX_LABEL_BYTES (watcher_call_ctx t b) = 64" "MAX_PAGE_LIMIT (watcher_call_ctx t b) = 50"
  "timestamp (alert_call_ctx t b ws) = t" "authorized (alert_call_ctx t b ws) a = b"
  by (simp_all add: call_ctx_def watcher_call_ctx_def alert_call_ctx_def ctx.defs)

lemma watcher_call_run [test_runs]:
  "watcher_call (alert_call_ctx t b ws) watcher_registry_id q =
     Some (q \<in> set (wr_load_watchers ws) \<and>
           (case wr_load_expiries ws q of None \<Rightarrow> True | Some x \<Rightarrow> t \<le> x))"
  by (simp add: alert_call_ctx_def ctx.defs wr_is_watcher_authorized_run call_ctx_sel
      split: option.splits)

lemma st_extend_ttl_test [test_runs]:
  "st_extend_ttl sel upd k n t c s =
     (if p_get (sel s) k = None then (Inl Trap, s) else (Inr (), upd (p_extend c k n t) s))"
  by (simp add: st_extend_ttl_def p_has_get)

declare run_simps [test_runs] st_extend_ttl_run [test_runs del]
declare set_mocked_def [THEN on_args, test_runs] set_timestamp_def [THEN on_args, test_runs]
  ar_client_def [THEN on_args, test_runs] ar_try_def [THEN on_args, test_runs]
  wr_client_def [THEN on_args, test_runs] wr_try_def [THEN on_args, test_runs]
  sec_client_def [THEN on_args, test_runs]
  ar_do_def [THEN on_args, test_runs] ar_gives_def [THEN on_args, test_runs]
  ar_shows_def [THEN on_args, test_runs] ar_returns_def [THEN on_args, test_runs]
  ar_rejects_def [THEN on_args, test_runs]
  wr_do_def [THEN on_args, test_runs] wr_gives_def [THEN on_args, test_runs]
  wr_shows_def [THEN on_args, test_runs] wr_returns_def [THEN on_args, test_runs]
  wr_rejects_def [THEN on_args, test_runs]
  sec_do_def [THEN on_args, test_runs] sec_gives_def [THEN on_args, test_runs]
  sec_shows_def [THEN on_args, test_runs]

declare ar_fetch_def [THEN on_args, test_runs] is_event_def [test_runs]
declare passes_def [test_runs] panics_def [test_runs] env_default_def [test_runs]
  checked_add_def [test_runs] saturating_add_def [test_runs]
  unat_max_word [test_runs] upt_conv_Cons [test_runs] p_has_get [test_runs]

section \<open>The equations of the contracts\<close>

text \<open>The definitions of the operations, applied to context and state, and of the readers.\<close>

lemmas alert_runs =
  ar_assert_not_paused_def [THEN on_args] ar_assert_watcher_if_configured_def [THEN on_args]
  ar_assert_owner_def [THEN on_args] ar_set_admins_def [THEN on_args]
  ar_assert_admin_def [THEN on_args] ar_validate_tags_def [THEN on_args]
  ar_validate_label_def [THEN on_args] ar_validate_rule_def [THEN on_args]
  ar_validate_rules_def [THEN on_args] ar_next_id_def [THEN on_args]
  ar_put_alert_def [THEN on_args] ar_put_active_def [THEN on_args]
  ar_load_alert_def [THEN on_args] ar_push_owner_index_def [THEN on_args]
  ar_push_contract_index_def [THEN on_args] ar_remove_from_owner_index_def [THEN on_args]
  ar_remove_from_contract_index_def [THEN on_args]
  ar_assert_per_owner_limit_for_def [THEN on_args] ar_assert_per_owner_limit_def [THEN on_args]
  ar_remove_alert_record_def [THEN on_args] ar_remove_alert_record_by_admin_def [THEN on_args]
  ar_initialize_def [THEN on_args] ar_transfer_admin_def [THEN on_args]
  ar_add_admin_def [THEN on_args] ar_remove_admin_def [THEN on_args]
  ar_get_admin_def [THEN on_args] ar_set_per_owner_alert_limit_def [THEN on_args]
  ar_set_paused_def [THEN on_args] ar_set_watcher_registry_def [THEN on_args]
  ar_register_alert_def [THEN on_args] ar_batch_register_alerts_def [THEN on_args]
  ar_set_alert_active_by_admin_def [THEN on_args] ar_pause_alert_def [THEN on_args]
  ar_unpause_alert_def [THEN on_args] ar_update_alert_def [THEN on_args]
  ar_update_webhook_def [THEN on_args] ar_propose_webhook_def [THEN on_args]
  ar_confirm_webhook_def [THEN on_args] ar_update_label_def [THEN on_args]
  ar_remove_alert_def [THEN on_args] ar_remove_alert_by_admin_def [THEN on_args]
  ar_bump_alert_def [THEN on_args] ar_bulk_renew_ttl_def [THEN on_args]
  ar_get_alerts_for_contract_def [THEN on_args] ar_get_alerts_by_owner_def [THEN on_args]
  ar_get_contract_alerts_paginated_def [THEN on_args]
  ar_get_alerts_by_owner_paginated_def [THEN on_args] ar_get_alert_def [THEN on_args]
  ar_deactivate_all_alerts_def [THEN on_args] ar_update_target_contract_def [THEN on_args]
  ar_update_tags_def [THEN on_args] ar_transfer_alert_ownership_def [THEN on_args]
  ar_get_active_alert_count_def [THEN on_args]

lemmas alert_reads =
  AR_DEFAULT_TTL_def AR_MAX_TTL_def AR_MAX_BATCH_SIZE_def AR_MAX_TAGS_def AR_MAX_TAG_BYTES_def
  ar_is_paused_def ar_load_admins_def ar_get_alert_count_def ar_owner_index_def
  ar_contract_index_def ar_live_ids_def ar_configs_paginated_def
  ar_get_per_owner_alert_limit_def ar_get_admins_def ar_get_watcher_registry_def
  ar_get_alert_ids_for_contract_def ar_get_alert_ids_by_owner_def
  ar_get_active_alerts_for_contract_def ar_get_active_alerts_paginated_def
  ar_get_alert_active_def ar_get_alerts_modified_since_def ar_get_alerts_updated_since_def
  ar_deployed_def

lemmas watcher_runs =
  wr_extend_instance_ttl_def [THEN on_args] wr_save_info_def [THEN on_args]
  wr_increment_watcher_count_def [THEN on_args] wr_decrement_watcher_count_def [THEN on_args]
  wr_assert_not_paused_def [THEN on_args] wr_set_expiry_def [THEN on_args]
  wr_assert_admin_def [THEN on_args] wr_initialize_def [THEN on_args]
  wr_add_admin_def [THEN on_args] wr_remove_admin_def [THEN on_args]
  wr_transfer_admin_def [THEN on_args] wr_register_watcher_body_def [THEN on_args]
  wr_register_watcher_def [THEN on_args] wr_remove_watcher_def [THEN on_args]
  wr_replace_watcher_def [THEN on_args] wr_batch_register_watchers_def [THEN on_args]
  wr_renew_watcher_def [THEN on_args] wr_set_paused_def [THEN on_args]
  wr_is_watcher_authorized_def [THEN on_args] wr_is_authorized_def [THEN on_args]
  wr_clear_all_watchers_def [THEN on_args] wr_get_admins_def [THEN on_args]
  wr_get_admin_def [THEN on_args]

lemmas watcher_reads =
  WR_DEFAULT_TTL_def WR_MAX_BATCH_SIZE_def MAX_WATCHERS_def wr_is_paused_def wr_load_admins_def
  wr_load_watchers_def wr_load_expiries_def wr_get_watcher_count_def wr_get_watchers_def
  wr_get_all_watchers_def wr_get_all_watchers_paginated_def wr_get_watcher_info_def
  wr_is_initialized_def wr_is_admin_def wr_deployed_sel

lemmas second_runs =
  sec_next_id_def [THEN on_args] sec_extend_next_id_ttl_def [THEN on_args]
  sec_set_alert_def [THEN on_args] sec_storage_remove_alert_def [THEN on_args]
  sec_extend_alert_ttl_def [THEN on_args] sec_push_owner_index_def [THEN on_args]
  sec_remove_from_owner_index_def [THEN on_args] sec_extend_owner_index_ttl_def [THEN on_args]
  sec_push_contract_index_def [THEN on_args] sec_remove_from_contract_index_def [THEN on_args]
  sec_extend_contract_index_ttl_def [THEN on_args] sec_bulk_renew_one_def [THEN on_args]
  sec_configs_paginated_def [THEN on_args] sec_storage_set_admin_def [THEN on_args]
  sec_storage_set_limit_def [THEN on_args] sec_storage_set_paused_def [THEN on_args]
  sec_check_rate_limit_def [THEN on_args] sec_assert_owner_def [THEN on_args]
  sec_assert_not_paused_def [THEN on_args] sec_assert_admin_def [THEN on_args]
  sec_assert_per_owner_limit_def [THEN on_args] sec_validate_label_def [THEN on_args]
  sec_validate_rules_def [THEN on_args] sec_remove_alert_record_def [THEN on_args]
  sec_load_alert_def [THEN on_args] sec_register_alert_def [THEN on_args]
  sec_update_alert_def [THEN on_args] sec_update_webhook_def [THEN on_args]
  sec_propose_webhook_def [THEN on_args] sec_confirm_webhook_def [THEN on_args]
  sec_renew_alert_ttl_def [THEN on_args] sec_bulk_renew_ttl_def [THEN on_args]
  sec_remove_alert_def [THEN on_args] sec_initialize_def [THEN on_args]
  sec_transfer_admin_def [THEN on_args] sec_get_admin_def [THEN on_args]
  sec_set_per_owner_alert_limit_def [THEN on_args] sec_remove_alert_by_admin_def [THEN on_args]
  sec_get_contract_alerts_paginated_def [THEN on_args]
  sec_get_alerts_by_owner_paginated_def [THEN on_args]
  sec_get_active_alert_count_def [THEN on_args]
  sec_get_alert_count_for_contract_def [THEN on_args] sec_set_paused_def [THEN on_args]

lemmas second_reads =
  SEC_DEFAULT_TTL_def SEC_MAX_BATCH_SIZE_def RATE_LIMIT_COUNT_def RATE_LIMIT_WINDOW_def
  sec_get_alert_count_def sec_get_alert_def sec_has_alert_def sec_owner_index_def
  sec_contract_index_def sec_storage_get_admin_def sec_storage_has_admin_def
  sec_storage_get_limit_def sec_storage_is_paused_def sec_is_paused_def
  sec_get_per_owner_alert_limit_def sec_get_alerts_for_contract_def sec_get_alerts_by_owner_def
  sec_deployed_def

end
