(* ===== verification/WatcherTests.thy ===== *)
theory WatcherTests
  imports TestHarness
begin

text \<open>
  The unit tests of the watcher registry (module \<open>tests\<close> of
  contracts/watcher-registry/src/lib.rs) and of the second implementation of the alert registry
  (module \<open>tests\<close> of contract.rs), in the order of the sources. The third argument of
  \<open>register_watcher\<close> is read as the label where the test passes a string, and as the expiry
  time otherwise. Two tests of events are left out, \<open>test_remove_watcher_event_shape\<close> and
  \<open>test_remove_watcher_not_registered_no_event\<close>: they suppose that the log of the test
  environment starts anew with every call. Theory WatcherConformance runs the others.
\<close>

definition wr_setup :: "address test" where
  "wr_setup =
     bind (set_mocked True) (\<lambda>_.
     bind generate (\<lambda>admin.
     bind (wr_do (wr_initialize admin)) (\<lambda>_.
     ret admin)))"

text \<open>\<open>get_all_watchers_paginated(offset, limit)\<close> as a call.\<close>

definition wr_page :: "u32 \<Rightarrow> u32 \<Rightarrow> (address list) wr_op" where
  "wr_page offset limit = (\<lambda>c s. (Inr (wr_get_all_watchers_paginated c s offset limit), s))"

text \<open>A vector of addresses, filled by calls of \<open>Address::generate\<close>.\<close>

definition generate_many :: "nat \<Rightarrow> address list test" where
  "generate_many n = (\<lambda>_ e.
     (Inr (map Address [generated e..<generated e + n]), e\<lparr>generated := generated e + n\<rparr>))"

section \<open>Lists, labels, admins\<close>

definition wr_test_get_all_watchers_and_paginated :: "unit test" where
  "wr_test_get_all_watchers_and_paginated =
     bind wr_setup (\<lambda>admin.
     bind (block
       [wr_shows (\<lambda>s. length (wr_get_all_watchers s) = 0),
        wr_gives (wr_page 0 10) (\<lambda>r. length r = 0)]) (\<lambda>_.
     bind generate (\<lambda>w1.
     bind (block
       [wr_do (wr_register_watcher None admin w1 None),
        wr_shows (\<lambda>s. wr_get_all_watchers s = [w1])]) (\<lambda>_.
     bind generate (\<lambda>w2. bind generate (\<lambda>w3.
     block
       [wr_do (wr_register_watcher None admin w2 None),
        wr_do (wr_register_watcher None admin w3 None),
        wr_shows (\<lambda>s. length (wr_get_all_watchers s) = 3),
        wr_gives (wr_page 1 1) (\<lambda>r. r = [w2]),
        wr_gives (wr_page 2 50) (\<lambda>r. r = [w3]),
        wr_gives (wr_page 9 5) (\<lambda>r. length r = 0)]))))))"

definition wr_test_watcher_info_label :: "unit test" where
  "wr_test_watcher_info_label =
     bind wr_setup (\<lambda>admin.
     bind generate (\<lambda>w. bind generate (\<lambda>w2.
     bind (block
       [wr_do (wr_register_watcher (Some ''node-1'') admin w None),
        wr_do (wr_register_watcher None admin w2 None)]) (\<lambda>_.
     bind (gets (\<lambda>e. wr_get_watcher_info (watcher_store e) w)) (\<lambda>found.
     bind (unwrap found) (\<lambda>info.
     block
       [check (info_label info = ''node-1''),
        check (info_registered_by info = admin),
        wr_shows (\<lambda>s. map_option info_label (wr_get_watcher_info s w2) = Some ''''),
        wr_do (wr_remove_watcher admin w),
        wr_shows (\<lambda>s. wr_get_watcher_info s w = None),
        wr_gives (wr_is_authorized w) (\<lambda>b. \<not> b)]))))))"

definition wr_test_label_too_long_rejected :: "unit test" where
  "wr_test_label_too_long_rejected =
     bind wr_setup (\<lambda>admin.
     bind generate (\<lambda>w.
     let long = replicate 65 (CHR ''a'') in
     wr_rejects (wr_register_watcher (Some long) admin w None) wr_error.LabelTooLong))"

definition wr_test_transfer_admin_rejected_with_multiple_admins :: "unit test" where
  "wr_test_transfer_admin_rejected_with_multiple_admins =
     bind wr_setup (\<lambda>admin.
     bind generate (\<lambda>second.
     bind (wr_do (wr_add_admin admin second)) (\<lambda>_.
     bind generate (\<lambda>other.
     block
       [wr_rejects (wr_transfer_admin admin other) wr_error.MultipleAdminsExist,
        wr_gives wr_get_admins (\<lambda>r. length r = 2)]))))"

definition wr_test_get_admins_after_add :: "unit test" where
  "wr_test_get_admins_after_add =
     bind wr_setup (\<lambda>admin.
     bind generate (\<lambda>second.
     block
       [wr_do (wr_add_admin admin second),
        wr_gives wr_get_admins (\<lambda>r. r = [admin, second])]))"

definition wr_test_register_and_is_watcher_authorized :: "unit test" where
  "wr_test_register_and_is_watcher_authorized =
     bind wr_setup (\<lambda>admin.
     bind generate (\<lambda>watcher.
     block
       [wr_gives (wr_is_watcher_authorized watcher) (\<lambda>b. \<not> b),
        wr_returns (wr_register_watcher None admin watcher None) (),
        wr_gives (wr_is_watcher_authorized watcher) (\<lambda>b. b)]))"

definition wr_test_initialize_requires_admin_auth :: "unit test" where
  "wr_test_initialize_requires_admin_auth =
     bind generate (\<lambda>admin.
     wr_do (wr_initialize admin))"

definition wr_test_remove_watcher :: "unit test" where
  "wr_test_remove_watcher =
     bind wr_setup (\<lambda>admin.
     bind generate (\<lambda>watcher.
     block
       [wr_do (wr_register_watcher None admin watcher None),
        wr_returns (wr_remove_watcher admin watcher) (),
        wr_gives (wr_is_watcher_authorized watcher) (\<lambda>b. \<not> b)]))"

definition wr_test_transfer_admin :: "unit test" where
  "wr_test_transfer_admin =
     bind wr_setup (\<lambda>admin.
     bind generate (\<lambda>new_admin. bind generate (\<lambda>watcher.
     block
       [wr_returns (wr_transfer_admin admin new_admin) (),
        wr_returns (wr_register_watcher None new_admin watcher None) (),
        wr_gives (wr_is_watcher_authorized watcher) (\<lambda>b. b)])))"

definition wr_test_transfer_admin_emits_event :: "unit test" where
  "wr_test_transfer_admin_emits_event =
     bind wr_setup (\<lambda>admin.
     bind generate (\<lambda>new_admin.
     block
       [wr_do (wr_transfer_admin admin new_admin),
        wr_shows (\<lambda>s. list_ex (\<lambda>ev. True) (events s))]))"

definition wr_test_register_unauthorized :: "unit test" where
  "wr_test_register_unauthorized =
     bind wr_setup (\<lambda>admin.
     bind generate (\<lambda>attacker. bind generate (\<lambda>watcher.
     wr_rejects (wr_register_watcher None attacker watcher None) wr_error.Unauthorized)))"

definition wr_test_remove_unauthorized :: "unit test" where
  "wr_test_remove_unauthorized =
     bind wr_setup (\<lambda>admin.
     bind generate (\<lambda>attacker. bind generate (\<lambda>watcher.
     block
       [wr_do (wr_register_watcher None admin watcher None),
        wr_rejects (wr_remove_watcher attacker watcher) wr_error.Unauthorized])))"

definition wr_test_double_initialize :: "unit test" where
  "wr_test_double_initialize =
     bind wr_setup (\<lambda>admin.
     bind generate (\<lambda>other.
     wr_rejects (wr_initialize other) wr_error.AlreadyInitialized))"

definition wr_test_is_initialized :: "unit test" where
  "wr_test_is_initialized =
     bind (block
       [set_mocked True,
        wr_shows (\<lambda>s. \<not> wr_is_initialized s)]) (\<lambda>_.
     bind generate (\<lambda>admin.
     bind (block
       [wr_do (wr_initialize admin),
        wr_shows wr_is_initialized]) (\<lambda>_.
     bind generate (\<lambda>other.
     block
       [wr_rejects (wr_initialize other) wr_error.AlreadyInitialized,
        wr_shows wr_is_initialized,
        wr_gives wr_get_admins (\<lambda>r. r = [admin])]))))"

section \<open>Registration and removal\<close>

definition wr_test_get_watchers_empty :: "unit test" where
  "wr_test_get_watchers_empty =
     bind wr_setup (\<lambda>admin.
     wr_shows (\<lambda>s. length (wr_get_watchers s) = 0))"

definition wr_test_register_idempotent :: "unit test" where
  "wr_test_register_idempotent =
     bind wr_setup (\<lambda>admin.
     bind generate (\<lambda>watcher.
     block
       [wr_returns (wr_register_watcher None admin watcher None) (),
        wr_returns (wr_register_watcher None admin watcher None) (),
        wr_shows (\<lambda>s. length (wr_get_watchers s) = 1)]))"

definition wr_test_register_idempotent_after_five_duplicates :: "unit test" where
  "wr_test_register_idempotent_after_five_duplicates =
     bind wr_setup (\<lambda>admin.
     bind generate (\<lambda>watcher.
     block
       [for_each [0..<5] (\<lambda>i. wr_returns (wr_register_watcher None admin watcher None) ()),
        wr_shows (\<lambda>s. length (wr_get_watchers s) = 1)]))"

definition wr_test_multiple_watchers :: "unit test" where
  "wr_test_multiple_watchers =
     bind wr_setup (\<lambda>admin.
     bind generate (\<lambda>w1. bind generate (\<lambda>w2. bind generate (\<lambda>w3.
     block
       [wr_do (wr_register_watcher None admin w1 None),
        wr_do (wr_register_watcher None admin w2 None),
        wr_do (wr_register_watcher None admin w3 None),
        wr_shows (\<lambda>s. length (wr_get_watchers s) = 3),
        wr_gives (wr_is_watcher_authorized w1) (\<lambda>b. b),
        wr_gives (wr_is_watcher_authorized w2) (\<lambda>b. b),
        wr_gives (wr_is_watcher_authorized w3) (\<lambda>b. b)]))))"

definition wr_test_remove_all_watchers_returns_empty :: "unit test" where
  "wr_test_remove_all_watchers_returns_empty =
     bind wr_setup (\<lambda>admin.
     bind generate (\<lambda>w1. bind generate (\<lambda>w2. bind generate (\<lambda>w3.
     block
       [wr_returns (wr_register_watcher None admin w1 None) (),
        wr_returns (wr_register_watcher None admin w2 None) (),
        wr_returns (wr_register_watcher None admin w3 None) (),
        wr_shows (\<lambda>s. length (wr_get_watchers s) = 3),
        wr_returns (wr_remove_watcher admin w1) (),
        wr_returns (wr_remove_watcher admin w2) (),
        wr_returns (wr_remove_watcher admin w3) (),
        wr_shows (\<lambda>s. length (wr_get_watchers s) = 0)]))))"

definition wr_test_get_admin :: "unit test" where
  "wr_test_get_admin =
     bind wr_setup (\<lambda>admin.
     wr_gives wr_get_admin (\<lambda>a. a = admin))"

definition wr_test_get_admin_uninitialized :: "unit test" where
  "wr_test_get_admin_uninitialized =
     block
       [set_mocked True,
        wr_rejects wr_get_admin wr_error.NotInitialized]"

definition wr_test_get_admin_not_initialized :: "unit test" where
  "wr_test_get_admin_not_initialized =
     block
       [set_mocked True,
        wr_do wr_get_admin]"

definition wr_test_clear_all_watchers :: "unit test" where
  "wr_test_clear_all_watchers =
     bind wr_setup (\<lambda>admin.
     bind generate (\<lambda>w1. bind generate (\<lambda>w2. bind generate (\<lambda>w3.
     block
       [wr_returns (wr_register_watcher None admin w1 None) (),
        wr_returns (wr_register_watcher None admin w2 None) (),
        wr_returns (wr_register_watcher None admin w3 None) (),
        wr_shows (\<lambda>s. length (wr_get_watchers s) = 3),
        wr_returns (wr_clear_all_watchers admin) (),
        wr_shows (\<lambda>s. length (wr_get_watchers s) = 0),
        wr_gives (wr_is_authorized w1) (\<lambda>b. \<not> b),
        wr_gives (wr_is_authorized w2) (\<lambda>b. \<not> b),
        wr_gives (wr_is_authorized w3) (\<lambda>b. \<not> b)]))))"

definition wr_test_clear_all_watchers_unauthorized :: "unit test" where
  "wr_test_clear_all_watchers_unauthorized =
     bind wr_setup (\<lambda>admin.
     bind generate (\<lambda>attacker. bind generate (\<lambda>w.
     block
       [wr_returns (wr_register_watcher None admin w None) (),
        wr_rejects (wr_clear_all_watchers attacker) wr_error.Unauthorized,
        wr_shows (\<lambda>s. length (wr_get_watchers s) = 1)])))"

definition wr_test_clear_all_watchers_empty :: "unit test" where
  "wr_test_clear_all_watchers_empty =
     bind wr_setup (\<lambda>admin.
     block
       [wr_returns (wr_clear_all_watchers admin) (),
        wr_shows (\<lambda>s. length (wr_get_watchers s) = 0)])"

definition wr_test_old_admin_rejected_after_transfer :: "unit test" where
  "wr_test_old_admin_rejected_after_transfer =
     bind wr_setup (\<lambda>admin.
     bind generate (\<lambda>new_admin. bind generate (\<lambda>watcher.
     block
       [wr_returns (wr_transfer_admin admin new_admin) (),
        wr_rejects (wr_register_watcher None admin watcher None) wr_error.Unauthorized])))"

section \<open>Several admins\<close>

definition wr_test_add_admin_grants_privileges :: "unit test" where
  "wr_test_add_admin_grants_privileges =
     bind wr_setup (\<lambda>admin.
     bind generate (\<lambda>second_admin. bind generate (\<lambda>watcher.
     block
       [wr_returns (wr_add_admin admin second_admin) (),
        wr_returns (wr_register_watcher None second_admin watcher None) (),
        wr_gives (wr_is_authorized watcher) (\<lambda>b. b)])))"

definition wr_test_add_admin_idempotent :: "unit test" where
  "wr_test_add_admin_idempotent =
     bind wr_setup (\<lambda>admin.
     bind generate (\<lambda>second_admin.
     block
       [wr_returns (wr_add_admin admin second_admin) (),
        wr_returns (wr_add_admin admin second_admin) (),
        wr_gives wr_get_admins (\<lambda>r. length r = 2)]))"

definition wr_test_remove_admin_revokes_privileges :: "unit test" where
  "wr_test_remove_admin_revokes_privileges =
     bind wr_setup (\<lambda>admin.
     bind generate (\<lambda>second_admin. bind generate (\<lambda>watcher.
     block
       [wr_returns (wr_add_admin admin second_admin) (),
        wr_returns (wr_remove_admin admin second_admin) (),
        wr_rejects (wr_register_watcher None second_admin watcher None) wr_error.Unauthorized])))"

definition wr_test_remove_last_admin_rejected :: "unit test" where
  "wr_test_remove_last_admin_rejected =
     bind wr_setup (\<lambda>admin.
     wr_rejects (wr_remove_admin admin admin) wr_error.LastAdmin)"

definition wr_test_admin_self_remove_with_other_admin :: "unit test" where
  "wr_test_admin_self_remove_with_other_admin =
     bind wr_setup (\<lambda>admin.
     bind generate (\<lambda>second_admin.
     bind (block
       [wr_do (wr_add_admin admin second_admin),
        wr_returns (wr_remove_admin admin admin) (),
        wr_shows (\<lambda>s. \<not> wr_is_admin s admin),
        wr_shows (\<lambda>s. wr_is_admin s second_admin)]) (\<lambda>_.
     bind (gets (\<lambda>e. events (watcher_store e))) (\<lambda>all.
     bind (unwrap (if all = [] then None else Some (last all))) (\<lambda>ev.
     check (is_event ''admin'' ''self_remove'' ev))))))"

definition wr_test_get_admins :: "unit test" where
  "wr_test_get_admins =
     bind wr_setup (\<lambda>admin.
     bind generate (\<lambda>second_admin.
     block
       [wr_returns (wr_add_admin admin second_admin) (),
        wr_gives wr_get_admins (\<lambda>r. length r = 2)]))"

definition wr_test_add_admin_unauthorized :: "unit test" where
  "wr_test_add_admin_unauthorized =
     bind wr_setup (\<lambda>admin.
     bind generate (\<lambda>attacker. bind generate (\<lambda>victim.
     wr_rejects (wr_add_admin attacker victim) wr_error.Unauthorized)))"

definition wr_test_remove_admin_unauthorized :: "unit test" where
  "wr_test_remove_admin_unauthorized =
     bind wr_setup (\<lambda>admin.
     bind generate (\<lambda>attacker.
     wr_rejects (wr_remove_admin attacker admin) wr_error.Unauthorized))"

definition wr_test_add_admin_emits_event :: "unit test" where
  "wr_test_add_admin_emits_event =
     bind wr_setup (\<lambda>admin.
     bind generate (\<lambda>second_admin.
     block
       [wr_do (wr_add_admin admin second_admin),
        wr_shows (\<lambda>s. events s \<noteq> [])]))"

definition wr_test_remove_admin_emits_event :: "unit test" where
  "wr_test_remove_admin_emits_event =
     bind wr_setup (\<lambda>admin.
     bind generate (\<lambda>second_admin.
     block
       [wr_do (wr_add_admin admin second_admin),
        wr_do (wr_remove_admin admin second_admin),
        wr_shows (\<lambda>s. events s \<noteq> [])]))"

definition wr_test_remove_watcher_emits_event :: "unit test" where
  "wr_test_remove_watcher_emits_event =
     bind wr_setup (\<lambda>admin.
     bind generate (\<lambda>watcher.
     block
       [wr_do (wr_register_watcher None admin watcher None),
        wr_do (wr_remove_watcher admin watcher),
        wr_shows (\<lambda>s. events s \<noteq> [])]))"

section \<open>The counter and its limit\<close>

definition wr_test_clear_all_watchers_resets_count :: "unit test" where
  "wr_test_clear_all_watchers_resets_count =
     bind wr_setup (\<lambda>admin.
     block
       [for_each [0..<3] (\<lambda>i. bind generate (\<lambda>w. wr_do (wr_register_watcher None admin w None))),
        wr_shows (\<lambda>s. wr_get_watcher_count s = 3),
        wr_do (wr_clear_all_watchers admin),
        wr_shows (\<lambda>s. wr_get_watcher_count s = 0)])"

definition wr_test_register_watcher_limit_enforced :: "unit test" where
  "wr_test_register_watcher_limit_enforced =
     bind wr_setup (\<lambda>admin.
     bind (block
       [for_each [0..<unat MAX_WATCHERS] (\<lambda>i. bind generate (\<lambda>w. wr_do (wr_register_watcher None admin w None))),
        wr_shows (\<lambda>s. wr_get_watcher_count s = MAX_WATCHERS)]) (\<lambda>_.
     bind generate (\<lambda>w.
     wr_rejects (wr_register_watcher None admin w None) wr_error.WatcherLimitExceeded)))"

definition wr_test_watcher_count_decrements_on_remove :: "unit test" where
  "wr_test_watcher_count_decrements_on_remove =
     bind wr_setup (\<lambda>admin.
     bind generate (\<lambda>w1. bind generate (\<lambda>w2.
     block
       [wr_do (wr_register_watcher None admin w1 None),
        wr_do (wr_register_watcher None admin w2 None),
        wr_shows (\<lambda>s. wr_get_watcher_count s = 2),
        wr_do (wr_remove_watcher admin w1),
        wr_shows (\<lambda>s. wr_get_watcher_count s = 1),
        wr_do (wr_remove_watcher admin w2),
        wr_shows (\<lambda>s. wr_get_watcher_count s = 0)])))"

section \<open>Replacing watchers\<close>

definition wr_test_replace_watcher_happy_path :: "unit test" where
  "wr_test_replace_watcher_happy_path =
     bind wr_setup (\<lambda>admin.
     bind generate (\<lambda>old. bind generate (\<lambda>new.
     block
       [wr_do (wr_register_watcher None admin old None),
        wr_returns (wr_replace_watcher admin old new) (),
        wr_gives (wr_is_authorized old) (\<lambda>b. \<not> b),
        wr_gives (wr_is_authorized new) (\<lambda>b. b),
        wr_shows (\<lambda>s. wr_get_watcher_count s = 1)])))"

definition wr_test_replace_watcher_old_not_found :: "unit test" where
  "wr_test_replace_watcher_old_not_found =
     bind wr_setup (\<lambda>admin.
     bind generate (\<lambda>old. bind generate (\<lambda>new.
     wr_rejects (wr_replace_watcher admin old new) wr_error.WatcherNotFound)))"

definition wr_test_replace_watcher_unauthorized :: "unit test" where
  "wr_test_replace_watcher_unauthorized =
     bind wr_setup (\<lambda>admin.
     bind generate (\<lambda>old. bind generate (\<lambda>new. bind generate (\<lambda>attacker.
     block
       [wr_do (wr_register_watcher None admin old None),
        wr_rejects (wr_replace_watcher attacker old new) wr_error.Unauthorized]))))"

definition wr_test_replace_watcher_new_already_registered :: "unit test" where
  "wr_test_replace_watcher_new_already_registered =
     bind wr_setup (\<lambda>admin.
     bind generate (\<lambda>old. bind generate (\<lambda>new.
     block
       [wr_do (wr_register_watcher None admin old None),
        wr_do (wr_register_watcher None admin new None),
        wr_shows (\<lambda>s. wr_get_watcher_count s = 2),
        wr_returns (wr_replace_watcher admin old new) (),
        wr_gives (wr_is_authorized old) (\<lambda>b. \<not> b),
        wr_gives (wr_is_authorized new) (\<lambda>b. b),
        wr_shows (\<lambda>s. wr_get_watcher_count s = 1)])))"

definition wr_test_replace_watcher_emits_events :: "unit test" where
  "wr_test_replace_watcher_emits_events =
     bind wr_setup (\<lambda>admin.
     bind generate (\<lambda>old. bind generate (\<lambda>new.
     block
       [wr_do (wr_register_watcher None admin old None),
        wr_do (wr_replace_watcher admin old new),
        wr_shows (\<lambda>s. length (events s) \<ge> 2)])))"

definition wr_test_is_admin :: "unit test" where
  "wr_test_is_admin =
     bind (set_mocked True) (\<lambda>_.
     bind generate (\<lambda>admin1. bind generate (\<lambda>admin2. bind generate (\<lambda>non_admin.
     block
       [wr_shows (\<lambda>s. \<not> wr_is_admin s admin1),
        wr_shows (\<lambda>s. \<not> wr_is_admin s admin2),
        wr_shows (\<lambda>s. \<not> wr_is_admin s non_admin),
        wr_do (wr_initialize admin1),
        wr_do (wr_add_admin admin1 admin2),
        wr_shows (\<lambda>s. wr_is_admin s admin1),
        wr_shows (\<lambda>s. wr_is_admin s admin2),
        wr_shows (\<lambda>s. \<not> wr_is_admin s non_admin)]))))"

section \<open>Pause, batches, expiry\<close>

definition wr_test_pause_blocks_mutations_not_reads :: "unit test" where
  "wr_test_pause_blocks_mutations_not_reads =
     bind wr_setup (\<lambda>admin.
     bind generate (\<lambda>w.
     bind (block
       [wr_do (wr_register_watcher None admin w None),
        wr_do (wr_set_paused admin True),
        wr_shows wr_is_paused]) (\<lambda>_.
     bind generate (\<lambda>other.
     block
       [wr_rejects (wr_register_watcher None admin other None) wr_error.ContractPaused,
        wr_rejects (wr_remove_watcher admin w) wr_error.ContractPaused,
        wr_rejects (wr_clear_all_watchers admin) wr_error.ContractPaused,
        wr_rejects (wr_add_admin admin other) wr_error.ContractPaused,
        wr_rejects (wr_remove_admin admin other) wr_error.ContractPaused,
        wr_gives (wr_is_authorized w) (\<lambda>b. b),
        wr_shows (\<lambda>s. wr_get_watcher_count s = 1),
        wr_do (wr_set_paused admin False),
        wr_do (wr_remove_watcher admin w)]))))"

definition wr_test_set_paused_requires_admin :: "unit test" where
  "wr_test_set_paused_requires_admin =
     bind wr_setup (\<lambda>admin.
     bind generate (\<lambda>stranger.
     wr_rejects (wr_set_paused stranger True) wr_error.Unauthorized))"

definition wr_test_batch_register_happy_path_and_idempotent :: "unit test" where
  "wr_test_batch_register_happy_path_and_idempotent =
     bind wr_setup (\<lambda>admin.
     bind generate (\<lambda>a. bind generate (\<lambda>b.
     let batch = [a, b, a] in
     block
       [wr_gives (wr_batch_register_watchers admin batch) (\<lambda>n. n = 2),
        wr_gives (wr_batch_register_watchers admin batch) (\<lambda>n. n = 0),
        wr_shows (\<lambda>s. wr_get_watcher_count s = 2),
        wr_gives (wr_is_authorized a) (\<lambda>x. x),
        wr_gives (wr_is_authorized b) (\<lambda>x. x)])))"

definition wr_test_batch_register_oversized :: "unit test" where
  "wr_test_batch_register_oversized =
     bind wr_setup (\<lambda>admin.
     bind (generate_many (unat WR_MAX_BATCH_SIZE + 1)) (\<lambda>batch.
     wr_rejects (wr_batch_register_watchers admin batch) wr_error.BatchTooLarge))"

definition wr_test_batch_register_limit_exceeded :: "unit test" where
  "wr_test_batch_register_limit_exceeded =
     bind wr_setup (\<lambda>admin.
     bind (generate_many (unat MAX_WATCHERS)) (\<lambda>stored.
     bind (modify (\<lambda>e. e\<lparr>watcher_store := (watcher_store e)\<lparr>Watchers := Some stored\<rparr>\<rparr>)) (\<lambda>_.
     bind generate (\<lambda>w.
     wr_rejects (wr_batch_register_watchers admin [w]) wr_error.WatcherLimitExceeded))))"

definition wr_test_watcher_expiry_and_renewal :: "unit test" where
  "wr_test_watcher_expiry_and_renewal =
     bind wr_setup (\<lambda>admin.
     bind (set_timestamp 100) (\<lambda>_.
     bind generate (\<lambda>w.
     bind (block
       [wr_do (wr_register_watcher None admin w (Some 200)),
        wr_gives (wr_is_authorized w) (\<lambda>b. b),
        set_timestamp 201,
        wr_gives (wr_is_authorized w) (\<lambda>b. \<not> b),
        wr_do (wr_renew_watcher admin w (Some 500)),
        wr_gives (wr_is_authorized w) (\<lambda>b. b),
        wr_do (wr_renew_watcher admin w None),
        set_timestamp 10000,
        wr_gives (wr_is_authorized w) (\<lambda>b. b)]) (\<lambda>_.
     bind generate (\<lambda>ghost.
     wr_rejects (wr_renew_watcher admin ghost None) wr_error.WatcherNotFound)))))"

section \<open>The second implementation of the alert registry\<close>

definition sec_setup :: "unit test" where
  "sec_setup = set_mocked True"

definition sec_register :: "address \<Rightarrow> address \<Rightarrow> u64 sec_op" where
  "sec_register own target = sec_register_alert own target ''alert'' ''hash'' []"

definition sec_test_count_zero_for_unknown_contract :: "unit test" where
  "sec_test_count_zero_for_unknown_contract =
     bind sec_setup (\<lambda>_.
     bind generate (\<lambda>target.
     sec_gives (sec_get_alert_count_for_contract target) (\<lambda>n. n = 0)))"

definition sec_test_count_increments_on_register :: "unit test" where
  "sec_test_count_increments_on_register =
     bind sec_setup (\<lambda>_.
     bind generate (\<lambda>own. bind generate (\<lambda>target.
     block
       [sec_gives (sec_get_alert_count_for_contract target) (\<lambda>n. n = 0),
        sec_do (sec_register own target),
        sec_gives (sec_get_alert_count_for_contract target) (\<lambda>n. n = 1),
        sec_do (sec_register own target),
        sec_gives (sec_get_alert_count_for_contract target) (\<lambda>n. n = 2)])))"

definition sec_test_count_decrements_on_remove :: "unit test" where
  "sec_test_count_decrements_on_remove =
     bind sec_setup (\<lambda>_.
     bind generate (\<lambda>own. bind generate (\<lambda>target.
     bind (sec_client (sec_register own target)) (\<lambda>aid.
     block
       [sec_gives (sec_get_alert_count_for_contract target) (\<lambda>n. n = 1),
        sec_do (sec_remove_alert own aid),
        sec_gives (sec_get_alert_count_for_contract target) (\<lambda>n. n = 0)]))))"

definition sec_test_count_isolated_per_contract :: "unit test" where
  "sec_test_count_isolated_per_contract =
     bind sec_setup (\<lambda>_.
     bind generate (\<lambda>own. bind generate (\<lambda>target_a. bind generate (\<lambda>target_b.
     block
       [sec_do (sec_register own target_a),
        sec_do (sec_register own target_a),
        sec_do (sec_register own target_b),
        sec_gives (sec_get_alert_count_for_contract target_a) (\<lambda>n. n = 2),
        sec_gives (sec_get_alert_count_for_contract target_b) (\<lambda>n. n = 1)]))))"

definition sec_test_per_owner_alert_limit_unset_vs_zero_vs_n :: "unit test" where
  "sec_test_per_owner_alert_limit_unset_vs_zero_vs_n =
     bind sec_setup (\<lambda>_.
     bind generate (\<lambda>admin.
     block
       [sec_shows (\<lambda>s. sec_get_per_owner_alert_limit s = None),
        sec_do (sec_set_per_owner_alert_limit admin 0),
        sec_shows (\<lambda>s. sec_get_per_owner_alert_limit s = Some 0),
        sec_do (sec_set_per_owner_alert_limit admin 5),
        sec_shows (\<lambda>s. sec_get_per_owner_alert_limit s = Some 5)]))"

end
