(* ===== verification/WatcherConformance.thy ===== *)
theory WatcherConformance
  imports WatcherTests
begin

text \<open>
  The watcher registry and the second implementation of the alert registry run the unit tests
  that the repository has for them (theory WatcherTests). The tests that fill the registry to
  its limit of 1000 watchers are proved by induction, the others are executed by rewriting.
  Three tests of the watcher registry fail: two say that registering a watcher twice lists it
  once, one that a registration stores a label. One test of the second implementation fails: it
  sets a limit before there is an admin.
\<close>

named_theorems watcher_verdicts "the verdicts of the unit tests of the watcher registry"
named_theorems second_verdicts "the verdicts of the unit tests of the second implementation"

lemmas watcher_suite_runs =
  watcher_runs watcher_reads wr_setup_def wr_page_def [THEN on_args]
  generate_many_def [THEN on_args]

lemmas second_suite_runs =
  second_runs second_reads sec_setup_def sec_register_def [THEN on_args]

lemma list_and_admin_tests_1 [watcher_verdicts]:
  "list_all passes
     [wr_test_get_all_watchers_and_paginated, wr_test_label_too_long_rejected,
      wr_test_transfer_admin_rejected_with_multiple_admins, wr_test_get_admins_after_add,
      wr_test_register_and_is_watcher_authorized, wr_test_remove_watcher] \<and>
   list_all panics
     [wr_test_initialize_requires_admin_auth] \<and>
   list_all (\<lambda>t. \<not> passes t)
     [wr_test_watcher_info_label]"
  by (simp add: test_runs watcher_suite_runs
      wr_test_get_all_watchers_and_paginated_def wr_test_watcher_info_label_def
      wr_test_label_too_long_rejected_def
      wr_test_transfer_admin_rejected_with_multiple_admins_def wr_test_get_admins_after_add_def
      wr_test_register_and_is_watcher_authorized_def wr_test_initialize_requires_admin_auth_def
      wr_test_remove_watcher_def)

lemma list_and_admin_tests_2 [watcher_verdicts]:
  "list_all passes
     [wr_test_transfer_admin, wr_test_transfer_admin_emits_event, wr_test_register_unauthorized,
      wr_test_remove_unauthorized, wr_test_double_initialize, wr_test_is_initialized]"
  by (simp add: test_runs watcher_suite_runs
      wr_test_transfer_admin_def wr_test_transfer_admin_emits_event_def
      wr_test_register_unauthorized_def wr_test_remove_unauthorized_def
      wr_test_double_initialize_def wr_test_is_initialized_def)

lemma registration_and_removal_tests_1 [watcher_verdicts]:
  "list_all passes
     [wr_test_get_watchers_empty, wr_test_multiple_watchers,
      wr_test_remove_all_watchers_returns_empty, wr_test_get_admin,
      wr_test_get_admin_uninitialized] \<and>
   list_all panics
     [wr_test_get_admin_not_initialized] \<and>
   list_all (\<lambda>t. \<not> passes t)
     [wr_test_register_idempotent, wr_test_register_idempotent_after_five_duplicates]"
  by (simp add: test_runs watcher_suite_runs
      wr_test_get_watchers_empty_def wr_test_register_idempotent_def
      wr_test_register_idempotent_after_five_duplicates_def wr_test_multiple_watchers_def
      wr_test_remove_all_watchers_returns_empty_def wr_test_get_admin_def
      wr_test_get_admin_uninitialized_def wr_test_get_admin_not_initialized_def)

lemma registration_and_removal_tests_2 [watcher_verdicts]:
  "list_all passes
     [wr_test_clear_all_watchers, wr_test_clear_all_watchers_unauthorized,
      wr_test_clear_all_watchers_empty, wr_test_old_admin_rejected_after_transfer]"
  by (simp add: test_runs watcher_suite_runs
      wr_test_clear_all_watchers_def wr_test_clear_all_watchers_unauthorized_def
      wr_test_clear_all_watchers_empty_def wr_test_old_admin_rejected_after_transfer_def)

lemma admin_set_tests_1 [watcher_verdicts]:
  "list_all passes
     [wr_test_add_admin_grants_privileges, wr_test_add_admin_idempotent,
      wr_test_remove_admin_revokes_privileges, wr_test_remove_last_admin_rejected,
      wr_test_admin_self_remove_with_other_admin, wr_test_get_admins,
      wr_test_add_admin_unauthorized, wr_test_remove_admin_unauthorized]"
  by (simp add: test_runs watcher_suite_runs
      wr_test_add_admin_grants_privileges_def wr_test_add_admin_idempotent_def
      wr_test_remove_admin_revokes_privileges_def wr_test_remove_last_admin_rejected_def
      wr_test_admin_self_remove_with_other_admin_def wr_test_get_admins_def
      wr_test_add_admin_unauthorized_def wr_test_remove_admin_unauthorized_def)

lemma admin_set_tests_2 [watcher_verdicts]:
  "list_all passes
     [wr_test_add_admin_emits_event, wr_test_remove_admin_emits_event,
      wr_test_remove_watcher_emits_event]"
  by (simp add: test_runs watcher_suite_runs
      wr_test_add_admin_emits_event_def wr_test_remove_admin_emits_event_def
      wr_test_remove_watcher_emits_event_def)

lemma counter_tests [watcher_verdicts]:
  "list_all passes
     [wr_test_clear_all_watchers_resets_count, wr_test_watcher_count_decrements_on_remove]"
  by (simp add: test_runs watcher_suite_runs
      wr_test_clear_all_watchers_resets_count_def wr_test_watcher_count_decrements_on_remove_def)

lemma replacement_tests [watcher_verdicts]:
  "list_all passes
     [wr_test_replace_watcher_happy_path, wr_test_replace_watcher_old_not_found,
      wr_test_replace_watcher_unauthorized, wr_test_replace_watcher_new_already_registered,
      wr_test_replace_watcher_emits_events, wr_test_is_admin]"
  by (simp add: test_runs watcher_suite_runs
      wr_test_replace_watcher_happy_path_def wr_test_replace_watcher_old_not_found_def
      wr_test_replace_watcher_unauthorized_def
      wr_test_replace_watcher_new_already_registered_def
      wr_test_replace_watcher_emits_events_def wr_test_is_admin_def)

lemma pause_and_expiry_tests [watcher_verdicts]:
  "list_all passes
     [wr_test_pause_blocks_mutations_not_reads, wr_test_set_paused_requires_admin,
      wr_test_batch_register_happy_path_and_idempotent, wr_test_watcher_expiry_and_renewal]"
  by (simp add: test_runs watcher_suite_runs
      wr_test_pause_blocks_mutations_not_reads_def wr_test_set_paused_requires_admin_def
      wr_test_batch_register_happy_path_and_idempotent_def wr_test_watcher_expiry_and_renewal_def)

text \<open>Filling the registry.\<close>

definition filled :: "address \<Rightarrow> nat \<Rightarrow> test_env \<Rightarrow> bool" where
  "filled admin n e \<longleftrightarrow>
     (let s = watcher_store e in
      mocked e \<and> Admins s = Some [admin] \<and> Paused s = None \<and> WatcherInfos s = Map.empty \<and>
      length (wr_load_watchers s) = n \<and> wr_get_watcher_count s = word_of_nat n)"

lemma watcher_bound: "unat MAX_WATCHERS = 1000"
  by (simp add: MAX_WATCHERS_def)

lemma register_when_room:
  assumes "authorized c admin" "Admins s = Some [admin]" "Paused s = None"
    "WatcherInfos s = Map.empty" "length (wr_load_watchers s) = n" "n < 1000"
    "wr_get_watcher_count s = word_of_nat n"
  obtains s' where "wr_register_watcher None admin w None c s = (Inr (), s')"
    "Admins s' = Some [admin]" "Paused s' = None" "WatcherInfos s' = Map.empty"
    "length (wr_load_watchers s') = Suc n" "wr_get_watcher_count s' = word_of_nat (Suc n)"
proof -
  have "unat (wr_get_watcher_count s) = n"
    using assms(6,7) by (simp add: unat_of_nat_small32)
  then have "\<exists>s'. wr_register_watcher None admin w None c s = (Inr (), s') \<and>
    Admins s' = Some [admin] \<and> Paused s' = None \<and> WatcherInfos s' = Map.empty \<and>
    length (wr_load_watchers s') = Suc n \<and> wr_get_watcher_count s' = 1 + word_of_nat n"
    using assms
    by (simp add: wr_register_watcher_def wr_register_watcher_body_def wr_ok p_has_def
        wr_admin.is_admin_of_def wr_is_paused_def watcher_bound add.commute)
  then show thesis using that by auto
qed

lemma register_when_full:
  assumes "authorized c admin" "Admins s = Some [admin]" "Paused s = None"
    "WatcherInfos s = Map.empty" "length (wr_load_watchers s) = 1000"
  shows "wr_register_watcher None admin w None c s = (Inl (Err wr_error.WatcherLimitExceeded), s)"
  using assms
  by (simp add: wr_register_watcher_def wr_register_watcher_body_def run_simps p_has_def
      wr_admin.check_member wr_assert_not_paused_def wr_is_paused_def watcher_bound)

lemma fill_one:
  assumes "filled admin n e" "n < 1000"
  shows "\<exists>e'. bind generate (\<lambda>w. wr_do (wr_register_watcher None admin w None)) () e = (Inr (), e') \<and>
    filled admin (Suc n) e'"
proof -
  let ?c = "watcher_call_ctx (test_clock e) (mocked e)" and ?w = "Address (generated e)"
  have *: "authorized ?c admin" "mocked e" "Admins (watcher_store e) = Some [admin]"
    "Paused (watcher_store e) = None" "WatcherInfos (watcher_store e) = Map.empty"
    "length (wr_load_watchers (watcher_store e)) = n"
    "wr_get_watcher_count (watcher_store e) = word_of_nat n"
    using assms(1) by (simp_all add: filled_def Let_def call_ctx_sel)
  obtain s' where "wr_register_watcher None admin ?w None ?c (watcher_store e) = (Inr (), s')"
    "Admins s' = Some [admin]" "Paused s' = None" "WatcherInfos s' = Map.empty"
    "length (wr_load_watchers s') = Suc n" "wr_get_watcher_count s' = word_of_nat (Suc n)"
    by (rule register_when_room [OF *(1,3-6) assms(2) *(7)])
  with *(2) show ?thesis
    by (simp add: bind_run generate_run wr_do_def wr_client_def ret_run filled_def)
qed

lemma fill_many:
  assumes "filled admin k e" "k + n \<le> 1000"
  shows "\<exists>e'. for_each [0..<n] (\<lambda>i. bind generate (\<lambda>w. wr_do (wr_register_watcher None admin w None))) () e
    = (Inr (), e') \<and> filled admin (k + n) e'"
proof -
  have "\<exists>e'. for_each xs (\<lambda>i. bind generate (\<lambda>w. wr_do (wr_register_watcher None admin w None))) () e
    = (Inr (), e') \<and> filled admin (k + length xs) e'" if "k + length xs \<le> 1000" for xs :: "nat list"
    using assms(1) that
  proof (induction xs arbitrary: k e)
    case Nil
    then show ?case by (simp add: run_simps)
  next
    case (Cons x xs)
    then obtain e1 where "bind generate (\<lambda>w. wr_do (wr_register_watcher None admin w None)) () e = (Inr (), e1)"
      "filled admin (Suc k) e1"
      using fill_one by fastforce
    with Cons.IH [of "Suc k" e1] Cons.prems show ?case
      by (simp add: for_each_run)
  qed
  from this [of "[0..<n]"] assms(2) show ?thesis by simp
qed

lemma limit_enforced_test [watcher_verdicts]: "passes wr_test_register_watcher_limit_enforced"
proof -
  obtain e where e: "wr_setup () env_default = (Inr (Address 2), e)" "filled (Address 2) 0 e"
    by (simp add: test_runs watcher_suite_runs filled_def)
  from fill_many [OF e(2), of 1000] obtain e' where e':
    "for_each [0..<1000]
       (\<lambda>i. bind generate (\<lambda>w. wr_do (wr_register_watcher None (Address 2) w None))) () e = (Inr (), e')"
    "filled (Address 2) 1000 e'"
    by auto
  then have refuse: "wr_rejects (wr_register_watcher None (Address 2) w None)
      wr_error.WatcherLimitExceeded () (e'\<lparr>generated := k\<rparr>) = (Inr (), e'\<lparr>generated := k\<rparr>)" for w k
    using register_when_full
    by (simp add: wr_rejects_def wr_try_def bind_run check_run filled_def Let_def call_ctx_sel)
  have "wr_get_watcher_count (watcher_store e') = MAX_WATCHERS"
    using e'(2) by (simp add: filled_def Let_def MAX_WATCHERS_def)
  with e e' refuse show ?thesis
    by (simp add: passes_def wr_test_register_watcher_limit_enforced_def bind_run
        block_run wr_shows_def gets_run check_run generate_run MAX_WATCHERS_def)
qed

lemma oversized_batch_test [watcher_verdicts]: "passes wr_test_batch_register_oversized"
  by (simp add: test_runs watcher_suite_runs wr_test_batch_register_oversized_def
      del: upt_conv_Cons)

lemma full_batch_test [watcher_verdicts]: "passes wr_test_batch_register_limit_exceeded"
  by (simp add: test_runs watcher_suite_runs wr_test_batch_register_limit_exceeded_def image_iff
      del: upt_conv_Cons upt_rec_numeral)

lemma second_tests [second_verdicts]:
  "list_all passes
     [sec_test_count_zero_for_unknown_contract, sec_test_count_increments_on_register,
      sec_test_count_decrements_on_remove, sec_test_count_isolated_per_contract] \<and>
   list_all (\<lambda>t. \<not> passes t)
     [sec_test_per_owner_alert_limit_unset_vs_zero_vs_n]"
  by (simp add: test_runs second_suite_runs
      sec_test_count_zero_for_unknown_contract_def sec_test_count_increments_on_register_def
      sec_test_count_decrements_on_remove_def sec_test_count_isolated_per_contract_def
      sec_test_per_owner_alert_limit_unset_vs_zero_vs_n_def)

section \<open>The suites\<close>

text \<open>
  The model of the watcher registry gives the tests of the module \<open>tests\<close> in lib.rs of that
  contract their verdicts (two that suppose an event log for each call are left out). All pass, up to the limit of 1000 watchers, except three: after a watcher is
  registered again it is listed twice, and no registration stores the label of the watcher.
\<close>

theorem watcher_suite_verdicts:
  "list_all passes
     [wr_test_get_all_watchers_and_paginated, wr_test_label_too_long_rejected,
      wr_test_transfer_admin_rejected_with_multiple_admins, wr_test_get_admins_after_add,
      wr_test_register_and_is_watcher_authorized, wr_test_remove_watcher, wr_test_transfer_admin,
      wr_test_transfer_admin_emits_event, wr_test_register_unauthorized,
      wr_test_remove_unauthorized, wr_test_double_initialize, wr_test_is_initialized,
      wr_test_get_watchers_empty, wr_test_multiple_watchers,
      wr_test_remove_all_watchers_returns_empty, wr_test_get_admin,
      wr_test_get_admin_uninitialized, wr_test_clear_all_watchers,
      wr_test_clear_all_watchers_unauthorized, wr_test_clear_all_watchers_empty,
      wr_test_old_admin_rejected_after_transfer, wr_test_add_admin_grants_privileges,
      wr_test_add_admin_idempotent, wr_test_remove_admin_revokes_privileges,
      wr_test_remove_last_admin_rejected, wr_test_admin_self_remove_with_other_admin,
      wr_test_get_admins, wr_test_add_admin_unauthorized, wr_test_remove_admin_unauthorized,
      wr_test_add_admin_emits_event, wr_test_remove_admin_emits_event,
      wr_test_remove_watcher_emits_event, wr_test_clear_all_watchers_resets_count,
      wr_test_register_watcher_limit_enforced, wr_test_watcher_count_decrements_on_remove,
      wr_test_replace_watcher_happy_path, wr_test_replace_watcher_old_not_found,
      wr_test_replace_watcher_unauthorized, wr_test_replace_watcher_new_already_registered,
      wr_test_replace_watcher_emits_events, wr_test_is_admin,
      wr_test_pause_blocks_mutations_not_reads, wr_test_set_paused_requires_admin,
      wr_test_batch_register_happy_path_and_idempotent, wr_test_batch_register_oversized,
      wr_test_batch_register_limit_exceeded, wr_test_watcher_expiry_and_renewal] \<and>
   list_all panics
     [wr_test_initialize_requires_admin_auth, wr_test_get_admin_not_initialized] \<and>
   list_all (\<lambda>t. \<not> passes t)
     [wr_test_watcher_info_label, wr_test_register_idempotent,
      wr_test_register_idempotent_after_five_duplicates]"
  using watcher_verdicts by simp

text \<open>
  The unit tests of the second implementation pass, except the one that sets the limit of alerts
  per owner in a contract that has no admin.
\<close>

theorem second_suite_verdicts:
  "list_all passes
     [sec_test_count_zero_for_unknown_contract, sec_test_count_increments_on_register,
      sec_test_count_decrements_on_remove, sec_test_count_isolated_per_contract] \<and>
   list_all (\<lambda>t. \<not> passes t)
     [sec_test_per_owner_alert_limit_unset_vs_zero_vs_n]"
  using second_verdicts by simp

end
