(* ===== verification/AlertTests.thy ===== *)
theory AlertTests
  imports TestHarness
begin

text \<open>
  The unit tests of the alert registry (module \<open>tests\<close> of contracts/alert-registry/src/lib.rs),
  in the order of the source, each as a test of theory TestHarness: the same calls with the
  same arguments, and the same assertions. \<open>env.storage()\<close> outside a contract is read as the
  storage of the contract under test, \<open>env.events().all()\<close> as the log of what it has
  published. Theory AlertConformance runs them.
\<close>

definition ar_setup :: "unit test" where
  "ar_setup = set_mocked True"

definition ar_setup_with_watcher_registry :: "unit test" where
  "ar_setup_with_watcher_registry = set_mocked True"

definition hash64 :: string where
  "hash64 = ''aaaaaaaaaaaaaaaaaaaaaaaaaaaaaaaaaaaaaaaaaaaaaaaaaaaaaaaaaaaaaaaa''"

section \<open>Registration, update, removal\<close>

definition ar_test_register_and_get_alert :: "unit test" where
  "ar_test_register_and_get_alert =
     bind ar_setup (\<lambda>_.
     bind generate (\<lambda>own. bind generate (\<lambda>target.
     bind (ar_client (ar_register_alert own target ''My Alert'' hash64 [''rule:transfer''] None)) (\<lambda>aid.
     bind (ar_fetch aid) (\<lambda>cfg.
     block
       [check (label cfg = ''My Alert''),
        check (owner cfg = own),
        check (active cfg)])))))"

definition ar_test_update_alert :: "unit test" where
  "ar_test_update_alert =
     bind ar_setup (\<lambda>_.
     bind generate (\<lambda>own. bind generate (\<lambda>target.
     bind (ar_client (ar_register_alert own target ''Alert'' hash64 [''rule:transfer''] None)) (\<lambda>aid.
     bind (ar_returns (ar_update_alert own aid [''rule:mint''] False) ()) (\<lambda>_.
     bind (ar_fetch aid) (\<lambda>cfg.
     block
       [check (\<not> active cfg),
        check (rules cfg ! 0 = ''rule:mint''),
        ar_shows (\<lambda>s. length (events s) \<ge> 2)]))))))"

definition ar_test_update_alert_emits_event :: "unit test" where
  "ar_test_update_alert_emits_event =
     bind ar_setup (\<lambda>_.
     bind generate (\<lambda>own. bind generate (\<lambda>target.
     bind (ar_client (ar_register_alert own target ''Alert'' hash64 [''rule:transfer''] None)) (\<lambda>aid.
     bind (gets (\<lambda>e. length (events (alert_store e)))) (\<lambda>count_before.
     block
       [ar_do (ar_update_alert own aid [''rule:mint''] False),
        ar_shows (\<lambda>s. length (events s) = count_before + 1)])))))"

definition ar_test_remove_alert :: "unit test" where
  "ar_test_remove_alert =
     bind ar_setup (\<lambda>_.
     bind generate (\<lambda>own. bind generate (\<lambda>target.
     bind (ar_client (ar_register_alert own target ''Alert'' hash64 [''rule:transfer''] None)) (\<lambda>aid.
     block
       [ar_returns (ar_remove_alert own aid) (),
        ar_gives (ar_get_alert aid) (\<lambda>found. found = None)]))))"

definition ar_test_update_unauthorized :: "unit test" where
  "ar_test_update_unauthorized =
     bind ar_setup (\<lambda>_.
     bind generate (\<lambda>own. bind generate (\<lambda>attacker. bind generate (\<lambda>target.
     bind (ar_client (ar_register_alert own target ''Alert'' hash64 [''rule:transfer''] None)) (\<lambda>aid.
     ar_rejects (ar_update_alert attacker aid [''rule:transfer''] False) ar_error.Unauthorized)))))"

definition ar_test_register_alert_rejects_invalid_rules :: "unit test" where
  "ar_test_register_alert_rejects_invalid_rules =
     bind ar_setup (\<lambda>_.
     bind generate (\<lambda>own. bind generate (\<lambda>target.
     ar_do (ar_register_alert own target ''Alert'' hash64 [''rule:unknown''] None))))"

definition ar_test_update_alert_rejects_invalid_rules :: "unit test" where
  "ar_test_update_alert_rejects_invalid_rules =
     bind ar_setup (\<lambda>_.
     bind generate (\<lambda>own. bind generate (\<lambda>target.
     bind (ar_client (ar_register_alert own target ''Alert'' hash64 [''rule:transfer''] None)) (\<lambda>aid.
     ar_do (ar_update_alert own aid [''rule:bogus''] True)))))"

definition ar_test_admin_remove_any_alert :: "unit test" where
  "ar_test_admin_remove_any_alert =
     bind ar_setup (\<lambda>_.
     bind generate (\<lambda>admin.
     bind (ar_do (ar_initialize admin)) (\<lambda>_.
     bind generate (\<lambda>own. bind generate (\<lambda>target.
     bind (ar_client (ar_register_alert own target ''Alert'' hash64 [''rule:mint''] None)) (\<lambda>aid.
     block
       [ar_do (ar_remove_alert_by_admin admin aid),
        ar_gives (ar_get_alert aid) (\<lambda>found. found = None)]))))))"

definition ar_test_admin_set_per_owner_alert_limit :: "unit test" where
  "ar_test_admin_set_per_owner_alert_limit =
     bind ar_setup (\<lambda>_.
     bind generate (\<lambda>admin.
     bind (block
       [ar_do (ar_initialize admin),
        ar_do (ar_set_per_owner_alert_limit admin 1)]) (\<lambda>_.
     bind generate (\<lambda>own. bind generate (\<lambda>target.
     block
       [ar_do (ar_register_alert own target ''Alert1'' hash64 [''rule:transfer''] None),
        ar_do (ar_register_alert own target ''Alert2'' hash64 [''rule:mint''] None)])))))"

definition ar_test_admin_transfer_admin :: "unit test" where
  "ar_test_admin_transfer_admin =
     bind ar_setup (\<lambda>_.
     bind generate (\<lambda>admin.
     bind (ar_do (ar_initialize admin)) (\<lambda>_.
     bind generate (\<lambda>new_admin.
     bind (ar_do (ar_transfer_admin admin new_admin)) (\<lambda>_.
     bind generate (\<lambda>own. bind generate (\<lambda>target.
     bind (ar_client (ar_register_alert own target ''Alert'' hash64 [''rule:transfer''] None)) (\<lambda>aid.
     ar_do (ar_remove_alert_by_admin new_admin aid)))))))))"

definition ar_test_old_admin_rejected_after_transfer :: "unit test" where
  "ar_test_old_admin_rejected_after_transfer =
     bind ar_setup (\<lambda>_.
     bind generate (\<lambda>admin.
     bind (ar_do (ar_initialize admin)) (\<lambda>_.
     bind generate (\<lambda>new_admin.
     block
       [ar_returns (ar_transfer_admin admin new_admin) (),
        ar_rejects (ar_transfer_admin admin new_admin) ar_error.Unauthorized]))))"

definition ar_test_remove_unauthorized :: "unit test" where
  "ar_test_remove_unauthorized =
     bind ar_setup (\<lambda>_.
     bind generate (\<lambda>own. bind generate (\<lambda>attacker. bind generate (\<lambda>target.
     bind (ar_client (ar_register_alert own target ''Alert'' hash64 [''rule:transfer''] None)) (\<lambda>aid.
     ar_rejects (ar_remove_alert attacker aid) ar_error.Unauthorized)))))"

definition ar_test_get_alert_count_after_multiple_cycles :: "unit test" where
  "ar_test_get_alert_count_after_multiple_cycles =
     bind ar_setup (\<lambda>_.
     bind generate (\<lambda>own. bind generate (\<lambda>target.
     bind (ar_shows (\<lambda>s. ar_get_alert_count s = 0)) (\<lambda>_.
     bind (ar_client (ar_register_alert own target ''A'' hash64 [''rule:transfer''] None)) (\<lambda>aid1.
     bind (block
       [ar_shows (\<lambda>s. ar_get_alert_count s = 1),
        ar_do (ar_remove_alert own aid1),
        ar_shows (\<lambda>s. ar_get_alert_count s = 1)]) (\<lambda>_.
     bind (ar_client (ar_register_alert own target ''B'' hash64 [''rule:transfer''] None)) (\<lambda>aid2.
     bind (block
       [ar_shows (\<lambda>s. ar_get_alert_count s = 2),
        ar_do (ar_remove_alert own aid2),
        ar_shows (\<lambda>s. ar_get_alert_count s = 2)]) (\<lambda>_.
     bind (ar_client (ar_register_alert own target ''C'' hash64 [''rule:transfer''] None)) (\<lambda>aid3.
     block
       [ar_shows (\<lambda>s. ar_get_alert_count s = 3),
        ar_do (ar_remove_alert own aid3),
        ar_shows (\<lambda>s. ar_get_alert_count s = 3),
        ar_shows (\<lambda>s. ar_get_alert_count s = 3),
        ar_gives (ar_get_active_alert_count own) (\<lambda>n. n = 0)])))))))))"

definition ar_test_get_nonexistent_alert :: "unit test" where
  "ar_test_get_nonexistent_alert =
     block
       [ar_setup,
        ar_gives (ar_get_alert 999) (\<lambda>found. found = None)]"

definition ar_test_get_alerts_for_contract_empty :: "unit test" where
  "ar_test_get_alerts_for_contract_empty =
     bind ar_setup (\<lambda>_.
     bind generate (\<lambda>querier. bind generate (\<lambda>target.
     ar_gives (ar_get_alerts_for_contract querier target) (\<lambda>r. length r = 0))))"

definition ar_test_get_alerts_by_owner_empty :: "unit test" where
  "ar_test_get_alerts_by_owner_empty =
     bind ar_setup (\<lambda>_.
     bind generate (\<lambda>own. bind generate (\<lambda>querier.
     ar_gives (ar_get_alerts_by_owner querier own) (\<lambda>r. length r = 0))))"

definition ar_test_index_queries :: "unit test" where
  "ar_test_index_queries =
     bind ar_setup (\<lambda>_.
     bind generate (\<lambda>querier. bind generate (\<lambda>own. bind generate (\<lambda>target.
     block
       [ar_do (ar_register_alert own target ''A1'' hash64 [''rule:transfer''] None),
        ar_do (ar_register_alert own target ''A2'' hash64 [''rule:transfer''] None),
        ar_gives (ar_get_alerts_for_contract querier target) (\<lambda>r. length r = 2),
        ar_gives (ar_get_alerts_by_owner querier own) (\<lambda>r. length r = 2)]))))"

definition ar_test_get_alert_count :: "unit test" where
  "ar_test_get_alert_count =
     bind ar_setup (\<lambda>_.
     bind generate (\<lambda>own. bind generate (\<lambda>target.
     block
       [ar_shows (\<lambda>s. ar_get_alert_count s = 0),
        ar_do (ar_register_alert own target ''A'' hash64 [''rule:transfer''] None),
        ar_shows (\<lambda>s. ar_get_alert_count s = 1)])))"

definition ar_test_paginated_queries_no_gating :: "unit test" where
  "ar_test_paginated_queries_no_gating =
     bind ar_setup (\<lambda>_.
     bind generate (\<lambda>querier. bind generate (\<lambda>own. bind generate (\<lambda>target.
     bind (for_each [0..<5] (\<lambda>i. ar_do (ar_register_alert own target ''alert'' hash64 [''rule:transfer''] None))) (\<lambda>_.
     bind (ar_client (ar_get_contract_alerts_paginated querier target 0 3)) (\<lambda>page.
     bind (check (length page = 3)) (\<lambda>_.
     bind (ar_client (ar_get_alerts_by_owner_paginated querier own 3 10)) (\<lambda>page2.
     check (length page2 = 2)))))))))"

section \<open>The gate of the watcher registry\<close>

definition ar_test_no_watcher_registry_any_querier_can_read :: "unit test" where
  "ar_test_no_watcher_registry_any_querier_can_read =
     bind ar_setup (\<lambda>_.
     bind generate (\<lambda>stranger. bind generate (\<lambda>own. bind generate (\<lambda>target.
     block
       [ar_do (ar_register_alert own target ''Alert'' hash64 [''rule:transfer''] None),
        ar_gives (ar_get_alerts_for_contract stranger target) (\<lambda>r. length r = 1)]))))"

definition ar_test_watcher_registry_registered_watcher_can_read :: "unit test" where
  "ar_test_watcher_registry_registered_watcher_can_read =
     bind ar_setup_with_watcher_registry (\<lambda>_.
     bind generate (\<lambda>admin. bind generate (\<lambda>watcher. bind generate (\<lambda>own.
     bind generate (\<lambda>target.
     block
       [wr_do (wr_initialize admin),
        wr_do (wr_register_watcher None admin watcher None),
        ar_do (ar_initialize admin),
        ar_do (ar_set_watcher_registry admin watcher_registry_id),
        ar_do (ar_register_alert own target ''Alert'' hash64 [''rule:transfer''] None),
        ar_gives (ar_get_alerts_for_contract watcher target) (\<lambda>r. length r = 1)])))))"

definition ar_test_watcher_registry_unregistered_address_rejected :: "unit test" where
  "ar_test_watcher_registry_unregistered_address_rejected =
     bind ar_setup_with_watcher_registry (\<lambda>_.
     bind generate (\<lambda>admin. bind generate (\<lambda>stranger. bind generate (\<lambda>own.
     bind generate (\<lambda>target.
     block
       [wr_do (wr_initialize admin),
        ar_do (ar_initialize admin),
        ar_do (ar_set_watcher_registry admin watcher_registry_id),
        ar_do (ar_register_alert own target ''Alert'' hash64 [''rule:transfer''] None),
        ar_rejects (ar_get_alerts_for_contract stranger target) ar_error.NotAWatcher])))))"

definition ar_test_watcher_registry_removed_watcher_loses_access :: "unit test" where
  "ar_test_watcher_registry_removed_watcher_loses_access =
     bind ar_setup_with_watcher_registry (\<lambda>_.
     bind generate (\<lambda>admin. bind generate (\<lambda>watcher. bind generate (\<lambda>own.
     bind generate (\<lambda>target.
     block
       [wr_do (wr_initialize admin),
        wr_do (wr_register_watcher None admin watcher None),
        ar_do (ar_initialize admin),
        ar_do (ar_set_watcher_registry admin watcher_registry_id),
        ar_do (ar_register_alert own target ''Alert'' hash64 [''rule:transfer''] None),
        ar_gives (ar_get_alerts_for_contract watcher target) (\<lambda>r. length r = 1),
        wr_do (wr_remove_watcher admin watcher),
        ar_rejects (ar_get_alerts_for_contract watcher target) ar_error.NotAWatcher])))))"

definition ar_test_get_watcher_registry_none_before_set :: "unit test" where
  "ar_test_get_watcher_registry_none_before_set =
     block
       [ar_setup,
        ar_shows (\<lambda>s. ar_get_watcher_registry s = None)]"

definition ar_test_set_and_get_watcher_registry :: "unit test" where
  "ar_test_set_and_get_watcher_registry =
     bind ar_setup_with_watcher_registry (\<lambda>_.
     bind generate (\<lambda>admin.
     block
       [ar_do (ar_initialize admin),
        ar_do (ar_set_watcher_registry admin watcher_registry_id),
        ar_shows (\<lambda>s. ar_get_watcher_registry s = Some watcher_registry_id)]))"

definition ar_test_set_watcher_registry_non_admin_rejected :: "unit test" where
  "ar_test_set_watcher_registry_non_admin_rejected =
     bind ar_setup (\<lambda>_.
     bind generate (\<lambda>admin. bind generate (\<lambda>attacker. bind generate (\<lambda>fake_registry.
     block
       [ar_do (ar_initialize admin),
        ar_rejects (ar_set_watcher_registry attacker fake_registry) ar_error.Unauthorized]))))"

section \<open>Time stamps, rules, labels\<close>

definition ar_test_updated_at_strictly_greater_than_created_at :: "unit test" where
  "ar_test_updated_at_strictly_greater_than_created_at =
     bind ar_setup (\<lambda>_.
     bind generate (\<lambda>own. bind generate (\<lambda>target.
     bind (ar_client (ar_register_alert own target ''Timestamp Alert'' hash64 [''rule:transfer''] None)) (\<lambda>aid.
     bind (ar_fetch aid) (\<lambda>before.
     bind (block
       [check (created_at before = updated_at before),
        modify (\<lambda>e. e\<lparr>test_clock := test_clock e + 1\<rparr>),
        ar_do (ar_update_alert own aid [''rule:mint''] True)]) (\<lambda>_.
     bind (ar_fetch aid) (\<lambda>after.
     check (updated_at after > created_at after))))))))"

definition ar_test_register_alert_with_all_valid_rules :: "unit test" where
  "ar_test_register_alert_with_all_valid_rules =
     bind ar_setup (\<lambda>_.
     bind generate (\<lambda>own. bind generate (\<lambda>target.
     bind (ar_client (ar_register_alert own target ''Bulk Rules Alert'' hash64 [''rule:transfer'', ''rule:mint''] None)) (\<lambda>aid.
     bind (ar_fetch aid) (\<lambda>cfg.
     block
       [check (length (rules cfg) = 2),
        check (rules cfg ! 0 = ''rule:transfer''),
        check (rules cfg ! 1 = ''rule:mint'')])))))"

definition ar_test_update_label_changes_label :: "unit test" where
  "ar_test_update_label_changes_label =
     bind ar_setup (\<lambda>_.
     bind generate (\<lambda>own. bind generate (\<lambda>target.
     bind (ar_client (ar_register_alert own target ''Original'' hash64 [''rule:transfer''] None)) (\<lambda>aid.
     bind (ar_returns (ar_update_label own aid ''Renamed'') ()) (\<lambda>_.
     bind (ar_fetch aid) (\<lambda>cfg.
     block
       [check (label cfg = ''Renamed''),
        check (rules cfg ! 0 = ''rule:transfer''),
        check (webhook_hash cfg = hash64),
        check (active cfg)]))))))"

definition ar_test_update_label_unauthorized :: "unit test" where
  "ar_test_update_label_unauthorized =
     bind ar_setup (\<lambda>_.
     bind generate (\<lambda>own. bind generate (\<lambda>attacker. bind generate (\<lambda>target.
     bind (ar_client (ar_register_alert own target ''Alert'' hash64 [''rule:transfer''] None)) (\<lambda>aid.
     ar_rejects (ar_update_label attacker aid ''Hacked'') ar_error.Unauthorized)))))"

definition ar_test_update_label_not_found :: "unit test" where
  "ar_test_update_label_not_found =
     bind ar_setup (\<lambda>_.
     bind generate (\<lambda>caller.
     ar_rejects (ar_update_label caller 999 ''X'') ar_error.AlertNotFound))"

definition ar_test_update_label_too_long :: "unit test" where
  "ar_test_update_label_too_long =
     bind ar_setup (\<lambda>_.
     bind generate (\<lambda>own. bind generate (\<lambda>target.
     bind (ar_client (ar_register_alert own target ''Alert'' hash64 [''rule:transfer''] None)) (\<lambda>aid.
     ar_do (ar_update_label own aid (replicate 129 (CHR ''a'')))))))"

definition ar_test_update_label_max_length_accepted :: "unit test" where
  "ar_test_update_label_max_length_accepted =
     bind ar_setup (\<lambda>_.
     bind generate (\<lambda>own. bind generate (\<lambda>target.
     bind (ar_client (ar_register_alert own target ''Alert'' hash64 [''rule:transfer''] None)) (\<lambda>aid.
     ar_returns (ar_update_label own aid (replicate 128 (CHR ''a''))) ()))))"

section \<open>Active alerts, admin transfer, incremental queries\<close>

definition ar_test_get_active_alerts_for_contract_filters_inactive :: "unit test" where
  "ar_test_get_active_alerts_for_contract_filters_inactive =
     bind ar_setup (\<lambda>_.
     bind generate (\<lambda>own. bind generate (\<lambda>target.
     bind (ar_client (ar_register_alert own target ''Active'' hash64 [''rule:transfer''] None)) (\<lambda>aid1.
     bind (ar_client (ar_register_alert own target ''Inactive'' hash64 [''rule:mint''] None)) (\<lambda>aid2.
     block
       [ar_do (ar_update_alert own aid2 [''rule:mint''] False),
        ar_gives (ar_get_alerts_for_contract own target) (\<lambda>all. length all = 2),
        ar_shows (\<lambda>s. length (ar_get_active_alerts_for_contract s target) = 1),
        ar_shows (\<lambda>s. label (ar_get_active_alerts_for_contract s target ! 0) = ''Active'')])))))"

definition ar_test_get_active_alerts_for_contract_all_inactive :: "unit test" where
  "ar_test_get_active_alerts_for_contract_all_inactive =
     bind ar_setup (\<lambda>_.
     bind generate (\<lambda>own. bind generate (\<lambda>target.
     bind (ar_client (ar_register_alert own target ''Alert'' hash64 [''rule:transfer''] None)) (\<lambda>aid.
     block
       [ar_do (ar_update_alert own aid [''rule:transfer''] False),
        ar_shows (\<lambda>s. length (ar_get_active_alerts_for_contract s target) = 0)]))))"

definition ar_test_get_active_alerts_for_contract_empty :: "unit test" where
  "ar_test_get_active_alerts_for_contract_empty =
     bind ar_setup (\<lambda>_.
     bind generate (\<lambda>target.
     ar_shows (\<lambda>s. length (ar_get_active_alerts_for_contract s target) = 0)))"

definition ar_test_get_active_alerts_for_contract_all_active :: "unit test" where
  "ar_test_get_active_alerts_for_contract_all_active =
     bind ar_setup (\<lambda>_.
     bind generate (\<lambda>own. bind generate (\<lambda>target.
     block
       [ar_do (ar_register_alert own target ''A1'' hash64 [''rule:transfer''] None),
        ar_do (ar_register_alert own target ''A2'' hash64 [''rule:mint''] None),
        ar_shows (\<lambda>s. length (ar_get_active_alerts_for_contract s target) = 2)])))"

definition ar_test_transfer_admin_emits_event :: "unit test" where
  "ar_test_transfer_admin_emits_event =
     bind ar_setup (\<lambda>_.
     bind generate (\<lambda>admin.
     bind (ar_do (ar_initialize admin)) (\<lambda>_.
     bind generate (\<lambda>new_admin.
     block
       [ar_do (ar_transfer_admin admin new_admin),
        ar_shows (\<lambda>s. events s \<noteq> [])]))))"

definition ar_test_old_admin_rejected_after_transfer_2 :: "unit test" where
  "ar_test_old_admin_rejected_after_transfer_2 =
     bind ar_setup (\<lambda>_.
     bind generate (\<lambda>admin.
     bind (ar_do (ar_initialize admin)) (\<lambda>_.
     bind generate (\<lambda>new_admin. bind generate (\<lambda>own. bind generate (\<lambda>target.
     bind (ar_do (ar_transfer_admin admin new_admin)) (\<lambda>_.
     bind (ar_client (ar_register_alert own target ''Alert'' hash64 [''rule:transfer''] None)) (\<lambda>aid.
     ar_rejects (ar_remove_alert_by_admin admin aid) ar_error.Unauthorized))))))))"

definition ar_test_get_alerts_modified_since_zero_returns_all :: "unit test" where
  "ar_test_get_alerts_modified_since_zero_returns_all =
     bind ar_setup (\<lambda>_.
     bind generate (\<lambda>own. bind generate (\<lambda>target.
     block
       [ar_do (ar_register_alert own target ''A'' hash64 [''rule:transfer''] None),
        ar_do (ar_register_alert own target ''B'' hash64 [''rule:transfer''] None),
        ar_shows (\<lambda>s. length (ar_get_alerts_modified_since s 0) = 2)])))"

definition ar_test_get_alerts_modified_since_empty_registry :: "unit test" where
  "ar_test_get_alerts_modified_since_empty_registry =
     block
       [ar_setup,
        ar_shows (\<lambda>s. length (ar_get_alerts_modified_since s 0) = 0)]"

definition ar_test_get_alerts_modified_since_filters_old_alerts :: "unit test" where
  "ar_test_get_alerts_modified_since_filters_old_alerts =
     bind ar_setup (\<lambda>_.
     bind generate (\<lambda>own. bind generate (\<lambda>target.
     block
       [ar_do (ar_register_alert own target ''Old'' hash64 [''rule:transfer''] None),
        set_timestamp 1000,
        ar_do (ar_register_alert own target ''New'' hash64 [''rule:transfer''] None),
        ar_shows (\<lambda>s. length (ar_get_alerts_modified_since s 1000) = 1),
        ar_shows (\<lambda>s. label (ar_get_alerts_modified_since s 1000 ! 0) = ''New'')])))"

definition ar_test_get_alerts_modified_since_includes_updated_alert :: "unit test" where
  "ar_test_get_alerts_modified_since_includes_updated_alert =
     bind ar_setup (\<lambda>_.
     bind generate (\<lambda>own. bind generate (\<lambda>target.
     bind (ar_client (ar_register_alert own target ''A'' hash64 [''rule:transfer''] None)) (\<lambda>aid1.
     block
       [ar_do (ar_register_alert own target ''B'' hash64 [''rule:transfer''] None),
        set_timestamp 500,
        ar_do (ar_update_alert own aid1 [''rule:transfer''] False),
        ar_shows (\<lambda>s. length (ar_get_alerts_modified_since s 500) = 1),
        ar_shows (\<lambda>s. label (ar_get_alerts_modified_since s 500 ! 0) = ''A'')]))))"

definition ar_test_get_alerts_modified_since_excludes_removed_alerts :: "unit test" where
  "ar_test_get_alerts_modified_since_excludes_removed_alerts =
     bind ar_setup (\<lambda>_.
     bind generate (\<lambda>own. bind generate (\<lambda>target.
     bind (ar_client (ar_register_alert own target ''A'' hash64 [''rule:transfer''] None)) (\<lambda>aid1.
     block
       [ar_do (ar_register_alert own target ''B'' hash64 [''rule:transfer''] None),
        ar_do (ar_remove_alert own aid1),
        ar_shows (\<lambda>s. length (ar_get_alerts_modified_since s 0) = 1),
        ar_shows (\<lambda>s. label (ar_get_alerts_modified_since s 0 ! 0) = ''B'')]))))"

definition ar_test_get_alerts_modified_since_boundary_inclusive :: "unit test" where
  "ar_test_get_alerts_modified_since_boundary_inclusive =
     bind ar_setup (\<lambda>_.
     bind generate (\<lambda>own. bind generate (\<lambda>target.
     block
       [set_timestamp 42,
        ar_do (ar_register_alert own target ''Boundary'' hash64 [''rule:transfer''] None),
        ar_shows (\<lambda>s. length (ar_get_alerts_modified_since s 42) = 1),
        ar_shows (\<lambda>s. length (ar_get_alerts_modified_since s 43) = 0)])))"

section \<open>Calls without a signature\<close>

definition ar_test_register_alert_requires_auth :: "unit test" where
  "ar_test_register_alert_requires_auth =
     bind generate (\<lambda>own. bind generate (\<lambda>target.
     ar_do (ar_register_alert own target ''A'' hash64 [''rule:transfer''] None)))"

definition ar_test_update_alert_requires_auth :: "unit test" where
  "ar_test_update_alert_requires_auth =
     bind generate (\<lambda>own. bind generate (\<lambda>target.
     bind (set_mocked True) (\<lambda>_.
     bind (ar_client (ar_register_alert own target ''A'' hash64 [''rule:transfer''] None)) (\<lambda>aid.
     block
       [set_mocked False,
        ar_do (ar_update_alert own aid [''rule:transfer''] False)]))))"

definition ar_test_update_webhook_requires_auth :: "unit test" where
  "ar_test_update_webhook_requires_auth =
     bind generate (\<lambda>own. bind generate (\<lambda>target.
     bind (set_mocked True) (\<lambda>_.
     bind (ar_client (ar_register_alert own target ''A'' hash64 [''rule:transfer''] None)) (\<lambda>aid.
     block
       [set_mocked False,
        ar_do (ar_update_webhook own aid hash64)]))))"

definition ar_test_remove_alert_requires_auth :: "unit test" where
  "ar_test_remove_alert_requires_auth =
     bind generate (\<lambda>own. bind generate (\<lambda>target.
     bind (set_mocked True) (\<lambda>_.
     bind (ar_client (ar_register_alert own target ''A'' hash64 [''rule:transfer''] None)) (\<lambda>aid.
     block
       [set_mocked False,
        ar_do (ar_remove_alert own aid)]))))"

definition ar_test_transfer_admin_requires_auth :: "unit test" where
  "ar_test_transfer_admin_requires_auth =
     bind generate (\<lambda>admin.
     bind (block
       [set_mocked True,
        ar_do (ar_initialize admin)]) (\<lambda>_.
     bind generate (\<lambda>new_admin.
     block
       [set_mocked False,
        ar_do (ar_transfer_admin admin new_admin)])))"

definition ar_test_set_per_owner_alert_limit_requires_auth :: "unit test" where
  "ar_test_set_per_owner_alert_limit_requires_auth =
     bind generate (\<lambda>admin.
     block
       [set_mocked True,
        ar_do (ar_initialize admin),
        set_mocked False,
        ar_do (ar_set_per_owner_alert_limit admin 5)])"

definition ar_test_remove_alert_by_admin_requires_auth :: "unit test" where
  "ar_test_remove_alert_by_admin_requires_auth =
     bind generate (\<lambda>admin. bind generate (\<lambda>own. bind generate (\<lambda>target.
     bind (block
       [set_mocked True,
        ar_do (ar_initialize admin)]) (\<lambda>_.
     bind (ar_client (ar_register_alert own target ''A'' hash64 [''rule:transfer''] None)) (\<lambda>aid.
     block
       [set_mocked False,
        ar_do (ar_remove_alert_by_admin admin aid)])))))"

section \<open>Identifiers, retargeting, removed alerts\<close>

text \<open>The loop of \<open>test_id_monotonicity\<close>, with the previous identifier.\<close>

fun ar_test_id_monotonicity_loop :: "address \<Rightarrow> address \<Rightarrow> nat \<Rightarrow> u64 option \<Rightarrow> unit test" where
  "ar_test_id_monotonicity_loop own target 0 prev_id = ret ()"
| "ar_test_id_monotonicity_loop own target (Suc n) prev_id =
     bind (ar_client (ar_register_alert own target ''alert'' hash64 [''rule:transfer''] None)) (\<lambda>aid.
     bind (case prev_id of None \<Rightarrow> ret () | Some p \<Rightarrow> check (aid = p + 1)) (\<lambda>_.
     ar_test_id_monotonicity_loop own target n (Some aid)))"

definition ar_test_id_monotonicity :: "unit test" where
  "ar_test_id_monotonicity =
     bind ar_setup (\<lambda>_.
     bind generate (\<lambda>own. bind generate (\<lambda>target.
     ar_test_id_monotonicity_loop own target 10 None)))"

definition ar_test_alert_ids_live_only_and_new_rules :: "unit test" where
  "ar_test_alert_ids_live_only_and_new_rules =
     bind ar_setup (\<lambda>_.
     bind generate (\<lambda>own. bind generate (\<lambda>target.
     bind (ar_client (ar_register_alert own target ''A'' hash64 [''rule:invoke'', ''rule:all''] None)) (\<lambda>id0.
     bind (ar_client (ar_register_alert own target ''A'' hash64 [''rule:invoke'', ''rule:all''] None)) (\<lambda>id1.
     bind (ar_client (ar_register_alert own target ''A'' hash64 [''rule:invoke'', ''rule:all''] None)) (\<lambda>id2.
     let ids = [id0, id1, id2] in
     block
       [ar_do (ar_remove_alert own (ids ! 1)),
        ar_shows (\<lambda>s. length (ar_get_alert_ids_by_owner s own) = 2),
        ar_shows (\<lambda>s. length (ar_get_alert_ids_for_contract s target) = 2)]))))))"

definition ar_test_update_target_contract :: "unit test" where
  "ar_test_update_target_contract =
     bind ar_setup (\<lambda>_.
     bind generate (\<lambda>own. bind generate (\<lambda>old_target. bind generate (\<lambda>new_target.
     bind (ar_client (ar_register_alert own old_target ''Alert'' hash64 [''rule:transfer''] None)) (\<lambda>aid.
     bind (ar_do (ar_update_target_contract own aid new_target)) (\<lambda>_.
     bind (ar_fetch aid) (\<lambda>cfg.
     block
       [check (target_contract cfg = new_target),
        ar_gives (ar_get_alerts_for_contract own old_target) (\<lambda>r. length r = 0),
        ar_gives (ar_get_alerts_for_contract own new_target) (\<lambda>r. length r = 1)])))))))"

definition ar_test_update_target_contract_unauthorized :: "unit test" where
  "ar_test_update_target_contract_unauthorized =
     bind ar_setup (\<lambda>_.
     bind generate (\<lambda>own. bind generate (\<lambda>attacker. bind generate (\<lambda>target.
     bind generate (\<lambda>new_target.
     bind (ar_client (ar_register_alert own target ''Alert'' hash64 [''rule:transfer''] None)) (\<lambda>aid.
     ar_rejects (ar_update_target_contract attacker aid new_target) ar_error.Unauthorized))))))"

definition ar_test_update_alert_after_remove_returns_not_found :: "unit test" where
  "ar_test_update_alert_after_remove_returns_not_found =
     bind ar_setup (\<lambda>_.
     bind generate (\<lambda>own. bind generate (\<lambda>target.
     bind (ar_client (ar_register_alert own target ''Alert'' hash64 [''rule:transfer''] None)) (\<lambda>aid.
     block
       [ar_returns (ar_remove_alert own aid) (),
        ar_rejects (ar_update_alert own aid [''rule:transfer''] False) ar_error.AlertNotFound]))))"

definition ar_test_update_webhook_after_remove_returns_not_found :: "unit test" where
  "ar_test_update_webhook_after_remove_returns_not_found =
     bind ar_setup (\<lambda>_.
     bind generate (\<lambda>own. bind generate (\<lambda>target.
     bind (ar_client (ar_register_alert own target ''Alert'' hash64 [''rule:transfer''] None)) (\<lambda>aid.
     block
       [ar_returns (ar_remove_alert own aid) (),
        ar_rejects (ar_update_webhook own aid hash64) ar_error.AlertNotFound]))))"

definition ar_test_get_alert_active_nonexistent :: "unit test" where
  "ar_test_get_alert_active_nonexistent =
     block
       [ar_setup,
        ar_shows (\<lambda>s. ar_get_alert_active s 999 = None)]"

definition ar_test_get_alert_active_after_register :: "unit test" where
  "ar_test_get_alert_active_after_register =
     bind ar_setup (\<lambda>_.
     bind generate (\<lambda>own. bind generate (\<lambda>target.
     bind (ar_client (ar_register_alert own target ''Alert'' hash64 [''rule:transfer''] None)) (\<lambda>aid.
     ar_shows (\<lambda>s. ar_get_alert_active s aid = Some True)))))"

definition ar_test_get_alert_active_after_update :: "unit test" where
  "ar_test_get_alert_active_after_update =
     bind ar_setup (\<lambda>_.
     bind generate (\<lambda>own. bind generate (\<lambda>target.
     bind (ar_client (ar_register_alert own target ''Alert'' hash64 [''rule:transfer''] None)) (\<lambda>aid.
     block
       [ar_shows (\<lambda>s. ar_get_alert_active s aid = Some True),
        ar_do (ar_update_alert own aid [''rule:transfer''] False),
        ar_shows (\<lambda>s. ar_get_alert_active s aid = Some False),
        ar_do (ar_update_alert own aid [''rule:transfer''] True),
        ar_shows (\<lambda>s. ar_get_alert_active s aid = Some True)]))))"

definition ar_test_get_alert_active_after_remove :: "unit test" where
  "ar_test_get_alert_active_after_remove =
     bind ar_setup (\<lambda>_.
     bind generate (\<lambda>own. bind generate (\<lambda>target.
     bind (ar_client (ar_register_alert own target ''Alert'' hash64 [''rule:transfer''] None)) (\<lambda>aid.
     block
       [ar_shows (\<lambda>s. ar_get_alert_active s aid = Some True),
        ar_do (ar_remove_alert own aid),
        ar_shows (\<lambda>s. ar_get_alert_active s aid = None)]))))"

section \<open>Deactivating all alerts, pages\<close>

definition ar_test_deactivate_all_alerts_empty :: "unit test" where
  "ar_test_deactivate_all_alerts_empty =
     bind ar_setup (\<lambda>_.
     bind generate (\<lambda>own.
     ar_gives (ar_deactivate_all_alerts own) (\<lambda>n. n = 0)))"

definition ar_test_deactivate_all_alerts_multiple :: "unit test" where
  "ar_test_deactivate_all_alerts_multiple =
     bind ar_setup (\<lambda>_.
     bind generate (\<lambda>own. bind generate (\<lambda>target.
     bind (ar_client (ar_register_alert own target ''Alert 1'' hash64 [''rule:transfer''] None)) (\<lambda>aid1.
     bind (ar_client (ar_register_alert own target ''Alert 2'' hash64 [''rule:mint''] None)) (\<lambda>aid2.
     bind (ar_client (ar_register_alert own target ''Alert 3'' hash64 [''rule:transfer''] None)) (\<lambda>aid3.
     block
       [ar_shows (\<lambda>s. ar_get_alert_active s aid1 = Some True),
        ar_shows (\<lambda>s. ar_get_alert_active s aid2 = Some True),
        ar_shows (\<lambda>s. ar_get_alert_active s aid3 = Some True),
        ar_gives (ar_deactivate_all_alerts own) (\<lambda>count. count = 3),
        ar_shows (\<lambda>s. ar_get_alert_active s aid1 = Some False),
        ar_shows (\<lambda>s. ar_get_alert_active s aid2 = Some False),
        ar_shows (\<lambda>s. ar_get_alert_active s aid3 = Some False)]))))))"

definition ar_test_deactivate_all_alerts_other_owner_unaffected :: "unit test" where
  "ar_test_deactivate_all_alerts_other_owner_unaffected =
     bind ar_setup (\<lambda>_.
     bind generate (\<lambda>owner1. bind generate (\<lambda>owner2. bind generate (\<lambda>target.
     bind (ar_client (ar_register_alert owner1 target ''Owner1 Alert'' hash64 [''rule:transfer''] None)) (\<lambda>aid1.
     bind (ar_client (ar_register_alert owner2 target ''Owner2 Alert'' hash64 [''rule:mint''] None)) (\<lambda>aid2.
     block
       [ar_gives (ar_deactivate_all_alerts owner1) (\<lambda>count. count = 1),
        ar_shows (\<lambda>s. ar_get_alert_active s aid1 = Some False),
        ar_shows (\<lambda>s. ar_get_alert_active s aid2 = Some True)]))))))"

definition ar_test_deactivate_all_alerts_after_removal :: "unit test" where
  "ar_test_deactivate_all_alerts_after_removal =
     bind ar_setup (\<lambda>_.
     bind generate (\<lambda>own. bind generate (\<lambda>target.
     bind (ar_client (ar_register_alert own target ''Alert 1'' hash64 [''rule:transfer''] None)) (\<lambda>aid1.
     bind (ar_client (ar_register_alert own target ''Alert 2'' hash64 [''rule:mint''] None)) (\<lambda>aid2.
     block
       [ar_do (ar_remove_alert own aid1),
        ar_gives (ar_deactivate_all_alerts own) (\<lambda>count. count = 1),
        ar_gives (ar_get_alert aid1) (\<lambda>found. found = None),
        ar_shows (\<lambda>s. ar_get_alert_active s aid2 = Some False)])))))"

definition ar_test_get_alerts_by_owner_paginated :: "unit test" where
  "ar_test_get_alerts_by_owner_paginated =
     bind ar_setup (\<lambda>_.
     bind generate (\<lambda>querier. bind generate (\<lambda>own. bind generate (\<lambda>target.
     block
       [for_each [''A'', ''B'', ''C'', ''D'', ''E''] (\<lambda>lbl. ar_do (ar_register_alert own target lbl hash64 [''rule:transfer''] None)),
        ar_gives (ar_get_alerts_by_owner_paginated querier own 0 3) (\<lambda>page1. length page1 = 3),
        ar_gives (ar_get_alerts_by_owner_paginated querier own 3 3) (\<lambda>page2. length page2 = 2),
        ar_gives (ar_get_alerts_by_owner_paginated querier own 10 3) (\<lambda>empty. length empty = 0)]))))"

definition ar_test_get_contract_alerts_paginated :: "unit test" where
  "ar_test_get_contract_alerts_paginated =
     bind ar_setup (\<lambda>_.
     bind generate (\<lambda>querier. bind generate (\<lambda>own. bind generate (\<lambda>target.
     block
       [for_each [''A'', ''B'', ''C'', ''D''] (\<lambda>lbl. ar_do (ar_register_alert own target lbl hash64 [''rule:transfer''] None)),
        ar_gives (ar_get_contract_alerts_paginated querier target 1 2) (\<lambda>page. length page = 2)]))))"

definition ar_test_get_admin_not_initialized :: "unit test" where
  "ar_test_get_admin_not_initialized =
     ar_do ar_get_admin"

section \<open>Updates and their events\<close>

definition ar_test_alert_deactivate_reactivate :: "unit test" where
  "ar_test_alert_deactivate_reactivate =
     bind ar_setup (\<lambda>_.
     bind generate (\<lambda>own. bind generate (\<lambda>target.
     bind (ar_client (ar_register_alert own target ''Alert'' hash64 [''rule:mint''] None)) (\<lambda>aid.
     bind (ar_returns (ar_update_alert own aid [''rule:mint''] False) ()) (\<lambda>_.
     bind (ar_fetch aid) (\<lambda>cfg.
     bind (block
       [check (\<not> active cfg),
        ar_returns (ar_update_alert own aid [''rule:mint''] True) ()]) (\<lambda>_.
     bind (ar_fetch aid) (\<lambda>cfg2.
     check (active cfg2)))))))))"

definition ar_test_update_webhook_updates_timestamp :: "unit test" where
  "ar_test_update_webhook_updates_timestamp =
     bind ar_setup (\<lambda>_.
     bind generate (\<lambda>own. bind generate (\<lambda>target.
     bind (ar_client (ar_register_alert own target ''A'' hash64 [''rule:transfer''] None)) (\<lambda>aid.
     bind (ar_fetch aid) (\<lambda>before.
     bind (block
       [set_timestamp (updated_at before + 100),
        ar_returns (ar_update_webhook own aid hash64) ()]) (\<lambda>_.
     bind (ar_fetch aid) (\<lambda>cfg.
     check (updated_at cfg > updated_at before))))))))"

definition ar_test_update_webhook_emits_event :: "unit test" where
  "ar_test_update_webhook_emits_event =
     bind ar_setup (\<lambda>_.
     bind generate (\<lambda>own. bind generate (\<lambda>target.
     bind (ar_client (ar_register_alert own target ''A'' ''hash'' [] None)) (\<lambda>aid.
     bind (ar_do (ar_update_webhook own aid ''new-hash'')) (\<lambda>_.
     bind (gets (\<lambda>e. events (alert_store e))) (\<lambda>all.
     bind (unwrap (if all = [] then None else Some (last all))) (\<lambda>ev.
     block
       [check (topic0 ev = ''alert'' \<and> topic1 ev = ''webhook''),
        check (event_data ev = [VU64 aid, VAddr own])])))))))"

definition ar_test_multiple_owners_overlapping_target_contract :: "unit test" where
  "ar_test_multiple_owners_overlapping_target_contract =
     bind ar_setup (\<lambda>_.
     bind generate (\<lambda>owner_a. bind generate (\<lambda>owner_b. bind generate (\<lambda>target.
     bind (block
       [ar_do (ar_register_alert owner_a target ''Alert-A'' hash64 [''rule:transfer''] None),
        ar_do (ar_register_alert owner_b target ''Alert-B'' hash64 [''rule:transfer''] None),
        ar_gives (ar_get_alerts_for_contract owner_a target) (\<lambda>r. length r = 2)]) (\<lambda>_.
     bind (ar_client (ar_get_alerts_by_owner owner_a owner_a)) (\<lambda>alerts_a.
     bind (block
       [check (length alerts_a = 1),
        check (owner (alerts_a ! 0) = owner_a)]) (\<lambda>_.
     bind (ar_client (ar_get_alerts_by_owner owner_b owner_b)) (\<lambda>alerts_b.
     block
       [check (length alerts_b = 1),
        check (owner (alerts_b ! 0) = owner_b)]))))))))"

section \<open>Lifetime renewal\<close>

definition ar_test_bump_alert_succeeds :: "unit test" where
  "ar_test_bump_alert_succeeds =
     bind ar_setup (\<lambda>_.
     bind generate (\<lambda>own. bind generate (\<lambda>target.
     bind (ar_client (ar_register_alert own target ''Alert'' hash64 [''rule:transfer''] None)) (\<lambda>aid.
     ar_returns (ar_bump_alert aid 17280) ()))))"

definition ar_test_bump_alert_not_found :: "unit test" where
  "ar_test_bump_alert_not_found =
     block
       [ar_setup,
        ar_rejects (ar_bump_alert 999 17280) ar_error.AlertNotFound]"

definition ar_test_bump_alert_clamps_to_max_ttl :: "unit test" where
  "ar_test_bump_alert_clamps_to_max_ttl =
     bind ar_setup (\<lambda>_.
     bind generate (\<lambda>own. bind generate (\<lambda>target.
     bind (ar_client (ar_register_alert own target ''Alert'' hash64 [''rule:transfer''] None)) (\<lambda>aid.
     bind (ar_do (ar_bump_alert aid 4294967295)) (\<lambda>_.
     bind (gets (\<lambda>e. List.find (is_event ''alert'' ''bump'') (events (alert_store e)))) (\<lambda>found.
     bind (unwrap found) (\<lambda>bump.
     check (event_data bump = [VU64 aid, VU32 AR_MAX_TTL]))))))))"

definition ar_test_bump_alert_uses_requested_ttl_when_below_max :: "unit test" where
  "ar_test_bump_alert_uses_requested_ttl_when_below_max =
     bind ar_setup (\<lambda>_.
     bind generate (\<lambda>own. bind generate (\<lambda>target.
     bind (ar_client (ar_register_alert own target ''Alert'' hash64 [''rule:transfer''] None)) (\<lambda>aid.
     bind (ar_do (ar_bump_alert aid 120960)) (\<lambda>_.
     bind (gets (\<lambda>e. List.find (is_event ''alert'' ''bump'') (events (alert_store e)))) (\<lambda>found.
     bind (unwrap found) (\<lambda>bump.
     check (event_data bump ! 1 = VU32 120960))))))))"

definition ar_test_bump_alert_event_shape :: "unit test" where
  "ar_test_bump_alert_event_shape =
     bind ar_setup (\<lambda>_.
     bind generate (\<lambda>own. bind generate (\<lambda>target.
     bind (ar_client (ar_register_alert own target ''Alert'' hash64 [''rule:transfer''] None)) (\<lambda>aid.
     bind (ar_do (ar_bump_alert aid 17280)) (\<lambda>_.
     bind (gets (\<lambda>e. List.find (is_event ''alert'' ''bump'') (events (alert_store e)))) (\<lambda>found.
     bind (unwrap found) (\<lambda>bump.
     check (event_data bump = [VU64 aid, VU32 17280]))))))))"

definition ar_test_bump_alert_does_not_modify_content :: "unit test" where
  "ar_test_bump_alert_does_not_modify_content =
     bind ar_setup (\<lambda>_.
     bind generate (\<lambda>own. bind generate (\<lambda>target.
     bind (ar_client (ar_register_alert own target ''Immutable'' hash64 [''rule:transfer''] None)) (\<lambda>aid.
     bind (ar_fetch aid) (\<lambda>before.
     bind (ar_do (ar_bump_alert aid 17280)) (\<lambda>_.
     bind (ar_fetch aid) (\<lambda>after.
     block
       [check (label after = label before),
        check (webhook_hash after = webhook_hash before),
        check (length (rules after) = length (rules before)),
        check (owner after = owner before),
        check (target_contract after = target_contract before),
        check (created_at after = created_at before),
        check (updated_at after = updated_at before),
        check (active after = active before)])))))))"

definition ar_test_ttl_constants :: "unit test" where
  "ar_test_ttl_constants =
     block
       [check (AR_DEFAULT_TTL = 120960),
        check (AR_MAX_TTL = 535680),
        check (AR_MAX_TTL > AR_DEFAULT_TTL)]"

definition ar_test_counter_overflow_guard :: "unit test" where
  "ar_test_counter_overflow_guard =
     bind ar_setup (\<lambda>_.
     bind generate (\<lambda>own. bind generate (\<lambda>target.
     block
       [modify (\<lambda>e. e\<lparr>alert_store := (alert_store e)\<lparr>NEXT_ID := Some (- 1)\<rparr>\<rparr>),
        ar_rejects (ar_register_alert own target ''alert'' hash64 [''rule:transfer''] None) ar_error.CounterOverflow])))"

section \<open>Regression tests of issues 210, 212 and 213\<close>

text \<open>They register with an empty list of rules.\<close>

definition ar_test_issue_210_limit_zero_means_no_cap :: "unit test" where
  "ar_test_issue_210_limit_zero_means_no_cap =
     bind ar_setup (\<lambda>_.
     bind generate (\<lambda>admin. bind generate (\<lambda>own. bind generate (\<lambda>target.
     block
       [ar_do (ar_initialize admin),
        ar_do (ar_set_per_owner_alert_limit admin 0),
        for_each [0..<5] (\<lambda>i. ar_do (ar_register_alert own target ''Alert'' hash64 [] None)),
        ar_gives (ar_get_active_alert_count own) (\<lambda>n. n = 5)]))))"

definition ar_test_issue_210_nonzero_limit_enforced :: "unit test" where
  "ar_test_issue_210_nonzero_limit_enforced =
     bind ar_setup (\<lambda>_.
     bind generate (\<lambda>admin. bind generate (\<lambda>own. bind generate (\<lambda>target.
     block
       [ar_do (ar_initialize admin),
        ar_do (ar_set_per_owner_alert_limit admin 2),
        ar_do (ar_register_alert own target ''A'' hash64 [] None),
        ar_do (ar_register_alert own target ''B'' hash64 [] None),
        ar_rejects (ar_register_alert own target ''C'' hash64 [] None) ar_error.OwnerAlertLimitExceeded]))))"

definition ar_test_issue_210_clearing_limit_re_enables_registration :: "unit test" where
  "ar_test_issue_210_clearing_limit_re_enables_registration =
     bind ar_setup (\<lambda>_.
     bind generate (\<lambda>admin. bind generate (\<lambda>own. bind generate (\<lambda>target.
     bind (block
       [ar_do (ar_initialize admin),
        ar_do (ar_set_per_owner_alert_limit admin 1),
        ar_do (ar_register_alert own target ''A'' hash64 [] None)]) (\<lambda>_.
     bind (ar_try (ar_register_alert own target ''B'' hash64 [] None)) (\<lambda>res.
     block
       [check (case res of Inl (Err y) \<Rightarrow> True | _ \<Rightarrow> False),
        ar_do (ar_set_per_owner_alert_limit admin 0),
        ar_do (ar_register_alert own target ''C'' hash64 [] None)]))))))"

definition ar_test_issue_212_next_id_survives_repeated_bumps :: "unit test" where
  "ar_test_issue_212_next_id_survives_repeated_bumps =
     bind ar_setup (\<lambda>_.
     bind generate (\<lambda>own. bind generate (\<lambda>target.
     bind (ar_client (ar_register_alert own target ''Alert'' hash64 [] None)) (\<lambda>aid.
     bind (gets (\<lambda>e. ar_get_alert_count (alert_store e))) (\<lambda>count_before.
     bind (block
       [check (count_before = 1),
        for_each [0..<5] (\<lambda>i. ar_do (ar_bump_alert aid AR_DEFAULT_TTL))]) (\<lambda>_.
     bind (gets (\<lambda>e. ar_get_alert_count (alert_store e))) (\<lambda>count_after.
     bind (check (count_after = count_before)) (\<lambda>_.
     bind (ar_client (ar_register_alert own target ''Alert2'' hash64 [] None)) (\<lambda>id2.
     check (id2 = 1))))))))))"

definition ar_test_issue_213_owner_remove_event_shape :: "unit test" where
  "ar_test_issue_213_owner_remove_event_shape =
     bind ar_setup (\<lambda>_.
     bind generate (\<lambda>own. bind generate (\<lambda>target.
     bind (ar_client (ar_register_alert own target ''Alert'' hash64 [] None)) (\<lambda>aid.
     bind (gets (\<lambda>e. length (events (alert_store e)))) (\<lambda>events_before.
     bind (ar_do (ar_remove_alert own aid)) (\<lambda>_.
     bind (gets (\<lambda>e. List.find (is_event ''alert'' ''remove'')
       (drop events_before (events (alert_store e))))) (\<lambda>found.
     bind (unwrap found) (\<lambda>ev.
     check (event_data ev = [VU64 aid, VAddr own])))))))))"

definition ar_test_issue_213_admin_remove_event_includes_owner :: "unit test" where
  "ar_test_issue_213_admin_remove_event_includes_owner =
     bind ar_setup (\<lambda>_.
     bind generate (\<lambda>admin. bind generate (\<lambda>own. bind generate (\<lambda>target.
     bind (ar_do (ar_initialize admin)) (\<lambda>_.
     bind (ar_client (ar_register_alert own target ''Alert'' hash64 [] None)) (\<lambda>aid.
     bind (gets (\<lambda>e. length (events (alert_store e)))) (\<lambda>events_before.
     bind (ar_do (ar_remove_alert_by_admin admin aid)) (\<lambda>_.
     bind (gets (\<lambda>e. List.find (is_event ''alert'' ''remove'')
       (drop events_before (events (alert_store e))))) (\<lambda>found.
     bind (unwrap found) (\<lambda>ev.
     check (event_data ev = [VU64 aid, VAddr admin, VAddr own])))))))))))"

section \<open>Several admins, tags, transfer, incremental synchronisation\<close>

definition ar_reg :: "address \<Rightarrow> address \<Rightarrow> string list option \<Rightarrow> u64 test" where
  "ar_reg o' t tgs = ar_client (ar_register_alert o' t ''l'' hash64 [''rule:transfer''] tgs)"

definition ar_test_multi_admin_add_remove_and_last_admin_guard :: "unit test" where
  "ar_test_multi_admin_add_remove_and_last_admin_guard =
     bind ar_setup (\<lambda>_.
     bind generate (\<lambda>a. bind generate (\<lambda>b. bind generate (\<lambda>x.
     block
       [ar_do (ar_initialize a),
        ar_do (ar_add_admin a b),
        ar_shows (\<lambda>s. map_option length (ar_get_admins s) = Some 2),
        ar_rejects (ar_add_admin b a) ar_error.AlreadyAdmin,
        ar_rejects (ar_add_admin x x) ar_error.Unauthorized,
        ar_do (ar_set_paused b False),
        ar_rejects (ar_remove_admin a x) ar_error.NotAdmin,
        ar_do (ar_remove_admin b a),
        ar_rejects (ar_remove_admin b b) ar_error.LastAdmin,
        ar_rejects (ar_set_paused a True) ar_error.Unauthorized,
        ar_gives ar_get_admin (\<lambda>y. y = b)]))))"

definition ar_test_legacy_single_admin_is_migrated_on_read :: "unit test" where
  "ar_test_legacy_single_admin_is_migrated_on_read =
     bind ar_setup (\<lambda>_.
     bind generate (\<lambda>a. bind generate (\<lambda>b.
     block
       [modify (\<lambda>e. e\<lparr>alert_store := (alert_store e)\<lparr>ADMIN := Some (AdminAddr a)\<rparr>\<rparr>),
        ar_gives ar_get_admin (\<lambda>y. y = a),
        ar_do (ar_add_admin a b),
        ar_shows (\<lambda>s. map_option length (ar_get_admins s) = Some 2)])))"

definition ar_test_transfer_admin_replaces_set :: "unit test" where
  "ar_test_transfer_admin_replaces_set =
     bind ar_setup (\<lambda>_.
     bind generate (\<lambda>a. bind generate (\<lambda>b. bind generate (\<lambda>n.
     block
       [ar_do (ar_initialize a),
        ar_do (ar_add_admin a b),
        ar_do (ar_transfer_admin a n),
        ar_shows (\<lambda>s. ar_get_admins s = Some [n])]))))"

definition ar_test_tags_valid_and_invalid :: "unit test" where
  "ar_test_tags_valid_and_invalid =
     bind ar_setup (\<lambda>_.
     bind generate (\<lambda>ow. bind generate (\<lambda>t.
     bind (ar_reg ow t (Some [''prod''])) (\<lambda>aid.
     bind (ar_fetch aid) (\<lambda>cfg.
     bind (check (tags cfg = Some [''prod''])) (\<lambda>_.
     let ten = replicate 10 ''x'' in
     bind (ar_do (ar_update_tags ow aid (Some ten))) (\<lambda>_.
     let eleven = ten @ [''x''] in
     bind (ar_rejects (ar_update_tags ow aid (Some eleven)) ar_error.TooManyTags) (\<lambda>_.
     let long = ''0123456789012345678901234567890123'' in
     bind (block
       [ar_rejects (ar_update_tags ow aid (Some [long])) ar_error.TagTooLong,
        ar_rejects (ar_register_alert ow t ''l'' hash64 [''rule:transfer''] (Some [long])) ar_error.TagTooLong]) (\<lambda>_.
     bind generate (\<lambda>other.
     bind (block
       [ar_rejects (ar_update_tags other aid None) ar_error.Unauthorized,
        ar_do (ar_update_tags ow aid None)]) (\<lambda>_.
     bind (ar_fetch aid) (\<lambda>cfg2.
     check (tags cfg2 = None)))))))))))))"

definition ar_test_transfer_alert_ownership_and_limit_guard :: "unit test" where
  "ar_test_transfer_alert_ownership_and_limit_guard =
     bind ar_setup (\<lambda>_.
     bind generate (\<lambda>admin. bind generate (\<lambda>ow. bind generate (\<lambda>n.
     bind generate (\<lambda>t.
     bind (ar_do (ar_initialize admin)) (\<lambda>_.
     bind (ar_reg ow t None) (\<lambda>aid.
     bind (ar_do (ar_transfer_alert_ownership ow aid n)) (\<lambda>_.
     bind (ar_fetch aid) (\<lambda>cfg.
     bind (block
       [check (owner cfg = n),
        ar_gives (ar_get_alerts_by_owner ow ow) (\<lambda>r. length r = 0),
        ar_gives (ar_get_alerts_by_owner n n) (\<lambda>r. length r = 1),
        ar_rejects (ar_transfer_alert_ownership ow aid ow) ar_error.Unauthorized,
        ar_do (ar_set_per_owner_alert_limit admin 1),
        ar_returns (ar_transfer_alert_ownership n aid ow) ()]) (\<lambda>_.
     bind (ar_reg n t None) (\<lambda>id2.
     ar_rejects (ar_transfer_alert_ownership n id2 ow) ar_error.OwnerAlertLimitExceeded)))))))))))"

definition ar_test_get_alerts_updated_since :: "unit test" where
  "ar_test_get_alerts_updated_since =
     bind ar_setup (\<lambda>_.
     bind generate (\<lambda>ow. bind generate (\<lambda>t.
     bind (set_timestamp 100) (\<lambda>_.
     bind (ar_reg ow t None) (\<lambda>a.
     bind (ar_reg ow t None) (\<lambda>b.
     bind (ar_reg ow t None) (\<lambda>d.
     block
       [set_timestamp 200,
        ar_do (ar_update_alert ow a [''rule:transfer''] False),
        ar_do (ar_update_alert ow d [''rule:transfer''] True),
        ar_shows (\<lambda>s. length (ar_get_alerts_updated_since s t 200 0 10) = 2),
        ar_shows (\<lambda>s. length (ar_get_alerts_updated_since s t 100 0 10) = 3),
        ar_shows (\<lambda>s. length (ar_get_alerts_updated_since s t 200 1 10) = 1),
        ar_shows (\<lambda>s. length (ar_get_alerts_updated_since s t 200 0 1) = 1),
        ar_shows (\<lambda>s. length (ar_get_alerts_updated_since s t 201 0 10) = 0)])))))))"

end
