(* ===== verification/AlertConformance.thy ===== *)
theory AlertConformance
  imports AlertTests
begin

text \<open>
  The alert registry runs the unit tests that the repository has for it (theory AlertTests).
  Every test is executed on the model by rewriting; the one that registers in a loop is proved
  by induction. All tests behave as they are marked, except seven, which register with an empty
  list of rules or with a hash of the wrong length: \<open>register_alert\<close> refuses both.
\<close>

named_theorems alert_verdicts "the verdicts of the unit tests of the alert registry"

lemma hash64_length [test_runs]: "length hash64 = 64"
  by (simp add: hash64_def)

lemma for_each_idle: "f x c s = (Inr (), s) \<Longrightarrow> for_each (replicate n x) f c s = (Inr (), s)"
  by (induction n) (simp_all add: run_simps)

lemmas alert_suite_runs =
  alert_runs alert_reads watcher_runs watcher_reads for_each_idle
  ar_setup_def ar_setup_with_watcher_registry_def ar_reg_def

lemma registration_tests_1 [alert_verdicts]:
  "list_all passes
     [ar_test_register_and_get_alert, ar_test_update_alert, ar_test_update_alert_emits_event,
      ar_test_remove_alert, ar_test_update_unauthorized, ar_test_admin_remove_any_alert] \<and>
   list_all panics
     [ar_test_register_alert_rejects_invalid_rules, ar_test_update_alert_rejects_invalid_rules]"
  by (simp add: test_runs alert_suite_runs
      ar_test_register_and_get_alert_def ar_test_update_alert_def
      ar_test_update_alert_emits_event_def ar_test_remove_alert_def
      ar_test_update_unauthorized_def ar_test_register_alert_rejects_invalid_rules_def
      ar_test_update_alert_rejects_invalid_rules_def ar_test_admin_remove_any_alert_def)

lemma registration_tests_2 [alert_verdicts]:
  "list_all passes
     [ar_test_admin_transfer_admin, ar_test_old_admin_rejected_after_transfer,
      ar_test_remove_unauthorized, ar_test_get_alert_count_after_multiple_cycles,
      ar_test_get_nonexistent_alert, ar_test_get_alerts_for_contract_empty,
      ar_test_get_alerts_by_owner_empty] \<and>
   list_all panics
     [ar_test_admin_set_per_owner_alert_limit]"
  by (simp add: test_runs alert_suite_runs
      ar_test_admin_set_per_owner_alert_limit_def ar_test_admin_transfer_admin_def
      ar_test_old_admin_rejected_after_transfer_def ar_test_remove_unauthorized_def
      ar_test_get_alert_count_after_multiple_cycles_def ar_test_get_nonexistent_alert_def
      ar_test_get_alerts_for_contract_empty_def ar_test_get_alerts_by_owner_empty_def)

lemma registration_tests_3 [alert_verdicts]:
  "list_all passes
     [ar_test_index_queries, ar_test_get_alert_count, ar_test_paginated_queries_no_gating]"
  by (simp add: test_runs alert_suite_runs
      ar_test_index_queries_def ar_test_get_alert_count_def
      ar_test_paginated_queries_no_gating_def)

lemma gate_tests [alert_verdicts]:
  "list_all passes
     [ar_test_no_watcher_registry_any_querier_can_read,
      ar_test_watcher_registry_registered_watcher_can_read,
      ar_test_watcher_registry_unregistered_address_rejected,
      ar_test_watcher_registry_removed_watcher_loses_access,
      ar_test_get_watcher_registry_none_before_set, ar_test_set_and_get_watcher_registry,
      ar_test_set_watcher_registry_non_admin_rejected]"
  by (simp add: test_runs alert_suite_runs
      ar_test_no_watcher_registry_any_querier_can_read_def
      ar_test_watcher_registry_registered_watcher_can_read_def
      ar_test_watcher_registry_unregistered_address_rejected_def
      ar_test_watcher_registry_removed_watcher_loses_access_def
      ar_test_get_watcher_registry_none_before_set_def ar_test_set_and_get_watcher_registry_def
      ar_test_set_watcher_registry_non_admin_rejected_def)

lemma stamp_and_label_tests [alert_verdicts]:
  "list_all passes
     [ar_test_updated_at_strictly_greater_than_created_at,
      ar_test_register_alert_with_all_valid_rules, ar_test_update_label_changes_label,
      ar_test_update_label_unauthorized, ar_test_update_label_not_found,
      ar_test_update_label_max_length_accepted] \<and>
   list_all panics
     [ar_test_update_label_too_long]"
  by (simp add: test_runs alert_suite_runs
      ar_test_updated_at_strictly_greater_than_created_at_def
      ar_test_register_alert_with_all_valid_rules_def ar_test_update_label_changes_label_def
      ar_test_update_label_unauthorized_def ar_test_update_label_not_found_def
      ar_test_update_label_too_long_def ar_test_update_label_max_length_accepted_def)

lemma query_tests_1 [alert_verdicts]:
  "list_all passes
     [ar_test_get_active_alerts_for_contract_filters_inactive,
      ar_test_get_active_alerts_for_contract_all_inactive,
      ar_test_get_active_alerts_for_contract_empty,
      ar_test_get_active_alerts_for_contract_all_active, ar_test_transfer_admin_emits_event,
      ar_test_old_admin_rejected_after_transfer_2,
      ar_test_get_alerts_modified_since_zero_returns_all,
      ar_test_get_alerts_modified_since_empty_registry]"
  by (simp add: test_runs alert_suite_runs
      ar_test_get_active_alerts_for_contract_filters_inactive_def
      ar_test_get_active_alerts_for_contract_all_inactive_def
      ar_test_get_active_alerts_for_contract_empty_def
      ar_test_get_active_alerts_for_contract_all_active_def
      ar_test_transfer_admin_emits_event_def ar_test_old_admin_rejected_after_transfer_2_def
      ar_test_get_alerts_modified_since_zero_returns_all_def
      ar_test_get_alerts_modified_since_empty_registry_def)

lemma query_tests_2 [alert_verdicts]:
  "list_all passes
     [ar_test_get_alerts_modified_since_filters_old_alerts,
      ar_test_get_alerts_modified_since_includes_updated_alert,
      ar_test_get_alerts_modified_since_excludes_removed_alerts,
      ar_test_get_alerts_modified_since_boundary_inclusive]"
  by (simp add: test_runs alert_suite_runs
      ar_test_get_alerts_modified_since_filters_old_alerts_def
      ar_test_get_alerts_modified_since_includes_updated_alert_def
      ar_test_get_alerts_modified_since_excludes_removed_alerts_def
      ar_test_get_alerts_modified_since_boundary_inclusive_def)

lemma signature_tests [alert_verdicts]:
  "list_all panics
     [ar_test_register_alert_requires_auth, ar_test_update_alert_requires_auth,
      ar_test_update_webhook_requires_auth, ar_test_remove_alert_requires_auth,
      ar_test_transfer_admin_requires_auth, ar_test_set_per_owner_alert_limit_requires_auth,
      ar_test_remove_alert_by_admin_requires_auth]"
  by (simp add: test_runs alert_suite_runs
      ar_test_register_alert_requires_auth_def ar_test_update_alert_requires_auth_def
      ar_test_update_webhook_requires_auth_def ar_test_remove_alert_requires_auth_def
      ar_test_transfer_admin_requires_auth_def
      ar_test_set_per_owner_alert_limit_requires_auth_def
      ar_test_remove_alert_by_admin_requires_auth_def)

lemma identifier_tests_1 [alert_verdicts]:
  "list_all passes
     [ar_test_alert_ids_live_only_and_new_rules, ar_test_update_target_contract,
      ar_test_update_target_contract_unauthorized,
      ar_test_update_alert_after_remove_returns_not_found,
      ar_test_update_webhook_after_remove_returns_not_found,
      ar_test_get_alert_active_nonexistent, ar_test_get_alert_active_after_register,
      ar_test_get_alert_active_after_update]"
  by (simp add: test_runs alert_suite_runs
      ar_test_alert_ids_live_only_and_new_rules_def ar_test_update_target_contract_def
      ar_test_update_target_contract_unauthorized_def
      ar_test_update_alert_after_remove_returns_not_found_def
      ar_test_update_webhook_after_remove_returns_not_found_def
      ar_test_get_alert_active_nonexistent_def ar_test_get_alert_active_after_register_def
      ar_test_get_alert_active_after_update_def)

lemma identifier_tests_2 [alert_verdicts]:
  "list_all passes
     [ar_test_get_alert_active_after_remove]"
  by (simp add: test_runs alert_suite_runs
      ar_test_get_alert_active_after_remove_def)

lemma deactivation_tests [alert_verdicts]:
  "list_all passes
     [ar_test_deactivate_all_alerts_empty, ar_test_deactivate_all_alerts_multiple,
      ar_test_deactivate_all_alerts_other_owner_unaffected,
      ar_test_deactivate_all_alerts_after_removal, ar_test_get_alerts_by_owner_paginated,
      ar_test_get_contract_alerts_paginated] \<and>
   list_all panics
     [ar_test_get_admin_not_initialized]"
  by (simp add: test_runs alert_suite_runs
      ar_test_deactivate_all_alerts_empty_def ar_test_deactivate_all_alerts_multiple_def
      ar_test_deactivate_all_alerts_other_owner_unaffected_def
      ar_test_deactivate_all_alerts_after_removal_def ar_test_get_alerts_by_owner_paginated_def
      ar_test_get_contract_alerts_paginated_def ar_test_get_admin_not_initialized_def)

lemma update_tests [alert_verdicts]:
  "list_all passes
     [ar_test_alert_deactivate_reactivate, ar_test_update_webhook_updates_timestamp,
      ar_test_multiple_owners_overlapping_target_contract] \<and>
   list_all (\<lambda>t. \<not> passes t)
     [ar_test_update_webhook_emits_event]"
  by (simp add: test_runs alert_suite_runs
      ar_test_alert_deactivate_reactivate_def ar_test_update_webhook_updates_timestamp_def
      ar_test_update_webhook_emits_event_def
      ar_test_multiple_owners_overlapping_target_contract_def)

lemma renewal_tests [alert_verdicts]:
  "list_all passes
     [ar_test_bump_alert_succeeds, ar_test_bump_alert_not_found,
      ar_test_bump_alert_clamps_to_max_ttl, ar_test_bump_alert_uses_requested_ttl_when_below_max,
      ar_test_bump_alert_event_shape, ar_test_bump_alert_does_not_modify_content,
      ar_test_ttl_constants, ar_test_counter_overflow_guard]"
  by (simp add: test_runs alert_suite_runs
      ar_test_bump_alert_succeeds_def ar_test_bump_alert_not_found_def
      ar_test_bump_alert_clamps_to_max_ttl_def
      ar_test_bump_alert_uses_requested_ttl_when_below_max_def
      ar_test_bump_alert_event_shape_def ar_test_bump_alert_does_not_modify_content_def
      ar_test_ttl_constants_def ar_test_counter_overflow_guard_def)

lemma issue_tests [alert_verdicts]:
  "list_all (\<lambda>t. \<not> passes t)
     [ar_test_issue_210_limit_zero_means_no_cap, ar_test_issue_210_nonzero_limit_enforced,
      ar_test_issue_210_clearing_limit_re_enables_registration,
      ar_test_issue_212_next_id_survives_repeated_bumps,
      ar_test_issue_213_owner_remove_event_shape,
      ar_test_issue_213_admin_remove_event_includes_owner]"
  by (simp add: test_runs alert_suite_runs
      ar_test_issue_210_limit_zero_means_no_cap_def
      ar_test_issue_210_nonzero_limit_enforced_def
      ar_test_issue_210_clearing_limit_re_enables_registration_def
      ar_test_issue_212_next_id_survives_repeated_bumps_def
      ar_test_issue_213_owner_remove_event_shape_def
      ar_test_issue_213_admin_remove_event_includes_owner_def)

lemma admin_and_tag_tests [alert_verdicts]:
  "list_all passes
     [ar_test_multi_admin_add_remove_and_last_admin_guard,
      ar_test_legacy_single_admin_is_migrated_on_read, ar_test_transfer_admin_replaces_set,
      ar_test_tags_valid_and_invalid, ar_test_transfer_alert_ownership_and_limit_guard,
      ar_test_get_alerts_updated_since]"
  by (simp add: test_runs alert_suite_runs
      ar_test_multi_admin_add_remove_and_last_admin_guard_def
      ar_test_legacy_single_admin_is_migrated_on_read_def
      ar_test_transfer_admin_replaces_set_def ar_test_tags_valid_and_invalid_def
      ar_test_transfer_alert_ownership_and_limit_guard_def ar_test_get_alerts_updated_since_def)

text \<open>The loop that registers: every identifier is the previous one plus one.\<close>

definition room_for :: "address \<Rightarrow> address \<Rightarrow> nat \<Rightarrow> test_env \<Rightarrow> bool" where
  "room_for own target n e \<longleftrightarrow>
     (let s = alert_store e in
      mocked e \<and> \<not> ar_is_paused s \<and> ar_get_per_owner_alert_limit s = 0 \<and>
      unat (ar_get_alert_count s) + n < 18446744073709551616 \<and>
      (\<forall>i \<in> set (ar_owner_index s own) \<union> set (ar_contract_index s target).
         i < ar_get_alert_count s))"

lemma register_in_loop:
  assumes "room_for own target (Suc n) e"
  obtains e' where
    "ar_client (ar_register_alert own target ''alert'' hash64 [''rule:transfer''] None) () e =
       (Inr (ar_get_alert_count (alert_store e)), e')"
    "ar_get_alert_count (alert_store e') = ar_get_alert_count (alert_store e) + 1"
    "room_for own target n e'"
proof -
  let ?s = "alert_store e" and ?c = "alert_call_ctx (test_clock e) (mocked e) (watcher_store e)"
  let ?i = "ar_get_alert_count ?s"
  obtain s' where run: "ar_register_alert own target ''alert'' hash64 [''rule:transfer''] None ?c ?s
      = (Inr ?i, s')"
    using assms by (auto simp: room_for_def Let_def ar_register_alert_iff within_limit_def
        prune_def hash64_length call_ctx_sel valid_rules_def known_rules_def valid_tags_def
        ar_owner_index_ids ar_contract_index_ids)
  note eff = ar_register_alert_effect [OF run]
  have view: "view_of s' = create (new_config own target ''alert'' hash64 [''rule:transfer''] None
      (timestamp ?c)) (view_of ?s)"
    using eff(12) assms by (simp add: prune_def room_for_def Let_def)
  note sel = view_sel_of_state [OF view] arg_cong [OF view, of v_limit]
    arg_cong [OF view, of v_paused]
  have step: "unat (?i + 1) = unat ?i + 1"
    using assms by (simp add: room_for_def Let_def unat_word_ariths)
  then have "room_for own target n (e\<lparr>alert_store := s'\<rparr>)"
    using assms sel
    by (auto simp: room_for_def Let_def ar_owner_index_ids ar_contract_index_ids create_def
        emit_def list_under_def new_config_def word_less_nat_alt ball_Un less_SucI)
  with run sel that [of "e\<lparr>alert_store := s'\<rparr>"] show thesis
    by (simp add: ar_client_def create_def emit_def Let_def)
qed

lemma id_loop_runs:
  assumes "room_for own target n e" "\<forall>p. prev = Some p \<longrightarrow> ar_get_alert_count (alert_store e) = p + 1"
  shows "\<exists>e'. ar_test_id_monotonicity_loop own target n prev () e = (Inr (), e')"
  using assms
proof (induction n arbitrary: prev e)
  case 0
  then show ?case by (simp add: run_simps)
next
  case (Suc n)
  obtain e' where e':
    "ar_client (ar_register_alert own target ''alert'' hash64 [''rule:transfer''] None) () e =
       (Inr (ar_get_alert_count (alert_store e)), e')"
    "ar_get_alert_count (alert_store e') = ar_get_alert_count (alert_store e) + 1"
    "room_for own target n e'"
    by (rule register_in_loop [OF Suc.prems(1)])
  show ?case
    using Suc.IH [of e' "Some (ar_get_alert_count (alert_store e))"] e' Suc.prems(2)
    by (cases prev) (simp_all add: run_simps check_run)
qed

lemma id_monotonicity_test [alert_verdicts]: "passes ar_test_id_monotonicity"
proof -
  let ?e = "env_default\<lparr>mocked := True, generated := 4\<rparr>"
  have "room_for (Address 2) (Address 3) 10 ?e"
    by (simp add: room_for_def Let_def env_default_def alert_reads)
  from id_loop_runs [OF this, of None] obtain e' where
    "ar_test_id_monotonicity_loop (Address 2) (Address 3) 10 None () ?e = (Inr (), e')"
    by auto
  then show ?thesis
    by (simp add: passes_def ar_test_id_monotonicity_def ar_setup_def set_mocked_def
        generate_run run_simps env_default_def)
qed

section \<open>The suite\<close>

text \<open>
  The model of the alert registry gives the tests of the module \<open>tests\<close> in lib.rs of that
  contract their verdicts: the bodies of the ordinary tests run to their end with every assertion true, the
  tests marked \<open>should_panic\<close> abort, and seven tests fail, those that register with an empty list
  of rules or a hash that is not 64 characters long.
\<close>

theorem alert_suite_verdicts:
  "list_all passes
     [ar_test_register_and_get_alert, ar_test_update_alert, ar_test_update_alert_emits_event,
      ar_test_remove_alert, ar_test_update_unauthorized, ar_test_admin_remove_any_alert,
      ar_test_admin_transfer_admin, ar_test_old_admin_rejected_after_transfer,
      ar_test_remove_unauthorized, ar_test_get_alert_count_after_multiple_cycles,
      ar_test_get_nonexistent_alert, ar_test_get_alerts_for_contract_empty,
      ar_test_get_alerts_by_owner_empty, ar_test_index_queries, ar_test_get_alert_count,
      ar_test_paginated_queries_no_gating, ar_test_no_watcher_registry_any_querier_can_read,
      ar_test_watcher_registry_registered_watcher_can_read,
      ar_test_watcher_registry_unregistered_address_rejected,
      ar_test_watcher_registry_removed_watcher_loses_access,
      ar_test_get_watcher_registry_none_before_set, ar_test_set_and_get_watcher_registry,
      ar_test_set_watcher_registry_non_admin_rejected,
      ar_test_updated_at_strictly_greater_than_created_at,
      ar_test_register_alert_with_all_valid_rules, ar_test_update_label_changes_label,
      ar_test_update_label_unauthorized, ar_test_update_label_not_found,
      ar_test_update_label_max_length_accepted,
      ar_test_get_active_alerts_for_contract_filters_inactive,
      ar_test_get_active_alerts_for_contract_all_inactive,
      ar_test_get_active_alerts_for_contract_empty,
      ar_test_get_active_alerts_for_contract_all_active, ar_test_transfer_admin_emits_event,
      ar_test_old_admin_rejected_after_transfer_2,
      ar_test_get_alerts_modified_since_zero_returns_all,
      ar_test_get_alerts_modified_since_empty_registry,
      ar_test_get_alerts_modified_since_filters_old_alerts,
      ar_test_get_alerts_modified_since_includes_updated_alert,
      ar_test_get_alerts_modified_since_excludes_removed_alerts,
      ar_test_get_alerts_modified_since_boundary_inclusive, ar_test_id_monotonicity,
      ar_test_alert_ids_live_only_and_new_rules, ar_test_update_target_contract,
      ar_test_update_target_contract_unauthorized,
      ar_test_update_alert_after_remove_returns_not_found,
      ar_test_update_webhook_after_remove_returns_not_found,
      ar_test_get_alert_active_nonexistent, ar_test_get_alert_active_after_register,
      ar_test_get_alert_active_after_update, ar_test_get_alert_active_after_remove,
      ar_test_deactivate_all_alerts_empty, ar_test_deactivate_all_alerts_multiple,
      ar_test_deactivate_all_alerts_other_owner_unaffected,
      ar_test_deactivate_all_alerts_after_removal, ar_test_get_alerts_by_owner_paginated,
      ar_test_get_contract_alerts_paginated, ar_test_alert_deactivate_reactivate,
      ar_test_update_webhook_updates_timestamp,
      ar_test_multiple_owners_overlapping_target_contract, ar_test_bump_alert_succeeds,
      ar_test_bump_alert_not_found, ar_test_bump_alert_clamps_to_max_ttl,
      ar_test_bump_alert_uses_requested_ttl_when_below_max, ar_test_bump_alert_event_shape,
      ar_test_bump_alert_does_not_modify_content, ar_test_ttl_constants,
      ar_test_counter_overflow_guard, ar_test_multi_admin_add_remove_and_last_admin_guard,
      ar_test_legacy_single_admin_is_migrated_on_read, ar_test_transfer_admin_replaces_set,
      ar_test_tags_valid_and_invalid, ar_test_transfer_alert_ownership_and_limit_guard,
      ar_test_get_alerts_updated_since] \<and>
   list_all panics
     [ar_test_register_alert_rejects_invalid_rules, ar_test_update_alert_rejects_invalid_rules,
      ar_test_admin_set_per_owner_alert_limit, ar_test_update_label_too_long,
      ar_test_register_alert_requires_auth, ar_test_update_alert_requires_auth,
      ar_test_update_webhook_requires_auth, ar_test_remove_alert_requires_auth,
      ar_test_transfer_admin_requires_auth, ar_test_set_per_owner_alert_limit_requires_auth,
      ar_test_remove_alert_by_admin_requires_auth, ar_test_get_admin_not_initialized] \<and>
   list_all (\<lambda>t. \<not> passes t)
     [ar_test_update_webhook_emits_event, ar_test_issue_210_limit_zero_means_no_cap,
      ar_test_issue_210_nonzero_limit_enforced,
      ar_test_issue_210_clearing_limit_re_enables_registration,
      ar_test_issue_212_next_id_survives_repeated_bumps,
      ar_test_issue_213_owner_remove_event_shape,
      ar_test_issue_213_admin_remove_event_includes_owner]"
  using alert_verdicts by simp

end
