(* ===== verification/IntegrationTests.thy ===== *)
theory IntegrationTests
  imports AlertConformance
begin

text \<open>
  The fixtures of the crate \<open>test-utils\<close> (contracts/test-utils/src/lib.rs) and the integration
  tests of the two contracts (contracts/integration-tests/tests/cross_contract.rs) that start
  from \<open>setup_both\<close>, with the conventions of theory TestHarness. The fixture \<open>register_alert\<close>
  calls a function \<open>register\<close> that the contract does not have; it is an argument here.
\<close>

section \<open>The fixtures\<close>

definition str_repeat :: "char \<Rightarrow> nat \<Rightarrow> string" where
  "str_repeat ch n = replicate n ch"

definition setup_alert_registry :: "unit test" where
  "setup_alert_registry = set_mocked True"

definition setup_watcher_registry :: "address test" where
  "setup_watcher_registry =
     bind (set_mocked True) (\<lambda>_.
     bind generate (\<lambda>admin.
     bind (wr_do (wr_initialize admin)) (\<lambda>_.
     ret admin)))"

definition setup_both :: "unit test" where
  "setup_both = set_mocked True"

definition tu_register_alert ::
  "(address \<Rightarrow> address \<Rightarrow> string \<Rightarrow> u64 ar_op) \<Rightarrow> address \<Rightarrow> address \<Rightarrow> u64 test" where
  "tu_register_alert register own target = ar_client (register own target ''test alert'')"

section \<open>The tests\<close>

definition it_test_authorized_watcher_can_query_alert_registry_open_mode :: "unit test" where
  "it_test_authorized_watcher_can_query_alert_registry_open_mode =
     bind setup_both (\<lambda>_.
     bind generate (\<lambda>admin. bind generate (\<lambda>watcher. bind generate (\<lambda>own.
     bind generate (\<lambda>target.
     bind (block
       [wr_do (wr_initialize admin),
        wr_do (wr_register_watcher None admin watcher None)]) (\<lambda>_.
     bind (ar_client (ar_register_alert own target ''Cross-contract alert'' hash64 [''rule:transfer''] None)) (\<lambda>aid.
     bind (wr_gives (wr_is_watcher_authorized watcher) (\<lambda>b. b)) (\<lambda>_.
     bind (ar_client (ar_get_alerts_for_contract watcher target)) (\<lambda>alerts.
     bind (block
       [check (length alerts = 1),
        check (label (alerts ! 0) = ''Cross-contract alert'')]) (\<lambda>_.
     bind (ar_fetch aid) (\<lambda>cfg.
     block
       [check (owner cfg = own),
        check (target_contract cfg = target),
        check (active cfg)])))))))))))"

definition it_test_unauthorized_address_not_a_watcher :: "unit test" where
  "it_test_unauthorized_address_not_a_watcher =
     bind setup_both (\<lambda>_.
     bind generate (\<lambda>admin. bind generate (\<lambda>stranger.
     block
       [wr_do (wr_initialize admin),
        wr_gives (wr_is_watcher_authorized stranger) (\<lambda>b. \<not> b)])))"

definition it_test_removed_watcher_loses_authorization_alert_data_intact :: "unit test" where
  "it_test_removed_watcher_loses_authorization_alert_data_intact =
     bind setup_both (\<lambda>_.
     bind generate (\<lambda>admin. bind generate (\<lambda>watcher. bind generate (\<lambda>own.
     bind generate (\<lambda>target.
     block
       [wr_do (wr_initialize admin),
        wr_do (wr_register_watcher None admin watcher None),
        ar_do (ar_register_alert own target ''Alert'' hash64 [''rule:transfer''] None),
        wr_do (wr_remove_watcher admin watcher),
        wr_gives (wr_is_watcher_authorized watcher) (\<lambda>b. \<not> b),
        ar_gives (ar_get_alerts_for_contract watcher target) (\<lambda>r. length r = 1)])))))"

definition it_test_watcher_gating_registered_watcher_can_read :: "unit test" where
  "it_test_watcher_gating_registered_watcher_can_read =
     bind setup_both (\<lambda>_.
     bind generate (\<lambda>admin. bind generate (\<lambda>watcher. bind generate (\<lambda>own.
     bind generate (\<lambda>target.
     bind (block
       [wr_do (wr_initialize admin),
        wr_do (wr_register_watcher None admin watcher None),
        ar_do (ar_initialize admin),
        ar_do (ar_set_watcher_registry admin watcher_registry_id),
        ar_do (ar_register_alert own target ''Gated Alert'' hash64 [''rule:transfer''] None)]) (\<lambda>_.
     bind (ar_client (ar_get_alerts_for_contract watcher target)) (\<lambda>results.
     block
       [check (length results = 1),
        check (label (results ! 0) = ''Gated Alert'')])))))))"

definition it_test_watcher_gating_unregistered_address_rejected :: "unit test" where
  "it_test_watcher_gating_unregistered_address_rejected =
     bind setup_both (\<lambda>_.
     bind generate (\<lambda>admin. bind generate (\<lambda>stranger. bind generate (\<lambda>own.
     bind generate (\<lambda>target.
     block
       [wr_do (wr_initialize admin),
        ar_do (ar_initialize admin),
        ar_do (ar_set_watcher_registry admin watcher_registry_id),
        ar_do (ar_register_alert own target ''Alert'' hash64 [''rule:transfer''] None),
        ar_rejects (ar_get_alerts_for_contract stranger target) ar_error.NotAWatcher])))))"

definition it_test_watcher_gating_removed_watcher_loses_access :: "unit test" where
  "it_test_watcher_gating_removed_watcher_loses_access =
     bind setup_both (\<lambda>_.
     bind generate (\<lambda>admin. bind generate (\<lambda>watcher. bind generate (\<lambda>own.
     bind generate (\<lambda>target.
     block
       [wr_do (wr_initialize admin),
        wr_do (wr_register_watcher None admin watcher None),
        ar_do (ar_initialize admin),
        ar_do (ar_set_watcher_registry admin watcher_registry_id),
        ar_do (ar_register_alert own target ''Alert'' hash64 [''rule:transfer''] None),
        ar_gives (ar_get_alerts_for_contract watcher target) (\<lambda>r. length r = 1),
        wr_do (wr_remove_watcher admin watcher),
        ar_rejects (ar_get_alerts_for_contract watcher target) ar_error.NotAWatcher])))))"

definition it_test_watcher_gating_get_alerts_by_owner :: "unit test" where
  "it_test_watcher_gating_get_alerts_by_owner =
     bind setup_both (\<lambda>_.
     bind generate (\<lambda>admin. bind generate (\<lambda>watcher. bind generate (\<lambda>stranger.
     bind generate (\<lambda>own. bind generate (\<lambda>target.
     block
       [wr_do (wr_initialize admin),
        wr_do (wr_register_watcher None admin watcher None),
        ar_do (ar_initialize admin),
        ar_do (ar_set_watcher_registry admin watcher_registry_id),
        ar_do (ar_register_alert own target ''Alert'' hash64 [''rule:transfer''] None),
        ar_gives (ar_get_alerts_by_owner watcher own) (\<lambda>r. length r = 1),
        ar_rejects (ar_get_alerts_by_owner stranger own) ar_error.NotAWatcher]))))))"

definition it_test_remove_watcher_emits_event_with_correct_address :: "unit test" where
  "it_test_remove_watcher_emits_event_with_correct_address =
     bind setup_both (\<lambda>_.
     bind generate (\<lambda>admin. bind generate (\<lambda>watcher.
     bind (block
       [wr_do (wr_initialize admin),
        wr_do (wr_register_watcher None admin watcher None),
        wr_do (wr_remove_watcher admin watcher)]) (\<lambda>_.
     bind (gets (\<lambda>e. List.find (is_event ''watcher'' ''remove'') (events (watcher_store e)))) (\<lambda>found.
     bind (unwrap found) (\<lambda>ev.
     check (event_data ev = [VAddr watcher])))))))"

definition it_test_remove_watcher_event_and_immediate_access_revocation :: "unit test" where
  "it_test_remove_watcher_event_and_immediate_access_revocation =
     bind setup_both (\<lambda>_.
     bind generate (\<lambda>admin. bind generate (\<lambda>watcher. bind generate (\<lambda>own.
     bind generate (\<lambda>target.
     block
       [wr_do (wr_initialize admin),
        wr_do (wr_register_watcher None admin watcher None),
        ar_do (ar_initialize admin),
        ar_do (ar_set_watcher_registry admin watcher_registry_id),
        ar_do (ar_register_alert own target ''Alert'' hash64 [''rule:transfer''] None),
        ar_gives (ar_get_alerts_for_contract watcher target) (\<lambda>r. length r = 1),
        wr_do (wr_remove_watcher admin watcher),
        wr_shows (\<lambda>s. list_ex (is_event ''watcher'' ''remove'') (events s)),
        ar_rejects (ar_get_alerts_for_contract watcher target) ar_error.NotAWatcher])))))"

definition it_test_bump_alert_by_third_party :: "unit test" where
  "it_test_bump_alert_by_third_party =
     bind setup_both (\<lambda>_.
     bind generate (\<lambda>own. bind generate (\<lambda>keeper. bind generate (\<lambda>target.
     bind (ar_client (ar_register_alert own target ''Long-lived Alert'' hash64 [''rule:transfer''] None)) (\<lambda>aid.
     bind (ar_fetch aid) (\<lambda>before.
     bind (ar_do (ar_bump_alert aid 535680)) (\<lambda>_.
     bind (ar_fetch aid) (\<lambda>after.
     block
       [check (label after = label before),
        check (webhook_hash after = webhook_hash before),
        check (updated_at after = updated_at before)]))))))))"

section \<open>The suite\<close>

named_theorems integration_verdicts "the verdicts of the integration tests"

lemma integration_tests_1 [integration_verdicts]:
  "list_all passes
     [it_test_authorized_watcher_can_query_alert_registry_open_mode,
      it_test_unauthorized_address_not_a_watcher,
      it_test_removed_watcher_loses_authorization_alert_data_intact,
      it_test_watcher_gating_registered_watcher_can_read]"
  by (simp add: test_runs alert_suite_runs setup_both_def
      it_test_authorized_watcher_can_query_alert_registry_open_mode_def
      it_test_unauthorized_address_not_a_watcher_def
      it_test_removed_watcher_loses_authorization_alert_data_intact_def
      it_test_watcher_gating_registered_watcher_can_read_def)

lemma integration_tests_2 [integration_verdicts]:
  "list_all passes
     [it_test_watcher_gating_unregistered_address_rejected,
      it_test_watcher_gating_removed_watcher_loses_access,
      it_test_watcher_gating_get_alerts_by_owner]"
  by (simp add: test_runs alert_suite_runs setup_both_def
      it_test_watcher_gating_unregistered_address_rejected_def
      it_test_watcher_gating_removed_watcher_loses_access_def
      it_test_watcher_gating_get_alerts_by_owner_def)

lemma integration_tests_3 [integration_verdicts]:
  "list_all passes
     [it_test_remove_watcher_emits_event_with_correct_address,
      it_test_remove_watcher_event_and_immediate_access_revocation,
      it_test_bump_alert_by_third_party]"
  by (simp add: test_runs alert_suite_runs setup_both_def
      it_test_remove_watcher_emits_event_with_correct_address_def
      it_test_remove_watcher_event_and_immediate_access_revocation_def
      it_test_bump_alert_by_third_party_def)

text \<open>
  The fixtures do what they say: both registries answer afterwards, and in the second the admin
  that is returned is the one admin.
\<close>

lemma fixtures:
  "passes (bind setup_both (\<lambda>_. block
     [ar_shows (\<lambda>s. ar_get_alert_count s = 0), wr_shows (\<lambda>s. \<not> wr_is_initialized s)]))"
  "passes (bind setup_watcher_registry (\<lambda>admin. wr_gives wr_get_admins (\<lambda>r. r = [admin])))"
  "passes (bind setup_alert_registry (\<lambda>_. ar_shows (\<lambda>s. ar_get_admins s = None)))"
  by (simp_all add: test_runs alert_suite_runs setup_both_def setup_watcher_registry_def
      setup_alert_registry_def)

text \<open>The integration tests pass: the gate follows the watcher registry from call to call.\<close>

theorem integration_suite_verdicts:
  "list_all passes
     [it_test_authorized_watcher_can_query_alert_registry_open_mode,
      it_test_unauthorized_address_not_a_watcher,
      it_test_removed_watcher_loses_authorization_alert_data_intact,
      it_test_watcher_gating_registered_watcher_can_read,
      it_test_watcher_gating_unregistered_address_rejected,
      it_test_watcher_gating_removed_watcher_loses_access,
      it_test_watcher_gating_get_alerts_by_owner,
      it_test_remove_watcher_emits_event_with_correct_address,
      it_test_remove_watcher_event_and_immediate_access_revocation,
      it_test_bump_alert_by_third_party]"
  using integration_verdicts by simp

end
