(* ===== verification/Spec2Isabelle.thy ===== *)
theory Spec2Isabelle
  imports AlertSafety AlertFunctions AlertAdmin AlertQueries AlertLifetime AlertProgress AlertKeeper
    AlertEvents System ModularProperties ModularRefinement WatcherConformance IntegrationTests
begin

text \<open>
  A verification of the Soroban contracts of stellar-txwatch: the alert registry, in which
  owners store what is to be watched on a target contract, and the watcher registry, which
  decides who may ask the alert registry for it.

  \<^bold>\<open>The program.\<close>
  contracts/alert-registry/src/lib.rs is the contract \<open>AlertRegistry\<close>. An alert
  (\<open>AlertConfig\<close>) has an identifier from a counter and is listed in two secondary indexes, by
  owner and by target contract; its active flag is stored a second time under a key of its
  own. Owners register, update, transfer and remove their alerts; a set of admins can pause
  the contract, pause or remove single alerts, limit the alerts per owner, and configure a
  watcher registry. When one is configured, four queries call its \<open>is_watcher_authorized\<close> and
  answer registered watchers only. contracts/watcher-registry/src/lib.rs is the contract
  \<open>WatcherRegistry\<close>: a list of watchers with optional expiry times, a counter beside it, and
  admins who manage them. contracts/alert-registry/src/contract.rs, storage.rs and types.rs
  are a second implementation of the alert registry, which is not compiled into the contract.

  \<^bold>\<open>How a contract is modelled.\<close>
  An operation (theory Prelude, type \<open>op\<close>) takes the context of the invocation and the state
  and returns a result or a failure, and the state at that point: \<open>Err e\<close> is an error that
  the source returns, \<open>Trap\<close> a panic of the source or of the host. A failed invocation is
  rolled back by the host; the model keeps the state of the point of failure, and a property
  about a failure says which state that is. The context (theory Soroban) holds what the host
  supplies: ledger sequence and time stamp, the addresses that have signed, and how long an
  entry lives after \<open>extend_ttl\<close>. Instance storage is one optional field per key of the state
  record, persistent storage a map from keys to entries with the last ledger of their life.
  Integers are words of the width of the source, with its checked, saturating and trapping
  additions; strings are lists of characters, which stand for bytes.

  \<^bold>\<open>The theories.\<close>
  \<^item> Prelude: words, loops that count, addresses, operations, and the collections
    \<open>ok_simps\<close>, \<open>err_simps\<close> and \<open>run_simps\<close> that run them.
  \<^item> Soroban: the host, with the interfaces \<open>storage_map\<close> (the reads after each write of
    persistent storage) and \<open>ttl_host\<close> (what \<open>extend_ttl\<close> promises).
  \<^item> Interfaces: the interfaces inside the contracts: \<open>admin_gate\<close>, \<open>pause_gate\<close> and
    \<open>id_index\<close>, each interpreted in the theory of every component that provides it.
  \<^item> AlertStorage and AlertRegistry: lib.rs of the alert registry, private helpers and entry
    points, in the order and with the names of the source behind the prefix \<open>ar\<close>.
  \<^item> AlertLemmas: what the helpers do. AlertView: the abstract state \<open>ar_view\<close>, the contents
    without lifetimes, and the abstract operations on it. AlertEffects: for each entry point
    that writes, the abstract operation that it performs when it returns.
  \<^item> AlertSpec: the specification \<open>ar_change\<close>, a step relation that says which changes of the
    abstract state are permitted and on whose authority, and its invariants; all calls of the
    contract as a datatype, \<open>ar_call\<close>, with their execution \<open>ar_exec\<close>. AlertRefinement: every
    call that returns refines a sequence of permitted changes; the steps of the deployed
    contract (\<open>ar_step\<close>: a call that returns, or the loss of an entry) and its reachable
    states (\<open>ar_reachable\<close>).
  \<^item> AlertSafety: invariants of the reachable states, authority over alerts, pause, identifiers,
    webhook rotation. AlertFunctions: results and effects of registration, batch registration,
    removal, retargeting, transfer, bulk deactivation and of the limit per owner. AlertAdmin:
    admins and configuration. AlertQueries: pages, incremental synchronisation, counts and
    the gate of the queries. AlertLifetime: renewal of lifetimes. AlertSamples: the concrete
    contexts and states that the witnesses use.
  \<^item> AlertProgress: no call of a reachable contract is aborted by the host or by a panic, as long
    as its entries are stored, and what an owner can always do; its calculus \<open>safe\<close> goes through
    the operations one statement at a time. AlertKeeper: a keeper that renews an alert in time
    keeps all its entries alive (\<open>lapse\<close> is the loss of what the ledger has passed). AlertEvents:
    the published events as a log, and what its replay tells of the contents. AlertFrame: the
    operations that leave the admins alone.
  \<^item> WatcherRegistry, WatcherLemmas, WatcherProperties: lib.rs of the watcher registry (prefix
    \<open>wr\<close>), what its operations do to its view \<open>wr_view\<close>, and its properties; \<open>wr_run\<close> is a sequence
    of invocations of which the failed ones are rolled back.
  \<^item> System: the interface \<open>watcher_service\<close> through which the alert registry uses a watcher
    registry, its interpretation on the modelled watcher registry, and the properties of the
    two contracts together.
  \<^item> ModularRegistry and ModularProperties: the second implementation (prefix \<open>sec\<close>).
    ModularRefinement: every run of it is a run of the contract of lib.rs with the same results,
    on the operations that the two share and the inputs that both accept (\<open>acceptable\<close>), by a
    simulation along the relation \<open>mirrors\<close>.
  \<^item> TestHarness, AlertTests, WatcherTests: the modules \<open>tests\<close> inside lib.rs of both contracts
    and inside contract.rs, as programs over the model. AlertConformance and WatcherConformance
    run them: which of these tests the model passes, and which it fails. IntegrationTests: the
    tests of the two contracts together, with the fixtures of the crate test-utils.

  \<^bold>\<open>Expiry.\<close> Any persistent entry may disappear at any moment: \<open>ar_reachable True\<close> has a step
  that drops an arbitrary set of entries. Properties that need the entries to stay are
  stated for \<open>ar_reachable False\<close>. The lifetimes themselves are in the state and are the subject of
  AlertLifetime, under the hypothesis \<open>host_of\<close>, which states the documented behaviour of
  \<open>extend_ttl\<close> and has the instance \<open>sdk_extend\<close>.

  \<^bold>\<open>Termination and bounds.\<close> Every loop of the contracts runs over a list or a range, so all
  definitions are total functions by structural recursion; there is no fuel. The bounds of
  the source (50 identifiers or alerts in a batch, 20 watchers in a batch, 1000 watchers,
  10 tags of 32 bytes, 535680 ledgers) are constants with the names of the source. Counters
  that the source increments without a check trap on overflow, as its release profile says.

  \<^bold>\<open>Names that the source uses without declaring them.\<close> \<open>register_watcher\<close> refers to
  variables and constants that do not exist. The label and the two length bounds are
  parameters of the model. The list of watchers is a parameter of \<open>wr_register_watcher_body\<close>;
  \<open>wr_register_watcher\<close> takes the stored list, as all other entry points do; the missing errors, the key and the struct \<open>WatcherInfo\<close> are added as they are
  used. \<open>update_webhook\<close> of contract.rs publishes two unbound variables, which are arguments;
  so is the field that \<open>bulk_renew_one\<close> of storage.rs reads and no struct has.

  \<^bold>\<open>The unit tests.\<close> Running them compares the model with the expectations that the authors
  wrote down, on the inputs of the tests and no others; it is a check of the model, and none
  of the properties rests on it. The tests do not compile against the contracts as they
  stand. TestHarness, which stands for the test environment of the SDK and has no source in the
  repository, says how they are read; the messages that \<open>should_panic\<close> expects are not modelled.
  The two tests that register in a long loop are proved by induction, the others executed by
  rewriting. The test modules in files of their own are not modelled.

  \<^bold>\<open>Not modelled.\<close> Restoring an archived entry and the archival of the instance; fees and
  resource limits of the host; contracts/alert-registry/src/guards.rs and storage.rs and
  types.rs of the watcher registry, which belong to no crate and do not parse; the test modules
  in files of their own, which lib.rs declares (a dozen for the alert registry and one for the
  watcher registry; three more files are declared nowhere); build scripts, bindings and documentation.

  \<^bold>\<open>Plan.\<close> Restoration of archived entries as a further step of the contract, with the
  invariants that survive it; an interleaving of the two contracts in which the watcher
  registry changes between the queries of the alert registry; the test files beside lib.rs.
\<close>

end
